(* ===== verification/Prelude.thy ===== *)
theory Prelude
  imports Complex_Main "HOL-Library.Sublist"
begin

text \<open>
  What every component of the development shares: the Python exceptions the modelled code
  raises, the result type of a fallible call, sequencing of fallible calls, the few string
  operations of the standard library the code uses, and append-only tables.

  A Python \<open>str\<close> is a \<^typ>\<open>string\<close> holding its UTF-8 bytes, so that comparison and
  sorting by code point are comparison and sorting by byte. Case mapping and stripping act on
  the ASCII characters only.
\<close>

named_theorems result_simps \<open>inversion of sequenced fallible calls\<close>

section \<open>Exceptions and results\<close>

datatype exn =
    ValueError string
  | TypeError string
  | KeyError string
  | InvalidOperation
  | RuntimeError string
  | BookReplayError string
  | PaperSimulationError string
  | PaperLedgerConflictError string
  | PaperCashInvariantError string
  | ActivationManifestError string
  | GeoblockError string
  | AttributeError string
  | LiveConflict string
  | ApprovalError string
  | FastLiveError string
  | FastLiveRetryableError string
  | FoldEligibilityError string
  | FastBookStreamError string
  | GammaMarketError string
  | GammaResponseError string
  | HTTPStatusError int
  | RuleChangeDetected string
  | LabelConflict string
  | LabelLeakageError string
  | LabelSourceConflict string
  | OverflowError string
  | MultipleResultsFound
  | IntegrityError
  | IndexError

type_synonym 'a res = "exn + 'a"

definition ebind :: "'e + 'a \<Rightarrow> ('a \<Rightarrow> 'e + 'b) \<Rightarrow> 'e + 'b" where
  "ebind m f = (case m of Inl e \<Rightarrow> Inl e | Inr x \<Rightarrow> f x)"

text \<open>Evaluation inlines \<^const>\<open>ebind\<close>, so that a continuation is run only on the result it awaits.\<close>

declare ebind_def [code_unfold]

definition require :: "bool \<Rightarrow> 'e \<Rightarrow> 'e + unit" where
  "require b e = (if b then Inr () else Inl e)"

lemma ebind_simps [simp]: "ebind (Inl e) f = Inl e" "ebind (Inr x) f = f x"
  by (simp_all add: ebind_def)

lemma ebind_Inr_iff [simp, result_simps]:
  "ebind m f = Inr y \<longleftrightarrow> (\<exists>x. m = Inr x \<and> f x = Inr y)"
  by (cases m) auto

lemma ebind_Inl_iff [result_simps]:
  "ebind m f = Inl e \<longleftrightarrow> m = Inl e \<or> (\<exists>x. m = Inr x \<and> f x = Inl e)"
  by (cases m) auto

lemma require_Inr_iff [simp, result_simps]: "require b e = Inr u \<longleftrightarrow> b"
  by (simp add: require_def)

lemma require_Inl_iff [simp, result_simps]: "require b e = Inl e' \<longleftrightarrow> \<not> b \<and> e' = e"
  by (auto simp: require_def)

lemma require_True [simp]: "require True e = Inr ()"
  by (simp add: require_def)

lemma require_False [simp]: "require False e = Inl e"
  by (simp add: require_def)

text \<open>A Python loop or comprehension whose body can raise: the first error wins.\<close>

fun emap :: "('a \<Rightarrow> 'e + 'b) \<Rightarrow> 'a list \<Rightarrow> 'e + 'b list" where
  "emap f [] = Inr []"
| "emap f (x # xs) = ebind (f x) (\<lambda>y. ebind (emap f xs) (\<lambda>ys. Inr (y # ys)))"

fun efold :: "('a \<Rightarrow> 's \<Rightarrow> 'e + 's) \<Rightarrow> 'a list \<Rightarrow> 's \<Rightarrow> 'e + 's" where
  "efold f [] s = Inr s"
| "efold f (x # xs) s = ebind (f x s) (efold f xs)"

lemma emap_cong [fundef_cong]:
  "xs = ys \<Longrightarrow> (\<And>x. x \<in> set ys \<Longrightarrow> f x = g x) \<Longrightarrow> emap f xs = emap g ys"
proof (induction xs arbitrary: ys)
  case (Cons x xs)
  then show ?case by (cases ys) (auto simp: ebind_def)
qed simp

lemma emap_Inr_iff: "emap f xs = Inr ys \<longleftrightarrow> list_all2 (\<lambda>x y. f x = Inr y) xs ys"
  by (induction xs arbitrary: ys) (auto simp: list_all2_Cons1)

lemma emap_length: "emap f xs = Inr ys \<Longrightarrow> length ys = length xs"
  by (auto simp: emap_Inr_iff dest: list_all2_lengthD)

lemma efold_append:
  "efold f (xs @ ys) s = ebind (efold f xs s) (efold f ys)"
  by (induction xs arbitrary: s) (auto simp: ebind_def split: sum.splits)

text \<open>The invariant rule of a loop that can raise.\<close>

lemma efold_invariant:
  assumes "efold f xs s = Inr t" and "P s"
    and "\<And>x s t. x \<in> set xs \<Longrightarrow> P s \<Longrightarrow> f x s = Inr t \<Longrightarrow> P t"
  shows "P t"
  using assms
proof (induction xs arbitrary: s)
  case Nil
  then show ?case by simp
next
  case (Cons x xs)
  from Cons.prems(1) obtain u where u: "f x s = Inr u" and rest: "efold f xs u = Inr t"
    by auto
  have "P u" using Cons.prems(3) [of x s u] Cons.prems(2) u by simp
  then show ?case using Cons.IH [OF rest] Cons.prems(3) by auto
qed

section \<open>Strings\<close>

definition is_space :: "char \<Rightarrow> bool" where
  "is_space c = (c \<in> set [CHR '' '', CHR 0x09, CHR 0x0A, CHR 0x0B, CHR 0x0C, CHR 0x0D,
     CHR 0x1C, CHR 0x1D, CHR 0x1E, CHR 0x1F])"

definition strip :: "string \<Rightarrow> string" where
  "strip s = rev (dropWhile is_space (rev (dropWhile is_space s)))"

definition lower_char :: "char \<Rightarrow> char" where
  "lower_char c = (let n = of_char c :: nat in
     if 65 \<le> n \<and> n \<le> 90 then char_of (n + 32) else c)"

definition upper_char :: "char \<Rightarrow> char" where
  "upper_char c = (let n = of_char c :: nat in
     if 97 \<le> n \<and> n \<le> 122 then char_of (n - 32) else c)"

definition lower :: "string \<Rightarrow> string" where
  "lower = map lower_char"

definition upper :: "string \<Rightarrow> string" where
  "upper = map upper_char"

definition is_digit :: "char \<Rightarrow> bool" where
  "is_digit c = (let n = of_char c :: nat in 48 \<le> n \<and> n \<le> 57)"

definition is_hex_lower :: "char \<Rightarrow> bool" where
  "is_hex_lower c = (let n = of_char c :: nat in 48 \<le> n \<and> n \<le> 57 \<or> 97 \<le> n \<and> n \<le> 102)"

definition is_hex :: "char \<Rightarrow> bool" where
  "is_hex c = (let n = of_char c :: nat in
     48 \<le> n \<and> n \<le> 57 \<or> 97 \<le> n \<and> n \<le> 102 \<or> 65 \<le> n \<and> n \<le> 70)"

text \<open>The same tests on the bits of a character, for evaluation.\<close>

lemma is_digit_code [code]:
  "is_digit (Char b0 b1 b2 b3 b4 b5 b6 b7) \<longleftrightarrow> \<not> b7 \<and> \<not> b6 \<and> b5 \<and> b4 \<and> (\<not> b3 \<or> \<not> b2 \<and> \<not> b1)"
  by (cases b0; cases b1; cases b2; cases b3; cases b4; cases b5; cases b6; cases b7; simp add: is_digit_def)

lemma is_hex_lower_code [code]:
  "is_hex_lower (Char b0 b1 b2 b3 b4 b5 b6 b7) \<longleftrightarrow> \<not> b7 \<and> b5 \<and> (if b6
     then \<not> b4 \<and> \<not> b3 \<and> (b0 \<or> b1 \<or> b2) \<and> \<not> (b0 \<and> b1 \<and> b2) else b4 \<and> (\<not> b3 \<or> \<not> b2 \<and> \<not> b1))"
  by (cases b0; cases b1; cases b2; cases b3; cases b4; cases b5; cases b6; cases b7; simp add: is_hex_lower_def)

lemma lower_char_code [code]:
  "lower_char (Char b0 b1 b2 b3 b4 b5 b6 b7) =
     (if b6 \<and> \<not> b7 \<and> \<not> b5 \<and> (b0 \<or> b1 \<or> b2 \<or> b3 \<or> b4) \<and> \<not> (b4 \<and> b3 \<and> (b2 \<or> b1 \<and> b0))
      then Char b0 b1 b2 b3 b4 True b6 b7 else Char b0 b1 b2 b3 b4 b5 b6 b7)"
  by (cases b0; cases b1; cases b2; cases b3; cases b4; cases b5; cases b6; cases b7;
      simp add: lower_char_def char_of_def bit_Suc_0_iff)

lemma length_lower [simp]: "length (lower s) = length s"
  by (simp add: lower_def)

lemma lower_eq_Nil [simp]: "lower s = [] \<longleftrightarrow> s = []"
  by (simp add: lower_def)

lemma lower_char_idem [simp]: "lower_char (lower_char c) = lower_char c"
  by (auto simp: lower_char_def Let_def)

lemma lower_idem [simp]: "lower (lower s) = lower s"
  by (simp add: lower_def)

lemma strip_idem [simp]: "strip (strip s) = strip s"
proof -
  have *: "dropWhile is_space (rev (dropWhile is_space (rev (dropWhile is_space t)))) =
      rev (dropWhile is_space (rev (dropWhile is_space t)))" for t
  proof (cases "dropWhile is_space t")
    case Nil
    then show ?thesis by (simp only: rev.simps dropWhile.simps)
  next
    case (Cons a l)
    then have a: "\<not> is_space a" by (metis dropWhile_eq_Cons_conv)
    have "\<exists>l'. rev (dropWhile is_space (rev l @ [a])) = a # l'"
      using a by (simp add: dropWhile_append) (metis rev_rev_ident)
    then obtain l' where "rev (dropWhile is_space (rev (dropWhile is_space t))) = a # l'"
      using Cons by auto
    with a show ?thesis by simp
  qed
  show ?thesis by (simp add: strip_def *)
qed

section \<open>Append-only tables\<close>

text \<open>
  A database table is the list of its rows in insertion order, which is the order of the
  autoincrement \<open>id\<close>. \<open>one_or_none\<close> is SQLAlchemy's method of that name: no row is
  \<open>None\<close>, one row is that row, and more than one raises.
\<close>

definition one_or_none :: "'r list \<Rightarrow> 'r option res" where
  "one_or_none rs = (case rs of [] \<Rightarrow> Inr None | [r] \<Rightarrow> Inr (Some r) | _ \<Rightarrow> Inl MultipleResultsFound)"

definition last_option :: "'r list \<Rightarrow> 'r option" where
  "last_option rs = (if rs = [] then None else Some (last rs))"

lemma one_or_none_Some [simp]: "one_or_none rs = Inr (Some r) \<longleftrightarrow> rs = [r]"
  by (auto simp: one_or_none_def split: list.splits)

lemma one_or_none_None [simp]: "one_or_none rs = Inr None \<longleftrightarrow> rs = []"
  by (auto simp: one_or_none_def split: list.splits)

definition unique_on :: "('r \<Rightarrow> 'k) \<Rightarrow> 'r list \<Rightarrow> bool" where
  "unique_on key rs = distinct (map key rs)"

lemma unique_on_Nil [simp]: "unique_on key []"
  by (simp add: unique_on_def)

lemma unique_on_snoc [simp]:
  "unique_on key (rs @ [r]) \<longleftrightarrow> unique_on key rs \<and> key r \<notin> key ` set rs"
  by (auto simp: unique_on_def)

lemma unique_on_filter:
  assumes "unique_on key rs"
  shows "length (filter (\<lambda>r. key r = k) rs) \<le> 1"
  using assms
proof (induction rs)
  case (Cons a rs)
  then have IH: "length (filter (\<lambda>r. key r = k) rs) \<le> 1" by (simp add: unique_on_def)
  show ?case
  proof (cases "key a = k")
    case True
    then have "filter (\<lambda>r. key r = k) rs = []"
      using Cons.prems by (auto simp: unique_on_def filter_empty_conv image_iff)
    then show ?thesis by simp
  qed (use IH in simp)
qed simp

lemma unique_on_inj: "unique_on key rs \<Longrightarrow> x \<in> set rs \<Longrightarrow> y \<in> set rs \<Longrightarrow> key x = key y \<Longrightarrow> x = y"
  by (auto simp: unique_on_def distinct_map dest: inj_onD)

lemma unique_on_lookup:
  assumes "unique_on key rs" and "r \<in> set rs"
  shows "filter (\<lambda>x. key x = key r) rs = [r]"
  using assms by (induction rs) (auto simp: unique_on_def filter_empty_conv image_iff)

end
