(* ===== verification/PyDecimal.thy ===== *)
theory PyDecimal
  imports Prelude
begin

text \<open>
  Python's \<open>decimal.Decimal\<close> as the engine uses it: finite numbers with an exact integer
  coefficient and exponent, the default context (28 significant digits, ROUND_HALF_EVEN), and
  the special values that an unvalidated input can hold. \<open>dval\<close> is the number a decimal
  denotes. The library proves of the rounding of the context what the components rely on: it
  never crosses a number of at most 28 digits, and its relative error is at most 5 in the 28th
  digit after the leading one. The exponent range of the context and the sign of a zero are
  not modelled.
\<close>

section \<open>Numbers and comparison\<close>

datatype dec = Dec (coef: int) (dexp: int)

datatype decimal = Finite dec | Infinite bool | NotANumber

definition dval :: "dec \<Rightarrow> rat" where
  "dval d = of_int (coef d) * 10 powi dexp d"

definition coef_at :: "dec \<Rightarrow> int \<Rightarrow> int" where
  "coef_at d f = coef d * 10 ^ nat (dexp d - f)"

definition dle :: "dec \<Rightarrow> dec \<Rightarrow> bool" where
  "dle a b = (let f = min (dexp a) (dexp b) in coef_at a f \<le> coef_at b f)"

definition dlt :: "dec \<Rightarrow> dec \<Rightarrow> bool" where
  "dlt a b = (let f = min (dexp a) (dexp b) in coef_at a f < coef_at b f)"

definition deq :: "dec \<Rightarrow> dec \<Rightarrow> bool" where
  "deq a b = (let f = min (dexp a) (dexp b) in coef_at a f = coef_at b f)"

abbreviation d0 :: dec where "d0 \<equiv> Dec 0 0"
abbreviation d1 :: dec where "d1 \<equiv> Dec 1 0"

lemma powi_10_pos [simp]: "(0::rat) < 10 powi k"
  by (simp add: power_int_def)

lemma coef_at_val:
  "f \<le> dexp d \<Longrightarrow> dval d = of_int (coef_at d f) * 10 powi f"
proof -
  assume "f \<le> dexp d"
  then have "(10::rat) powi dexp d = 10 ^ nat (dexp d - f) * 10 powi f"
    using power_int_add [of "10::rat" "dexp d - f" f]
    by (simp add: power_int_def)
  then show ?thesis by (simp add: dval_def coef_at_def)
qed

lemma dle_iff: "dle a b \<longleftrightarrow> dval a \<le> dval b"
  using coef_at_val [of "min (dexp a) (dexp b)" a] coef_at_val [of "min (dexp a) (dexp b)" b]
  by (simp add: dle_def Let_def)

lemma dlt_iff: "dlt a b \<longleftrightarrow> dval a < dval b"
  using coef_at_val [of "min (dexp a) (dexp b)" a] coef_at_val [of "min (dexp a) (dexp b)" b]
  by (simp add: dlt_def Let_def)

lemma deq_iff: "deq a b \<longleftrightarrow> dval a = dval b"
  using coef_at_val [of "min (dexp a) (dexp b)" a] coef_at_val [of "min (dexp a) (dexp b)" b]
  by (simp add: deq_def Let_def)

lemmas dcmp = dle_iff dlt_iff deq_iff

lemma dval_zero [simp]: "dval (Dec 0 e) = 0"
  by (simp add: dval_def)

lemma dval_d1 [simp]: "dval (Dec 1 0) = 1"
  by (simp add: dval_def)

lemma dval_int: "dval (Dec c 0) = of_int c"
  by (simp add: dval_def)

lemma dval_nonneg_iff: "0 \<le> dval d \<longleftrightarrow> 0 \<le> coef d"
  by (metis dval_def mult.commute mult_le_cancel_left_pos mult_zero_right of_int_0_le_iff
      powi_10_pos)

lemma dval_pos_iff: "0 < dval d \<longleftrightarrow> 0 < coef d"
  by (metis dval_def mult.commute mult_less_cancel_left_pos mult_zero_right of_int_0_less_iff
      powi_10_pos)

text \<open>Python's \<open>min\<close> and \<open>max\<close> return their first argument when the two are equal.\<close>

definition dmin :: "dec \<Rightarrow> dec \<Rightarrow> dec" where
  "dmin a b = (if dlt b a then b else a)"

definition dmax :: "dec \<Rightarrow> dec \<Rightarrow> dec" where
  "dmax a b = (if dlt a b then b else a)"

lemma dval_dmin [simp]: "dval (dmin a b) = min (dval a) (dval b)"
  by (auto simp: dmin_def dlt_iff min_def)

lemma dval_dmax [simp]: "dval (dmax a b) = max (dval a) (dval b)"
  by (auto simp: dmax_def dlt_iff max_def)

section \<open>Rounding to the context\<close>

fun ndigits :: "nat \<Rightarrow> nat" where
  "ndigits n = (if n < 10 then 1 else Suc (ndigits (n div 10)))"

declare ndigits.simps [simp del]

lemma ndigits_pos [simp]: "0 < ndigits n"
  by (subst ndigits.simps) simp

lemma ndigits_upper: "n < 10 ^ ndigits n"
proof (induction n rule: ndigits.induct)
  case (1 n)
  show ?case
  proof (cases "n < 10")
    case True
    then show ?thesis by (simp add: ndigits.simps [of n])
  next
    case False
    with 1 have "n div 10 < 10 ^ ndigits (n div 10)" by simp
    then have "n < 10 * 10 ^ ndigits (n div 10)" by simp
    with False show ?thesis by (simp add: ndigits.simps [of n])
  qed
qed

lemma ndigits_lower: "0 < n \<Longrightarrow> 10 ^ (ndigits n - 1) \<le> n"
proof (induction n rule: ndigits.induct)
  case (1 n)
  show ?case
  proof (cases "n < 10")
    case True
    with 1 show ?thesis by (simp add: ndigits.simps [of n])
  next
    case False
    with 1 have IH: "10 ^ (ndigits (n div 10) - 1) \<le> n div 10" by simp
    obtain j where j: "ndigits (n div 10) = Suc j"
      using ndigits_pos [of "n div 10"] gr0_implies_Suc by blast
    have "(10::nat) ^ Suc j \<le> n" using IH j by simp
    with False j show ?thesis by (simp add: ndigits.simps [of n])
  qed
qed

lemma ndigits_gt: "10 ^ k \<le> n \<Longrightarrow> k < ndigits n"
  using ndigits_upper [of n] by (metis le_less_trans nat_power_less_imp_less zero_less_numeral)

text \<open>\<open>rhe c m\<close> is \<open>c / m\<close> rounded half to even.\<close>

definition rhe :: "int \<Rightarrow> int \<Rightarrow> int" where
  "rhe c m = (let q = c div m; r = c mod m in
     if 2 * r < m then q else if m < 2 * r then q + 1 else if even q then q else q + 1)"

lemma rhe_lower: "0 < m \<Longrightarrow> n * m \<le> c \<Longrightarrow> n \<le> rhe c m"
proof -
  assume m: "0 < m" and "n * m \<le> c"
  then have "n \<le> c div m" by (simp add: zdiv_mono1 [of "n * m" c m, simplified])
  then show ?thesis by (auto simp: rhe_def Let_def)
qed

lemma rhe_upper: "0 < m \<Longrightarrow> c \<le> n * m \<Longrightarrow> rhe c m \<le> n"
proof -
  assume m: "0 < m" and c: "c \<le> n * m"
  show ?thesis
  proof (cases "c mod m = 0")
    case True
    then have "rhe c m = c div m" using m by (simp add: rhe_def)
    also have "\<dots> \<le> n" using zdiv_mono1 [OF c m] m by simp
    finally show ?thesis .
  next
    case False
    then have "c \<noteq> n * m" by auto
    with c have "c < n * m" by simp
    moreover have "c div m * m \<le> c" using m
      by (metis div_mult_mod_eq le_add_same_cancel1 pos_mod_sign)
    ultimately have "c div m * m < n * m" by simp
    then have "c div m < n" using m by simp
    then show ?thesis by (auto simp: rhe_def Let_def)
  qed
qed

lemma rhe_error: "0 < m \<Longrightarrow> \<bar>rhe c m * m - c\<bar> * 2 \<le> m"
proof -
  assume m: "0 < m"
  obtain q r where qr: "q = c div m" "r = c mod m" by blast
  have c: "c = q * m + r" by (simp add: qr)
  have r: "0 \<le> r" "r < m" using m by (simp_all add: qr)
  have "rhe c m = q \<and> 2 * r \<le> m \<or> rhe c m = q + 1 \<and> m \<le> 2 * r"
    by (auto simp: rhe_def Let_def qr [symmetric])
  then show ?thesis using r by (auto simp: c algebra_simps)
qed


text \<open>The context's precision, and the rounding of an exact result to it.\<close>

definition prec :: nat where
  "prec = 28"

definition excess :: "dec \<Rightarrow> nat" where
  "excess d = ndigits (nat \<bar>coef d\<bar>) - prec"

definition dec_fix :: "dec \<Rightarrow> dec" where
  "dec_fix d =
     (if \<bar>coef d\<bar> < 10 ^ prec then d
      else let k = excess d; q = rhe (coef d) (10 ^ k) in
        if \<bar>q\<bar> = 10 ^ prec then Dec (q div 10) (dexp d + int k + 1)
        else Dec q (dexp d + int k))"

definition representable :: "dec \<Rightarrow> bool" where
  "representable d \<longleftrightarrow> \<bar>coef d\<bar> < 10 ^ prec"

lemma dec_fix_small [simp]: "representable d \<Longrightarrow> dec_fix d = d"
  by (simp add: dec_fix_def representable_def)

lemma powi_10_add_nat: "(10::rat) powi (e + int k) = 10 powi e * 10 ^ k"
  by (simp add: power_int_add)

lemma ten_dvd: "\<bar>q\<bar> = 10 ^ prec \<Longrightarrow> 10 dvd (q::int)"
proof -
  assume "\<bar>q\<bar> = 10 ^ prec"
  then have "10 dvd \<bar>q\<bar>" by (simp add: prec_def)
  then show ?thesis by simp
qed

text \<open>The shape of a rounding that really drops digits.\<close>

lemma dec_fix_large:
  assumes "\<not> representable d"
  obtains k where "0 < k" "10 ^ (prec - 1) * 10 ^ k \<le> \<bar>coef d\<bar>"
    "dval (dec_fix d) = of_int (rhe (coef d) (10 ^ k)) * 10 powi (dexp d + int k)"
proof -
  define n where "n = nat \<bar>coef d\<bar>"
  define k where "k = excess d"
  have big: "10 ^ prec \<le> n" using assms by (simp add: n_def representable_def nat_le_eq_zle)
  then have nd: "prec < ndigits n" by (rule ndigits_gt)
  then have k: "0 < k" by (simp add: k_def excess_def n_def)
  have "10 ^ (ndigits n - 1) \<le> n" using big by (intro ndigits_lower) (auto simp: prec_def)
  moreover have "ndigits n - 1 = (prec - 1) + k" using nd by (simp add: k_def excess_def n_def prec_def)
  ultimately have "10 ^ (prec - 1) * 10 ^ k \<le> n" by (simp add: power_add)
  then have low: "10 ^ (prec - 1) * 10 ^ k \<le> \<bar>coef d\<bar>" by (simp add: n_def le_nat_iff)
  let ?q = "rhe (coef d) (10 ^ k)"
  have "dval (dec_fix d) = of_int ?q * 10 powi (dexp d + int k)"
  proof (cases "\<bar>?q\<bar> = 10 ^ prec")
    case True
    then have "10 dvd ?q" by (rule ten_dvd)
    then have "(of_int (?q div 10) :: rat) * 10 = of_int ?q" by auto
    moreover have "dval (dec_fix d) = of_int (?q div 10) * 10 powi (dexp d + int k + 1)"
      using assms True by (simp add: dec_fix_def representable_def k_def Let_def dval_def)
    ultimately show ?thesis by (simp add: power_int_add_1 mult.assoc [symmetric])
  next
    case False
    then show ?thesis
      using assms by (simp add: dec_fix_def representable_def k_def Let_def dval_def)
  qed
  with k low show ?thesis by (rule that)
qed

lemma representable_multiple:
  assumes "representable r"
  obtains (multiple) n where "dval r = of_int n * 10 powi E"
  | (small) "\<bar>dval r\<bar> < 10 ^ (prec - 1) * 10 powi E"
proof (cases "E \<le> dexp r")
  case True
  then show ?thesis using coef_at_val multiple by blast
next
  case False
  have "\<bar>dval r\<bar> = of_int \<bar>coef r\<bar> * 10 powi dexp r"
    by (simp add: dval_def abs_mult)
  also have "\<dots> < 10 ^ prec * 10 powi dexp r"
  proof -
    have "(of_int \<bar>coef r\<bar> :: rat) < of_int (10 ^ prec)"
      using assms unfolding representable_def by (simp only: of_int_less_iff)
    then show ?thesis by simp
  qed
  also have "\<dots> = 10 ^ (prec - 1) * 10 powi (dexp r + 1)"
    by (simp add: power_int_add_1 prec_def)
  also have "\<dots> \<le> 10 ^ (prec - 1) * 10 powi E"
    using False by (simp add: power_int_increasing)
  finally show ?thesis by (rule small)
qed

text \<open>Rounding never crosses a number of at most 28 digits.\<close>

lemma dec_fix_le:
  assumes r: "representable r" and le: "dval d \<le> dval r"
  shows "dval (dec_fix d) \<le> dval r"
proof (cases "representable d")
  case False
  then obtain k where k: "10 ^ (prec - 1) * 10 ^ k \<le> \<bar>coef d\<bar>"
    and v: "dval (dec_fix d) = of_int (rhe (coef d) (10 ^ k)) * 10 powi (dexp d + int k)"
    by (rule dec_fix_large) blast
  let ?E = "dexp d + int k"
  have d: "dval d * 10 ^ k = of_int (coef d) * 10 powi ?E"
    by (simp add: dval_def powi_10_add_nat)
  from r show ?thesis
  proof (cases rule: representable_multiple [where E = ?E])
    case (multiple n)
    have "dval d * 10 ^ k \<le> dval r * 10 ^ k" using le by (intro mult_right_mono) simp_all
    then have "(of_int (coef d) :: rat) * 10 powi ?E \<le> of_int (n * 10 ^ k) * 10 powi ?E"
      unfolding d multiple by (simp add: mult.assoc mult.commute [of _ "10 ^ k"])
    then have "coef d \<le> n * 10 ^ k"
      by (simp only: mult_le_cancel_right_pos [OF powi_10_pos] of_int_le_iff)
    then have "rhe (coef d) (10 ^ k) \<le> n" by (intro rhe_upper) simp_all
    then show ?thesis unfolding v multiple by (simp add: mult_right_mono)
  next
    case small
    have "\<not> 0 \<le> coef d"
    proof
      assume "0 \<le> coef d"
      with k have "(of_int (10 ^ (prec - 1) * 10 ^ k) :: rat) * 10 powi ?E \<le> of_int (coef d) * 10 powi ?E"
        by (intro mult_right_mono) (simp_all only: of_int_le_iff abs_of_nonneg less_imp_le powi_10_pos)
      then have "10 ^ (prec - 1) * 10 powi ?E \<le> dval d"
        unfolding d [symmetric] by (simp add: mult.assoc mult.commute [of _ "10 ^ k"])
      with le small show False by linarith
    qed
    then have "coef d \<le> - (10 ^ (prec - 1)) * 10 ^ k" using k by simp
    then have "rhe (coef d) (10 ^ k) \<le> - (10 ^ (prec - 1))" by (intro rhe_upper) simp_all
    then have "dval (dec_fix d) \<le> of_int (- (10 ^ (prec - 1))) * 10 powi ?E"
      unfolding v by (intro mult_right_mono) (simp_all only: of_int_le_iff less_imp_le powi_10_pos)
    with small show ?thesis by simp
  qed
qed (use le in simp)

definition dneg :: "dec \<Rightarrow> dec" where
  "dneg d = Dec (- coef d) (dexp d)"

lemma dval_dneg [simp]: "dval (dneg d) = - dval d"
  by (simp add: dneg_def dval_def)

lemma representable_dneg [simp]: "representable (dneg d) = representable d"
  by (simp add: dneg_def representable_def)


lemma rhe_minus: "0 < m \<Longrightarrow> rhe (- c) m = - rhe c m"
  by (auto simp: rhe_def Let_def zdiv_zminus1_eq_if zmod_zminus1_eq_if)

lemma dval_dec_fix_dneg [simp]: "dval (dec_fix (dneg d)) = - dval (dec_fix d)"
proof -
  let ?k = "excess d"
  have q: "rhe (- coef d) (10 ^ ?k) = - rhe (coef d) (10 ^ ?k)" by (rule rhe_minus) simp
  have div10: "\<bar>q\<bar> = 10 ^ prec \<Longrightarrow> - q div 10 = - (q div 10)" for q :: int
    using ten_dvd [of q] by (auto elim!: dvdE)
  have ex: "excess (dneg d) = ?k" by (simp add: excess_def dneg_def)
  show ?thesis
    unfolding dec_fix_def ex by (simp add: dneg_def Let_def q div10 dval_def)
qed

lemma dec_fix_ge:
  assumes "representable r" and "dval r \<le> dval d"
  shows "dval r \<le> dval (dec_fix d)"
  using dec_fix_le [of "dneg r" "dneg d"] assms by simp

lemma representable_d0 [simp]: "representable (Dec 0 e)"
  by (simp add: representable_def)

lemma representable_d1 [simp]: "representable (Dec 1 e)"
  by (simp add: representable_def prec_def)

lemma dec_fix_nonneg: "0 \<le> dval d \<Longrightarrow> 0 \<le> dval (dec_fix d)"
  using dec_fix_ge [of d0 d] by simp

lemma representable_dec_fix [simp]: "representable (dec_fix d)"
proof (cases "representable d")
  case False
  define n where "n = nat \<bar>coef d\<bar>"
  define k where "k = excess d"
  let ?q = "rhe (coef d) (10 ^ k)"
  have "10 ^ prec \<le> n" using False by (simp add: n_def representable_def nat_le_eq_zle)
  then have nd: "ndigits n = prec + k" using ndigits_gt [of prec n] by (simp add: k_def excess_def n_def)
  have "n \<le> 10 ^ prec * 10 ^ k" using ndigits_upper [of n] nd by (simp add: power_add less_imp_le)
  then have "int n \<le> int (10 ^ prec * 10 ^ k)" by (simp only: of_nat_le_iff)
  then have n: "\<bar>coef d\<bar> \<le> 10 ^ prec * 10 ^ k" by (simp add: n_def)
  then have "?q \<le> 10 ^ prec" by (intro rhe_upper) simp_all
  moreover have "- (10 ^ prec) \<le> ?q" using n by (intro rhe_lower) simp_all
  ultimately have "\<bar>?q\<bar> \<le> 10 ^ prec" by simp
  show ?thesis
  proof (cases "\<bar>?q\<bar> = 10 ^ prec")
    case True
    then have "10 * \<bar>?q div 10\<bar> = 10 ^ prec" using ten_dvd [of ?q] by (auto elim!: dvdE simp: abs_mult)
    then have "\<bar>?q div 10\<bar> < 10 ^ prec" by (simp add: prec_def)
    then show ?thesis using False True by (simp add: dec_fix_def representable_def k_def Let_def)
  next
    case neq: False
    then have "\<bar>?q\<bar> < 10 ^ prec" using \<open>\<bar>?q\<bar> \<le> 10 ^ prec\<close> by simp
    then show ?thesis using False neq by (simp add: dec_fix_def representable_def k_def Let_def)
  qed
qed simp

text \<open>The relative error of a rounding.\<close>

lemma dec_fix_error: "\<bar>dval (dec_fix d) - dval d\<bar> * (2 * 10 ^ (prec - 1)) \<le> \<bar>dval d\<bar>"
proof (cases "representable d")
  case False
  then obtain k where k: "10 ^ (prec - 1) * 10 ^ k \<le> \<bar>coef d\<bar>"
    and v: "dval (dec_fix d) = of_int (rhe (coef d) (10 ^ k)) * 10 powi (dexp d + int k)"
    by (rule dec_fix_large) blast
  let ?q = "rhe (coef d) (10 ^ k)"
  have diff: "dval (dec_fix d) - dval d = of_int (?q * 10 ^ k - coef d) * 10 powi dexp d"
    unfolding v powi_10_add_nat by (simp add: dval_def algebra_simps)
  have "\<bar>?q * 10 ^ k - coef d\<bar> * 2 \<le> 10 ^ k" by (rule rhe_error) simp
  then have "\<bar>?q * 10 ^ k - coef d\<bar> * 2 * 10 ^ (prec - 1) \<le> 10 ^ k * 10 ^ (prec - 1)"
    by (intro mult_right_mono) simp_all
  also have "\<dots> \<le> \<bar>coef d\<bar>" using k by (simp add: mult.commute)
  finally have "of_int (\<bar>?q * 10 ^ k - coef d\<bar> * (2 * 10 ^ (prec - 1))) * 10 powi dexp d
      \<le> (of_int \<bar>coef d\<bar> :: rat) * 10 powi dexp d"
    by (intro mult_right_mono) (simp_all only: of_int_le_iff mult.assoc less_imp_le powi_10_pos)
  then show ?thesis unfolding diff by (simp add: dval_def abs_mult mult_ac)
qed simp

section \<open>Arithmetic\<close>

definition dec_add_exact :: "dec \<Rightarrow> dec \<Rightarrow> dec" where
  "dec_add_exact a b = (let f = min (dexp a) (dexp b) in Dec (coef_at a f + coef_at b f) f)"

definition dadd :: "dec \<Rightarrow> dec \<Rightarrow> dec" where
  "dadd a b = dec_fix (dec_add_exact a b)"

definition dsub :: "dec \<Rightarrow> dec \<Rightarrow> dec" where
  "dsub a b = dec_fix (dec_add_exact a (dneg b))"

definition dec_mul_exact :: "dec \<Rightarrow> dec \<Rightarrow> dec" where
  "dec_mul_exact a b = Dec (coef a * coef b) (dexp a + dexp b)"

definition dmul :: "dec \<Rightarrow> dec \<Rightarrow> dec" where
  "dmul a b = dec_fix (dec_mul_exact a b)"

lemma dval_add_exact [simp]: "dval (dec_add_exact a b) = dval a + dval b"
  using coef_at_val [of "min (dexp a) (dexp b)" a] coef_at_val [of "min (dexp a) (dexp b)" b]
  by (simp add: dec_add_exact_def Let_def dval_def distrib_right)

lemma dval_mul_exact [simp]: "dval (dec_mul_exact a b) = dval a * dval b"
  by (simp add: dec_mul_exact_def dval_def power_int_add)

lemma representable_arith [simp]:
  "representable (dadd a b)" "representable (dsub a b)" "representable (dmul a b)"
  by (simp_all add: dadd_def dsub_def dmul_def)

lemma dadd_nonneg: "0 \<le> dval a \<Longrightarrow> 0 \<le> dval b \<Longrightarrow> 0 \<le> dval (dadd a b)"
  unfolding dadd_def by (rule dec_fix_nonneg) simp

lemma dmul_nonneg: "0 \<le> dval a \<Longrightarrow> 0 \<le> dval b \<Longrightarrow> 0 \<le> dval (dmul a b)"
  unfolding dmul_def by (rule dec_fix_nonneg) simp

lemma dadd_le: "representable r \<Longrightarrow> dval a + dval b \<le> dval r \<Longrightarrow> dval (dadd a b) \<le> dval r"
  unfolding dadd_def by (rule dec_fix_le) simp_all

lemma dadd_ge: "representable r \<Longrightarrow> dval r \<le> dval a + dval b \<Longrightarrow> dval r \<le> dval (dadd a b)"
  unfolding dadd_def by (rule dec_fix_ge) simp_all

lemma dsub_le: "representable r \<Longrightarrow> dval a - dval b \<le> dval r \<Longrightarrow> dval (dsub a b) \<le> dval r"
  unfolding dsub_def by (rule dec_fix_le) simp_all

lemma dsub_ge: "representable r \<Longrightarrow> dval r \<le> dval a - dval b \<Longrightarrow> dval r \<le> dval (dsub a b)"
  unfolding dsub_def by (rule dec_fix_ge) simp_all

lemma dsub_nonneg_iff: "0 \<le> dval (dsub a b) \<longleftrightarrow> dval b \<le> dval a"
proof
  show "0 \<le> dval (dsub a b) \<Longrightarrow> dval b \<le> dval a"
  proof (rule ccontr)
    assume nn: "0 \<le> dval (dsub a b)" and "\<not> dval b \<le> dval a"
    then have neg: "dval a - dval b < 0" by simp
    have "\<bar>dval (dsub a b) - (dval a - dval b)\<bar> * (2 * 10 ^ (prec - 1)) \<le> \<bar>dval a - dval b\<bar>"
      using dec_fix_error [of "dec_add_exact a (dneg b)"] by (simp add: dsub_def)
    moreover have "\<bar>dval a - dval b\<bar> \<le> \<bar>dval (dsub a b) - (dval a - dval b)\<bar>"
      using nn neg by simp
    ultimately show False using nn neg unfolding prec_def by (simp add: abs_if split: if_splits)
  qed
next
  show "dval b \<le> dval a \<Longrightarrow> 0 \<le> dval (dsub a b)" using dsub_ge [of d0 a b] by simp
qed

lemma dsub_nonpos_iff: "dval (dsub a b) \<le> 0 \<longleftrightarrow> dval a \<le> dval b"
proof -
  have "dval (dsub a b) \<le> 0" if "dval a \<le> dval b" using dsub_le [of d0 a b] that by simp
  moreover have "dval a \<le> dval b" if le: "dval (dsub a b) \<le> 0"
  proof (rule ccontr)
    assume "\<not> dval a \<le> dval b"
    then have pos: "0 < dval a - dval b" by simp
    have "\<bar>dval (dsub a b) - (dval a - dval b)\<bar> * (2 * 10 ^ (prec - 1)) \<le> \<bar>dval a - dval b\<bar>"
      using dec_fix_error [of "dec_add_exact a (dneg b)"] by (simp add: dsub_def)
    moreover have "\<bar>dval a - dval b\<bar> \<le> \<bar>dval (dsub a b) - (dval a - dval b)\<bar>"
      using le pos by simp
    ultimately show False using le pos unfolding prec_def by (simp add: abs_if split: if_splits)
  qed
  ultimately show ?thesis by blast
qed

lemma dsub_zero_iff: "dval (dsub a b) = 0 \<longleftrightarrow> dval a = dval b"
  using dsub_nonneg_iff [of a b] dsub_nonpos_iff [of a b] by auto


text \<open>
  Division follows \<open>Decimal.__truediv__\<close>: the quotient is computed to at least one digit more
  than the precision, with a sticky last digit when a remainder is left, trailing zeros are
  removed down to the ideal exponent when it is exact, and the result is rounded.
\<close>

definition nlen :: "int \<Rightarrow> nat" where
  "nlen c = ndigits (nat \<bar>c\<bar>)"

text \<open>The number of digits, computed on integers.\<close>

function idigits :: "int \<Rightarrow> nat" where
  "idigits n = (if n < 10 then 1 else Suc (idigits (n div 10)))"
  by pat_completeness auto
termination by (relation "measure nat") auto

declare idigits.simps [simp del]

lemma idigits: "0 \<le> n \<Longrightarrow> ndigits (nat n) = idigits n"
proof (induction n rule: idigits.induct)
  case (1 n)
  then show ?case
    by (subst ndigits.simps, subst idigits.simps) (auto simp: nat_div_distrib)
qed

lemma nlen_code [code]: "nlen c = idigits \<bar>c\<bar>"
  by (simp add: nlen_def idigits)

lemma excess_code [code]: "excess d = idigits \<bar>coef d\<bar> - prec"
  by (simp add: excess_def idigits)

fun strip_zeros :: "nat \<Rightarrow> int \<Rightarrow> int \<Rightarrow> dec" where
  "strip_zeros 0 c e = Dec c e"
| "strip_zeros (Suc n) c e = (if c mod 10 = 0 then strip_zeros n (c div 10) (e + 1) else Dec c e)"

lemma dval_strip_zeros [simp]: "dval (strip_zeros n c e) = of_int c * 10 powi e"
proof (induction n c e rule: strip_zeros.induct)
  case (2 n c e)
  show ?case
  proof (cases "c mod 10 = 0")
    case True
    then have "(of_int c :: rat) = of_int (c div 10) * 10" by (auto elim!: dvdE)
    with 2 True show ?thesis by (simp add: power_int_add_1)
  qed (simp add: dval_def)
qed (simp add: dval_def)

definition dec_div_exact :: "dec \<Rightarrow> dec \<Rightarrow> dec" where
  "dec_div_exact a b =
     (if coef a = 0 then Dec 0 (dexp a - dexp b)
      else let shift = int (nlen (coef b)) - int (nlen (coef a)) + int prec + 1;
        e = dexp a - dexp b - shift;
        n = \<bar>coef a\<bar> * 10 ^ nat shift; m = \<bar>coef b\<bar> * 10 ^ nat (- shift);
        q = n div m; s = sgn (coef a) * sgn (coef b)
      in if n mod m \<noteq> 0 then Dec (s * (if q mod 5 = 0 then q + 1 else q)) e
         else (let r = strip_zeros (nat (dexp a - dexp b - e)) q e in Dec (s * coef r) (dexp r)))"

definition ddiv :: "dec \<Rightarrow> dec \<Rightarrow> dec res" where
  "ddiv a b = (if coef b = 0 then Inl InvalidOperation else Inr (dec_fix (dec_div_exact a b)))"

text \<open>
  \<open>quantize\<close> with ROUND\_DOWN to \<open>10 ^ (- p)\<close>: digits are cut off, and a result of more than
  28 digits raises.
\<close>

definition dquant_down :: "dec \<Rightarrow> nat \<Rightarrow> dec res" where
  "dquant_down d p =
     (let c = (if - int p \<le> dexp d then coef_at d (- int p)
               else sgn (coef d) * (\<bar>coef d\<bar> div 10 ^ nat (- int p - dexp d)))
      in if \<bar>c\<bar> < 10 ^ prec then Inr (Dec c (- int p)) else Inl InvalidOperation)"

lemma dquant_down_le:
  assumes "dquant_down d p = Inr r" and "0 \<le> dval d"
  shows "0 \<le> dval r" "dval r \<le> dval d" "dexp r = - int p" "representable r"
proof -
  have c0: "0 \<le> coef d" using assms(2) by (simp add: dval_nonneg_iff)
  show "dexp r = - int p" "representable r"
    using assms(1) by (auto simp: dquant_down_def Let_def representable_def split: if_splits)
  show "0 \<le> dval r" using assms(1) c0
    by (auto simp: dquant_down_def Let_def dval_nonneg_iff coef_at_def sgn_if
        pos_imp_zdiv_nonneg_iff split: if_splits)
  show "dval r \<le> dval d"
  proof (cases "- int p \<le> dexp d")
    case True
    then have "r = Dec (coef_at d (- int p)) (- int p)"
      using assms(1) by (auto simp: dquant_down_def Let_def split: if_splits)
    then show ?thesis using coef_at_val [OF True] by (simp add: dval_def)
  next
    case False
    let ?k = "nat (- int p - dexp d)"
    have c: "coef r = coef d div 10 ^ ?k" "dexp r = dexp d + int ?k"
      using assms(1) c0 False by (auto simp: dquant_down_def Let_def sgn_if split: if_splits)
    have "coef r * 10 ^ ?k \<le> coef d"
      unfolding c by (metis div_mult_mod_eq le_add_same_cancel1 pos_mod_sign zero_less_numeral zero_less_power)
    then have "of_int (coef r * 10 ^ ?k) * (10::rat) powi dexp d \<le> of_int (coef d) * 10 powi dexp d"
      by (intro mult_right_mono) (simp_all only: of_int_le_iff less_imp_le powi_10_pos)
    then show ?thesis unfolding dval_def c(2) powi_10_add_nat by (simp add: mult_ac)
  qed
qed


lemma nlen_bounds:
  assumes "0 < c"
  shows "10 ^ (nlen c - 1) \<le> c" "c < 10 ^ nlen c"
proof -
  have "10 ^ (nlen c - 1) \<le> nat c" using assms ndigits_lower [of "nat c"] by (simp add: nlen_def)
  then show "10 ^ (nlen c - 1) \<le> c" using assms by (simp add: le_nat_iff)
  have "nat c < 10 ^ nlen c" using assms ndigits_upper [of "nat c"] by (simp add: nlen_def)
  then show "c < 10 ^ nlen c" using assms by (simp add: nat_less_iff)
qed

lemma nlen_pos [simp]: "0 < nlen c"
  by (simp add: nlen_def)

text \<open>The scaled numerator of a division exceeds the denominator by the 28 digits wanted.\<close>

lemma div_scale:
  assumes a: "0 < a" and b: "0 < b" and s: "s = int (nlen b) - int (nlen a) + int prec + 1"
  shows "10 ^ prec * (b * 10 ^ nat (- s)) \<le> a * 10 ^ nat s"
proof -
  have exp: "prec + (nlen b + nat (- s)) = nlen a - 1 + nat s"
    unfolding s prec_def using nlen_pos [of a] by arith
  have "b * 10 ^ nat (- s) \<le> 10 ^ nlen b * 10 ^ nat (- s)"
    using nlen_bounds(2) [OF b] by (intro mult_right_mono) simp_all
  then have "10 ^ prec * (b * 10 ^ nat (- s)) \<le> 10 ^ prec * (10 ^ nlen b * 10 ^ nat (- s))"
    by (intro mult_left_mono) simp_all
  also have "\<dots> = 10 ^ (nlen a - 1) * 10 ^ nat s"
    by (simp only: power_add [symmetric] exp)
  also have "\<dots> \<le> a * 10 ^ nat s"
    using nlen_bounds(1) [OF a] by (intro mult_right_mono) simp_all
  finally show ?thesis .
qed

lemma powi_nat_split: "(10::rat) ^ nat s = 10 powi s * 10 ^ nat (- s)"
  by (cases "0 \<le> s") (simp_all add: power_int_def power_mult_distrib [symmetric])

lemma dec_div_exact_le:
  assumes a: "0 < coef a" and b: "0 < coef b"
  shows "dval (dec_div_exact a b) * dval b * 10 ^ prec \<le> dval a * (10 ^ prec + 1)"
proof -
  define s where "s = int (nlen (coef b)) - int (nlen (coef a)) + int prec + 1"
  define n where "n = coef a * 10 ^ nat s"
  define m where "m = coef b * 10 ^ nat (- s)"
  define e where "e = dexp a - dexp b - s"
  have m0: "0 < m" using b by (simp add: m_def)
  have scale: "10 ^ prec * m \<le> n" unfolding n_def m_def using a b s_def by (rule div_scale)
  obtain Q where Q: "dval (dec_div_exact a b) = of_int Q * 10 powi e" "Q * m \<le> n + m"
  proof (cases "n mod m = 0")
    case True
    have "dval (dec_div_exact a b) = of_int (n div m) * 10 powi e"
      using a b True dval_strip_zeros [of "nat (dexp a - dexp b - e)" "n div m" e]
      by (simp add: dec_div_exact_def n_def m_def s_def e_def Let_def dval_def)
    moreover have "n div m * m \<le> n + m"
      using True m0 by (metis add.right_neutral div_mult_mod_eq less_imp_le le_add_same_cancel1)
    ultimately show ?thesis by (rule that)
  next
    case False
    let ?q = "if (n div m) mod 5 = 0 then n div m + 1 else n div m"
    have "dval (dec_div_exact a b) = of_int ?q * 10 powi e"
      using a b False by (simp add: dec_div_exact_def n_def m_def s_def e_def Let_def dval_def)
    moreover have "?q * m \<le> n + m"
    proof -
      have "n div m * m \<le> n" using m0 by (metis div_mult_mod_eq le_add_same_cancel1 pos_mod_sign)
      then show ?thesis using m0 by (simp add: distrib_right)
    qed
    ultimately show ?thesis by (rule that)
  qed
  have "Q * m * 10 ^ prec \<le> (n + m) * 10 ^ prec"
    using Q(2) by (intro mult_right_mono) simp_all
  also have "\<dots> \<le> n * (10 ^ prec + 1)" using scale by (simp add: algebra_simps)
  finally have le: "Q * m * 10 ^ prec \<le> n * (10 ^ prec + 1)" .
  have pb: "(10::rat) powi e * 10 powi dexp b * 10 powi s = 10 powi dexp a"
    by (simp add: e_def power_int_add [symmetric])
  define t where "t = (10::rat) ^ nat (- s)"
  have t: "0 < t" by (simp add: t_def)
  have "of_int Q * of_int m * 10 ^ prec \<le> (of_int n * (10 ^ prec + 1) :: rat)"
    using le by (metis (mono_tags, lifting) of_int_1 of_int_add of_int_le_iff of_int_mult
        of_int_numeral of_int_power)
  then have "of_int Q * of_int (coef b) * 10 ^ prec * t
      \<le> of_int (coef a) * 10 powi s * (10 ^ prec + 1) * t"
    by (simp add: n_def m_def t_def powi_nat_split [of s] mult_ac)
  then have "of_int Q * of_int (coef b) * (10::rat) ^ prec \<le> of_int (coef a) * 10 powi s * (10 ^ prec + 1)"
    using t by (simp only: mult_le_cancel_right_pos)
  then have "of_int Q * of_int (coef b) * (10::rat) ^ prec * (10 powi e * 10 powi dexp b)
      \<le> of_int (coef a) * 10 powi s * (10 ^ prec + 1) * (10 powi e * 10 powi dexp b)"
    by (intro mult_right_mono) simp_all
  then show ?thesis
    unfolding Q(1) by (simp only: dval_def [of a] dval_def [of b] pb [symmetric] mult_ac)
qed

lemma dec_div_exact_nonneg:
  assumes "0 \<le> coef a" and "0 < coef b"
  shows "0 \<le> dval (dec_div_exact a b)"
proof (cases "coef a = 0")
  case True
  then show ?thesis by (simp add: dec_div_exact_def)
next
  case False
  define s where "s = int (nlen (coef b)) - int (nlen (coef a)) + int prec + 1"
  define q where "q = coef a * 10 ^ nat s div (coef b * 10 ^ nat (- s))"
  define k where "k = nat s"
  have q0: "0 \<le> q" using assms by (simp add: q_def pos_imp_zdiv_nonneg_iff)
  have strip: "0 \<le> coef (strip_zeros n q e)" for n e
    using q0 dval_strip_zeros [of n q e] by (simp add: dval_nonneg_iff [symmetric])
  have sgn: "sgn (coef a) = 1" "sgn (coef b) = 1" "\<bar>coef a\<bar> = coef a" "\<bar>coef b\<bar> = coef b"
    using assms False by simp_all
  show ?thesis
    using False strip q0
    unfolding dec_div_exact_def Let_def sgn s_def [symmetric] q_def [symmetric]
    by (simp add: dval_nonneg_iff)
qed

text \<open>A quotient is never more than a part in \<open>10 ^ 27\<close> above the true one.\<close>

lemma ddiv_le:
  assumes q: "ddiv a b = Inr q" and a: "0 < dval a" and b: "0 < dval b"
  shows "dval q * dval b * 10 ^ 27 \<le> dval a * (10 ^ 27 + 1)" and "0 \<le> dval q"
proof -
  define x where "x = dval (dec_div_exact a b)"
  have ab: "0 < coef a" "0 < coef b" using a b by (simp_all add: dval_pos_iff)
  have x0: "0 \<le> x" unfolding x_def using dec_div_exact_nonneg [of a b] ab by simp
  have qx: "q = dec_fix (dec_div_exact a b)" using q by (auto simp: ddiv_def split: if_splits)
  show "0 \<le> dval q" unfolding qx by (rule dec_fix_nonneg) (use x0 in \<open>simp add: x_def\<close>)
  have "\<bar>dval q - x\<bar> * (2 * 10 ^ (prec - 1)) \<le> \<bar>x\<bar>"
    unfolding qx x_def by (rule dec_fix_error)
  then have "dval q * (2 * 10 ^ 27) \<le> x * (2 * 10 ^ 27 + 1)"
    using x0 by (simp add: prec_def abs_if algebra_simps split: if_splits)
  then have 1: "dval q * (2 * 10 ^ 27) * (dval b * 10 ^ 28) \<le> x * (2 * 10 ^ 27 + 1) * (dval b * 10 ^ 28)"
    using b by (intro mult_right_mono) simp_all
  have "x * dval b * 10 ^ 28 \<le> dval a * (10 ^ 28 + 1)"
    using dec_div_exact_le [OF ab] by (simp add: x_def prec_def)
  then have 2: "x * dval b * 10 ^ 28 * (2 * 10 ^ 27 + 1) \<le> dval a * (10 ^ 28 + 1) * (2 * 10 ^ 27 + 1)"
    by (intro mult_right_mono) simp_all
  define y where "y = dval q * dval b"
  have "y * (2 * 10 ^ 27 * 10 ^ 28) \<le> dval a * ((10 ^ 28 + 1) * (2 * 10 ^ 27 + 1))"
    using order_trans [OF 1] 2 by (simp only: y_def mult_ac)
  then show "dval q * dval b * 10 ^ 27 \<le> dval a * (10 ^ 27 + 1)"
    unfolding y_def [symmetric] using a by simp
qed

section \<open>Exact arithmetic\<close>

text \<open>
  A decimal of at most \<open>k\<close> places is on the grid \<open>k\<close>. A result on a grid whose magnitude stays
  below what 28 digits can hold is not rounded.
\<close>

definition grid :: "nat \<Rightarrow> dec \<Rightarrow> bool" where
  "grid k d \<longleftrightarrow> - int k \<le> dexp d"

lemma grid_mono: "grid k d \<Longrightarrow> k \<le> l \<Longrightarrow> grid l d"
  by (simp add: grid_def)

lemma grid_ints [simp]: "grid k (Dec c 0)"
  by (simp add: grid_def)

lemma grid_representable:
  assumes g: "grid k d" and k: "k \<le> prec" and v: "\<bar>dval d\<bar> < 10 ^ (prec - k)"
  shows "representable d"
proof -
  have v10: "\<bar>dval d\<bar> = of_int \<bar>coef_at d (- int k)\<bar> * 10 powi (- int k)"
    using coef_at_val [of "- int k" d] g by (simp add: grid_def abs_mult)
  have "\<bar>dval d\<bar> * 10 ^ k = of_int \<bar>coef_at d (- int k)\<bar>"
    unfolding v10 by (simp add: power_int_minus)
  moreover have "\<bar>dval d\<bar> * 10 ^ k < 10 ^ (prec - k) * 10 ^ k"
    using v by (intro mult_strict_right_mono) simp_all
  moreover have "(10::rat) ^ (prec - k) * 10 ^ k = of_int (10 ^ prec)"
    using k by (simp add: power_add [symmetric])
  ultimately have "\<bar>coef_at d (- int k)\<bar> < 10 ^ prec"
    by (metis of_int_less_iff)
  moreover have "\<bar>coef d\<bar> \<le> \<bar>coef_at d (- int k)\<bar>"
    by (simp add: coef_at_def abs_mult mult_le_cancel_left1)
  ultimately show ?thesis by (simp add: representable_def)
qed

lemma grid_add_exact: "grid k a \<Longrightarrow> grid k b \<Longrightarrow> grid k (dec_add_exact a b)"
  by (simp add: grid_def dec_add_exact_def Let_def)

lemma grid_dneg [simp]: "grid k (dneg d) = grid k d"
  by (simp add: grid_def dneg_def)

lemma dadd_exact:
  assumes "grid k a" "grid k b" "k \<le> prec" "\<bar>dval a + dval b\<bar> < 10 ^ (prec - k)"
  shows "dval (dadd a b) = dval a + dval b" "grid k (dadd a b)"
proof -
  have g: "grid k (dec_add_exact a b)" using assms by (simp add: grid_add_exact)
  then have "representable (dec_add_exact a b)" using assms by (intro grid_representable) auto
  then have "dadd a b = dec_add_exact a b" by (simp add: dadd_def)
  then show "dval (dadd a b) = dval a + dval b" "grid k (dadd a b)" using g by simp_all
qed

lemma dsub_exact:
  assumes "grid k a" "grid k b" "k \<le> prec" "\<bar>dval a - dval b\<bar> < 10 ^ (prec - k)"
  shows "dval (dsub a b) = dval a - dval b" "grid k (dsub a b)"
  using dadd_exact [of k a "dneg b"] assms by (simp_all add: dadd_def dsub_def)

lemma dmul_exact:
  assumes "grid k a" "grid l b" "k + l \<le> prec" "\<bar>dval a * dval b\<bar> < 10 ^ (prec - (k + l))"
  shows "dval (dmul a b) = dval a * dval b" "grid (k + l) (dmul a b)"
proof -
  have g: "grid (k + l) (dec_mul_exact a b)" using assms by (simp add: grid_def dec_mul_exact_def)
  then have "representable (dec_mul_exact a b)" using assms by (intro grid_representable) auto
  then have "dmul a b = dec_mul_exact a b" by (simp add: dmul_def)
  then show "dval (dmul a b) = dval a * dval b" "grid (k + l) (dmul a b)" using g by simp_all
qed

lemma grid_dmin: "grid k a \<Longrightarrow> grid k b \<Longrightarrow> grid k (dmin a b)"
  by (simp add: dmin_def)

text \<open>Two numbers on a grid that differ by less than its step are ordered as they seem.\<close>

lemma grid_le:
  assumes "grid k a" "grid k b" "dval a < dval b + 10 powi (- int k)"
  shows "dval a \<le> dval b"
proof -
  have a: "dval a = of_int (coef_at a (- int k)) * 10 powi (- int k)"
    and b: "dval b = of_int (coef_at b (- int k)) * 10 powi (- int k)"
    using coef_at_val [of "- int k" a] coef_at_val [of "- int k" b] assms by (simp_all add: grid_def)
  have "of_int (coef_at a (- int k)) * 10 powi (- int k)
      < of_int (coef_at b (- int k) + 1) * (10 powi (- int k) :: rat)"
    using assms(3) unfolding a b by (simp add: distrib_right)
  then have "coef_at a (- int k) < coef_at b (- int k) + 1"
    by (simp only: mult_less_cancel_right_pos [OF powi_10_pos] of_int_less_iff)
  then show ?thesis unfolding a b by (simp add: mult_right_mono)
qed

end
