(* ===== verification/PyValue.thy ===== *)
theory PyValue
  imports PyDecimal
begin

text \<open>
  The dynamic values the engine reads from JSON documents, database rows and mappings, with
  the built-in operations it applies to them: truth value, \<open>str\<close>, \<open>int\<close>, \<open>Decimal\<close> of a
  text, timezone handling of \<open>datetime\<close>. A float is represented by its \<open>repr\<close>, which
  is all the modelled code ever reads of one; a datetime counts microseconds.
\<close>

section \<open>Numerals\<close>

fun show_nat :: "nat \<Rightarrow> string" where
  "show_nat n = (if n < 10 then [char_of (48 + n)] else show_nat (n div 10) @ [char_of (48 + n mod 10)])"

declare show_nat.simps [simp del]

definition show_int :: "int \<Rightarrow> string" where
  "show_int i = (if i < 0 then ''-'' @ show_nat (nat (- i)) else show_nat (nat i))"

definition digit_val :: "char \<Rightarrow> nat" where
  "digit_val c = of_char c - 48"

definition read_nat :: "string \<Rightarrow> nat" where
  "read_nat s = foldl (\<lambda>n c. 10 * n + digit_val c) 0 s"

lemma is_digit_char_of: "n < 10 \<Longrightarrow> is_digit (char_of (48 + n :: nat))"
  by (simp add: is_digit_def Let_def)

lemma digit_val_char_of: "n < 10 \<Longrightarrow> digit_val (char_of (48 + n :: nat)) = n"
  by (simp add: digit_val_def)

lemma show_nat_digits: "c \<in> set (show_nat n) \<Longrightarrow> is_digit c"
proof (induction n rule: show_nat.induct)
  case (1 n)
  then show ?case
    by (cases "n < 10") (auto simp: show_nat.simps [of n] is_digit_char_of)
qed

lemma show_nat_not_Nil [simp]: "show_nat n \<noteq> []"
  by (simp add: show_nat.simps [of n])

lemma read_show_nat: "read_nat (show_nat n) = n"
proof (induction n rule: show_nat.induct)
  case (1 n)
  show ?case
  proof (cases "n < 10")
    case True
    then show ?thesis by (simp add: show_nat.simps [of n] read_nat_def digit_val_char_of)
  next
    case False
    with 1 have "read_nat (show_nat (n div 10)) = n div 10" by simp
    with False show ?thesis
      by (simp add: show_nat.simps [of n] read_nat_def digit_val_char_of)
  qed
qed

lemma show_nat_inj: "show_nat m = show_nat n \<longleftrightarrow> m = n"
  by (metis read_show_nat)

text \<open>The digits of an integer, computed without unary numbers.\<close>

definition digit_char :: "int \<Rightarrow> char" where
  "digit_char i = (if i = 1 then CHR ''1'' else if i = 2 then CHR ''2'' else if i = 3 then CHR ''3''
     else if i = 4 then CHR ''4'' else if i = 5 then CHR ''5'' else if i = 6 then CHR ''6''
     else if i = 7 then CHR ''7'' else if i = 8 then CHR ''8'' else if i = 9 then CHR ''9'' else CHR ''0'')"

function show_pos :: "int \<Rightarrow> string" where
  "show_pos i = (if i < 10 then [digit_char i] else show_pos (i div 10) @ [digit_char (i mod 10)])"
  by pat_completeness auto
termination by (relation "measure nat") auto

declare show_pos.simps [simp del]

lemma digit_char_of: "i < 10 \<Longrightarrow> digit_char i = char_of (48 + nat i)"
proof (cases "0 \<le> i")
  assume "0 \<le> i" "i < 10"
  then have "i \<in> {0, 1, 2, 3, 4, 5, 6, 7, 8, 9}" by simp arith
  then show ?thesis by (auto simp: digit_char_def char_of_def bit_Suc_0_iff)
qed (simp add: digit_char_def char_of_def bit_Suc_0_iff)

lemma show_nat_nat [code_unfold]: "show_nat (nat i) = show_pos i"
proof (induction i rule: show_pos.induct)
  case (1 i)
  have small: "digit_char (i mod 10) = char_of (48 + nat (i mod 10))" by (rule digit_char_of) simp
  show ?case
    using 1 small by (subst show_nat.simps, subst show_pos.simps)
      (auto simp: digit_char_of nat_div_distrib nat_mod_distrib)
qed

section \<open>Decimal texts\<close>

text \<open>\<open>str(Decimal)\<close>: the to-scientific-string conversion.\<close>

definition dec_str :: "dec \<Rightarrow> string" where
  "dec_str d =
     (let sign = (if coef d < 0 then ''-'' else ''''); ds = show_nat (nat \<bar>coef d\<bar>);
          left = dexp d + int (length ds);
          dot = (if dexp d \<le> 0 \<and> - 6 < left then left else 1);
          body = (if dot \<le> 0 then ''0.'' @ replicate (nat (- dot)) CHR ''0'' @ ds
                  else if int (length ds) \<le> dot
                    then ds @ replicate (nat (dot - int (length ds))) CHR ''0''
                  else take (nat dot) ds @ ''.'' @ drop (nat dot) ds);
          tail = (if left = dot then ''''
                  else ''E'' @ (if left - dot < 0 then '''' else ''+'') @ show_int (left - dot))
      in sign @ body @ tail)"

definition decimal_str :: "decimal \<Rightarrow> string" where
  "decimal_str v = (case v of Finite d \<Rightarrow> dec_str d
     | Infinite neg \<Rightarrow> (if neg then ''-Infinity'' else ''Infinity'') | NotANumber \<Rightarrow> ''NaN'')"

text \<open>\<open>normalize\<close>: round to the context, then drop trailing zeros; a zero becomes \<open>0\<close>.\<close>

function drop_zeros :: "int \<Rightarrow> int \<Rightarrow> dec" where
  "drop_zeros c e = (if c \<noteq> 0 \<and> c mod 10 = 0 then drop_zeros (c div 10) (e + 1) else Dec c e)"
  by pat_completeness auto
termination
  by (relation "measure (\<lambda>(c, e). nat \<bar>c\<bar>)") (auto elim!: dvdE simp: abs_mult)

declare drop_zeros.simps [simp del]

definition dnormalize :: "dec \<Rightarrow> dec" where
  "dnormalize d = (let r = dec_fix d in if coef r = 0 then Dec 0 0 else drop_zeros (coef r) (dexp r))"

lemma dval_drop_zeros [simp]: "dval (drop_zeros c e) = of_int c * 10 powi e"
proof (induction c e rule: drop_zeros.induct)
  case (1 c e)
  show ?case
  proof (cases "c \<noteq> 0 \<and> c mod 10 = 0")
    case True
    then have "(of_int c :: rat) = of_int (c div 10) * 10" by (auto elim!: dvdE)
    with 1 True show ?thesis by (simp add: drop_zeros.simps [of c e] power_int_add_1)
  qed (auto simp: drop_zeros.simps [of c e] dval_def)
qed

lemma dval_dnormalize: "dval (dnormalize d) = dval (dec_fix d)"
  by (simp add: dnormalize_def Let_def) (simp add: dval_def)

text \<open>\<open>format(d, 'f')\<close>, the plain notation.\<close>

definition dec_plain :: "dec \<Rightarrow> string" where
  "dec_plain d =
     (let sign = (if coef d < 0 then ''-'' else ''''); ds = show_nat (nat \<bar>coef d\<bar>);
          dot = dexp d + int (length ds)
      in sign @ (if 0 \<le> dexp d then ds @ replicate (nat (dexp d)) CHR ''0''
                 else if dot \<le> 0 then ''0.'' @ replicate (nat (- dot)) CHR ''0'' @ ds
                 else take (nat dot) ds @ ''.'' @ drop (nat dot) ds))"

text \<open>
  \<open>Decimal(text)\<close>: surrounding white space and underscores are dropped; a sign, digits with an
  optional point, and an optional exponent; or a special value.
\<close>

definition split_sign :: "string \<Rightarrow> bool \<times> string" where
  "split_sign s = (case s of c # r \<Rightarrow> if c = CHR ''-'' then (True, r)
     else if c = CHR ''+'' then (False, r) else (False, s) | [] \<Rightarrow> (False, s))"

definition read_exponent :: "string \<Rightarrow> int option" where
  "read_exponent s = (case s of [] \<Rightarrow> Some 0
     | c # r \<Rightarrow> if lower_char c = CHR ''e''
         then (let (neg, ds) = split_sign r in
           if ds \<noteq> [] \<and> list_all is_digit ds
           then Some (if neg then - int (read_nat ds) else int (read_nat ds)) else None)
         else None)"

definition read_decimal :: "string \<Rightarrow> decimal option" where
  "read_decimal text =
     (let (neg, s) = split_sign (filter (\<lambda>c. c \<noteq> CHR ''_'') (strip text));
          whole = takeWhile is_digit s; r = dropWhile is_digit s;
          frac = (case r of c # r' \<Rightarrow> if c = CHR ''.'' then takeWhile is_digit r' else [] | [] \<Rightarrow> []);
          tail = (case r of c # r' \<Rightarrow> if c = CHR ''.'' then dropWhile is_digit r' else r | [] \<Rightarrow> [])
      in if whole @ frac \<noteq> [] then
           (case read_exponent tail of None \<Rightarrow> None
            | Some e \<Rightarrow> let n = int (read_nat (whole @ frac)) in
                Some (Finite (Dec (if neg then - n else n) (e - int (length frac)))))
         else if lower s = ''inf'' \<or> lower s = ''infinity'' then Some (Infinite neg)
         else if (take 3 (lower s) = ''nan'' \<and> list_all is_digit (drop 3 s))
           \<or> (take 4 (lower s) = ''snan'' \<and> list_all is_digit (drop 4 s)) then Some NotANumber
         else None)"

section \<open>Datetimes\<close>

text \<open>
  A naive datetime is the microseconds of its wall clock since 1970; an aware one is the
  microseconds of its instant and its offset from UTC.
\<close>

datatype pytime = Naive int | Aware int int

definition instant :: "pytime \<Rightarrow> int" where
  "instant t = (case t of Naive us \<Rightarrow> us | Aware us _ \<Rightarrow> us)"

text \<open>The instant of an aware datetime, or \<open>ValueError\<close>: every module's \<open>_utc\<close> helper.\<close>

definition aware_utc :: "exn \<Rightarrow> pytime \<Rightarrow> int res" where
  "aware_utc e t = (case t of Naive _ \<Rightarrow> Inl e | Aware us _ \<Rightarrow> Inr us)"

lemma aware_utc_Inr [simp]: "aware_utc e t = Inr us \<longleftrightarrow> (\<exists>off. t = Aware us off)"
  by (auto simp: aware_utc_def split: pytime.splits)

text \<open>The civil date of a day number, days counted from 1970-01-01.\<close>

definition civil_of_days :: "int \<Rightarrow> int \<times> int \<times> int" where
  "civil_of_days z0 =
     (let z = z0 + 719468; era = z div 146097; doe = z mod 146097;
          yoe = (doe - doe div 1460 + doe div 36524 - doe div 146096) div 365;
          doy = doe - (365 * yoe + yoe div 4 - yoe div 100);
          mp = (5 * doy + 2) div 153;
          d = doy - (153 * mp + 2) div 5 + 1;
          m = (if mp < 10 then mp + 3 else mp - 9)
      in (yoe + era * 400 + (if m \<le> 2 then 1 else 0), m, d))"

definition pad :: "nat \<Rightarrow> int \<Rightarrow> string" where
  "pad w i = (let ds = show_nat (nat i) in replicate (w - length ds) CHR ''0'' @ ds)"

text \<open>\<open>isoformat\<close> of the wall clock \<open>us\<close>, without an offset.\<close>

definition iso_wall :: "int \<Rightarrow> string" where
  "iso_wall us =
     (let secs = us div 1000000; frac = us mod 1000000;
          (y, m, d) = civil_of_days (secs div 86400); s = secs mod 86400
      in pad 4 y @ ''-'' @ pad 2 m @ ''-'' @ pad 2 d @ ''T'' @ pad 2 (s div 3600) @ '':''
         @ pad 2 (s div 60 mod 60) @ '':'' @ pad 2 (s mod 60)
         @ (if frac = 0 then '''' else ''.'' @ pad 6 frac))"

definition iso_utc :: "int \<Rightarrow> string" where
  "iso_utc us = iso_wall us @ ''+00:00''"

text \<open>A span of microseconds as \<open>Decimal(str(delta.total_seconds()))\<close>.\<close>

definition seconds_dec :: "int \<Rightarrow> dec" where
  "seconds_dec us = Dec us (- 6)"

lemma dval_seconds_dec: "dval (seconds_dec us) = of_int us / 1000000"
  by (simp add: seconds_dec_def dval_def power_int_def field_simps)

definition us_per_ms :: int where "us_per_ms = 1000"

section \<open>Dynamic values\<close>

datatype pyval =
    PNone
  | PBool bool
  | PInt int
  | PFloat string
  | PStr string
  | PDec decimal
  | PTime pytime
  | PList "pyval list"
  | PDict "(string \<times> pyval) list"

type_synonym pydict = "(string \<times> pyval) list"

definition dget :: "pydict \<Rightarrow> string \<Rightarrow> pyval" where
  "dget d k = (case map_of d k of None \<Rightarrow> PNone | Some v \<Rightarrow> v)"

definition dindex :: "pydict \<Rightarrow> string \<Rightarrow> pyval res" where
  "dindex d k = (case map_of d k of None \<Rightarrow> Inl (KeyError k) | Some v \<Rightarrow> Inr v)"

definition is_float_zero :: "string \<Rightarrow> bool" where
  "is_float_zero t = (case read_decimal t of Some (Finite d) \<Rightarrow> coef d = 0 | _ \<Rightarrow> False)"

fun truthy :: "pyval \<Rightarrow> bool" where
  "truthy PNone = False"
| "truthy (PBool b) = b"
| "truthy (PInt i) = (i \<noteq> 0)"
| "truthy (PFloat t) = (\<not> is_float_zero t)"
| "truthy (PStr s) = (s \<noteq> [])"
| "truthy (PDec v) = (case v of Finite d \<Rightarrow> coef d \<noteq> 0 | _ \<Rightarrow> True)"
| "truthy (PTime _) = True"
| "truthy (PList xs) = (xs \<noteq> [])"
| "truthy (PDict d) = (d \<noteq> [])"

text \<open>\<open>str\<close> and \<open>repr\<close> of a dynamic value.\<close>

definition hex_digit :: "nat \<Rightarrow> char" where
  "hex_digit n = (if n < 10 then char_of (48 + n) else char_of (87 + n))"

definition repr_char :: "char \<Rightarrow> char \<Rightarrow> string" where
  "repr_char q c =
     (let n = of_char c :: nat in
      if c = q \<or> c = CHR 0x5C then [CHR 0x5C, c]
      else if c = CHR 0x0A then [CHR 0x5C, CHR ''n'']
      else if c = CHR 0x0D then [CHR 0x5C, CHR ''r'']
      else if c = CHR 0x09 then [CHR 0x5C, CHR ''t'']
      else if n < 32 \<or> n = 127 then [CHR 0x5C, CHR ''x'', hex_digit (n div 16), hex_digit (n mod 16)]
      else [c])"

definition repr_str :: "string \<Rightarrow> string" where
  "repr_str s = (let q = (if CHR 0x27 \<in> set s \<and> CHR 0x22 \<notin> set s then CHR 0x22 else CHR 0x27)
     in [q] @ concat (map (repr_char q) s) @ [q])"

definition comma_join :: "string \<Rightarrow> string list \<Rightarrow> string" where
  "comma_join sep xs = (case xs of [] \<Rightarrow> [] | y # ys \<Rightarrow> y @ concat (map (\<lambda>t. sep @ t) ys))"

definition offset_str :: "int \<Rightarrow> string" where
  "offset_str us = (let sg = (if us < 0 then ''-'' else ''+''); a = \<bar>us\<bar> div 1000000; f = \<bar>us\<bar> mod 1000000
     in sg @ pad 2 (a div 3600) @ '':'' @ pad 2 (a div 60 mod 60)
        @ (if a mod 60 = 0 \<and> f = 0 then '''' else '':'' @ pad 2 (a mod 60)
           @ (if f = 0 then '''' else ''.'' @ pad 6 f)))"

definition time_str :: "pytime \<Rightarrow> string" where
  "time_str t = (let blank = map (\<lambda>c. if c = CHR ''T'' then CHR '' '' else c) in
     case t of Naive us \<Rightarrow> blank (iso_wall us) | Aware us off \<Rightarrow> blank (iso_wall (us + off)) @ offset_str off)"

fun py_repr :: "pyval \<Rightarrow> string" where
  "py_repr PNone = ''None''"
| "py_repr (PBool b) = (if b then ''True'' else ''False'')"
| "py_repr (PInt i) = show_int i"
| "py_repr (PFloat t) = t"
| "py_repr (PStr s) = repr_str s"
| "py_repr (PDec v) = ''Decimal('' @ [CHR 0x27] @ decimal_str v @ [CHR 0x27] @ '')''"
| "py_repr (PTime t) = ''datetime.datetime('' @ time_str t @ '')''"
| "py_repr (PList xs) = ''['' @ comma_join '', '' (map py_repr xs) @ '']''"
| "py_repr (PDict d) = ''{'' @ comma_join '', '' (map (\<lambda>(k, v). repr_str k @ '': '' @ py_repr v) d) @ ''}''"

definition py_str :: "pyval \<Rightarrow> string" where
  "py_str v = (case v of PStr s \<Rightarrow> s | PDec x \<Rightarrow> decimal_str x | PTime t \<Rightarrow> time_str t | _ \<Rightarrow> py_repr v)"

text \<open>\<open>str(value or '')\<close>.\<close>

definition str_or_empty :: "pyval \<Rightarrow> string" where
  "str_or_empty v = (if truthy v then py_str v else '''')"

lemma py_str_PStr [simp]: "py_str (PStr s) = s"
  by (simp add: py_str_def)

lemma str_or_empty_PStr [simp]: "str_or_empty (PStr s) = s"
  by (simp add: str_or_empty_def)

text \<open>\<open>int(value)\<close>.\<close>

definition dtrunc :: "dec \<Rightarrow> int" where
  "dtrunc d = (if 0 \<le> dexp d then coef d * 10 ^ nat (dexp d)
     else sgn (coef d) * (\<bar>coef d\<bar> div 10 ^ nat (- dexp d)))"

definition read_int :: "string \<Rightarrow> int option" where
  "read_int text = (let (neg, ds) = split_sign (strip text); w = filter (\<lambda>c. c \<noteq> CHR ''_'') ds in
     if w \<noteq> [] \<and> list_all is_digit w \<and> hd ds \<noteq> CHR ''_'' \<and> last ds \<noteq> CHR ''_''
        \<and> \<not> sublist ''__'' ds
     then Some (if neg then - int (read_nat w) else int (read_nat w)) else None)"

definition py_int :: "pyval \<Rightarrow> int res" where
  "py_int v = (case v of
       PInt i \<Rightarrow> Inr i
     | PBool b \<Rightarrow> Inr (if b then 1 else 0)
     | PStr s \<Rightarrow> (case read_int s of Some i \<Rightarrow> Inr i | None \<Rightarrow> Inl (ValueError ''invalid literal for int()''))
     | PFloat t \<Rightarrow> (case read_decimal t of Some (Finite d) \<Rightarrow> Inr (dtrunc d)
         | _ \<Rightarrow> Inl (ValueError ''cannot convert float to integer''))
     | PDec x \<Rightarrow> (case x of Finite d \<Rightarrow> Inr (dtrunc d)
         | _ \<Rightarrow> Inl (ValueError ''cannot convert to integer''))
     | _ \<Rightarrow> Inl (TypeError ''int() argument''))"

text \<open>
  The numeric conversion every module writes as
  \<open>value if isinstance(value, Decimal) else Decimal(str(value))\<close>; \<open>None\<close> is
  \<open>InvalidOperation\<close>.
\<close>

definition to_decimal :: "pyval \<Rightarrow> decimal option" where
  "to_decimal v = (case v of PDec x \<Rightarrow> Some x | _ \<Rightarrow> read_decimal (py_str v))"

definition is_bool_or_none :: "pyval \<Rightarrow> bool" where
  "is_bool_or_none v = (case v of PNone \<Rightarrow> True | PBool _ \<Rightarrow> True | _ \<Rightarrow> False)"

text \<open>The conversion with the checks for a number, each failure with its own exception.\<close>

definition checked_decimal :: "exn \<Rightarrow> exn \<Rightarrow> pyval \<Rightarrow> dec res" where
  "checked_decimal not_numeric not_finite v =
     (if is_bool_or_none v then Inl not_numeric
      else (case to_decimal v of None \<Rightarrow> Inl not_numeric
        | Some x \<Rightarrow> (case x of Finite d \<Rightarrow> Inr d | _ \<Rightarrow> Inl not_finite)))"

lemma checked_decimal_PDec [simp]: "checked_decimal a b (PDec (Finite d)) = Inr d"
  by (simp add: checked_decimal_def is_bool_or_none_def to_decimal_def)

lemma checked_decimal_error: "checked_decimal a b v = Inl e \<Longrightarrow> e = a \<or> e = b"
  by (auto simp: checked_decimal_def split: if_splits option.splits decimal.splits)

definition is_true :: "pyval \<Rightarrow> bool" where
  "is_true v = (case v of PBool b \<Rightarrow> b | _ \<Rightarrow> False)"

definition is_false :: "pyval \<Rightarrow> bool" where
  "is_false v = (case v of PBool b \<Rightarrow> \<not> b | _ \<Rightarrow> False)"

lemma is_true_simps [simp]: "is_true (PBool b) = b" "is_false (PBool b) = (\<not> b)"
  by (simp_all add: is_true_def is_false_def)

end
