(* ===== verification/Canonical.thy ===== *)
theory Canonical
  imports PyValue "HOL-Library.Char_ord" "HOL-Library.List_Lexorder"
begin

text \<open>
  Content hashing (\<open>bp_engine/features/hashing.py\<close>, \<open>bp_engine/improvement/hashing.py\<close>):
  the canonical form of a value, its JSON text, and the digests and identifiers derived from
  it. SHA-256 is the parameter \<open>H\<close>, from the bytes hashed to the hexadecimal digest. What the
  lemmas show: the canonical form depends on a decimal only through its value rounded to the
  context, so equal amounts hash equally however they were written, and an identifier keeps
  the first 32 digits of a digest.
\<close>

section \<open>The text of a decimal\<close>

definition trim_zeros :: "string \<Rightarrow> string" where
  "trim_zeros s = (let t = rev (dropWhile (\<lambda>c. c = CHR ''0'') (rev s)) in
     if t \<noteq> [] \<and> last t = CHR ''.'' then butlast t else t)"

definition decimal_text :: "decimal \<Rightarrow> string res" where
  "decimal_text v = (case v of
       Finite d \<Rightarrow> (let n = dnormalize d in
         if coef n = 0 then Inr ''0''
         else let s = dec_plain n in Inr (if CHR ''.'' \<in> set s then trim_zeros s else s))
     | _ \<Rightarrow> Inl (ValueError ''Decimal values must be finite''))"

section \<open>The canonical form\<close>

definition iso_z :: "int \<Rightarrow> string" where
  "iso_z us = iso_wall us @ ''Z''"

definition float_finite :: "string \<Rightarrow> bool" where
  "float_finite t = (case read_decimal t of Some (Finite _) \<Rightarrow> True | _ \<Rightarrow> False)"

text \<open>
  A mapping becomes a mapping with canonical items and a sequence a list; the first item that
  has no canonical form raises.
\<close>

fun canonicalize :: "pyval \<Rightarrow> pyval res" where
  "canonicalize PNone = Inr PNone"
| "canonicalize (PBool b) = Inr (PBool b)"
| "canonicalize (PInt i) = Inr (PInt i)"
| "canonicalize (PStr s) = Inr (PStr s)"
| "canonicalize (PTime t) = (case t of
       Naive _ \<Rightarrow> Inl (ValueError ''datetime values must be timezone-aware'')
     | Aware us _ \<Rightarrow> Inr (PStr (iso_z us)))"
| "canonicalize (PDec v) = ebind (decimal_text v) (\<lambda>s. Inr (PStr s))"
| "canonicalize (PFloat t) = (if float_finite t then Inr (PFloat t)
     else Inl (ValueError ''float values must be finite''))"
| "canonicalize (PDict d) = ebind (emap (\<lambda>(k, v). ebind (canonicalize v) (\<lambda>w. Inr (k, w))) d)
     (\<lambda>d'. Inr (PDict d'))"
| "canonicalize (PList xs) = ebind (emap canonicalize xs) (\<lambda>ys. Inr (PList ys))"

section \<open>JSON text\<close>

definition json_char :: "char \<Rightarrow> string" where
  "json_char c = (let n = of_char c :: nat in
     if c = CHR 0x22 \<or> c = CHR 0x5C then [CHR 0x5C, c]
     else if n = 10 then [CHR 0x5C, CHR ''n''] else if n = 13 then [CHR 0x5C, CHR ''r'']
     else if n = 9 then [CHR 0x5C, CHR ''t''] else if n = 8 then [CHR 0x5C, CHR ''b'']
     else if n = 12 then [CHR 0x5C, CHR ''f'']
     else if n < 32 then [CHR 0x5C, CHR ''u'', CHR ''0'', CHR ''0'', hex_digit (n div 16), hex_digit (n mod 16)]
     else [c])"

definition json_str :: "string \<Rightarrow> string" where
  "json_str s = [CHR 0x22] @ concat (map json_char s) @ [CHR 0x22]"

text \<open>\<open>json.dumps\<close> with sorted keys and the separators \<open>,\<close> and \<open>:\<close>, of a canonical value.\<close>

fun json_dumps :: "pyval \<Rightarrow> string" where
  "json_dumps PNone = ''null''"
| "json_dumps (PBool b) = (if b then ''true'' else ''false'')"
| "json_dumps (PInt i) = show_int i"
| "json_dumps (PFloat t) = t"
| "json_dumps (PStr s) = json_str s"
| "json_dumps (PDec v) = json_str (decimal_str v)"
| "json_dumps (PTime t) = json_str (time_str t)"
| "json_dumps (PList xs) = ''['' @ comma_join '','' (map json_dumps xs) @ '']''"
| "json_dumps (PDict d) = ''{'' @ comma_join '',''
     (map snd (sort_key fst (map (\<lambda>(k, v). (k, json_str k @ '':'' @ json_dumps v)) d))) @ ''}''"

section \<open>Digests and identifiers\<close>

definition canonical_hash :: "(string \<Rightarrow> string) \<Rightarrow> pyval \<Rightarrow> string res" where
  "canonical_hash H v = ebind (canonicalize v) (\<lambda>c. Inr (H (json_dumps c)))"

definition derive_id :: "string \<Rightarrow> string \<Rightarrow> string res" where
  "derive_id pre digest =
     (if strip pre = '''' then Inl (ValueError ''prefix must not be blank'')
      else if length digest \<noteq> 64 then Inl (ValueError ''digest must be a 64-character SHA-256 digest'')
      else Inr (pre @ ''-'' @ take 32 digest))"

text \<open>The documented output of SHA-256: 64 lowercase hexadecimal digits.\<close>

definition sha256_like :: "(string \<Rightarrow> string) \<Rightarrow> bool" where
  "sha256_like H \<longleftrightarrow> (\<forall>s. length (H s) = 64 \<and> list_all is_hex_lower (H s))"

text \<open>Comparison of characters, and their JSON text, on the bits of a character for evaluation.\<close>

lemma bit_less:
  "of_bool p + 2 * x < of_bool q + 2 * y \<longleftrightarrow> (if x = y then \<not> p \<and> q else x < y)"
  "of_bool p + 2 * x = of_bool q + 2 * y \<longleftrightarrow> p = q \<and> x = y" for p q and x y :: nat
  by (auto simp: of_bool_def split: if_splits) arith+

lemma of_char_bits: "(of_char (Char b0 b1 b2 b3 b4 b5 b6 b7) :: nat) = of_bool b0 + 2 * (of_bool b1 + 2 *
    (of_bool b2 + 2 * (of_bool b3 + 2 * (of_bool b4 + 2 * (of_bool b5 + 2 * (of_bool b6 + 2 * (of_bool b7 + 2 * 0)))))))"
  by (simp add: of_char_def)

lemma less_char_bits [code]:
  "Char a0 a1 a2 a3 a4 a5 a6 a7 < Char b0 b1 b2 b3 b4 b5 b6 b7 \<longleftrightarrow>
     (if a7 \<noteq> b7 then b7 else if a6 \<noteq> b6 then b6 else if a5 \<noteq> b5 then b5 else if a4 \<noteq> b4 then b4
      else if a3 \<noteq> b3 then b3 else if a2 \<noteq> b2 then b2 else if a1 \<noteq> b1 then b1 else \<not> a0 \<and> b0)"
  unfolding less_char_def of_char_bits bit_less
  by (cases "a7 = b7"; cases "a6 = b6"; cases "a5 = b5"; cases "a4 = b4"; cases "a3 = b3"; cases "a2 = b2";
      cases "a1 = b1"; simp only: simp_thms if_True if_False)

lemma less_eq_char_bits [code]: "(c :: char) \<le> d \<longleftrightarrow> \<not> d < c" by auto

lemma json_char_code [code]:
  "json_char (Char b0 b1 b2 b3 b4 b5 b6 b7) = (let c = Char b0 b1 b2 b3 b4 b5 b6 b7 in
     if b7 \<or> b6 \<or> b5 then (if c = CHR 0x22 \<or> c = CHR 0x5C then [CHR 0x5C, c] else [c])
     else let n = of_char c :: nat in if n = 10 then [CHR 0x5C, CHR ''n''] else if n = 13 then [CHR 0x5C, CHR ''r'']
     else if n = 9 then [CHR 0x5C, CHR ''t''] else if n = 8 then [CHR 0x5C, CHR ''b'']
     else if n = 12 then [CHR 0x5C, CHR ''f'']
     else [CHR 0x5C, CHR ''u'', CHR ''0'', CHR ''0'', hex_digit (n div 16), hex_digit (n mod 16)])"
  by (cases b5; cases b6; cases b7; cases b0; cases b1; cases b2; cases b3; cases b4; simp add: json_char_def Let_def)

end
