(* ===== verification/ExecModels.thy ===== *)
theory ExecModels
  imports Canonical
begin

text \<open>
  The execution data model (\<open>bp_engine/execution/models.py\<close>): the paper configuration, the
  order request, its acknowledgements, and the four records of the paper ledger. A dataclass
  is a record whose decimals and timestamps are type parameters: as constructed they are
  unvalidated (\<^typ>\<open>decimal\<close>, \<^typ>\<open>pytime\<close>), and \<open>__post_init__\<close> turns them into finite
  decimals and UTC instants or raises \<open>ValueError\<close>. The lemmas show what a constructed record
  is guaranteed to satisfy.
\<close>

section \<open>Field validation\<close>

definition PAPER_EXECUTION_VERSION :: string where
  "PAPER_EXECUTION_VERSION = ''paper-execution-v1''"

definition V3_FROZEN_PAPER_EXECUTION_VERSION :: string where
  "V3_FROZEN_PAPER_EXECUTION_VERSION = ''paper-execution-v3-frozen-v1''"

definition allowed_execution_versions :: "string list" where
  "allowed_execution_versions = [PAPER_EXECUTION_VERSION, V3_FROZEN_PAPER_EXECUTION_VERSION]"

definition terminal_statuses :: "string list" where
  "terminal_statuses =
     [''FILLED'', ''CANCELLED'', ''EXPIRED'', ''MARKET_ENDED_UNFILLED'', ''INSUFFICIENT_PAPER_CASH'']"

definition positive_decimal :: "string \<Rightarrow> decimal \<Rightarrow> dec res" where
  "positive_decimal name v = (case v of
       Finite d \<Rightarrow> if dle d d0 then Inl (ValueError (name @ '' must be finite and greater than zero'')) else Inr d
     | _ \<Rightarrow> Inl (ValueError (name @ '' must be finite and greater than zero'')))"

definition nonnegative_decimal :: "string \<Rightarrow> decimal \<Rightarrow> dec res" where
  "nonnegative_decimal name v = (case v of
       Finite d \<Rightarrow> if dlt d d0 then Inl (ValueError (name @ '' must be finite and non-negative'')) else Inr d
     | _ \<Rightarrow> Inl (ValueError (name @ '' must be finite and non-negative'')))"

definition finite_decimal :: "string \<Rightarrow> decimal \<Rightarrow> dec res" where
  "finite_decimal name v = (case v of
       Finite d \<Rightarrow> Inr d | _ \<Rightarrow> Inl (ValueError (name @ '' must be finite'')))"

definition probability_price :: "string \<Rightarrow> decimal \<Rightarrow> dec res" where
  "probability_price name v = (case v of
       Finite d \<Rightarrow> if dlt d0 d \<and> dle d d1 then Inr d else Inl (ValueError (name @ '' must be within (0, 1]''))
     | _ \<Rightarrow> Inl (ValueError (name @ '' must be within (0, 1]'')))"

definition utc_time :: "pytime \<Rightarrow> int res" where
  "utc_time t = aware_utc (ValueError ''timestamp must be timezone-aware'') t"

definition text_field :: "string \<Rightarrow> string \<Rightarrow> string res" where
  "text_field name v = (let n = strip v in
     if n = '''' then Inl (ValueError (name @ '' must not be empty'')) else Inr n)"

definition is_sha256 :: "string \<Rightarrow> bool" where
  "is_sha256 s \<longleftrightarrow> length s = 64 \<and> list_all is_hex_lower s"

definition sha256_field :: "string \<Rightarrow> string \<Rightarrow> string res" where
  "sha256_field name v = (let n = lower v in
     if is_sha256 n then Inr n else Inl (ValueError (name @ '' must be a lowercase SHA-256 hex digest'')))"

text \<open>The pattern \<open>^(?:sha256:)?[0-9a-f]{64}$\<close>.\<close>

definition is_provenance_key :: "string \<Rightarrow> bool" where
  "is_provenance_key s \<longleftrightarrow> is_sha256 s \<or> (take 7 s = ''sha256:'' \<and> is_sha256 (drop 7 s))"

definition provenance_sha256_key :: "string \<Rightarrow> string \<Rightarrow> string res" where
  "provenance_sha256_key name v = (if is_provenance_key v then Inr v
     else Inl (ValueError (name @ '' must be a lowercase SHA-256 digest or recorder sha256 key'')))"

definition side_field :: "string \<Rightarrow> string res" where
  "side_field v = ebind (text_field ''selected_side'' v) (\<lambda>t.
     let n = lower t in if n \<in> {''up'', ''down''} then Inr n
     else Inl (ValueError ''selected_side must be up or down''))"

definition execution_version_ok :: "string \<Rightarrow> unit res" where
  "execution_version_ok v = require (v \<in> set allowed_execution_versions)
     (ValueError ''unsupported paper execution_version'')"

lemma positive_decimal_Inr: "positive_decimal n v = Inr d \<Longrightarrow> v = Finite d \<and> 0 < dval d"
  by (auto simp: positive_decimal_def dcmp split: decimal.splits if_splits)

lemma nonnegative_decimal_Inr: "nonnegative_decimal n v = Inr d \<Longrightarrow> v = Finite d \<and> 0 \<le> dval d"
  by (auto simp: nonnegative_decimal_def dcmp split: decimal.splits if_splits)

lemma probability_price_Inr: "probability_price n v = Inr d \<Longrightarrow> v = Finite d \<and> 0 < dval d \<and> dval d \<le> 1"
  by (auto simp: probability_price_def dcmp split: decimal.splits if_splits)

lemma finite_decimal_Inr: "finite_decimal n v = Inr d \<Longrightarrow> v = Finite d"
  by (auto simp: finite_decimal_def split: decimal.splits)

lemma utc_time_Inr: "utc_time t = Inr us \<Longrightarrow> \<exists>off. t = Aware us off"
  by (simp add: utc_time_def)

lemma text_field_Inr: "text_field n v = Inr s \<Longrightarrow> s = strip v \<and> s \<noteq> ''''"
  by (auto simp: text_field_def Let_def split: if_splits)

lemma sha256_field_Inr: "sha256_field n v = Inr s \<Longrightarrow> s = lower v \<and> is_sha256 s"
  by (auto simp: sha256_field_def Let_def split: if_splits)

lemma provenance_Inr: "provenance_sha256_key n v = Inr s \<Longrightarrow> s = v \<and> is_provenance_key s"
  by (auto simp: provenance_sha256_key_def split: if_splits)

lemma side_field_Inr: "side_field v = Inr s \<Longrightarrow> s = lower (strip v) \<and> s \<in> {''up'', ''down''}"
  by (auto simp: side_field_def Let_def dest!: text_field_Inr split: if_splits)

lemma execution_version_ok_Inr: "execution_version_ok v = Inr u \<Longrightarrow> v \<in> set allowed_execution_versions"
  by (simp add: execution_version_ok_def)

lemmas field_dests = positive_decimal_Inr nonnegative_decimal_Inr probability_price_Inr
  finite_decimal_Inr utc_time_Inr text_field_Inr sha256_field_Inr provenance_Inr side_field_Inr
  execution_version_ok_Inr

section \<open>The paper execution configuration\<close>

record 'd paper_config =
  pc_starting_cash_usd :: 'd
  pc_target_notional_usd :: 'd
  pc_latency_ms :: int
  pc_order_ttl_ms :: int
  pc_share_precision :: int
  pc_execution_version :: string
  pc_prediction_version :: "string option"
  pc_excluded_prediction_versions :: "string list"

definition default_paper_config :: "decimal paper_config" where
  "default_paper_config =
     \<lparr>pc_starting_cash_usd = Finite (Dec 10000 (- 2)), pc_target_notional_usd = Finite (Dec 500 (- 2)),
      pc_latency_ms = 250, pc_order_ttl_ms = 2000, pc_share_precision = 6,
      pc_execution_version = PAPER_EXECUTION_VERSION, pc_prediction_version = None,
      pc_excluded_prediction_versions = []\<rparr>"

definition paper_config_post_init :: "decimal paper_config \<Rightarrow> dec paper_config res" where
  "paper_config_post_init c =
     ebind (positive_decimal ''starting_cash_usd'' (pc_starting_cash_usd c)) (\<lambda>cash.
     ebind (positive_decimal ''target_notional_usd'' (pc_target_notional_usd c)) (\<lambda>target.
     ebind (require (0 < pc_latency_ms c) (ValueError ''latency_ms must be greater than zero'')) (\<lambda>_.
     ebind (require (0 < pc_order_ttl_ms c) (ValueError ''order_ttl_ms must be greater than zero'')) (\<lambda>_.
     ebind (require (0 \<le> pc_share_precision c \<and> pc_share_precision c \<le> 18)
       (ValueError ''share_precision must be within [0, 18]'')) (\<lambda>_.
     ebind (execution_version_ok (pc_execution_version c)) (\<lambda>_.
     ebind (case pc_prediction_version c of None \<Rightarrow> Inr None
       | Some v \<Rightarrow> ebind (text_field ''prediction_version'' v) (\<lambda>t. Inr (Some t))) (\<lambda>version.
     ebind (emap (text_field ''excluded_prediction_version'') (pc_excluded_prediction_versions c)) (\<lambda>excluded.
     ebind (require (distinct excluded) (ValueError ''excluded_prediction_versions must be unique'')) (\<lambda>_.
     ebind (require (case version of None \<Rightarrow> True | Some v \<Rightarrow> v \<notin> set excluded)
       (ValueError ''prediction_version cannot also be excluded'')) (\<lambda>_.
     Inr \<lparr>pc_starting_cash_usd = cash, pc_target_notional_usd = target,
          pc_latency_ms = pc_latency_ms c, pc_order_ttl_ms = pc_order_ttl_ms c,
          pc_share_precision = pc_share_precision c, pc_execution_version = pc_execution_version c,
          pc_prediction_version = version, pc_excluded_prediction_versions = excluded\<rparr>))))))))))"

definition paper_config_mapping :: "dec paper_config \<Rightarrow> pydict" where
  "paper_config_mapping c =
     [(''execution_version'', PStr (pc_execution_version c)),
      (''starting_cash_usd'', PStr (dec_str (pc_starting_cash_usd c))),
      (''target_notional_usd'', PStr (dec_str (pc_target_notional_usd c))),
      (''latency_ms'', PInt (pc_latency_ms c)),
      (''order_ttl_ms'', PInt (pc_order_ttl_ms c)),
      (''share_precision'', PInt (pc_share_precision c))]"

definition paper_config_ok :: "dec paper_config \<Rightarrow> bool" where
  "paper_config_ok c \<longleftrightarrow> 0 < dval (pc_starting_cash_usd c) \<and> 0 < dval (pc_target_notional_usd c)
     \<and> 0 < pc_latency_ms c \<and> 0 < pc_order_ttl_ms c
     \<and> 0 \<le> pc_share_precision c \<and> pc_share_precision c \<le> 18
     \<and> pc_execution_version c \<in> set allowed_execution_versions
     \<and> distinct (pc_excluded_prediction_versions c)
     \<and> (\<forall>v. pc_prediction_version c = Some v \<longrightarrow> v \<notin> set (pc_excluded_prediction_versions c))"

lemma paper_config_post_init_ok:
  "paper_config_post_init c = Inr c' \<Longrightarrow> paper_config_ok c'"
  unfolding paper_config_post_init_def
  by (clarsimp simp del: distinct.simps, (drule field_dests)+, clarsimp simp: paper_config_ok_def)

section \<open>The order request and its acknowledgements\<close>

record ('d, 't) order_request =
  rq_prediction_id :: string
  rq_prediction_semantic_sha256 :: string
  rq_condition_id :: string
  rq_token_id :: string
  rq_selected_side :: string
  rq_action :: string
  rq_requested_shares :: 'd
  rq_target_notional_usd :: 'd
  rq_submitted_at :: 't
  rq_arrival_at :: 't
  rq_expires_at :: 't
  rq_limit_price :: 'd
  rq_execution_version :: string
  rq_execution_config_sha256 :: string

type_synonym request = "(dec, int) order_request"

definition order_request_post_init :: "(decimal, pytime) order_request \<Rightarrow> request res" where
  "order_request_post_init r =
     ebind (text_field ''prediction_id'' (rq_prediction_id r)) (\<lambda>pid.
     ebind (sha256_field ''prediction_semantic_sha256'' (rq_prediction_semantic_sha256 r)) (\<lambda>psha.
     ebind (text_field ''condition_id'' (rq_condition_id r)) (\<lambda>cid.
     ebind (text_field ''token_id'' (rq_token_id r)) (\<lambda>tid.
     ebind (side_field (rq_selected_side r)) (\<lambda>side.
     ebind (require (rq_action r = ''BUY'') (ValueError ''Phase 12 execution action must be BUY'')) (\<lambda>_.
     ebind (positive_decimal ''requested_shares'' (rq_requested_shares r)) (\<lambda>shares.
     ebind (positive_decimal ''target_notional_usd'' (rq_target_notional_usd r)) (\<lambda>target.
     ebind (probability_price ''limit_price'' (rq_limit_price r)) (\<lambda>limit.
     ebind (utc_time (rq_submitted_at r)) (\<lambda>submitted.
     ebind (utc_time (rq_arrival_at r)) (\<lambda>arrival.
     ebind (utc_time (rq_expires_at r)) (\<lambda>expires.
     ebind (require (submitted \<le> arrival \<and> arrival < expires)
       (ValueError ''invalid timestamp order: require submitted_at <= arrival_at < expires_at'')) (\<lambda>_.
     ebind (execution_version_ok (rq_execution_version r)) (\<lambda>_.
     ebind (sha256_field ''execution_config_sha256'' (rq_execution_config_sha256 r)) (\<lambda>csha.
     Inr \<lparr>rq_prediction_id = pid, rq_prediction_semantic_sha256 = psha, rq_condition_id = cid,
          rq_token_id = tid, rq_selected_side = side, rq_action = rq_action r,
          rq_requested_shares = shares, rq_target_notional_usd = target,
          rq_submitted_at = submitted, rq_arrival_at = arrival, rq_expires_at = expires,
          rq_limit_price = limit, rq_execution_version = rq_execution_version r,
          rq_execution_config_sha256 = csha\<rparr>)))))))))))))))"

definition request_ok :: "request \<Rightarrow> bool" where
  "request_ok r \<longleftrightarrow> rq_action r = ''BUY'' \<and> rq_selected_side r \<in> {''up'', ''down''}
     \<and> 0 < dval (rq_requested_shares r) \<and> 0 < dval (rq_target_notional_usd r)
     \<and> 0 < dval (rq_limit_price r) \<and> dval (rq_limit_price r) \<le> 1
     \<and> rq_submitted_at r \<le> rq_arrival_at r \<and> rq_arrival_at r < rq_expires_at r
     \<and> is_sha256 (rq_prediction_semantic_sha256 r) \<and> is_sha256 (rq_execution_config_sha256 r)
     \<and> rq_execution_version r \<in> set allowed_execution_versions
     \<and> rq_prediction_id r \<noteq> '''' \<and> rq_condition_id r \<noteq> '''' \<and> rq_token_id r \<noteq> ''''"

lemma order_request_post_init_request_ok:
  "order_request_post_init r = Inr r' \<Longrightarrow> request_ok r'"
  by (auto simp: order_request_post_init_def request_ok_def dest!: field_dests)

definition order_request_mapping :: "request \<Rightarrow> pydict" where
  "order_request_mapping r =
     [(''prediction_id'', PStr (rq_prediction_id r)),
      (''prediction_semantic_sha256'', PStr (rq_prediction_semantic_sha256 r)),
      (''condition_id'', PStr (rq_condition_id r)),
      (''token_id'', PStr (rq_token_id r)),
      (''selected_side'', PStr (rq_selected_side r)),
      (''action'', PStr (rq_action r)),
      (''requested_shares'', PDec (Finite (rq_requested_shares r))),
      (''target_notional_usd'', PDec (Finite (rq_target_notional_usd r))),
      (''submitted_at'', PTime (Aware (rq_submitted_at r) 0)),
      (''arrival_at'', PTime (Aware (rq_arrival_at r) 0)),
      (''expires_at'', PTime (Aware (rq_expires_at r) 0)),
      (''limit_price'', PDec (Finite (rq_limit_price r))),
      (''execution_version'', PStr (rq_execution_version r)),
      (''execution_config_sha256'', PStr (rq_execution_config_sha256 r))]"

text \<open>\<open>as_mapping\<close> with \<open>raw=False\<close>: decimals and timestamps as text.\<close>

definition order_request_mapping_text :: "request \<Rightarrow> pydict" where
  "order_request_mapping_text r =
     map (\<lambda>(k, v). (k, case v of PDec (Finite d) \<Rightarrow> PStr (dec_str d)
        | PTime (Aware us off) \<Rightarrow> PStr (iso_utc us) | _ \<Rightarrow> v)) (order_request_mapping r)"

record 't order_ack =
  ack_order_id :: string
  ack_accepted :: bool
  ack_observed_at :: 't
  ack_reason :: string

definition order_ack_post_init :: "pytime order_ack \<Rightarrow> int order_ack res" where
  "order_ack_post_init a =
     ebind (text_field ''order_id'' (ack_order_id a)) (\<lambda>oid.
     ebind (utc_time (ack_observed_at a)) (\<lambda>obs.
     ebind (text_field ''reason'' (ack_reason a)) (\<lambda>reason.
     Inr \<lparr>ack_order_id = oid, ack_accepted = ack_accepted a, ack_observed_at = obs, ack_reason = reason\<rparr>)))"

record 't cancel_ack =
  cak_order_id :: string
  cak_cancelled :: bool
  cak_observed_at :: 't
  cak_reason :: string

definition cancel_ack_post_init :: "pytime cancel_ack \<Rightarrow> int cancel_ack res" where
  "cancel_ack_post_init a =
     ebind (text_field ''order_id'' (cak_order_id a)) (\<lambda>oid.
     ebind (utc_time (cak_observed_at a)) (\<lambda>obs.
     ebind (text_field ''reason'' (cak_reason a)) (\<lambda>reason.
     Inr \<lparr>cak_order_id = oid, cak_cancelled = cak_cancelled a, cak_observed_at = obs, cak_reason = reason\<rparr>)))"

section \<open>The records of the paper ledger\<close>

record ('d, 't) paper_order =
  po_paper_order_id :: string
  po_prediction_id :: string
  po_prediction_semantic_sha256 :: string
  po_execution_version :: string
  po_execution_config_sha256 :: string
  po_condition_id :: string
  po_token_id :: string
  po_selected_side :: string
  po_requested_shares :: 'd
  po_target_notional_usd :: 'd
  po_submitted_at :: 't
  po_arrival_at :: 't
  po_expires_at :: 't
  po_limit_price :: 'd
  po_signal_selected_ask :: 'd
  po_signal_fee_rate :: 'd
  po_signal_slippage_buffer :: 'd
  po_execution_config :: pydict
  po_semantic_sha256 :: string
  po_created_at :: 't

definition paper_order_post_init :: "(decimal, pytime) paper_order \<Rightarrow> (dec, int) paper_order res" where
  "paper_order_post_init p =
     ebind (text_field ''paper_order_id'' (po_paper_order_id p)) (\<lambda>oid.
     ebind (text_field ''prediction_id'' (po_prediction_id p)) (\<lambda>pid.
     ebind (text_field ''condition_id'' (po_condition_id p)) (\<lambda>cid.
     ebind (text_field ''token_id'' (po_token_id p)) (\<lambda>tid.
     ebind (sha256_field ''prediction_semantic_sha256'' (po_prediction_semantic_sha256 p)) (\<lambda>psha.
     ebind (sha256_field ''execution_config_sha256'' (po_execution_config_sha256 p)) (\<lambda>csha.
     ebind (sha256_field ''semantic_sha256'' (po_semantic_sha256 p)) (\<lambda>sha.
     ebind (execution_version_ok (po_execution_version p)) (\<lambda>_.
     ebind (side_field (po_selected_side p)) (\<lambda>side.
     ebind (positive_decimal ''requested_shares'' (po_requested_shares p)) (\<lambda>shares.
     ebind (positive_decimal ''target_notional_usd'' (po_target_notional_usd p)) (\<lambda>target.
     ebind (probability_price ''limit_price'' (po_limit_price p)) (\<lambda>limit.
     ebind (probability_price ''signal_selected_ask'' (po_signal_selected_ask p)) (\<lambda>ask.
     ebind (nonnegative_decimal ''signal_fee_rate'' (po_signal_fee_rate p)) (\<lambda>fee.
     ebind (nonnegative_decimal ''signal_slippage_buffer'' (po_signal_slippage_buffer p)) (\<lambda>slip.
     ebind (utc_time (po_submitted_at p)) (\<lambda>submitted.
     ebind (utc_time (po_arrival_at p)) (\<lambda>arrival.
     ebind (utc_time (po_expires_at p)) (\<lambda>expires.
     ebind (utc_time (po_created_at p)) (\<lambda>created.
     ebind (require (submitted \<le> arrival \<and> arrival < expires)
       (ValueError ''invalid timestamp order: require submitted_at <= arrival_at < expires_at'')) (\<lambda>_.
     Inr \<lparr>po_paper_order_id = oid, po_prediction_id = pid, po_prediction_semantic_sha256 = psha,
          po_execution_version = po_execution_version p, po_execution_config_sha256 = csha,
          po_condition_id = cid, po_token_id = tid, po_selected_side = side,
          po_requested_shares = shares, po_target_notional_usd = target, po_submitted_at = submitted,
          po_arrival_at = arrival, po_expires_at = expires, po_limit_price = limit,
          po_signal_selected_ask = ask, po_signal_fee_rate = fee, po_signal_slippage_buffer = slip,
          po_execution_config = po_execution_config p, po_semantic_sha256 = sha,
          po_created_at = created\<rparr>))))))))))))))))))))"

type_synonym paper_order_row = "(dec, int) paper_order"

definition paper_order_ok :: "paper_order_row \<Rightarrow> bool" where
  "paper_order_ok p \<longleftrightarrow> 0 < dval (po_requested_shares p) \<and> 0 < dval (po_target_notional_usd p)
     \<and> 0 < dval (po_limit_price p) \<and> dval (po_limit_price p) \<le> 1
     \<and> 0 < dval (po_signal_selected_ask p) \<and> dval (po_signal_selected_ask p) \<le> 1
     \<and> 0 \<le> dval (po_signal_fee_rate p) \<and> 0 \<le> dval (po_signal_slippage_buffer p)
     \<and> po_submitted_at p \<le> po_arrival_at p \<and> po_arrival_at p < po_expires_at p
     \<and> po_selected_side p \<in> {''up'', ''down''}
     \<and> is_sha256 (po_semantic_sha256 p) \<and> is_sha256 (po_prediction_semantic_sha256 p)
     \<and> is_sha256 (po_execution_config_sha256 p) \<and> po_execution_version p \<in> set allowed_execution_versions
     \<and> po_paper_order_id p \<noteq> '''' \<and> po_prediction_id p \<noteq> '''' \<and> po_condition_id p \<noteq> ''''
     \<and> po_token_id p \<noteq> ''''"

lemma paper_order_post_init_ok: "paper_order_post_init p = Inr p' \<Longrightarrow> paper_order_ok p'"
  unfolding paper_order_post_init_def
  by (clarsimp, (drule field_dests)+, clarsimp simp: paper_order_ok_def)

record ('d, 't) paper_fill =
  pf_paper_order_id :: string
  pf_fill_key :: string
  pf_fill_at :: 't
  pf_shares :: 'd
  pf_price :: 'd
  pf_gross_cost :: 'd
  pf_fee :: 'd
  pf_total_cost :: 'd
  pf_signal_ask_slippage :: 'd
  pf_book_anchor_event_id :: int
  pf_book_anchor_dedupe_key :: string
  pf_book_applied_event_ids :: "int list"
  pf_book_applied_dedupe_keys :: "string list"
  pf_replay_cutoff_at :: 't
  pf_semantic_sha256 :: string
  pf_created_at :: 't

type_synonym paper_fill_row = "(dec, int) paper_fill"

definition paper_fill_post_init :: "(decimal, pytime) paper_fill \<Rightarrow> paper_fill_row res" where
  "paper_fill_post_init f =
     ebind (text_field ''paper_order_id'' (pf_paper_order_id f)) (\<lambda>oid.
     ebind (text_field ''fill_key'' (pf_fill_key f)) (\<lambda>key.
     ebind (provenance_sha256_key ''book_anchor_dedupe_key'' (pf_book_anchor_dedupe_key f)) (\<lambda>anchor.
     ebind (sha256_field ''semantic_sha256'' (pf_semantic_sha256 f)) (\<lambda>sha.
     ebind (utc_time (pf_fill_at f)) (\<lambda>fill_at.
     ebind (utc_time (pf_replay_cutoff_at f)) (\<lambda>cutoff.
     ebind (utc_time (pf_created_at f)) (\<lambda>created.
     ebind (positive_decimal ''shares'' (pf_shares f)) (\<lambda>shares.
     ebind (probability_price ''price'' (pf_price f)) (\<lambda>price.
     ebind (nonnegative_decimal ''gross_cost'' (pf_gross_cost f)) (\<lambda>gross.
     ebind (nonnegative_decimal ''fee'' (pf_fee f)) (\<lambda>fee.
     ebind (nonnegative_decimal ''total_cost'' (pf_total_cost f)) (\<lambda>total.
     ebind (finite_decimal ''signal_ask_slippage'' (pf_signal_ask_slippage f)) (\<lambda>slip.
     ebind (require (0 < pf_book_anchor_event_id f)
       (ValueError ''book_anchor_event_id must be positive'')) (\<lambda>_.
     ebind (require (\<forall>i \<in> set (pf_book_applied_event_ids f). 0 < i)
       (ValueError ''book_applied_event_ids must be positive'')) (\<lambda>_.
     ebind (require (length (pf_book_applied_event_ids f) = length (pf_book_applied_dedupe_keys f))
       (ValueError ''book applied event ids and dedupe keys must align'')) (\<lambda>_.
     ebind (emap (provenance_sha256_key ''book_applied_dedupe_key'') (pf_book_applied_dedupe_keys f)) (\<lambda>_.
     Inr \<lparr>pf_paper_order_id = oid, pf_fill_key = key, pf_fill_at = fill_at, pf_shares = shares,
          pf_price = price, pf_gross_cost = gross, pf_fee = fee, pf_total_cost = total,
          pf_signal_ask_slippage = slip, pf_book_anchor_event_id = pf_book_anchor_event_id f,
          pf_book_anchor_dedupe_key = anchor, pf_book_applied_event_ids = pf_book_applied_event_ids f,
          pf_book_applied_dedupe_keys = pf_book_applied_dedupe_keys f,
          pf_replay_cutoff_at = cutoff, pf_semantic_sha256 = sha, pf_created_at = created\<rparr>)))))))))))))))))"

definition paper_fill_ok :: "paper_fill_row \<Rightarrow> bool" where
  "paper_fill_ok f \<longleftrightarrow> 0 < dval (pf_shares f) \<and> 0 < dval (pf_price f) \<and> dval (pf_price f) \<le> 1
     \<and> 0 \<le> dval (pf_gross_cost f) \<and> 0 \<le> dval (pf_fee f) \<and> 0 \<le> dval (pf_total_cost f)
     \<and> 0 < pf_book_anchor_event_id f \<and> (\<forall>i \<in> set (pf_book_applied_event_ids f). 0 < i)
     \<and> length (pf_book_applied_event_ids f) = length (pf_book_applied_dedupe_keys f)
     \<and> is_sha256 (pf_semantic_sha256 f) \<and> pf_paper_order_id f \<noteq> '''' \<and> pf_fill_key f \<noteq> ''''"

lemma paper_fill_post_init_ok: "paper_fill_post_init f = Inr f' \<Longrightarrow> paper_fill_ok f'"
  unfolding paper_fill_post_init_def
  by (clarsimp, (drule field_dests)+, clarsimp simp: paper_fill_ok_def)

record ('d, 't) paper_terminal =
  pt_paper_order_id :: string
  pt_terminal_status :: string
  pt_remaining_shares :: 'd
  pt_event_at :: 't
  pt_reason :: string
  pt_semantic_sha256 :: string
  pt_created_at :: 't

type_synonym paper_terminal_row = "(dec, int) paper_terminal"

definition paper_terminal_post_init :: "(decimal, pytime) paper_terminal \<Rightarrow> paper_terminal_row res" where
  "paper_terminal_post_init e =
     ebind (text_field ''paper_order_id'' (pt_paper_order_id e)) (\<lambda>oid.
     ebind (text_field ''terminal_status'' (pt_terminal_status e)) (\<lambda>st.
     ebind (require (upper st \<in> set terminal_statuses) (ValueError ''unsupported terminal_status'')) (\<lambda>_.
     ebind (nonnegative_decimal ''remaining_shares'' (pt_remaining_shares e)) (\<lambda>rem.
     ebind (utc_time (pt_event_at e)) (\<lambda>event_at.
     ebind (text_field ''reason'' (pt_reason e)) (\<lambda>reason.
     ebind (sha256_field ''semantic_sha256'' (pt_semantic_sha256 e)) (\<lambda>sha.
     ebind (utc_time (pt_created_at e)) (\<lambda>created.
     Inr \<lparr>pt_paper_order_id = oid, pt_terminal_status = upper st, pt_remaining_shares = rem,
          pt_event_at = event_at, pt_reason = reason, pt_semantic_sha256 = sha,
          pt_created_at = created\<rparr>))))))))"

definition title_outcome :: "string \<Rightarrow> string" where
  "title_outcome s = (case s of [] \<Rightarrow> [] | c # r \<Rightarrow> upper_char c # lower r)"

record ('d, 't) paper_settlement =
  ps_paper_order_id :: string
  ps_label_version :: string
  ps_official_outcome :: string
  ps_official_target :: int
  ps_label_source :: string
  ps_label_source_snapshot_sha256 :: string
  ps_label_source_observed_at :: 't
  ps_filled_shares :: 'd
  ps_total_fill_cost :: 'd
  ps_total_fees :: 'd
  ps_payout :: 'd
  ps_realized_pnl :: 'd
  ps_settled_at :: 't
  ps_semantic_sha256 :: string
  ps_created_at :: 't

type_synonym paper_settlement_row = "(dec, int) paper_settlement"

definition paper_settlement_post_init :: "(decimal, pytime) paper_settlement \<Rightarrow> paper_settlement_row res" where
  "paper_settlement_post_init s =
     ebind (text_field ''paper_order_id'' (ps_paper_order_id s)) (\<lambda>oid.
     ebind (text_field ''label_version'' (ps_label_version s)) (\<lambda>version.
     ebind (text_field ''label_source'' (ps_label_source s)) (\<lambda>source.
     ebind (text_field ''official_outcome'' (ps_official_outcome s)) (\<lambda>oc.
     ebind (require (lower oc \<in> {''up'', ''down''}) (ValueError ''official_outcome must be Up or Down'')) (\<lambda>_.
     ebind (require (ps_official_target s \<in> {0, 1}) (ValueError ''official_target must be 0 or 1'')) (\<lambda>_.
     ebind (sha256_field ''label_source_snapshot_sha256'' (ps_label_source_snapshot_sha256 s)) (\<lambda>snap.
     ebind (sha256_field ''semantic_sha256'' (ps_semantic_sha256 s)) (\<lambda>sha.
     ebind (utc_time (ps_label_source_observed_at s)) (\<lambda>observed.
     ebind (utc_time (ps_settled_at s)) (\<lambda>settled.
     ebind (utc_time (ps_created_at s)) (\<lambda>created.
     ebind (positive_decimal ''filled_shares'' (ps_filled_shares s)) (\<lambda>shares.
     ebind (nonnegative_decimal ''total_fill_cost'' (ps_total_fill_cost s)) (\<lambda>cost.
     ebind (nonnegative_decimal ''total_fees'' (ps_total_fees s)) (\<lambda>fees.
     ebind (nonnegative_decimal ''payout'' (ps_payout s)) (\<lambda>payout.
     ebind (finite_decimal ''realized_pnl'' (ps_realized_pnl s)) (\<lambda>pnl.
     Inr \<lparr>ps_paper_order_id = oid, ps_label_version = version,
          ps_official_outcome = title_outcome (lower oc), ps_official_target = ps_official_target s,
          ps_label_source = source, ps_label_source_snapshot_sha256 = snap,
          ps_label_source_observed_at = observed, ps_filled_shares = shares,
          ps_total_fill_cost = cost, ps_total_fees = fees, ps_payout = payout, ps_realized_pnl = pnl,
          ps_settled_at = settled, ps_semantic_sha256 = sha, ps_created_at = created\<rparr>))))))))))))))))"

lemma paper_terminal_post_init_status:
  "paper_terminal_post_init e = Inr e' \<Longrightarrow> pt_terminal_status e' \<in> set terminal_statuses
     \<and> 0 \<le> dval (pt_remaining_shares e') \<and> pt_reason e' \<noteq> ''''"
  unfolding paper_terminal_post_init_def by (clarsimp, (drule field_dests)+, clarsimp)

lemma title_outcome_simps [simp]:
  "title_outcome ''up'' = ''Up''" "title_outcome ''down'' = ''Down''"
  by code_simp+

lemma paper_settlement_post_init_ok:
  "paper_settlement_post_init s = Inr s' \<Longrightarrow> ps_official_outcome s' \<in> {''Up'', ''Down''}
     \<and> ps_official_target s' \<in> {0, 1} \<and> 0 < dval (ps_filled_shares s') \<and> 0 \<le> dval (ps_payout s')"
  unfolding paper_settlement_post_init_def
  by (clarsimp, (drule field_dests)+, clarsimp, (elim disjE; simp))

end
