(* ===== verification/Ledger.thy ===== *)
theory Ledger
  imports ExecModels
begin

text \<open>
  Append-only storage (the \<open>_store\<close> of \<open>bp_engine/execution/repository.py\<close> and
  \<open>_existing_or_insert\<close> of \<open>bp_engine/live_readiness/repository.py\<close>). A table is the list of
  its rows in insertion order. A store looks its natural key up first; a row found there must say
  the same, and otherwise the row is inserted. The locale states what a table needs for that to
  be safe (the natural key is not changed by the columns' coercion) and its lemmas what follows:
  rows are only ever appended, keys stay unique, storing again changes nothing, and a different
  row under a used key is refused.
\<close>

section \<open>Comparison of stored and new values\<close>

text \<open>Two decimals \<open>normalize\<close> to the same number.\<close>

definition same_dec :: "dec \<Rightarrow> dec \<Rightarrow> bool" where
  "same_dec a b \<longleftrightarrow> deq (dnormalize a) (dnormalize b)"

lemma same_dec_iff: "same_dec a b \<longleftrightarrow> dval (dec_fix a) = dval (dec_fix b)"
  by (simp add: same_dec_def deq_iff dval_dnormalize)

lemma same_dec_refl [simp]: "same_dec a a"
  by (simp add: same_dec_iff)

lemma same_dec_sym: "same_dec a b \<longleftrightarrow> same_dec b a"
  by (auto simp: same_dec_iff)

lemma same_dec_trans: "same_dec a b \<Longrightarrow> same_dec b c \<Longrightarrow> same_dec a c"
  by (simp add: same_dec_iff)

text \<open>\<open>_normalized\<close> of a dynamic value, and the equality of two normalised values.\<close>

fun normalized :: "pyval \<Rightarrow> pyval" where
  "normalized (PTime t) = PTime (Aware (instant t) 0)"
| "normalized (PDec v) = (case v of Finite d \<Rightarrow> PDec (Finite (dnormalize d)) | _ \<Rightarrow> PDec v)"
| "normalized (PDict d) = PDict (map (\<lambda>(k, v). (k, normalized v)) d)"
| "normalized (PList xs) = PList (map normalized xs)"
| "normalized v = v"

definition num_of :: "pyval \<Rightarrow> dec option" where
  "num_of v = (case v of PBool b \<Rightarrow> Some (Dec (if b then 1 else 0) 0) | PInt i \<Rightarrow> Some (Dec i 0)
     | PDec (Finite d) \<Rightarrow> Some d | _ \<Rightarrow> None)"

fun py_eq :: "pyval \<Rightarrow> pyval \<Rightarrow> bool" where
  "py_eq (PList xs) v = (case v of PList ys \<Rightarrow> list_all2 py_eq xs ys | _ \<Rightarrow> False)"
| "py_eq (PDict d) v = (case v of PDict e \<Rightarrow> length d = length e
      \<and> list_all (\<lambda>(k, x). case map_of e k of None \<Rightarrow> False | Some y \<Rightarrow> py_eq x y) d | _ \<Rightarrow> False)"
| "py_eq (PStr s) v = (v = PStr s)"
| "py_eq (PFloat s) v = (v = PFloat s)"
| "py_eq PNone v = (v = PNone)"
| "py_eq (PTime t) v = (case v of PTime u \<Rightarrow> (case (t, u) of (Naive a, Naive b) \<Rightarrow> a = b
      | (Aware a _, Aware b _) \<Rightarrow> a = b | _ \<Rightarrow> False) | _ \<Rightarrow> False)"
| "py_eq a v = (case (num_of a, num_of v) of (Some x, Some y) \<Rightarrow> deq x y
      | _ \<Rightarrow> (case (a, v) of (PDec (Infinite m), PDec (Infinite n)) \<Rightarrow> m = n | _ \<Rightarrow> False))"

definition same_json :: "pydict \<Rightarrow> pydict \<Rightarrow> bool" where
  "same_json a b \<longleftrightarrow> py_eq (normalized (PDict a)) (normalized (PDict b))"

section \<open>Storing a row\<close>

text \<open>
  \<open>others\<close> are the rows other connections commit between the look-up and the insertion. The
  insertion coerces the row to the columns (\<open>coerce\<close> raises for a value no column or check
  constraint admits), does nothing when the conflict target is taken, and raises when another
  unique constraint is violated (\<open>free\<close>). The result is the table and whether a row was created.
\<close>

definition insert_row ::
  "('r \<Rightarrow> 'k) \<Rightarrow> ('r \<Rightarrow> 'r res) \<Rightarrow> ('r list \<Rightarrow> 'r \<Rightarrow> bool) \<Rightarrow> 'r list \<Rightarrow> 'r \<Rightarrow> ('r list \<times> bool) res" where
  "insert_row key coerce free table r = ebind (coerce r) (\<lambda>s.
     if \<exists>x \<in> set table. key x = key s then Inr (table, False)
     else if \<not> free table s then Inl IntegrityError
     else Inr (table @ [s], True))"

definition lookup_row :: "('r \<Rightarrow> 'k) \<Rightarrow> 'r list \<Rightarrow> 'k \<Rightarrow> 'r option res" where
  "lookup_row key table k = one_or_none (filter (\<lambda>x. key x = k) table)"

definition store_row ::
  "('r \<Rightarrow> 'k) \<Rightarrow> ('r \<Rightarrow> 'r \<Rightarrow> bool) \<Rightarrow> ('r \<Rightarrow> 'r res) \<Rightarrow> ('r list \<Rightarrow> 'r \<Rightarrow> bool) \<Rightarrow> exn
    \<Rightarrow> 'r list \<Rightarrow> 'r list \<Rightarrow> 'r \<Rightarrow> ('r list \<times> bool) res" where
  "store_row key same coerce free conflict others table r =
     ebind (lookup_row key table (key r)) (\<lambda>found. case found of
       Some x \<Rightarrow> if same x r then Inr (table, False) else Inl conflict
     | None \<Rightarrow>
         ebind (insert_row key coerce free (table @ others) r) (\<lambda>(table', created).
         ebind (lookup_row key table' (key r)) (\<lambda>stored. case stored of
           None \<Rightarrow> Inl conflict
         | Some x \<Rightarrow> if same x r then Inr (table', created) else Inl conflict)))"

text \<open>A check constraint, and the absence of other unique constraints.\<close>

definition integrity :: "bool \<Rightarrow> unit res" where
  "integrity b = require b IntegrityError"

definition no_other :: "'r list \<Rightarrow> 'r \<Rightarrow> bool" where
  "no_other table r \<longleftrightarrow> True"

locale ledger_table =
  fixes key :: "'r \<Rightarrow> 'k"
    and same :: "'r \<Rightarrow> 'r \<Rightarrow> bool"
    and coerce :: "'r \<Rightarrow> 'r res"
    and free :: "'r list \<Rightarrow> 'r \<Rightarrow> bool"
  assumes key_coerce: "coerce r = Inr s \<Longrightarrow> key s = key r"
begin

abbreviation store where "store \<equiv> store_row key same coerce free"

lemma lookup_unique:
  assumes "unique_on key table" and "x \<in> set table"
  shows "lookup_row key table (key x) = Inr (Some x)"
  using unique_on_lookup [OF assms] by (simp add: lookup_row_def)

lemma insert_cases:
  assumes "insert_row key coerce free table r = Inr (table', created)"
  obtains "table' = table" "\<not> created" "\<exists>x \<in> set table. key x = key r"
  | s where "coerce r = Inr s" "key s = key r" "\<forall>x \<in> set table. key x \<noteq> key r" "free table s"
      "table' = table @ [s]" "created"
proof -
  obtain s where s: "coerce r = Inr s" using assms by (auto simp: insert_row_def)
  note k = key_coerce [OF s]
  show ?thesis
  proof (cases "\<exists>x \<in> set table. key x = key r")
    case True
    then have "\<exists>x \<in> set table. key x = key s" using k by auto
    then show ?thesis using assms s that(1) True by (simp add: insert_row_def)
  next
    case False
    then have none: "\<forall>x \<in> set table. key x \<noteq> key r" by blast
    then have "\<not> (\<exists>x \<in> set table. key x = key s)" using k by auto
    then show ?thesis using assms s k that(2) [OF s k none]
      by (simp add: insert_row_def split: if_splits)
  qed
qed

lemma insert_unique:
  assumes "insert_row key coerce free table r = Inr (table', created)" and "unique_on key table"
  shows "unique_on key table'"
  using assms(1) by (cases rule: insert_cases) (use assms(2) in auto)

lemma store_cases:
  assumes "store conflict others table r = Inr (table', created)"
  obtains (existing) x where "table' = table" "\<not> created" "x \<in> set table" "key x = key r" "same x r"
  | (raced) x where "table' = table @ others" "\<not> created" "x \<in> set others" "key x = key r" "same x r"
  | (inserted) s where "coerce r = Inr s" "key s = key r" "\<forall>x \<in> set (table @ others). key x \<noteq> key r"
      "free (table @ others) s" "same s r" "table' = table @ others @ [s]" "created"
proof -
  from assms consider
    x where "lookup_row key table (key r) = Inr (Some x)" "same x r" "table' = table" "\<not> created"
  | x where "lookup_row key table (key r) = Inr None"
      "insert_row key coerce free (table @ others) r = Inr (table', created)"
      "lookup_row key table' (key r) = Inr (Some x)" "same x r"
  proof -
    obtain f where f: "lookup_row key table (key r) = Inr f" using assms by (auto simp: store_row_def)
    show ?thesis
    proof (cases f)
      case None
      obtain t c y where ins: "insert_row key coerce free (table @ others) r = Inr (t, c)"
        and y: "lookup_row key t (key r) = Inr y"
        and res: "(case y of None \<Rightarrow> Inl conflict | Some x \<Rightarrow> if same x r then Inr (t, c) else Inl conflict)
          = Inr (table', created)"
        using assms f None by (auto simp: store_row_def)
      from res obtain x where "y = Some x" "same x r" "t = table'" "c = created"
        by (auto split: option.splits if_splits)
      with that(2) f None ins y show ?thesis by simp
    next
      case (Some x)
      with that(1) f assms show ?thesis by (simp add: store_row_def split: if_splits)
    qed
  qed
  then show ?thesis
  proof cases
    case 1
    then have "filter (\<lambda>y. key y = key r) table = [x]" by (simp add: lookup_row_def)
    then have "x \<in> set (filter (\<lambda>y. key y = key r) table)" by simp
    with 1 show ?thesis by (intro existing) auto
  next
    case 2
    have none: "\<forall>x \<in> set table. key x \<noteq> key r"
      using 2(1) by (auto simp: lookup_row_def filter_empty_conv)
    have "filter (\<lambda>y. key y = key r) table' = [x]" using 2(3) by (simp add: lookup_row_def)
    then have x: "x \<in> set (filter (\<lambda>y. key y = key r) table')" by simp
    from 2(2) show ?thesis
    proof (cases rule: insert_cases)
      case 1
      with x none 2(4) show ?thesis by (intro raced [of x]) auto
    next
      case ins: (2 s)
      then have "x = s" using x by auto
      with ins 2(4) show ?thesis by (intro inserted [of s]) auto
    qed
  qed
qed

lemma store_appends:
  assumes "store conflict others table r = Inr (table', created)"
  shows "\<exists>new. table' = table @ new \<and> set new \<subseteq> set others \<union> {s. coerce r = Inr s}"
  using assms by (cases rule: store_cases) auto

lemma store_unique:
  assumes "store conflict others table r = Inr (table', created)" and "unique_on key (table @ others)"
  shows "unique_on key table'"
  using assms(1)
proof (cases rule: store_cases)
  case existing
  with assms(2) show ?thesis by (auto simp: unique_on_def)
next
  case (inserted s)
  have "unique_on key ((table @ others) @ [s])"
    using assms(2) inserted by (simp only: unique_on_snoc) (metis imageE)
  with inserted show ?thesis by simp
qed (use assms(2) in simp)

lemma store_present:
  assumes "store conflict others table r = Inr (table', created)"
  shows "\<exists>x \<in> set table'. key x = key r \<and> same x r"
  using assms by (cases rule: store_cases) auto

lemma store_again:
  assumes "store conflict others table r = Inr (table', created)" and "unique_on key (table @ others)"
  shows "store conflict others' table' r = Inr (table', False)"
proof -
  obtain x where x: "x \<in> set table'" "key x = key r" "same x r" using store_present [OF assms(1)] by blast
  then show ?thesis
    using lookup_unique [OF store_unique [OF assms] x(1)] by (simp add: store_row_def)
qed

lemma store_refuses:
  assumes "unique_on key table" and "x \<in> set table" and "key x = key r" and "\<not> same x r"
  shows "store conflict others table r = Inl conflict"
  using lookup_unique [OF assms(1,2)] assms(3,4) by (simp add: store_row_def)

lemma store_raced:
  assumes "unique_on key (table @ others)" and "x \<in> set others" and "key x = key r" and "coerce r = Inr s"
  shows "store conflict others table r = (if same x r then Inr (table @ others, False) else Inl conflict)"
proof -
  have none: "\<forall>x \<in> set table. key x \<noteq> key r"
    using assms(1-3) by (simp add: unique_on_def) (metis disjoint_iff imageI)
  then have "lookup_row key table (key r) = Inr None" by (simp add: lookup_row_def filter_empty_conv)
  moreover have "insert_row key coerce free (table @ others) r = Inr (table @ others, False)"
    using assms(2-4) key_coerce by (auto simp: insert_row_def)
  moreover have "lookup_row key (table @ others) (key r) = Inr (Some x)"
    using lookup_unique [OF assms(1), of x] assms(2,3) by simp
  ultimately show ?thesis by (simp add: store_row_def)
qed

text \<open>A property of the rows that survives coercion is an invariant of the table.\<close>

lemma store_invariant:
  assumes "store conflict others table r = Inr (table', created)"
    and "\<forall>x \<in> set (table @ others). P x" and "\<And>s. coerce r = Inr s \<Longrightarrow> P s"
  shows "\<forall>x \<in> set table'. P x"
  using assms(1) by (cases rule: store_cases) (use assms(2,3) in auto)

end

end
