(* ===== verification/BookReplay.thy ===== *)
theory BookReplay
  imports ExecModels "HOL-Library.Product_Lexorder" "HOL-Library.Multiset"
begin

text \<open>
  Order book replay (\<open>bp_engine/execution/book.py\<close>): a token's book is rebuilt from a recorded
  snapshot (the anchor) and the price changes recorded after it. One side of the book is the
  Python dict from price to size, a list of pairs in insertion order whose prices differ in
  value; its abstraction is a map from the value of a price to the value of the size.
\<close>

section \<open>One side of a book\<close>

type_synonym levels = "(dec \<times> dec) list"

fun lv_get :: "levels \<Rightarrow> dec \<Rightarrow> dec option" where
  "lv_get [] p = None"
| "lv_get ((q, s) # l) p = (if deq p q then Some s else lv_get l p)"

text \<open>\<open>levels[price] = size\<close>: an existing key keeps its place and its own text.\<close>

fun lv_put :: "levels \<Rightarrow> dec \<Rightarrow> dec \<Rightarrow> levels" where
  "lv_put [] p s = [(p, s)]"
| "lv_put ((q, t) # l) p s = (if deq p q then (q, s) # l else (q, t) # lv_put l p s)"

text \<open>\<open>levels.pop(price, None)\<close>.\<close>

fun lv_pop :: "levels \<Rightarrow> dec \<Rightarrow> levels" where
  "lv_pop [] p = []"
| "lv_pop ((q, t) # l) p = (if deq p q then l else (q, t) # lv_pop l p)"

definition lv_prices :: "levels \<Rightarrow> rat list" where
  "lv_prices l = map (\<lambda>(p, s). dval p) l"

definition lv_ok :: "levels \<Rightarrow> bool" where
  "lv_ok l \<longleftrightarrow> distinct (lv_prices l)
     \<and> (\<forall>(p, s) \<in> set l. 0 \<le> dval p \<and> dval p \<le> 1 \<and> 0 < dval s)"

definition lv_abs :: "levels \<Rightarrow> rat \<Rightarrow> rat option" where
  "lv_abs l = map_of (map (\<lambda>(p, s). (dval p, dval s)) l)"

lemma lv_prices_simps [simp]:
  "lv_prices [] = []" "lv_prices ((p, s) # l) = dval p # lv_prices l"
  by (simp_all add: lv_prices_def)

lemma lv_abs_simps [simp]:
  "lv_abs [] = Map.empty" "lv_abs ((p, s) # l) = (lv_abs l)(dval p \<mapsto> dval s)"
  by (simp_all add: lv_abs_def)

lemma lv_abs_get: "lv_abs l (dval p) = map_option dval (lv_get l p)"
  by (induction l) (auto simp: deq_iff)

lemma dom_lv_abs: "dom (lv_abs l) = set (lv_prices l)"
  by (force simp: lv_abs_def lv_prices_def dom_map_of_conv_image_fst image_image)

lemma lv_abs_put [simp]: "lv_abs (lv_put l p s) = (lv_abs l)(dval p \<mapsto> dval s)"
  by (induction l) (auto simp: deq_iff fun_eq_iff)

lemma set_lv_put: "set (lv_prices (lv_put l p s)) = insert (dval p) (set (lv_prices l))"
  by (induction l) (auto simp: deq_iff split: if_splits)

lemma distinct_lv_put: "distinct (lv_prices l) \<Longrightarrow> distinct (lv_prices (lv_put l p s))"
  by (induction l) (auto simp: set_lv_put deq_iff split: if_splits)

lemma lv_put_elems: "(q, t) \<in> set (lv_put l p s) \<Longrightarrow>
    (q, t) \<in> set l \<or> t = s \<and> (dval q = dval p)"
  by (induction l) (auto simp: deq_iff split: if_splits)

lemma lv_pop_subset: "set (lv_pop l p) \<subseteq> set l"
  by (induction l) (auto split: if_splits)

lemma set_lv_pop: "distinct (lv_prices l) \<Longrightarrow> set (lv_prices (lv_pop l p)) = set (lv_prices l) - {dval p}"
  by (induction l) (auto simp: deq_iff split: if_splits)

lemma distinct_lv_pop: "distinct (lv_prices l) \<Longrightarrow> distinct (lv_prices (lv_pop l p))"
  by (induction l) (auto simp: set_lv_pop deq_iff split: if_splits)

lemma lv_abs_pop [simp]: "distinct (lv_prices l) \<Longrightarrow> lv_abs (lv_pop l p) = (lv_abs l)(dval p := None)"
proof (induction l)
  case (Cons a l)
  obtain q t where a: "a = (q, t)" by (cases a)
  have "dval q \<notin> dom (lv_abs l)" using Cons.prems by (simp add: a dom_lv_abs)
  then have q: "lv_abs l (dval q) = None" by (simp add: domIff)
  with Cons show ?case by (auto simp: a deq_iff fun_eq_iff)
qed simp

lemma lv_ok_Nil [simp]: "lv_ok []"
  by (simp add: lv_ok_def)

lemma lv_ok_put:
  "lv_ok l \<Longrightarrow> 0 \<le> dval p \<Longrightarrow> dval p \<le> 1 \<Longrightarrow> 0 < dval s \<Longrightarrow> lv_ok (lv_put l p s)"
  by (fastforce simp: lv_ok_def distinct_lv_put dest: lv_put_elems)

lemma lv_ok_pop: "lv_ok l \<Longrightarrow> lv_ok (lv_pop l p)"
  using lv_pop_subset [of l p] by (fastforce simp: lv_ok_def distinct_lv_pop)

lemma lv_ok_distinct: "lv_ok l \<Longrightarrow> distinct (lv_prices l)"
  by (simp add: lv_ok_def)

text \<open>The interface of a dict of price levels, for the loops that fill and change one.\<close>

locale price_levels =
  fixes put :: "'l \<Rightarrow> dec \<Rightarrow> dec \<Rightarrow> 'l"
    and pop :: "'l \<Rightarrow> dec \<Rightarrow> 'l"
    and abs :: "'l \<Rightarrow> rat \<Rightarrow> rat option"
    and ok :: "'l \<Rightarrow> bool"
  assumes abs_put: "ok l \<Longrightarrow> abs (put l p s) = (abs l)(dval p \<mapsto> dval s)"
    and abs_pop: "ok l \<Longrightarrow> abs (pop l p) = (abs l)(dval p := None)"
    and ok_put: "ok l \<Longrightarrow> 0 \<le> dval p \<Longrightarrow> dval p \<le> 1 \<Longrightarrow> 0 < dval s \<Longrightarrow> ok (put l p s)"
    and ok_pop: "ok l \<Longrightarrow> ok (pop l p)"
begin

lemma ok_set:
  assumes "ok l" "0 \<le> dval p" "dval p \<le> 1" "0 \<le> dval s"
  shows "ok (if coef s = 0 then pop l p else put l p s)"
proof (cases "coef s = 0")
  case False
  then have "0 < dval s" using assms(4) by (simp add: dval_nonneg_iff dval_pos_iff)
  with False assms show ?thesis by (simp add: ok_put)
qed (use assms in \<open>simp add: ok_pop\<close>)

lemma abs_set:
  "ok l \<Longrightarrow> abs (if coef s = 0 then pop l p else put l p s)
     = (abs l)(dval p := (if dval s = 0 then None else Some (dval s)))"
  by (auto simp: abs_put abs_pop dval_def)

end

interpretation lv: price_levels lv_put lv_pop lv_abs lv_ok
  by unfold_locales (simp_all add: lv_ok_put lv_ok_pop lv_ok_distinct)

text \<open>A change writes a size at a price, and removes the price when the size is zero.\<close>

definition lv_set :: "levels \<Rightarrow> dec \<Rightarrow> dec \<Rightarrow> levels" where
  "lv_set l p s = (if coef s = 0 then lv_pop l p else lv_put l p s)"

lemma abs_lv_set: "lv_ok l \<Longrightarrow>
    lv_abs (lv_set l p s) = (lv_abs l)(dval p := (if dval s = 0 then None else Some (dval s)))"
  unfolding lv_set_def by (rule lv.abs_set)

section \<open>Reading the payloads\<close>

definition bk :: "string \<Rightarrow> exn" where
  "bk s = BookReplayError s"

definition bk_aware_utc :: "pytime \<Rightarrow> int res" where
  "bk_aware_utc t = aware_utc (bk ''replay cutoff must be timezone-aware'') t"

definition bk_text :: "string \<Rightarrow> pyval \<Rightarrow> string res" where
  "bk_text name v = (case v of PStr s \<Rightarrow> if s = '''' then Inl (bk (name @ '' must be a non-empty string'')) else Inr s
     | _ \<Rightarrow> Inl (bk (name @ '' must be a non-empty string'')))"

definition bk_dedupe :: "string \<Rightarrow> string res" where
  "bk_dedupe v = (if is_provenance_key v then Inr v
     else Inl (bk ''raw event dedupe key must be a lowercase SHA-256 digest''))"

definition bk_decimal :: "string \<Rightarrow> pyval \<Rightarrow> dec res" where
  "bk_decimal name v = checked_decimal (bk (name @ '' must be numeric'')) (bk (name @ '' must be finite'')) v"

definition bk_price :: "pyval \<Rightarrow> dec res" where
  "bk_price v = ebind (bk_decimal ''price'' v) (\<lambda>d.
     if dle d0 d \<and> dle d d1 then Inr d else Inl (bk ''price must be within [0, 1]''))"

definition bk_size :: "pyval \<Rightarrow> dec res" where
  "bk_size v = ebind (bk_decimal ''size'' v) (\<lambda>d.
     if dlt d d0 then Inl (bk ''size must be non-negative'') else Inr d)"

definition bk_level :: "pyval \<Rightarrow> (dec \<times> dec) res" where
  "bk_level v = (case v of
       PDict d \<Rightarrow> (case (map_of d ''price'', map_of d ''size'') of
           (Some p, Some s) \<Rightarrow> ebind (bk_price p) (\<lambda>price. ebind (bk_size s) (\<lambda>size. Inr (price, size)))
         | _ \<Rightarrow> Inl (bk ''book level requires price and size''))
     | PList xs \<Rightarrow> (case xs of
           p # s # _ \<Rightarrow> ebind (bk_price p) (\<lambda>price. ebind (bk_size s) (\<lambda>size. Inr (price, size)))
         | _ \<Rightarrow> Inl (bk ''book level requires price and size''))
     | _ \<Rightarrow> Inl (bk ''book level must be an object or pair''))"

lemma bk_price_Inr: "bk_price v = Inr d \<Longrightarrow> 0 \<le> dval d \<and> dval d \<le> 1"
  by (auto simp: bk_price_def dcmp split: if_splits)

lemma bk_size_Inr: "bk_size v = Inr d \<Longrightarrow> 0 \<le> dval d"
  by (auto simp: bk_size_def dcmp split: if_splits)

lemma bk_level_Inr: "bk_level v = Inr (p, s) \<Longrightarrow> 0 \<le> dval p \<and> dval p \<le> 1 \<and> 0 \<le> dval s"
  by (auto simp: bk_level_def dest: bk_price_Inr bk_size_Inr split: pyval.splits option.splits list.splits)

definition bk_add_level :: "string \<Rightarrow> pyval \<Rightarrow> levels \<Rightarrow> levels res" where
  "bk_add_level side raw result = ebind (bk_level raw) (\<lambda>(price, size).
     if lv_get result price \<noteq> None then Inl (bk (''duplicate '' @ side @ '' price level''))
     else Inr (if dlt d0 size then lv_put result price size else result))"

definition bk_levels :: "string \<Rightarrow> pyval \<Rightarrow> levels res" where
  "bk_levels side payload = (case payload of
       PList raw \<Rightarrow> efold (bk_add_level side) raw []
     | _ \<Rightarrow> Inl (bk (side @ '' levels must be a list'')))"

definition bk_validate_market :: "pydict \<Rightarrow> string \<Rightarrow> string \<Rightarrow> unit res" where
  "bk_validate_market payload condition_id event_type =
     (if dget payload ''event_type'' \<noteq> PStr event_type
      then Inl (bk (''expected '' @ event_type @ '' payload''))
      else ebind (bk_text ''market'' (dget payload ''market'')) (\<lambda>m.
        require (m = condition_id) (bk ''raw event market conflicts with requested condition'')))"

definition lv_max :: "levels \<Rightarrow> dec" where
  "lv_max l = fold (\<lambda>(p, s) m. dmax m p) (tl l) (fst (hd l))"

definition lv_min :: "levels \<Rightarrow> dec" where
  "lv_min l = fold (\<lambda>(p, s) m. dmin m p) (tl l) (fst (hd l))"

definition bk_validate_not_crossed :: "levels \<Rightarrow> levels \<Rightarrow> unit res" where
  "bk_validate_not_crossed bids asks =
     (if bids = [] \<or> asks = [] then Inr ()
      else require (\<not> dle (lv_min asks) (lv_max bids)) (bk ''replayed book is crossed or locked''))"

definition not_crossed :: "levels \<Rightarrow> levels \<Rightarrow> bool" where
  "not_crossed bids asks \<longleftrightarrow> (\<forall>(b, _) \<in> set bids. \<forall>(a, _) \<in> set asks. dval b < dval a)"

lemma fold_dmax_ge: "dval m \<le> dval (fold (\<lambda>(p, s) m. dmax m p) l m)"
  and fold_dmax_in: "(p, s) \<in> set l \<Longrightarrow> dval p \<le> dval (fold (\<lambda>(p, s) m. dmax m p) l m)"
proof (induction l arbitrary: m)
  case (Cons a l)
  obtain q t where a: "a = (q, t)" by (cases a)
  { case 1 then show ?case using Cons.IH(1) [of "dmax m q"] by (simp add: a) }
  { case 2 then show ?case using Cons.IH(1) [of "dmax m q"] Cons.IH(2) [of "dmax m q"] by (auto simp: a) }
qed simp_all

lemma fold_dmin_le: "dval (fold (\<lambda>(p, s) m. dmin m p) l m) \<le> dval m"
  and fold_dmin_in: "(p, s) \<in> set l \<Longrightarrow> dval (fold (\<lambda>(p, s) m. dmin m p) l m) \<le> dval p"
proof (induction l arbitrary: m)
  case (Cons a l)
  obtain q t where a: "a = (q, t)" by (cases a)
  { case 1 then show ?case using Cons.IH(1) [of "dmin m q"] by (simp add: a) }
  { case 2 then show ?case using Cons.IH(1) [of "dmin m q"] Cons.IH(2) [of "dmin m q"] by (auto simp: a) }
qed simp_all

lemma lv_max_ge: "(p, s) \<in> set l \<Longrightarrow> dval p \<le> dval (lv_max l)"
  by (cases l) (auto simp: lv_max_def fold_dmax_ge dest: fold_dmax_in)

lemma lv_min_le: "(p, s) \<in> set l \<Longrightarrow> dval (lv_min l) \<le> dval p"
  by (cases l) (auto simp: lv_min_def fold_dmin_le dest: fold_dmin_in)

lemma bk_validate_not_crossed_Inr:
  "bk_validate_not_crossed bids asks = Inr u \<Longrightarrow> not_crossed bids asks"
  by (fastforce simp: bk_validate_not_crossed_def not_crossed_def dle_iff not_le split: if_splits
      dest: lv_max_ge lv_min_le)

section \<open>Applying the changes\<close>

text \<open>
  One entry of \<open>price_changes\<close>; the state is (bids, asks, whether a change of this token was
  seen).
\<close>

definition bk_apply_change :: "string \<Rightarrow> pyval \<Rightarrow> levels \<times> levels \<times> bool \<Rightarrow> (levels \<times> levels \<times> bool) res" where
  "bk_apply_change asset_id change st = (case st of (bids, asks, used) \<Rightarrow> (case change of
       PDict c \<Rightarrow>
         if str_or_empty (dget c ''asset_id'') \<noteq> asset_id then Inr (bids, asks, used)
         else let side = upper (str_or_empty (dget c ''side'')) in
           if side \<notin> {''BUY'', ''SELL''} then Inl (bk ''price_change side must be BUY or SELL'')
           else ebind (bk_price (dget c ''price'')) (\<lambda>price.
             ebind (bk_size (dget c ''size'')) (\<lambda>size.
             if side = ''BUY'' then Inr (lv_set bids price size, asks, True)
             else Inr (bids, lv_set asks price size, True)))
     | _ \<Rightarrow> Inl (bk ''price_change entry must be an object'')))"

definition bk_apply_changes ::
  "string \<Rightarrow> string \<Rightarrow> pydict \<Rightarrow> levels \<times> levels \<Rightarrow> (levels \<times> levels \<times> bool) res" where
  "bk_apply_changes condition_id asset_id payload st =
     ebind (bk_validate_market payload condition_id ''price_change'') (\<lambda>_.
     case dget payload ''price_changes'' of
       PList changes \<Rightarrow>
         ebind (efold (bk_apply_change asset_id) changes (fst st, snd st, False)) (\<lambda>(bids, asks, used).
         if used then ebind (bk_validate_not_crossed bids asks) (\<lambda>_. Inr (bids, asks, used))
         else Inr (bids, asks, used))
     | _ \<Rightarrow> Inl (bk ''price_change payload requires price_changes list''))"

record replayed_book =
  rb_condition_id :: string
  rb_asset_id :: string
  rb_bids :: levels
  rb_asks :: levels
  rb_anchor_event_id :: int
  rb_anchor_dedupe_key :: string
  rb_applied_event_ids :: "int list"
  rb_applied_dedupe_keys :: "string list"
  rb_replay_cutoff_at :: int

type_synonym applied_event = "int \<times> string \<times> pydict"

record replay_state =
  rs_bids :: levels
  rs_asks :: levels
  rs_used_ids :: "int list"
  rs_used_keys :: "string list"
  rs_previous_id :: int

definition bk_replay_event :: "string \<Rightarrow> string \<Rightarrow> applied_event \<Rightarrow> replay_state \<Rightarrow> replay_state res" where
  "bk_replay_event condition_id asset_id event st = (case event of (event_id, dedupe_key, payload) \<Rightarrow>
     if event_id \<le> 0 then Inl (bk ''applied event id must be positive'')
     else if event_id = rs_previous_id st then Inl (bk ''duplicate applied event id'')
     else ebind (bk_dedupe dedupe_key) (\<lambda>key.
       ebind (bk_apply_changes condition_id asset_id payload (rs_bids st, rs_asks st)) (\<lambda>(bids, asks, used).
       let st' = st\<lparr>rs_bids := bids, rs_asks := asks, rs_previous_id := event_id\<rparr> in
       Inr (if used then st'\<lparr>rs_used_ids := rs_used_ids st @ [event_id],
                             rs_used_keys := rs_used_keys st @ [key]\<rparr> else st'))))"

text \<open>\<open>sorted(levels.items())\<close>: the prices differ, so they alone order the pairs.\<close>

definition lv_sorted :: "levels \<Rightarrow> levels" where
  "lv_sorted l = sort_key (\<lambda>(p, s). dval p) l"

definition bk_finish :: "string \<Rightarrow> string \<Rightarrow> int \<Rightarrow> string \<Rightarrow> int \<Rightarrow> replay_state \<Rightarrow> replayed_book" where
  "bk_finish condition_id asset_id anchor_id anchor_key cutoff st =
     \<lparr>rb_condition_id = condition_id, rb_asset_id = asset_id,
      rb_bids = rev (lv_sorted (rs_bids st)), rb_asks = lv_sorted (rs_asks st),
      rb_anchor_event_id = anchor_id, rb_anchor_dedupe_key = anchor_key,
      rb_applied_event_ids = rs_used_ids st, rb_applied_dedupe_keys = rs_used_keys st,
      rb_replay_cutoff_at = cutoff\<rparr>"

definition replay_book_payloads ::
  "string \<Rightarrow> string \<Rightarrow> int \<Rightarrow> string \<Rightarrow> pydict \<Rightarrow> applied_event list \<Rightarrow> pytime \<Rightarrow> replayed_book res" where
  "replay_book_payloads condition_id asset_id anchor_id anchor_key anchor_payload events cutoff_at =
     ebind (require (0 < anchor_id) (bk ''anchor event id must be positive'')) (\<lambda>_.
     ebind (bk_dedupe anchor_key) (\<lambda>_.
     ebind (bk_aware_utc cutoff_at) (\<lambda>cutoff.
     ebind (bk_validate_market anchor_payload condition_id ''book'') (\<lambda>_.
     ebind (bk_text ''asset_id'' (dget anchor_payload ''asset_id'')) (\<lambda>asset.
     ebind (require (asset = asset_id) (bk ''book anchor asset conflicts with requested token'')) (\<lambda>_.
     ebind (bk_levels ''bid'' (dget anchor_payload ''bids'')) (\<lambda>bids.
     ebind (bk_levels ''ask'' (dget anchor_payload ''asks'')) (\<lambda>asks.
     ebind (bk_validate_not_crossed bids asks) (\<lambda>_.
     ebind (efold (bk_replay_event condition_id asset_id) events
       \<lparr>rs_bids = bids, rs_asks = asks, rs_used_ids = [], rs_used_keys = [], rs_previous_id = anchor_id\<rparr>) (\<lambda>st.
     Inr (bk_finish condition_id asset_id anchor_id anchor_key cutoff st)))))))))))"

section \<open>The book at an instant\<close>

record raw_event =
  re_id :: int
  re_source :: string
  re_stream :: string
  re_instrument :: string
  re_event_type :: string
  re_asset_id :: "string option"
  re_received_at :: int
  re_dedupe_key :: string
  re_payload :: pydict

definition re_order :: "raw_event \<Rightarrow> int \<times> int" where
  "re_order e = (re_received_at e, re_id e)"

definition market_event :: "string \<Rightarrow> raw_event \<Rightarrow> bool" where
  "market_event condition_id e \<longleftrightarrow> re_source e = ''polymarket'' \<and> re_stream e = ''market''
     \<and> re_instrument e = condition_id"

definition anchor_events :: "raw_event list \<Rightarrow> string \<Rightarrow> string \<Rightarrow> int \<Rightarrow> raw_event list" where
  "anchor_events table condition_id asset_id cutoff =
     filter (\<lambda>e. market_event condition_id e \<and> re_event_type e = ''book''
       \<and> re_asset_id e = Some asset_id \<and> re_received_at e \<le> cutoff) table"

definition change_events :: "raw_event list \<Rightarrow> string \<Rightarrow> raw_event \<Rightarrow> int \<Rightarrow> raw_event list" where
  "change_events table condition_id anchor cutoff =
     sort_key re_order (filter (\<lambda>e. market_event condition_id e \<and> re_event_type e = ''price_change''
       \<and> (re_received_at anchor < re_received_at e
          \<or> re_received_at e = re_received_at anchor \<and> re_id anchor < re_id e)
       \<and> re_received_at e \<le> cutoff) table)"

definition book_at :: "raw_event list \<Rightarrow> string \<Rightarrow> string \<Rightarrow> pytime \<Rightarrow> replayed_book option res" where
  "book_at table condition_id asset_id observed_at =
     ebind (bk_aware_utc observed_at) (\<lambda>cutoff.
     case last_option (sort_key re_order (anchor_events table condition_id asset_id cutoff)) of
       None \<Rightarrow> Inr None
     | Some anchor \<Rightarrow>
         ebind (replay_book_payloads condition_id asset_id (re_id anchor) (re_dedupe_key anchor)
           (re_payload anchor)
           (map (\<lambda>e. (re_id e, re_dedupe_key e, re_payload e)) (change_events table condition_id anchor cutoff))
           (Aware cutoff 0)) (\<lambda>book. Inr (Some book)))"

section \<open>What a replayed book satisfies\<close>

lemma lv_set_level_ok:
  assumes "lv_ok l" "bk_price pv = Inr p" "bk_size sv = Inr s"
  shows "lv_ok (lv_set l p s)"
  unfolding lv_set_def using lv.ok_set [OF assms(1)] bk_price_Inr [OF assms(2)] bk_size_Inr [OF assms(3)] by blast

lemma bk_levels_ok: "bk_levels side payload = Inr l \<Longrightarrow> lv_ok l"
proof -
  assume l: "bk_levels side payload = Inr l"
  then obtain raw where "efold (bk_add_level side) raw [] = Inr l"
    by (auto simp: bk_levels_def split: pyval.splits)
  then show "lv_ok l"
    by (rule efold_invariant [where P = lv_ok])
      (auto simp: bk_add_level_def dlt_iff lv_ok_put dest!: bk_level_Inr split: if_splits)
qed

definition change_inv :: "levels \<Rightarrow> levels \<Rightarrow> levels \<times> levels \<times> bool \<Rightarrow> bool" where
  "change_inv b0 a0 st = (case st of (b, a, u) \<Rightarrow> lv_ok b \<and> lv_ok a \<and> (\<not> u \<longrightarrow> b = b0 \<and> a = a0))"

lemma bk_apply_change_cases:
  assumes "bk_apply_change asset c (b, a, u) = Inr (b', a', u')"
  obtains (other) d where "c = PDict d" "str_or_empty (dget d ''asset_id'') \<noteq> asset" "b' = b" "a' = a" "u' = u"
  | (buy) d p s where "c = PDict d" "str_or_empty (dget d ''asset_id'') = asset"
      "upper (str_or_empty (dget d ''side'')) = ''BUY''"
      "bk_price (dget d ''price'') = Inr p" "bk_size (dget d ''size'') = Inr s"
      "b' = lv_set b p s" "a' = a" "u'"
  | (sell) d p s where "c = PDict d" "str_or_empty (dget d ''asset_id'') = asset"
      "upper (str_or_empty (dget d ''side'')) = ''SELL''"
      "bk_price (dget d ''price'') = Inr p" "bk_size (dget d ''size'') = Inr s"
      "b' = b" "a' = lv_set a p s" "u'"
proof (cases c)
  case (PDict d)
  show ?thesis
  proof (cases "str_or_empty (dget d ''asset_id'') = asset")
    case False
    with assms PDict show ?thesis by (intro other [of d]) (auto simp: bk_apply_change_def)
  next
    case True
    show ?thesis
    proof (cases "upper (str_or_empty (dget d ''side'')) = ''BUY''")
      case side: True
      with assms PDict True show ?thesis by (auto simp: bk_apply_change_def Let_def intro: buy)
    next
      case side: False
      with assms PDict True show ?thesis
        by (auto simp: bk_apply_change_def Let_def split: if_splits intro: sell)
    qed
  qed
qed (use assms in \<open>simp_all add: bk_apply_change_def\<close>)

lemma bk_apply_change_inv:
  assumes "change_inv b0 a0 st" and "bk_apply_change asset c st = Inr st'"
  shows "change_inv b0 a0 st'"
proof -
  obtain b a u b' a' u' where st: "st = (b, a, u)" "st' = (b', a', u')" by (metis prod_cases3)
  have ok: "lv_ok b" "lv_ok a" using assms(1) by (simp_all add: change_inv_def st)
  from assms(2) [unfolded st] show ?thesis
    by (cases rule: bk_apply_change_cases)
      (use assms(1) ok in \<open>auto simp: change_inv_def st lv_set_level_ok\<close>)
qed

lemma bk_apply_changes_ok:
  assumes res: "bk_apply_changes cid asset payload (b, a) = Inr (b', a', u)"
    and ok: "lv_ok b" "lv_ok a" and nc: "not_crossed b a"
  shows "lv_ok b' \<and> lv_ok a' \<and> not_crossed b' a'"
proof -
  obtain changes where
    run: "efold (bk_apply_change asset) changes (b, a, False) = Inr (b', a', u)"
    and chk: "u \<Longrightarrow> bk_validate_not_crossed b' a' = Inr ()"
    using res by (auto simp: bk_apply_changes_def split: pyval.splits if_splits)
  have "change_inv b a (b', a', u)"
    using run by (rule efold_invariant) (use ok in \<open>auto simp: change_inv_def [of b a "(b, a, False)"]
      intro: bk_apply_change_inv\<close>)
  then have inv: "lv_ok b'" "lv_ok a'" "\<not> u \<longrightarrow> b' = b \<and> a' = a"
    by (simp_all add: change_inv_def)
  then show ?thesis using nc chk bk_validate_not_crossed_Inr [of b' a'] by auto
qed

definition replay_inv :: "replay_state \<Rightarrow> bool" where
  "replay_inv st \<longleftrightarrow> lv_ok (rs_bids st) \<and> lv_ok (rs_asks st) \<and> not_crossed (rs_bids st) (rs_asks st)
     \<and> length (rs_used_ids st) = length (rs_used_keys st) \<and> (\<forall>i \<in> set (rs_used_ids st). 0 < i)
     \<and> list_all is_provenance_key (rs_used_keys st)"

lemma bk_replay_event_inv:
  assumes "replay_inv st" and "bk_replay_event cid asset ev st = Inr st'"
  shows "replay_inv st'"
proof -
  obtain i key payload where ev: "ev = (i, key, payload)" by (metis prod_cases3)
  from assms(2) obtain b a u where i: "0 < i" and key: "is_provenance_key key"
    and ch: "bk_apply_changes cid asset payload (rs_bids st, rs_asks st) = Inr (b, a, u)"
    and st': "st' = (let st' = st\<lparr>rs_bids := b, rs_asks := a, rs_previous_id := i\<rparr> in
       if u then st'\<lparr>rs_used_ids := rs_used_ids st @ [i], rs_used_keys := rs_used_keys st @ [key]\<rparr> else st')"
    by (auto simp: bk_replay_event_def ev bk_dedupe_def Let_def not_le split: if_splits)
  have "lv_ok b \<and> lv_ok a \<and> not_crossed b a"
    using ch assms(1) by (intro bk_apply_changes_ok) (auto simp: replay_inv_def)
  then show ?thesis
    using assms(1) i key by (auto simp: replay_inv_def st' Let_def)
qed

lemma set_lv_sorted [simp]: "set (lv_sorted l) = set l"
  by (simp add: lv_sorted_def)

lemma lv_sorted_strict:
  assumes "lv_ok l"
  shows "sorted_wrt (\<lambda>x y. dval (fst x) < dval (fst y)) (lv_sorted l)"
proof -
  have "map (\<lambda>x. dval (fst x)) (lv_sorted l) = map (\<lambda>(p, s). dval p) (lv_sorted l)"
    by (simp add: case_prod_beta comp_def)
  moreover have "sorted (map (\<lambda>(p, s). dval p) (lv_sorted l))"
    by (simp add: lv_sorted_def)
  moreover have "distinct (map (\<lambda>(p, s). dval p) (lv_sorted l))"
  proof -
    have "mset (map (\<lambda>(p, s). dval p) (lv_sorted l)) = mset (lv_prices l)"
      by (simp add: lv_sorted_def lv_prices_def mset_map)
    then show ?thesis using assms by (metis lv_ok_def mset_eq_imp_distinct_iff)
  qed
  ultimately have "sorted_wrt (<) (map (\<lambda>x. dval (fst x)) (lv_sorted l))"
    by (metis strict_sorted_iff)
  then show ?thesis by (simp add: sorted_wrt_map)
qed

definition levels_valid :: "levels \<Rightarrow> bool" where
  "levels_valid l \<longleftrightarrow> (\<forall>(p, s) \<in> set l. 0 \<le> dval p \<and> dval p \<le> 1 \<and> 0 < dval s)"

definition book_wf :: "replayed_book \<Rightarrow> bool" where
  "book_wf b \<longleftrightarrow>
     sorted_wrt (\<lambda>x y. dval (fst y) < dval (fst x)) (rb_bids b)
     \<and> sorted_wrt (\<lambda>x y. dval (fst x) < dval (fst y)) (rb_asks b)
     \<and> levels_valid (rb_bids b) \<and> levels_valid (rb_asks b)
     \<and> not_crossed (rb_bids b) (rb_asks b)
     \<and> length (rb_applied_event_ids b) = length (rb_applied_dedupe_keys b)
     \<and> (\<forall>i \<in> set (rb_applied_event_ids b). 0 < i) \<and> 0 < rb_anchor_event_id b
     \<and> is_provenance_key (rb_anchor_dedupe_key b) \<and> list_all is_provenance_key (rb_applied_dedupe_keys b)"

lemma bk_finish_wf:
  assumes "replay_inv st" "0 < i" "is_provenance_key k"
  shows "book_wf (bk_finish cid asset i k cutoff st)"
  using assms lv_sorted_strict [of "rs_bids st"] lv_sorted_strict [of "rs_asks st"]
  by (auto simp: replay_inv_def book_wf_def bk_finish_def levels_valid_def lv_ok_def not_crossed_def
      sorted_wrt_rev)

text \<open>C5: whatever snapshot and changes were recorded, a replay that returns a book returns a
  well-formed one: bids strictly descending, asks strictly ascending, every price within
  [0, 1], every size positive, the best bid strictly below the best ask, and evidence ids and
  keys aligned, positive and well-formed.
\<close>

theorem replay_book_wf:
  assumes "replay_book_payloads cid asset i k anchor events cutoff = Inr b"
  shows "book_wf b \<and> rb_condition_id b = cid \<and> rb_asset_id b = asset"
proof -
  obtain bids asks c st where i: "0 < i" and k: "is_provenance_key k"
    and lv: "bk_levels ''bid'' (dget anchor ''bids'') = Inr bids" "bk_levels ''ask'' (dget anchor ''asks'') = Inr asks"
    and nc: "bk_validate_not_crossed bids asks = Inr ()"
    and run: "efold (bk_replay_event cid asset) events
       \<lparr>rs_bids = bids, rs_asks = asks, rs_used_ids = [], rs_used_keys = [], rs_previous_id = i\<rparr> = Inr st"
    and b: "b = bk_finish cid asset i k c st"
    using assms by (auto simp: replay_book_payloads_def bk_dedupe_def split: if_splits)
  have "replay_inv st"
    using run by (rule efold_invariant)
      (use bk_levels_ok [OF lv(1)] bk_levels_ok [OF lv(2)] bk_validate_not_crossed_Inr [OF nc]
        in \<open>auto simp: replay_inv_def [of "\<lparr>rs_bids = bids, rs_asks = asks, rs_used_ids = [],
          rs_used_keys = [], rs_previous_id = i\<rparr>"] intro: bk_replay_event_inv\<close>)
  then show ?thesis using i k by (auto simp: b bk_finish_wf) (simp_all add: bk_finish_def)
qed

definition ex_key :: string where
  "ex_key = ''sha256:'' @ replicate 64 CHR ''a''"

definition ex_level :: "string \<Rightarrow> string \<Rightarrow> pyval" where
  "ex_level p s = PDict [(''price'', PStr p), (''size'', PStr s)]"

definition ex_anchor :: pydict where
  "ex_anchor = [(''event_type'', PStr ''book''), (''market'', PStr ''c''), (''asset_id'', PStr ''t''),
     (''bids'', PList [ex_level ''0.48'' ''30'', ex_level ''0.47'' ''0'']),
     (''asks'', PList [ex_level ''0.55'' ''10'', ex_level ''0.52'' ''25.5''])]"

definition ex_change :: "string \<Rightarrow> string \<Rightarrow> string \<Rightarrow> pydict" where
  "ex_change side p s = [(''event_type'', PStr ''price_change''), (''market'', PStr ''c''),
     (''price_changes'', PList [PDict [(''asset_id'', PStr ''t''), (''side'', PStr side),
        (''price'', PStr p), (''size'', PStr s)]])]"

definition ex_replay :: "replayed_book res" where
  "ex_replay = replay_book_payloads ''c'' ''t'' 7 ex_key ex_anchor
     [(8, ex_key, ex_change ''sell'' ''0.52'' ''0''), (9, ex_key, ex_change ''BUY'' ''0.5'' ''4'')] (Aware 1000 0)"

lemma not_isl_projr: "\<not> isl x \<Longrightarrow> x = Inr (projr x)"
  by (cases x) simp_all

theorem replay_book_wf_witness:
  "book_wf (projr ex_replay) \<and> rb_applied_event_ids (projr ex_replay) = [8, 9]"
proof -
  have "\<not> isl ex_replay" by code_simp
  then have r: "ex_replay = Inr (projr ex_replay)" by (rule not_isl_projr)
  have "rb_applied_event_ids (projr ex_replay) = [8, 9]" by code_simp
  then show ?thesis using replay_book_wf [OF r [unfolded ex_replay_def]] by (simp add: ex_replay_def)
qed

lemma filter_until:
  assumes "filter (\<lambda>e. t e \<le> c) xs = filter (\<lambda>e. t e \<le> c) ys" and "\<And>e. P e \<Longrightarrow> t e \<le> c"
  shows "filter P xs = filter P ys"
proof -
  have "filter P zs = filter P (filter (\<lambda>e. t e \<le> c) zs)" for zs
    using assms(2) by (induction zs) auto
  then show ?thesis using assms(1) by metis
qed

lemma book_at_prefix:
  assumes "\<And>P. (\<And>e. P e \<Longrightarrow> re_received_at e \<le> c) \<Longrightarrow> filter P t1 = filter P t2"
  shows "book_at t1 cid asset (Aware c off) = book_at t2 cid asset (Aware c off)"
proof -
  have a: "anchor_events t1 cid asset c = anchor_events t2 cid asset c"
    unfolding anchor_events_def by (rule assms) simp
  have "change_events t1 cid an c = change_events t2 cid an c" for an
    unfolding change_events_def by (subst assms) simp_all
  with a show ?thesis by (simp add: book_at_def bk_aware_utc_def aware_utc_def split: option.splits)
qed

text \<open>C28: the book at an instant is causal: two event tables with the same events received by then
  give the same book, however they differ afterwards.
\<close>

theorem book_at_causal:
  assumes "filter (\<lambda>e. re_received_at e \<le> c) t1 = filter (\<lambda>e. re_received_at e \<le> c) t2"
  shows "book_at t1 cid asset (Aware c off) = book_at t2 cid asset (Aware c off)"
  by (rule book_at_prefix, rule filter_until [OF assms])

definition ex_raw :: "int \<Rightarrow> string \<Rightarrow> int \<Rightarrow> pydict \<Rightarrow> raw_event" where
  "ex_raw i kind received payload = \<lparr>re_id = i, re_source = ''polymarket'', re_stream = ''market'',
     re_instrument = ''c'', re_event_type = kind, re_asset_id = Some ''t'', re_received_at = received,
     re_dedupe_key = ex_key, re_payload = payload\<rparr>"

definition ex_table :: "raw_event list" where
  "ex_table = [ex_raw 7 ''book'' 100 ex_anchor, ex_raw 8 ''price_change'' 200 (ex_change ''SELL'' ''0.52'' ''0'')]"

theorem book_at_causal_witness:
  "book_at (ex_table @ [ex_raw 9 ''price_change'' 300 (ex_change ''BUY'' ''0.9'' ''1'')]) ''c'' ''t'' (Aware 250 0)
     = book_at ex_table ''c'' ''t'' (Aware 250 0)"
proof (rule book_at_causal)
  show "filter (\<lambda>e. re_received_at e \<le> 250)
      (ex_table @ [ex_raw 9 ''price_change'' 300 (ex_change ''BUY'' ''0.9'' ''1'')]) =
    filter (\<lambda>e. re_received_at e \<le> 250) ex_table"
    by (simp add: ex_table_def ex_raw_def)
qed

section \<open>The abstract book\<close>

text \<open>
  The specification of a list of price changes: each one of the token writes the size at its
  price on its side, a size of zero removes the price, and the rest are ignored.
\<close>

type_synonym abs_book = "(rat \<Rightarrow> rat option) \<times> (rat \<Rightarrow> rat option)"

definition parsed_change :: "string \<Rightarrow> pyval \<Rightarrow> (bool \<times> rat \<times> rat) option" where
  "parsed_change asset change = (case change of
       PDict c \<Rightarrow>
         if str_or_empty (dget c ''asset_id'') \<noteq> asset then None
         else (case (bk_price (dget c ''price''), bk_size (dget c ''size'')) of
             (Inr p, Inr s) \<Rightarrow> Some (upper (str_or_empty (dget c ''side'')) = ''BUY'', dval p, dval s)
           | _ \<Rightarrow> None)
     | _ \<Rightarrow> None)"

definition level_set :: "(rat \<Rightarrow> rat option) \<Rightarrow> rat \<Rightarrow> rat \<Rightarrow> (rat \<Rightarrow> rat option)" where
  "level_set m p s = m(p := (if s = 0 then None else Some s))"

fun abs_apply :: "bool \<times> rat \<times> rat \<Rightarrow> abs_book \<Rightarrow> abs_book" where
  "abs_apply (buy, p, s) (B, A) = (if buy then (level_set B p s, A) else (B, level_set A p s))"

lemma bk_apply_change_refines:
  assumes "bk_apply_change asset c (b, a, u) = Inr (b', a', u')" and "lv_ok b" "lv_ok a"
  shows "(lv_abs b', lv_abs a') = fold abs_apply (case parsed_change asset c of None \<Rightarrow> [] | Some x \<Rightarrow> [x])
      (lv_abs b, lv_abs a)"
    and "u' = (u \<or> parsed_change asset c \<noteq> None)"
  using assms(1)
  by (cases rule: bk_apply_change_cases;
      simp add: parsed_change_def abs_lv_set assms level_set_def)+

text \<open>C14: the loop over the price changes refines the specification: after it, each side is the
  side before it with the token's changes written in their order (so the last write of a price
  wins), and the loop reports whether there was any.
\<close>

theorem bk_apply_changes_refines:
  assumes "efold (bk_apply_change asset) changes (b, a, u) = Inr (b', a', u')" and "lv_ok b" "lv_ok a"
  shows "(lv_abs b', lv_abs a') = fold abs_apply (List.map_filter (parsed_change asset) changes) (lv_abs b, lv_abs a)
    \<and> u' = (u \<or> List.map_filter (parsed_change asset) changes \<noteq> [])"
  using assms
proof (induction changes arbitrary: b a u)
  case Nil
  then show ?case by (simp add: List.map_filter_def)
next
  case (Cons c cs)
  obtain b1 a1 u1 where c: "bk_apply_change asset c (b, a, u) = Inr (b1, a1, u1)"
    and rest: "efold (bk_apply_change asset) cs (b1, a1, u1) = Inr (b', a', u')"
    using Cons.prems(1) by auto
  have "change_inv b a (b1, a1, True)"
    using bk_apply_change_inv [OF _ c, of b a] Cons.prems(2,3) by (auto simp: change_inv_def)
  then have "lv_ok b1" "lv_ok a1" by (simp_all add: change_inv_def)
  note IH = Cons.IH [OF rest this]
  show ?case
    using IH bk_apply_change_refines [OF c Cons.prems(2,3)]
    by (cases "parsed_change asset c") (auto simp: List.map_filter_def)
qed

theorem bk_apply_changes_refines_witness:
  "\<exists>b a u. efold (bk_apply_change ''t'')
      [PDict [(''asset_id'', PStr ''t''), (''side'', PStr ''BUY''), (''price'', PStr ''0.4''), (''size'', PStr ''3'')],
       PDict [(''asset_id'', PStr ''t''), (''side'', PStr ''BUY''), (''price'', PStr ''0.40''), (''size'', PStr ''5'')]]
      ([], [], False) = Inr (b, a, u) \<and> lv_abs b (2 / 5) = Some 5"
proof -
  let ?cs = "[PDict [(''asset_id'', PStr ''t''), (''side'', PStr ''BUY''), (''price'', PStr ''0.4''), (''size'', PStr ''3'')],
       PDict [(''asset_id'', PStr ''t''), (''side'', PStr ''BUY''), (''price'', PStr ''0.40''), (''size'', PStr ''5'')]]"
  have run: "efold (bk_apply_change ''t'') ?cs ([], [], False) = Inr ([(Dec 4 (- 1), Dec 5 0)], [], True)"
    by code_simp
  have "List.map_filter (parsed_change ''t'') ?cs = [(True, 2 / 5, 3), (True, 2 / 5, 5)]"
    by code_simp
  then show ?thesis
    using bk_apply_changes_refines [OF run] run by (auto simp: level_set_def)
qed

end
