(* ===== verification/PaperSim.thy ===== *)
theory PaperSim
  imports BookReplay
begin

text \<open>
  The paper execution simulator (\<open>bp_engine/execution/paper.py\<close>): an order is sized from an
  immutable prediction so that its worst case fits the cash (\<open>build_paper_order\<close>), and filled
  against the ask depth that replayed books newly display (\<open>simulate_buy\<close>). \<open>H\<close> is SHA-256.
\<close>

section \<open>Drafts\<close>

record paper_draft =
  dr_request :: request
  dr_signal_selected_ask :: dec
  dr_signal_fee_rate :: dec
  dr_signal_slippage_buffer :: dec
  dr_execution_config :: pydict
  dr_market_end_at :: "int option"

record terminal_draft =
  tm_status :: string
  tm_remaining_shares :: dec
  tm_event_at :: "int option"
  tm_reason :: string

record fill_draft =
  fl_fill_at :: int
  fl_shares :: dec
  fl_price :: dec
  fl_gross_cost :: dec
  fl_fee :: dec
  fl_total_cost :: dec
  fl_signal_ask_slippage :: dec
  fl_book_anchor_event_id :: int
  fl_book_anchor_dedupe_key :: string
  fl_book_applied_event_ids :: "int list"
  fl_book_applied_dedupe_keys :: "string list"
  fl_replay_cutoff_at :: int

record simulation =
  sm_fills :: "fill_draft list"
  sm_terminal :: terminal_draft
  sm_filled_shares :: dec
  sm_remaining_shares :: dec
  sm_total_cost :: dec

datatype paper_decision = Draft paper_draft | Terminal terminal_draft

definition pp_decimal :: "string \<Rightarrow> pyval \<Rightarrow> dec res" where
  "pp_decimal name v = checked_decimal (ValueError (name @ '' must be numeric'')) (ValueError (name @ '' must be finite'')) v"

definition pp_utc :: "string \<Rightarrow> pyval \<Rightarrow> int res" where
  "pp_utc name v = (case v of
       PTime t \<Rightarrow> aware_utc (ValueError (name @ '' must be timezone-aware'')) t
     | _ \<Rightarrow> Inl (ValueError (name @ '' must be a datetime'')))"

definition terminal :: "string \<Rightarrow> string \<Rightarrow> int option \<Rightarrow> dec \<Rightarrow> terminal_draft" where
  "terminal status reason event_at remaining =
     \<lparr>tm_status = status, tm_remaining_shares = remaining, tm_event_at = event_at, tm_reason = reason\<rparr>"

section \<open>Sizing an order\<close>

definition skip_reason :: "pydict \<Rightarrow> string option" where
  "skip_reason p =
     (if \<not> is_true (dget p ''trade'') then Some ''trade=false''
      else if \<not> is_true (dget p ''executable'') then Some ''executable=false''
      else if lower (str_or_empty (dget p ''selected_side'')) \<notin> {''up'', ''down''}
        then Some ''selected_side must be up or down''
      else if dget p ''selected_ask'' = PNone then Some ''selected_ask is required''
      else (case dget p ''edge_config'' of
          PDict e \<Rightarrow> if dget e ''fee_rate'' = PNone then Some ''edge_config fee_rate is required'' else None
        | _ \<Rightarrow> Some ''edge_config fee_rate is required''))"

definition safe_recorded_at :: "pydict \<Rightarrow> int option" where
  "safe_recorded_at p = (case dget p ''recorded_at'' of
       PTime t \<Rightarrow> (case t of Aware us _ \<Rightarrow> Some us | Naive _ \<Rightarrow> None) | _ \<Rightarrow> None)"

text \<open>\<open>str\<close> of the two exceptions the sizing catches.\<close>

definition exn_text :: "exn \<Rightarrow> string" where
  "exn_text e = (case e of ValueError m \<Rightarrow> m | KeyError k \<Rightarrow> repr_str k | _ \<Rightarrow> '''')"

record order_inputs =
  in_selected_side :: string
  in_selected_ask :: dec
  in_slippage_buffer :: dec
  in_fee_rate :: dec
  in_cash :: dec
  in_submitted_at :: int
  in_market_end_at :: int

definition read_order_inputs :: "pydict \<Rightarrow> decimal \<Rightarrow> order_inputs res" where
  "read_order_inputs p available_cash =
     ebind (dindex p ''selected_side'') (\<lambda>side.
     ebind (ebind (dindex p ''selected_ask'') (pp_decimal ''selected_ask'')) (\<lambda>ask.
     ebind (ebind (dindex p ''slippage_buffer'') (pp_decimal ''slippage_buffer'')) (\<lambda>slip.
     ebind (dindex p ''edge_config'') (\<lambda>edge.
     ebind (case edge of PDict e \<Rightarrow> ebind (dindex e ''fee_rate'') (pp_decimal ''fee_rate'')
            | _ \<Rightarrow> Inl (ValueError ''edge_config must be a mapping'')) (\<lambda>fee.
     ebind (pp_decimal ''available_cash'' (PDec available_cash)) (\<lambda>cash.
     ebind (ebind (dindex p ''recorded_at'') (pp_utc ''recorded_at'')) (\<lambda>submitted.
     ebind (ebind (dindex p ''market_end_at'') (pp_utc ''market_end_at'')) (\<lambda>market_end.
     Inr \<lparr>in_selected_side = lower (py_str side), in_selected_ask = ask, in_slippage_buffer = slip,
          in_fee_rate = fee, in_cash = cash, in_submitted_at = submitted,
          in_market_end_at = market_end\<rparr>))))))))"

text \<open>The worst price, fee and total an order can pay for one share, and the budget.\<close>

definition limit_of :: "order_inputs \<Rightarrow> dec" where
  "limit_of i = dmin d1 (dadd (in_selected_ask i) (in_slippage_buffer i))"

definition worst_total_of :: "order_inputs \<Rightarrow> dec" where
  "worst_total_of i = (let limit = limit_of i in
     dadd limit (dmul (dmul (in_fee_rate i) limit) (dsub d1 limit)))"

definition size_order :: "dec paper_config \<Rightarrow> order_inputs \<Rightarrow> dec res" where
  "size_order config i =
     ebind (ddiv (dmin (pc_target_notional_usd config) (in_cash i)) (worst_total_of i)) (\<lambda>q.
     dquant_down q (nat (pc_share_precision config)))"

definition order_expiry :: "dec paper_config \<Rightarrow> order_inputs \<Rightarrow> int \<times> int" where
  "order_expiry config i =
     (let arrival = in_submitted_at i + pc_latency_ms config * us_per_ms
      in (arrival, min (arrival + pc_order_ttl_ms config * us_per_ms) (in_market_end_at i)))"

text \<open>The guards on the inputs, in the order of the code.\<close>

definition input_refusal :: "order_inputs \<Rightarrow> terminal_draft option" where
  "input_refusal i =
     (let at_submit = Some (in_submitted_at i) in
      if \<not> (dlt d0 (in_selected_ask i) \<and> dle (in_selected_ask i) d1)
        then Some (terminal ''SKIPPED'' ''selected_ask must be within (0, 1]'' at_submit d0)
      else if dlt (in_slippage_buffer i) d0
        then Some (terminal ''SKIPPED'' ''slippage_buffer must be non-negative'' at_submit d0)
      else if \<not> (dle d0 (in_fee_rate i) \<and> dle (in_fee_rate i) d1)
        then Some (terminal ''SKIPPED'' ''fee_rate must be within [0, 1]'' at_submit d0)
      else if dle (in_cash i) d0
        then Some (terminal ''INSUFFICIENT_PAPER_CASH'' ''available paper cash is not positive'' at_submit d0)
      else None)"

definition token_key :: "order_inputs \<Rightarrow> string" where
  "token_key i = (if in_selected_side i = ''up'' then ''up_token_id'' else ''down_token_id'')"

definition draft_refusal :: "pydict \<Rightarrow> dec paper_config \<Rightarrow> order_inputs \<Rightarrow> terminal_draft option" where
  "draft_refusal p config i =
     (let at_submit = Some (in_submitted_at i) in
      if str_or_empty (dget p (token_key i)) = ''''
        then Some (terminal ''SKIPPED'' (token_key i @ '' is required'') at_submit d0)
      else if str_or_empty (dget p ''prediction_id'') = '''' \<or> str_or_empty (dget p ''semantic_sha256'') = ''''
          \<or> str_or_empty (dget p ''condition_id'') = ''''
        then Some (terminal ''SKIPPED'' ''prediction identity fields are required'' at_submit d0)
      else if in_market_end_at i \<le> fst (order_expiry config i)
        then Some (terminal ''MARKET_ENDED_UNFILLED''
          ''market ended before simulated order arrival'' (Some (in_market_end_at i)) d0)
      else None)"

text \<open>The arguments of the request's constructor.\<close>

definition request_args ::
  "pydict \<Rightarrow> dec paper_config \<Rightarrow> order_inputs \<Rightarrow> dec \<Rightarrow> string \<Rightarrow> (decimal, pytime) order_request" where
  "request_args p config i shares csha =
     \<lparr>rq_prediction_id = str_or_empty (dget p ''prediction_id''),
      rq_prediction_semantic_sha256 = str_or_empty (dget p ''semantic_sha256''),
      rq_condition_id = str_or_empty (dget p ''condition_id''),
      rq_token_id = str_or_empty (dget p (token_key i)),
      rq_selected_side = in_selected_side i, rq_action = ''BUY'',
      rq_requested_shares = Finite shares,
      rq_target_notional_usd = Finite (pc_target_notional_usd config),
      rq_submitted_at = Aware (in_submitted_at i) 0,
      rq_arrival_at = Aware (fst (order_expiry config i)) 0,
      rq_expires_at = Aware (snd (order_expiry config i)) 0, rq_limit_price = Finite (limit_of i),
      rq_execution_version = pc_execution_version config,
      rq_execution_config_sha256 = csha\<rparr>"

definition build_draft ::
  "(string \<Rightarrow> string) \<Rightarrow> pydict \<Rightarrow> dec paper_config \<Rightarrow> order_inputs \<Rightarrow> paper_decision res" where
  "build_draft H p config i =
     (case draft_refusal p config i of
        Some t \<Rightarrow> Inr (Terminal t)
      | None \<Rightarrow>
        ebind (size_order config i) (\<lambda>shares.
        if dle shares d0
        then Inr (Terminal (terminal ''INSUFFICIENT_PAPER_CASH''
          ''paper cash cannot buy the minimum share precision'' (Some (in_submitted_at i)) d0))
        else ebind (canonical_hash H (PDict (paper_config_mapping config))) (\<lambda>csha.
          ebind (order_request_post_init (request_args p config i shares csha)) (\<lambda>request.
          Inr (Draft \<lparr>dr_request = request, dr_signal_selected_ask = in_selected_ask i,
             dr_signal_fee_rate = in_fee_rate i, dr_signal_slippage_buffer = in_slippage_buffer i,
             dr_execution_config = paper_config_mapping config,
             dr_market_end_at = Some (in_market_end_at i)\<rparr>)))))"

definition build_paper_order ::
  "(string \<Rightarrow> string) \<Rightarrow> pydict \<Rightarrow> dec paper_config \<Rightarrow> decimal \<Rightarrow> paper_decision res" where
  "build_paper_order H p config available_cash =
     (case skip_reason p of
        Some reason \<Rightarrow> Inr (Terminal (terminal ''SKIPPED'' reason (safe_recorded_at p) d0))
      | None \<Rightarrow> (case read_order_inputs p available_cash of
          Inl e \<Rightarrow> Inr (Terminal (terminal ''SKIPPED'' (exn_text e) (safe_recorded_at p) d0))
        | Inr i \<Rightarrow> (case input_refusal i of
            Some t \<Rightarrow> Inr (Terminal t)
          | None \<Rightarrow> build_draft H p config i)))"

section \<open>Filling an order\<close>

definition sim_error :: "string \<Rightarrow> exn" where
  "sim_error s = PaperSimulationError s"

definition validate_book :: "paper_draft \<Rightarrow> replayed_book \<Rightarrow> int res" where
  "validate_book order book =
     (if rb_condition_id book \<noteq> rq_condition_id (dr_request order)
        then Inl (sim_error ''book condition does not match paper order'')
      else if rb_asset_id book \<noteq> rq_token_id (dr_request order)
        then Inl (sim_error ''book token does not match paper order'')
      else Inr (rb_replay_cutoff_at book))"

definition fill_of :: "paper_draft \<Rightarrow> replayed_book \<Rightarrow> dec \<Rightarrow> dec \<Rightarrow> int \<Rightarrow> fill_draft" where
  "fill_of order book shares price fill_at =
     (let gross = dmul shares price;
          fee = dmul (dmul (dmul shares (dr_signal_fee_rate order)) price) (dsub d1 price)
      in \<lparr>fl_fill_at = fill_at, fl_shares = shares, fl_price = price, fl_gross_cost = gross,
          fl_fee = fee, fl_total_cost = dadd gross fee,
          fl_signal_ask_slippage = dsub price (dr_signal_selected_ask order),
          fl_book_anchor_event_id = rb_anchor_event_id book,
          fl_book_anchor_dedupe_key = rb_anchor_dedupe_key book,
          fl_book_applied_event_ids = rb_applied_event_ids book,
          fl_book_applied_dedupe_keys = rb_applied_dedupe_keys book,
          fl_replay_cutoff_at = rb_replay_cutoff_at book\<rparr>)"

definition display_of :: "replayed_book \<Rightarrow> levels" where
  "display_of book = fold (\<lambda>(p, s) l. lv_put l p s) (rb_asks book) []"

definition lv_get0 :: "levels \<Rightarrow> dec \<Rightarrow> dec" where
  "lv_get0 l p = (case lv_get l p of None \<Rightarrow> d0 | Some s \<Rightarrow> s)"

definition available_depth :: "levels option \<Rightarrow> levels \<Rightarrow> levels" where
  "available_depth previous current = (case previous of
       None \<Rightarrow> current
     | Some prev \<Rightarrow> map (\<lambda>(p, s). (p, dsub s (lv_get0 prev p)))
         (filter (\<lambda>(p, s). dlt (lv_get0 prev p) s) current))"

text \<open>The walk over the sorted available prices of one book.\<close>

fun walk_depth ::
  "paper_draft \<Rightarrow> replayed_book \<Rightarrow> int \<Rightarrow> levels \<Rightarrow> dec \<Rightarrow> fill_draft list \<Rightarrow> dec \<times> fill_draft list" where
  "walk_depth order book cutoff [] remaining fills = (remaining, fills)"
| "walk_depth order book cutoff ((price, depth) # rest) remaining fills =
     (if dle remaining d0 then (remaining, fills)
      else if dlt (rq_limit_price (dr_request order)) price then (remaining, fills)
      else if dle depth d0 then walk_depth order book cutoff rest remaining fills
      else let shares = dmin depth remaining in
        walk_depth order book cutoff rest (dsub remaining shares)
          (fills @ [fill_of order book shares price cutoff]))"

record sim_state =
  ss_remaining :: dec
  ss_fills :: "fill_draft list"
  ss_display :: "levels option"
  ss_cutoff :: "int option"

fun sim_books :: "paper_draft \<Rightarrow> int \<Rightarrow> replayed_book list \<Rightarrow> sim_state \<Rightarrow> sim_state res" where
  "sim_books order execution_cutoff [] st = Inr st"
| "sim_books order execution_cutoff (book # books) st =
     ebind (validate_book order book) (\<lambda>cutoff.
     if (case ss_cutoff st of None \<Rightarrow> False | Some c \<Rightarrow> cutoff < c)
       then Inl (sim_error ''book observations must be chronological'')
     else if cutoff < rq_arrival_at (dr_request order) \<or> execution_cutoff < cutoff
       then sim_books order execution_cutoff books (st\<lparr>ss_cutoff := Some cutoff\<rparr>)
     else let current = display_of book;
              (remaining, fills) = walk_depth order book cutoff
                (lv_sorted (available_depth (ss_display st) current)) (ss_remaining st) (ss_fills st);
              st' = \<lparr>ss_remaining = remaining, ss_fills = fills, ss_display = Some current,
                     ss_cutoff = Some cutoff\<rparr>
          in if dle remaining d0 then Inr st' else sim_books order execution_cutoff books st')"

definition sum_dec :: "dec list \<Rightarrow> dec" where
  "sum_dec xs = fold (\<lambda>x acc. dadd acc x) xs d0"

definition cancellation_of :: "request \<Rightarrow> pytime option \<Rightarrow> int option res" where
  "cancellation_of request cancel_at = (case cancel_at of
       None \<Rightarrow> Inr None
     | Some t \<Rightarrow> ebind (pp_utc ''cancel_at'' (PTime t)) (\<lambda>candidate.
         if candidate < rq_submitted_at request
         then Inl (sim_error ''cancel_at must not precede order submission'')
         else Inr (if candidate < rq_expires_at request then Some candidate else None)))"

definition sim_terminal ::
  "paper_draft \<Rightarrow> int option \<Rightarrow> dec \<Rightarrow> fill_draft list \<Rightarrow> terminal_draft res" where
  "sim_terminal order cancellation remaining fills =
     (let request = dr_request order; filled = dsub (rq_requested_shares request) remaining in
      if dle remaining d0 then
        (case last_option fills of None \<Rightarrow> Inl IndexError
         | Some f \<Rightarrow> Inr (terminal ''FILLED'' ''requested paper shares fully filled'' (Some (fl_fill_at f)) d0))
      else (case cancellation of
        Some c \<Rightarrow> Inr (terminal ''CANCELLED''
          (if c < rq_arrival_at request then ''cancelled_before_arrival'' else ''cancelled_with_remainder'')
          (Some c) remaining)
      | None \<Rightarrow>
          if (dr_market_end_at order = Some (rq_expires_at request)) \<and> deq filled d0
          then Inr (terminal ''MARKET_ENDED_UNFILLED''
            ''market ended before any eligible paper depth filled'' (Some (rq_expires_at request)) remaining)
          else Inr (terminal ''EXPIRED'' ''paper order expired with unfilled shares''
            (Some (rq_expires_at request)) remaining)))"

definition simulate_buy ::
  "paper_draft \<Rightarrow> replayed_book list \<Rightarrow> pytime option \<Rightarrow> simulation res" where
  "simulate_buy order books cancel_at =
     (let request = dr_request order in
      ebind (cancellation_of request cancel_at) (\<lambda>cancellation.
      let execution_cutoff = (case cancellation of None \<Rightarrow> rq_expires_at request | Some c \<Rightarrow> c) in
      ebind (sim_books order execution_cutoff books
        \<lparr>ss_remaining = rq_requested_shares request, ss_fills = [], ss_display = None, ss_cutoff = None\<rparr>) (\<lambda>st.
      ebind (sim_terminal order cancellation (ss_remaining st) (ss_fills st)) (\<lambda>t.
      Inr \<lparr>sm_fills = ss_fills st, sm_terminal = t,
           sm_filled_shares = dsub (rq_requested_shares request) (ss_remaining st),
           sm_remaining_shares = ss_remaining st,
           sm_total_cost = sum_dec (map fl_total_cost (ss_fills st))\<rparr>))))"

section \<open>What a simulation does\<close>

text \<open>A fill the walk over one book may add.\<close>

definition fill_from :: "paper_draft \<Rightarrow> int \<Rightarrow> levels \<Rightarrow> rat \<Rightarrow> fill_draft \<Rightarrow> bool" where
  "fill_from order c avail limit f \<longleftrightarrow> 0 < dval (fl_shares f) \<and> dval (fl_shares f) \<le> limit
     \<and> dval (fl_price f) \<le> dval (rq_limit_price (dr_request order)) \<and> fl_fill_at f = c
     \<and> (\<exists>d. (fl_price f, d) \<in> set avail \<and> dval (fl_shares f) \<le> dval d)"

lemma dsub_shrinks:
  assumes "representable r" "0 \<le> dval s" "dval s \<le> dval r"
  shows "0 \<le> dval (dsub r s)" "dval (dsub r s) \<le> dval r"
  using assms by (simp_all add: dsub_nonneg_iff dsub_le)

lemma fill_of_simps [simp]:
  "fl_shares (fill_of order book s p c) = s" "fl_price (fill_of order book s p c) = p"
  "fl_fill_at (fill_of order book s p c) = c"
  by (simp_all add: fill_of_def Let_def)

lemma walk_depth_sound:
  assumes "walk_depth order book c avail r fs = (r', fs')" and "representable r" "0 \<le> dval r"
  shows "representable r' \<and> 0 \<le> dval r' \<and> dval r' \<le> dval r
    \<and> (\<exists>new. fs' = fs @ new \<and> (\<forall>f \<in> set new. fill_from order c avail (dval r) f))"
  using assms
proof (induction avail arbitrary: r fs)
  case (Cons a avail)
  obtain p d where a: "a = (p, d)" by (cases a)
  show ?case
  proof (cases "dle r d0 \<or> dlt (rq_limit_price (dr_request order)) p")
    case True
    with Cons.prems show ?thesis by (auto simp: a split: if_splits)
  next
    case go: False
    show ?thesis
    proof (cases "dle d d0")
      case True
      with Cons.prems go have "walk_depth order book c avail r fs = (r', fs')" by (simp add: a)
      from Cons.IH [OF this Cons.prems(2,3)] show ?thesis by (fastforce simp: a fill_from_def)
    next
      case False
      define s where "s = dmin d r"
      have s: "0 < dval s" "dval s \<le> dval r" "dval s \<le> dval d"
        using False go by (auto simp: s_def dcmp)
      note r = dsub_shrinks [OF Cons.prems(2) less_imp_le [OF s(1)] s(2)]
      have "walk_depth order book c avail (dsub r s) (fs @ [fill_of order book s p c]) = (r', fs')"
        using Cons.prems(1) go False by (simp add: a s_def Let_def)
      from Cons.IH [OF this] r obtain new where new: "representable r'" "0 \<le> dval r'"
        "dval r' \<le> dval (dsub r s)" "fs' = fs @ fill_of order book s p c # new"
        "\<forall>f \<in> set new. fill_from order c avail (dval (dsub r s)) f" by auto
      have "fill_from order c (a # avail) (dval r) (fill_of order book s p c)"
        using s go by (auto simp: fill_from_def a dcmp)
      moreover have "\<forall>f \<in> set new. fill_from order c (a # avail) (dval r) f"
        using new(5) r(2) by (fastforce simp: fill_from_def)
      ultimately show ?thesis using new r(2) by auto
    qed
  qed
qed simp

lemma walk_depth_same:
  "walk_depth order book c avail r fs = (r', fs) \<Longrightarrow> r' = r"
proof -
  have len: "walk_depth order book c avail r fs = (r', fs') \<Longrightarrow> length fs \<le> length fs'
      \<and> (length fs' = length fs \<longrightarrow> r' = r)" for r' fs'
  proof (induction avail arbitrary: r fs)
    case (Cons a avail)
    obtain p d where a: "a = (p, d)" by (cases a)
    from Cons show ?case by (fastforce simp: a Let_def split: if_splits)
  qed simp
  show "walk_depth order book c avail r fs = (r', fs) \<Longrightarrow> r' = r" using len by blast
qed

definition fill_ok :: "paper_draft \<Rightarrow> int \<Rightarrow> fill_draft \<Rightarrow> bool" where
  "fill_ok order cutoff f \<longleftrightarrow> 0 < dval (fl_shares f)
     \<and> dval (fl_shares f) \<le> dval (rq_requested_shares (dr_request order))
     \<and> dval (fl_price f) \<le> dval (rq_limit_price (dr_request order))
     \<and> rq_arrival_at (dr_request order) \<le> fl_fill_at f \<and> fl_fill_at f \<le> cutoff"

definition sim_inv :: "paper_draft \<Rightarrow> int \<Rightarrow> sim_state \<Rightarrow> bool" where
  "sim_inv order cutoff st \<longleftrightarrow> representable (ss_remaining st) \<and> 0 \<le> dval (ss_remaining st)
     \<and> dval (ss_remaining st) \<le> dval (rq_requested_shares (dr_request order))
     \<and> (\<forall>f \<in> set (ss_fills st). fill_ok order cutoff f)
     \<and> sorted (map fl_fill_at (ss_fills st))
     \<and> (\<forall>f \<in> set (ss_fills st). \<exists>c. ss_cutoff st = Some c \<and> fl_fill_at f \<le> c)
     \<and> (dval (ss_remaining st) < dval (rq_requested_shares (dr_request order)) \<longrightarrow> ss_fills st \<noteq> [])"

lemma sim_step_inv:
  assumes inv: "sim_inv order cutoff st"
    and walk: "walk_depth order book c (lv_sorted (available_depth (ss_display st) cur))
      (ss_remaining st) (ss_fills st) = (r, fs)"
    and c: "rq_arrival_at (dr_request order) \<le> c" "c \<le> cutoff"
    and chron: "\<not> (case ss_cutoff st of None \<Rightarrow> False | Some c' \<Rightarrow> c < c')"
  shows "sim_inv order cutoff
    \<lparr>ss_remaining = r, ss_fills = fs, ss_display = Some cur, ss_cutoff = Some c\<rparr>"
proof -
  let ?avail = "lv_sorted (available_depth (ss_display st) cur)"
  obtain new where r: "representable r" "0 \<le> dval r" "dval r \<le> dval (ss_remaining st)"
    and fs: "fs = ss_fills st @ new"
    and new: "\<forall>f \<in> set new. fill_from order c ?avail (dval (ss_remaining st)) f"
    using walk_depth_sound [OF walk] inv by (auto simp: sim_inv_def)
  have none: "dval r < dval (ss_remaining st) \<longrightarrow> new \<noteq> []"
    using walk fs by (auto dest: walk_depth_same)
  have le: "\<forall>f \<in> set (ss_fills st). fl_fill_at f \<le> c"
    using inv chron by (fastforce simp: sim_inv_def)
  have "sorted (map fl_fill_at new)" using new
    by (induction new) (auto simp: fill_from_def)
  then have "sorted (map fl_fill_at fs)"
    using inv le new by (auto simp: fs sim_inv_def sorted_append fill_from_def)
  moreover have "\<forall>f \<in> set fs. fill_ok order cutoff f"
    using inv new c by (fastforce simp: fs sim_inv_def fill_ok_def fill_from_def)
  moreover have "\<forall>f \<in> set fs. fl_fill_at f \<le> c"
    using le new by (auto simp: fs fill_from_def)
  ultimately show ?thesis using r inv none by (auto simp: sim_inv_def fs)
qed

lemma sim_books_inv:
  assumes "sim_books order cutoff books st = Inr st'" and "sim_inv order cutoff st"
  shows "sim_inv order cutoff st'"
  using assms
proof (induction books arbitrary: st)
  case (Cons b books)
  define c where "c = rb_replay_cutoff_at b"
  have v: "validate_book order b = Inr c"
    using Cons.prems(1) by (cases "validate_book order b") (auto simp: validate_book_def c_def split: if_splits)
  have chron: "\<not> (case ss_cutoff st of None \<Rightarrow> False | Some c' \<Rightarrow> c < c')"
    using Cons.prems(1) v by (simp split: if_splits del: not_less)
  show ?case
  proof (cases "c < rq_arrival_at (dr_request order) \<or> cutoff < c")
    case True
    then have "sim_books order cutoff books (st\<lparr>ss_cutoff := Some c\<rparr>) = Inr st'"
      using Cons.prems(1) v chron by simp
    moreover have "sim_inv order cutoff (st\<lparr>ss_cutoff := Some c\<rparr>)"
      using Cons.prems(2) chron by (fastforce simp: sim_inv_def)
    ultimately show ?thesis by (rule Cons.IH)
  next
    case False
    obtain r fs where w: "walk_depth order b c (lv_sorted (available_depth (ss_display st) (display_of b)))
        (ss_remaining st) (ss_fills st) = (r, fs)" by (metis surj_pair)
    let ?st = "\<lparr>ss_remaining = r, ss_fills = fs, ss_display = Some (display_of b), ss_cutoff = Some c\<rparr>"
    have "sim_inv order cutoff ?st"
      using sim_step_inv [OF Cons.prems(2) w _ _ chron] False by simp
    moreover have "(if dle r d0 then Inr ?st else sim_books order cutoff books ?st) = Inr st'"
      using Cons.prems(1) v chron False w by (simp add: Let_def)
    ultimately show ?thesis using Cons.IH by (auto split: if_splits)
  qed
qed simp

definition sim_start :: "paper_draft \<Rightarrow> sim_state" where
  "sim_start order = \<lparr>ss_remaining = rq_requested_shares (dr_request order), ss_fills = [],
     ss_display = None, ss_cutoff = None\<rparr>"

lemma cancellation_of_Inr:
  assumes "cancellation_of rq cancel = Inr c"
  shows "(\<forall>x. c = Some x \<longrightarrow> rq_submitted_at rq \<le> x \<and> x < rq_expires_at rq)
    \<and> (\<forall>us off. cancel = Some (Aware us off) \<longrightarrow> c = (if us < rq_expires_at rq then Some us else None))
    \<and> (cancel = None \<longrightarrow> c = None)"
  using assms by (auto simp: cancellation_of_def pp_utc_def aware_utc_def split: option.splits if_splits)

lemma simulate_buy_run:
  assumes "simulate_buy order books cancel = Inr r"
  obtains c st t where "cancellation_of (dr_request order) cancel = Inr c"
    "sim_books order (case c of None \<Rightarrow> rq_expires_at (dr_request order) | Some x \<Rightarrow> x) books (sim_start order) = Inr st"
    "sim_terminal order c (ss_remaining st) (ss_fills st) = Inr t"
    "r = \<lparr>sm_fills = ss_fills st, sm_terminal = t,
       sm_filled_shares = dsub (rq_requested_shares (dr_request order)) (ss_remaining st),
       sm_remaining_shares = ss_remaining st, sm_total_cost = sum_dec (map fl_total_cost (ss_fills st))\<rparr>"
  using assms by (auto simp: simulate_buy_def Let_def sim_start_def)

lemma sim_start_inv:
  "representable (rq_requested_shares (dr_request order)) \<Longrightarrow> 0 \<le> dval (rq_requested_shares (dr_request order))
    \<Longrightarrow> sim_inv order cutoff (sim_start order)"
  by (simp add: sim_inv_def sim_start_def)


definition sim_cutoff :: "paper_draft \<Rightarrow> int option \<Rightarrow> int" where
  "sim_cutoff order c = (case c of None \<Rightarrow> rq_expires_at (dr_request order) | Some x \<Rightarrow> x)"

lemma sim_cutoff_le:
  assumes "cancellation_of (dr_request order) cancel = Inr c"
  shows "sim_cutoff order c \<le> rq_expires_at (dr_request order)"
    and "cancel = Some (Aware us off) \<Longrightarrow> sim_cutoff order c \<le> us"
proof -
  note c = cancellation_of_Inr [OF assms]
  show "sim_cutoff order c \<le> rq_expires_at (dr_request order)"
    using conjunct1 [OF c] by (cases c) (simp_all add: sim_cutoff_def)
  assume "cancel = Some (Aware us off)"
  with c have "c = (if us < rq_expires_at (dr_request order) then Some us else None)" by blast
  then show "sim_cutoff order c \<le> us" by (simp add: sim_cutoff_def)
qed

lemma simulate_buy_fills:
  assumes "simulate_buy order books cancel = Inr r"
    and "representable (rq_requested_shares (dr_request order))"
    and "0 \<le> dval (rq_requested_shares (dr_request order))"
  shows "0 \<le> dval (sm_remaining_shares r)
    \<and> dval (sm_remaining_shares r) \<le> dval (rq_requested_shares (dr_request order))
    \<and> (\<forall>f \<in> set (sm_fills r). fill_ok order (rq_expires_at (dr_request order)) f)
    \<and> (\<forall>us off. cancel = Some (Aware us off) \<longrightarrow> (\<forall>f \<in> set (sm_fills r). fl_fill_at f \<le> us))
    \<and> sorted (map fl_fill_at (sm_fills r))"
proof -
  from assms(1) obtain c st t where c: "cancellation_of (dr_request order) cancel = Inr c"
    and run: "sim_books order (sim_cutoff order c) books (sim_start order) = Inr st"
    and r: "sm_fills r = ss_fills st" "sm_remaining_shares r = ss_remaining st"
    by (rule simulate_buy_run) (auto simp: sim_cutoff_def)
  have inv: "sim_inv order (sim_cutoff order c) st"
    using run sim_start_inv [OF assms(2,3)] by (rule sim_books_inv)
  then have fills: "\<forall>f \<in> set (sm_fills r). fill_ok order (sim_cutoff order c) f"
    by (simp add: sim_inv_def r)
  have "\<forall>f \<in> set (sm_fills r). fill_ok order (rq_expires_at (dr_request order)) f"
    using fills sim_cutoff_le(1) [OF c] by (auto simp: fill_ok_def intro: order_trans)
  moreover have "\<forall>us off. cancel = Some (Aware us off) \<longrightarrow> (\<forall>f \<in> set (sm_fills r). fl_fill_at f \<le> us)"
  proof (intro allI impI ballI)
    fix us off f
    assume "cancel = Some (Aware us off)" "f \<in> set (sm_fills r)"
    with fills sim_cutoff_le(2) [OF c, of us off] show "fl_fill_at f \<le> us"
      by (fastforce simp: fill_ok_def)
  qed
  ultimately show ?thesis using inv by (simp add: sim_inv_def r)
qed

text \<open>C8: a simulated buy fills only what it may: every fill has positive shares, no more than were
  requested, at a price no worse than the limit, at an instant at or after the order's arrival
  and no later than its expiry and the cancellation; fills are chronological; and what remains
  lies between zero and the request.
\<close>

theorem simulate_buy_sound:
  assumes "simulate_buy order books cancel = Inr r"
    and "representable (rq_requested_shares (dr_request order))"
    and "0 \<le> dval (rq_requested_shares (dr_request order))"
  shows "0 \<le> dval (sm_remaining_shares r)
    \<and> dval (sm_remaining_shares r) \<le> dval (rq_requested_shares (dr_request order))
    \<and> (\<forall>f \<in> set (sm_fills r). fill_ok order (rq_expires_at (dr_request order)) f)
    \<and> (\<forall>us off. cancel = Some (Aware us off) \<longrightarrow> (\<forall>f \<in> set (sm_fills r). fl_fill_at f \<le> us))
    \<and> sorted (map fl_fill_at (sm_fills r))"
  using assms by (rule simulate_buy_fills)


text \<open>C10: an order ends in exactly one way. It is filled exactly when nothing remains, at the instant
  of its last fill. Otherwise it is cancelled exactly when a cancellation came before its expiry,
  at that instant. Otherwise it ends at its expiry: with the market when the market's end is what
  bounded it and nothing was filled, expired in every other case. The terminal event records what
  remains.
\<close>

theorem simulate_buy_terminal:
  assumes "simulate_buy order books cancel = Inr r"
    and "representable (rq_requested_shares (dr_request order))"
    and "0 < dval (rq_requested_shares (dr_request order))"
  shows "let t = sm_terminal r; left = dval (sm_remaining_shares r); rq = dr_request order in
     dval (tm_remaining_shares t) = left
     \<and> (if left = 0 then tm_status t = ''FILLED'' \<and> tm_event_at t = Some (fl_fill_at (last (sm_fills r)))
        else if \<exists>us off. cancel = Some (Aware us off) \<and> us < rq_expires_at rq
        then tm_status t = ''CANCELLED'' \<and> (\<exists>off us. cancel = Some (Aware us off) \<and> tm_event_at t = Some us)
        else tm_event_at t = Some (rq_expires_at rq)
          \<and> tm_status t = (if dr_market_end_at order = Some (rq_expires_at rq)
              \<and> left = dval (rq_requested_shares rq) then ''MARKET_ENDED_UNFILLED'' else ''EXPIRED''))"
proof -
  let ?rq = "dr_request order"
  from assms(1) obtain c st t where c: "cancellation_of ?rq cancel = Inr c"
    and run: "sim_books order (sim_cutoff order c) books (sim_start order) = Inr st"
    and t: "sim_terminal order c (ss_remaining st) (ss_fills st) = Inr t"
    and r: "sm_terminal r = t" "sm_fills r = ss_fills st" "sm_remaining_shares r = ss_remaining st"
    by (rule simulate_buy_run) (auto simp: sim_cutoff_def)
  have inv: "sim_inv order (sim_cutoff order c) st"
    using run sim_start_inv [OF assms(2) less_imp_le [OF assms(3)]] by (rule sim_books_inv)
  then have left: "0 \<le> dval (ss_remaining st)" "dval (ss_remaining st) \<le> dval (rq_requested_shares ?rq)"
    and fills: "dval (ss_remaining st) = 0 \<Longrightarrow> ss_fills st \<noteq> []"
    using assms(3) by (auto simp: sim_inv_def)
  have filled: "deq (dsub (rq_requested_shares ?rq) (ss_remaining st)) d0
      \<longleftrightarrow> dval (ss_remaining st) = dval (rq_requested_shares ?rq)"
    using dsub_nonneg_iff [of "rq_requested_shares ?rq" "ss_remaining st"]
      dsub_zero_iff [of "rq_requested_shares ?rq" "ss_remaining st"] by (auto simp: deq_iff)
  show ?thesis
  proof (cases "dval (ss_remaining st) = 0")
    case True
    with t fills [OF True] show ?thesis
      by (auto simp: r sim_terminal_def Let_def dcmp last_option_def terminal_def)
  next
    case False
    with left have pos: "\<not> dle (ss_remaining st) d0" by (simp add: dle_iff)
    show ?thesis
    proof (cases c)
      case None
      have "\<not> (\<exists>us off. cancel = Some (Aware us off) \<and> us < rq_expires_at ?rq)"
        using cancellation_of_Inr [OF c] None by fastforce
      then show ?thesis using t pos False filled None
        by (auto simp: r sim_terminal_def Let_def terminal_def split: if_splits)
    next
      case (Some x)
      then obtain off where cancel: "cancel = Some (Aware x off)" and x: "x < rq_expires_at ?rq"
        using c by (auto simp: cancellation_of_def pp_utc_def aware_utc_def split: option.splits
            pytime.splits if_splits)
      then show ?thesis using t pos False Some
        by (auto simp: r sim_terminal_def Let_def terminal_def split: if_splits)
    qed
  qed
qed

section \<open>Displayed depth is counted once\<close>

lemma distinct_display_of [simp]: "distinct (lv_prices (display_of b))"
proof -
  have "distinct (lv_prices l) \<Longrightarrow> distinct (lv_prices (fold (\<lambda>(p, s) l. lv_put l p s) xs l))" for xs l
    by (induction xs arbitrary: l) (auto simp: distinct_lv_put)
  then show ?thesis by (simp add: display_of_def)
qed

lemma lv_get_in: "distinct (lv_prices l) \<Longrightarrow> (p, s) \<in> set l \<Longrightarrow> lv_get l p = Some s"
  by (induction l) (force simp: deq_iff lv_prices_def)+

lemma available_depth_same [simp]:
  "distinct (lv_prices l) \<Longrightarrow> available_depth (Some l) l = []"
  by (auto simp: available_depth_def lv_get0_def filter_empty_conv lv_get_in dcmp)

lemma lv_sorted_Nil [simp]: "lv_sorted [] = []"
  by (simp add: lv_sorted_def)

text \<open>What a run of books shows of its state, the last cutoff apart.\<close>

definition sim_view :: "sim_state res \<Rightarrow> (dec \<times> fill_draft list) res" where
  "sim_view s = (case s of Inl e \<Rightarrow> Inl e | Inr st \<Rightarrow> Inr (ss_remaining st, ss_fills st))"

lemma simulate_buy_view:
  assumes "sim_view (sim_books order (sim_cutoff order c) books (sim_start order))
      = sim_view (sim_books order (sim_cutoff order c) books' (sim_start order))"
    and "cancellation_of (dr_request order) cancel = Inr c"
  shows "simulate_buy order books cancel = simulate_buy order books' cancel"
  using assms
  by (auto simp: simulate_buy_def Let_def sim_view_def sim_cutoff_def sim_start_def split: sum.splits)

lemma sim_books_cutoff:
  assumes "c' \<le> c" and "\<forall>b \<in> set books. c \<le> rb_replay_cutoff_at b"
  shows "sim_view (sim_books order cutoff books (st\<lparr>ss_cutoff := Some c\<rparr>))
    = sim_view (sim_books order cutoff books (st\<lparr>ss_cutoff := Some c'\<rparr>))"
proof (cases books)
  case (Cons b bs)
  with assms show ?thesis
    by (auto simp: validate_book_def ebind_def Let_def split: prod.splits)
qed (simp add: sim_view_def)

definition in_window :: "paper_draft \<Rightarrow> int \<Rightarrow> replayed_book \<Rightarrow> bool" where
  "in_window order cutoff b \<longleftrightarrow> rq_arrival_at (dr_request order) \<le> rb_replay_cutoff_at b
     \<and> rb_replay_cutoff_at b \<le> cutoff"

definition book_for :: "paper_draft \<Rightarrow> replayed_book \<Rightarrow> bool" where
  "book_for order b \<longleftrightarrow> rb_condition_id b = rq_condition_id (dr_request order)
     \<and> rb_asset_id b = rq_token_id (dr_request order)"

lemma sim_books_idle_step:
  assumes b': "book_for order b'" "rb_asks b' = rb_asks b" "c \<le> rb_replay_cutoff_at b'"
    and later: "\<forall>d \<in> set bs. rb_replay_cutoff_at b' \<le> rb_replay_cutoff_at d"
    and st: "ss_display st = Some (display_of b)" "ss_cutoff st = Some c" "0 < dval (ss_remaining st)"
  shows "sim_view (sim_books order cutoff (b' # bs) st) = sim_view (sim_books order cutoff bs st)"
proof -
  have eq: "\<lparr>ss_remaining = ss_remaining st, ss_fills = ss_fills st, ss_display = Some (display_of b),
      ss_cutoff = Some x\<rparr> = st\<lparr>ss_cutoff := Some x\<rparr>" for x
    using st by (cases st) simp
  have "display_of b' = display_of b" using b' by (simp add: display_of_def)
  then have "sim_books order cutoff (b' # bs) st
      = sim_books order cutoff bs (st\<lparr>ss_cutoff := Some (rb_replay_cutoff_at b')\<rparr>)"
    using b' st by (simp add: validate_book_def book_for_def Let_def dcmp not_le eq)
  also have "sim_view \<dots> = sim_view (sim_books order cutoff bs (st\<lparr>ss_cutoff := Some c\<rparr>))"
    by (rule sim_books_cutoff) (use b' later in auto)
  also have "st\<lparr>ss_cutoff := Some c\<rparr> = st" using st by simp
  finally show ?thesis .
qed

lemma sim_books_idle:
  assumes b': "book_for order b'" "rb_asks b' = rb_asks b" "rb_replay_cutoff_at b \<le> rb_replay_cutoff_at b'"
    and later: "\<forall>d \<in> set bs. rb_replay_cutoff_at b' \<le> rb_replay_cutoff_at d"
    and win: "in_window order cutoff b"
  shows "sim_view (sim_books order cutoff (as @ b # b' # bs) st) = sim_view (sim_books order cutoff (as @ b # bs) st)"
proof (induction as arbitrary: st)
  case Nil
  obtain r fs where w: "walk_depth order b (rb_replay_cutoff_at b)
      (lv_sorted (available_depth (ss_display st) (display_of b))) (ss_remaining st) (ss_fills st) = (r, fs)"
    by (metis surj_pair)
  let ?st = "\<lparr>ss_remaining = r, ss_fills = fs, ss_display = Some (display_of b),
    ss_cutoff = Some (rb_replay_cutoff_at b)\<rparr>"
  have run: "sim_books order cutoff (b # xs) st = ebind (validate_book order b) (\<lambda>c.
      if (case ss_cutoff st of None \<Rightarrow> False | Some c' \<Rightarrow> c < c')
      then Inl (sim_error ''book observations must be chronological'')
      else if dle r d0 then Inr ?st else sim_books order cutoff xs ?st)" for xs
    using win by (auto simp: validate_book_def in_window_def w Let_def)
  have "sim_view (sim_books order cutoff (b' # bs) ?st) = sim_view (sim_books order cutoff bs ?st)"
    if "0 < dval r"
    by (rule sim_books_idle_step [OF b' later]) (use that in simp_all)
  then show ?case unfolding append_Nil run [of "b' # bs"] run [of bs]
    by (simp add: validate_book_def dle_iff not_le del: sim_books.simps)
next
  case (Cons a as)
  then show ?case
    by (auto simp: validate_book_def Let_def split: prod.splits)
qed

text \<open>displayed depth is never bought twice: an observation that shows the asks the observation
  before it showed changes nothing in the whole simulation, wherever it comes among the
  observations and whatever comes after.
\<close>

theorem simulate_buy_idle_book:
  assumes "book_for order b'" and "rb_asks b' = rb_asks b"
    and "rb_replay_cutoff_at b \<le> rb_replay_cutoff_at b'"
    and "\<forall>d \<in> set bs. rb_replay_cutoff_at b' \<le> rb_replay_cutoff_at d"
    and "cancellation_of (dr_request order) cancel = Inr c" and "in_window order (sim_cutoff order c) b"
  shows "simulate_buy order (as @ b # b' # bs) cancel = simulate_buy order (as @ b # bs) cancel"
  using assms by (intro simulate_buy_view sim_books_idle)

section \<open>When a simulation returns\<close>

lemma sim_books_total:
  assumes "\<forall>b \<in> set books. book_for order b" and "sorted (map rb_replay_cutoff_at books)"
    and "\<forall>b \<in> set books. \<forall>c. ss_cutoff st = Some c \<longrightarrow> c \<le> rb_replay_cutoff_at b"
  shows "\<exists>st'. sim_books order cutoff books st = Inr st'"
  using assms
proof (induction books arbitrary: st)
  case (Cons b books)
  have v: "validate_book order b = Inr (rb_replay_cutoff_at b)"
    using Cons.prems(1) by (simp add: validate_book_def book_for_def)
  have chron: "\<not> (case ss_cutoff st of None \<Rightarrow> False | Some c \<Rightarrow> rb_replay_cutoff_at b < c)"
    using Cons.prems(3) by (cases "ss_cutoff st") auto
  have rest: "\<exists>st'. sim_books order cutoff books st1 = Inr st'"
    if "ss_cutoff st1 = Some (rb_replay_cutoff_at b)" for st1
    by (rule Cons.IH) (use Cons.prems that in auto)
  show ?case using chron rest by (simp add: v Let_def split: prod.split)
qed simp

lemma simulate_buy_returns:
  assumes "\<forall>b \<in> set books. book_for order b" and "sorted (map rb_replay_cutoff_at books)"
    and "representable (rq_requested_shares (dr_request order))"
    and "0 < dval (rq_requested_shares (dr_request order))"
    and "cancel = None \<or> (\<exists>us off. cancel = Some (Aware us off) \<and> rq_submitted_at (dr_request order) \<le> us)"
  shows "\<exists>r. simulate_buy order books cancel = Inr r"
proof -
  obtain c where c: "cancellation_of (dr_request order) cancel = Inr c"
    using assms(5) by (auto simp: cancellation_of_def pp_utc_def aware_utc_def)
  obtain st where st: "sim_books order (sim_cutoff order c) books (sim_start order) = Inr st"
    using sim_books_total [OF assms(1,2), of "sim_start order"] by (auto simp: sim_start_def)
  have inv: "sim_inv order (sim_cutoff order c) st"
    using st sim_start_inv [OF assms(3) less_imp_le [OF assms(4)]] by (rule sim_books_inv)
  have "\<exists>t. sim_terminal order c (ss_remaining st) (ss_fills st) = Inr t"
  proof (cases "dval (ss_remaining st) \<le> 0")
    case True
    then have "ss_fills st \<noteq> []" using inv assms(4) by (auto simp: sim_inv_def)
    with True show ?thesis by (simp add: sim_terminal_def Let_def last_option_def dle_iff)
  next
    case False
    then show ?thesis by (cases c) (auto simp: sim_terminal_def Let_def dle_iff)
  qed
  then show ?thesis using c st by (auto simp: simulate_buy_def Let_def sim_cutoff_def sim_start_def)
qed

text \<open>C27: a simulation over books of the order's own market and token, in chronological order, with a
  cancellation no earlier than the submission, always returns: it raises neither a simulation
  error nor an index error.
\<close>

theorem simulate_buy_total:
  assumes "\<forall>b \<in> set books. book_for order b" and "sorted (map rb_replay_cutoff_at books)"
    and "representable (rq_requested_shares (dr_request order))"
    and "0 < dval (rq_requested_shares (dr_request order))"
    and "cancel = None \<or> (\<exists>us off. cancel = Some (Aware us off) \<and> rq_submitted_at (dr_request order) \<le> us)"
  shows "\<exists>r. simulate_buy order books cancel = Inr r"
  using assms by (rule simulate_buy_returns)

section \<open>A concrete order\<close>

definition ex_prediction :: pydict where
  "ex_prediction = [(''trade'', PBool True), (''executable'', PBool True), (''selected_side'', PStr ''Up''),
     (''selected_ask'', PDec (Finite (Dec 52 (- 2)))), (''slippage_buffer'', PDec (Finite (Dec 1 (- 2)))),
     (''edge_config'', PDict [(''fee_rate'', PStr ''0.07'')]),
     (''recorded_at'', PTime (Aware 1000000 0)), (''market_end_at'', PTime (Aware 900000000 0)),
     (''up_token_id'', PStr ''tok''), (''prediction_id'', PStr ''p1''),
     (''semantic_sha256'', PStr (replicate 64 CHR ''b'')), (''condition_id'', PStr ''c'')]"

definition ex_config :: "dec paper_config" where
  "ex_config = \<lparr>pc_starting_cash_usd = Dec 10000 (- 2), pc_target_notional_usd = Dec 500 (- 2),
     pc_latency_ms = 250, pc_order_ttl_ms = 2000, pc_share_precision = 6,
     pc_execution_version = PAPER_EXECUTION_VERSION, pc_prediction_version = None,
     pc_excluded_prediction_versions = []\<rparr>"

lemma ex_config_default: "paper_config_post_init default_paper_config = Inr ex_config"
  by code_simp

text \<open>A stand-in for SHA-256 with its output's shape.\<close>

definition ex_H :: "string \<Rightarrow> string" where
  "ex_H s = replicate 64 CHR ''c''"

definition ex_request :: request where
  "ex_request = \<lparr>rq_prediction_id = ''p1'', rq_prediction_semantic_sha256 = replicate 64 CHR ''b'',
     rq_condition_id = ''c'', rq_token_id = ''tok'', rq_selected_side = ''up'', rq_action = ''BUY'',
     rq_requested_shares = Dec 9133471 (- 6), rq_target_notional_usd = Dec 500 (- 2),
     rq_submitted_at = 1000000, rq_arrival_at = 1250000, rq_expires_at = 3250000,
     rq_limit_price = Dec 53 (- 2), rq_execution_version = PAPER_EXECUTION_VERSION,
     rq_execution_config_sha256 = replicate 64 CHR ''c''\<rparr>"

definition ex_order :: paper_draft where
  "ex_order = \<lparr>dr_request = ex_request, dr_signal_selected_ask = Dec 52 (- 2),
     dr_signal_fee_rate = Dec 7 (- 2), dr_signal_slippage_buffer = Dec 1 (- 2),
     dr_execution_config = paper_config_mapping ex_config, dr_market_end_at = Some 900000000\<rparr>"

definition ex_inputs :: order_inputs where
  "ex_inputs = \<lparr>in_selected_side = ''up'', in_selected_ask = Dec 52 (- 2), in_slippage_buffer = Dec 1 (- 2),
     in_fee_rate = Dec 7 (- 2), in_cash = Dec 100 0, in_submitted_at = 1000000, in_market_end_at = 900000000\<rparr>"

lemma paper_config_hash:
  "\<exists>s. canonical_hash H (PDict (paper_config_mapping c)) = Inr (H s)"
  by (auto simp: canonical_hash_def paper_config_mapping_def)

lemma ex_config_hash: "canonical_hash ex_H (PDict (paper_config_mapping c)) = Inr (replicate 64 CHR ''c'')"
  using paper_config_hash [of ex_H c] by (auto simp: ex_H_def)

lemma ex_order_build:
  "build_paper_order ex_H ex_prediction ex_config (Finite (Dec 100 0)) = Inr (Draft ex_order)"
proof -
  have 1: "skip_reason ex_prediction = None" by code_simp
  have 2: "read_order_inputs ex_prediction (Finite (Dec 100 0)) = Inr ex_inputs" by code_simp
  have 3: "input_refusal ex_inputs = None" by code_simp
  have 4: "size_order ex_config ex_inputs = Inr (Dec 9133471 (- 6))" by code_simp
  have 5: "draft_refusal ex_prediction ex_config ex_inputs = None" "dle (Dec 9133471 (- 6)) d0 = False"
    by code_simp+
  have 6: "order_request_post_init (request_args ex_prediction ex_config ex_inputs (Dec 9133471 (- 6))
      (replicate 64 CHR ''c'')) = Inr ex_request"
    by code_simp
  have 7: "in_selected_ask ex_inputs = Dec 52 (- 2)" "in_market_end_at ex_inputs = 900000000"
    "in_fee_rate ex_inputs = Dec 7 (- 2)" "in_slippage_buffer ex_inputs = Dec 1 (- 2)"
    by (simp_all add: ex_inputs_def)
  show ?thesis
    by (simp add: build_paper_order_def 1 2 3 build_draft_def 4 5 6 7 ex_config_hash ex_order_def)
qed

definition ex_book :: "int \<Rightarrow> levels \<Rightarrow> replayed_book" where
  "ex_book c asks = \<lparr>rb_condition_id = ''c'', rb_asset_id = ''tok'', rb_bids = [], rb_asks = asks,
     rb_anchor_event_id = 7, rb_anchor_dedupe_key = ex_key, rb_applied_event_ids = [],
     rb_applied_dedupe_keys = [], rb_replay_cutoff_at = c\<rparr>"

definition ex_books :: "replayed_book list" where
  "ex_books = [ex_book 1250000 [(Dec 52 (- 2), Dec 4 0), (Dec 54 (- 2), Dec 100 0)],
     ex_book 1300000 [(Dec 52 (- 2), Dec 5 0), (Dec 53 (- 2), Dec 25 (- 1))]]"

definition ex_simulation :: "simulation res" where
  "ex_simulation = simulate_buy ex_order ex_books None"



lemma ex_simulation_run: "simulate_buy ex_order ex_books None = Inr (projr ex_simulation)"
  unfolding ex_simulation_def by (rule not_isl_projr) code_simp

lemma ex_order_requested:
  "representable (rq_requested_shares (dr_request ex_order))" "0 < dval (rq_requested_shares (dr_request ex_order))"
  by (simp_all add: ex_order_def ex_request_def representable_def prec_def dval_pos_iff)

theorem simulate_buy_sound_witness:
  "map fl_fill_at (sm_fills (projr ex_simulation)) = [1250000, 1300000, 1300000]
    \<and> list_all (fill_ok ex_order 3250000) (sm_fills (projr ex_simulation))"
proof -
  have "map fl_fill_at (sm_fills (projr ex_simulation)) = [1250000, 1300000, 1300000]" by code_simp
  moreover have "rq_expires_at (dr_request ex_order) = 3250000" by (simp add: ex_order_def ex_request_def)
  ultimately show ?thesis
    using simulate_buy_sound [OF ex_simulation_run ex_order_requested(1)] ex_order_requested(2)
    by (simp add: list_all_iff)
qed

theorem simulate_buy_terminal_witness:
  "tm_status (sm_terminal (projr ex_simulation)) = ''EXPIRED''
    \<and> tm_event_at (sm_terminal (projr ex_simulation)) = Some (rq_expires_at (dr_request ex_order))"
proof -
  have "coef (sm_remaining_shares (projr ex_simulation)) = 1633471" by code_simp
  then have "dval (sm_remaining_shares (projr ex_simulation)) \<noteq> 0" by (simp add: dval_def)
  then show ?thesis
    using simulate_buy_terminal [OF ex_simulation_run ex_order_requested]
    by (simp add: Let_def ex_order_def ex_request_def split: if_splits)
qed

theorem simulate_buy_idle_book_witness:
  "simulate_buy ex_order (ex_books @ [ex_book 1400000 (rb_asks (last ex_books))]) None
    = simulate_buy ex_order ex_books None"
  using simulate_buy_idle_book [of ex_order "ex_book 1400000 (rb_asks (last ex_books))" "last ex_books" "[]" None None
      "butlast ex_books"]
  by (simp add: ex_books_def book_for_def in_window_def ex_book_def ex_order_def ex_request_def
      cancellation_of_def sim_cutoff_def)

theorem simulate_buy_total_witness: "\<exists>r. simulate_buy ex_order ex_books (Some (Aware 1260000 0)) = Inr r"
  by (rule simulate_buy_total [OF _ _ ex_order_requested])
    (simp_all add: ex_books_def book_for_def ex_book_def ex_order_def ex_request_def)

end
