(* ===== verification/PaperSolvency.thy ===== *)
theory PaperSolvency
  imports PaperSim
begin

text \<open>
  What a paper order can cost (\<open>bp_engine/execution/paper.py\<close>). Decimal arithmetic rounds to 28
  digits; with prices, fees and buffers of at most four places, sizes of at most six and a
  notional of at most 10 ^ 5, no operation of the simulation rounds, so shares are conserved and
  the sizing of an order bounds what its fills cost.
\<close>

section \<open>Amounts that arithmetic keeps exact\<close>

text \<open>What one share costs at a price, the taker fee included.\<close>

definition unit_cost :: "rat \<Rightarrow> rat \<Rightarrow> rat" where
  "unit_cost fee p = p + fee * p * (1 - p)"

lemma unit_cost_mono:
  assumes "0 \<le> fee" "fee \<le> 1" "0 \<le> p" "p \<le> q" "q \<le> 1"
  shows "unit_cost fee p \<le> unit_cost fee q"
proof -
  have "fee * ((q - p) * (p + q - 1)) \<ge> - (q - p)"
  proof (cases "0 \<le> p + q - 1")
    case True
    have "0 \<le> fee * ((q - p) * (p + q - 1))"
      by (intro mult_nonneg_nonneg) (use assms True in linarith)+
    then show ?thesis using assms(4) by linarith
  next
    case False
    have 1: "(q - p) * (1 - p - q) \<le> (q - p) * 1"
      by (intro mult_left_mono) (use assms in linarith)+
    have "fee * ((q - p) * (1 - p - q)) \<le> 1 * ((q - p) * (1 - p - q))"
      by (intro mult_right_mono mult_nonneg_nonneg) (use assms False in linarith)+
    then show ?thesis using 1 by (simp add: algebra_simps)
  qed
  moreover have "unit_cost fee q - unit_cost fee p = (q - p) - fee * ((q - p) * (p + q - 1))"
    by (simp add: unit_cost_def algebra_simps)
  moreover have "fee * ((q - p) * (p + q - 1)) \<le> q - p"
  proof (cases "0 \<le> p + q - 1")
    case True
    have 1: "(q - p) * (p + q - 1) \<le> (q - p) * 1"
      by (intro mult_left_mono) (use assms in linarith)+
    have "fee * ((q - p) * (p + q - 1)) \<le> 1 * ((q - p) * (p + q - 1))"
      by (intro mult_right_mono mult_nonneg_nonneg) (use assms True in linarith)+
    then show ?thesis using 1 by simp
  next
    case False
    have "fee * ((q - p) * (p + q - 1)) \<le> 0"
      by (intro mult_nonneg_nonpos mult_nonneg_nonpos) (use assms False in linarith)+
    then show ?thesis using assms(4) by linarith
  qed
  ultimately show ?thesis by linarith
qed

lemma unit_cost_bounds:
  assumes "0 \<le> fee" "fee \<le> 1" "0 \<le> p" "p \<le> 1"
  shows "p \<le> unit_cost fee p" "unit_cost fee p \<le> 1"
proof -
  show "p \<le> unit_cost fee p" using assms by (simp add: unit_cost_def)
  have "unit_cost fee p \<le> unit_cost fee 1" using assms by (intro unit_cost_mono) auto
  then show "unit_cost fee p \<le> 1" by (simp add: unit_cost_def)
qed

lemma prec28: "prec = 28" by (rule prec_def)

lemma unit_part:
  fixes p q :: rat
  assumes "0 \<le> p" "p \<le> 1" "0 \<le> q" "q \<le> B"
  shows "0 \<le> q * p" "q * p \<le> B"
  using assms mult_left_mono [of p 1 q] by auto

text \<open>The cost of a fill, when amounts have their usual number of places.\<close>

lemma fill_cost_exact:
  assumes s: "grid 6 s" "0 \<le> dval s" "dval s < 10 ^ 10"
    and p: "grid 4 p" "0 \<le> dval p" "dval p \<le> 1"
    and f: "grid 4 (dr_signal_fee_rate order)" "0 \<le> dval (dr_signal_fee_rate order)"
      "dval (dr_signal_fee_rate order) \<le> 1"
  shows "dval (fl_total_cost (fill_of order book s p c)) = dval s * unit_cost (dval (dr_signal_fee_rate order)) (dval p)"
    and "grid 18 (fl_total_cost (fill_of order book s p c))"
proof -
  let ?f = "dr_signal_fee_rate order"
  note sp = unit_part [OF p(2,3) s(2) order_refl]
  have gross: "dval (dmul s p) = dval s * dval p" "grid 10 (dmul s p)"
    using dmul_exact [OF s(1) p(1)] sp s by (simp_all add: prec28)
  note sf = unit_part [OF f(2,3) s(2) order_refl]
  have 1: "dval (dmul s ?f) = dval s * dval ?f" "grid 10 (dmul s ?f)"
    using dmul_exact [OF s(1) f(1)] sf s by (simp_all add: prec28)
  note sfp = unit_part [OF p(2,3) sf(1,2)]
  have 2: "dval (dmul (dmul s ?f) p) = dval s * dval ?f * dval p" "grid 14 (dmul (dmul s ?f) p)"
    using dmul_exact [OF 1(2) p(1)] sfp s by (simp_all add: prec28 1)
  have q: "dval (dsub d1 p) = 1 - dval p" "grid 4 (dsub d1 p)"
    using dsub_exact [of 4 d1 p] p by (simp_all add: prec28)
  have q01: "0 \<le> 1 - dval p" "1 - dval p \<le> 1" using p by simp_all
  note sfpq = unit_part [OF q01 sfp(1,2)]
  have 3: "dval (dmul (dmul (dmul s ?f) p) (dsub d1 p)) = dval s * dval ?f * dval p * (1 - dval p)"
    "grid 18 (dmul (dmul (dmul s ?f) p) (dsub d1 p))"
    using dmul_exact [OF 2(2) q(2)] sfpq s by (simp_all add: prec28 2 q)
  have tot: "dval s * dval p + dval s * dval ?f * dval p * (1 - dval p)
      = dval s * unit_cost (dval ?f) (dval p)"
    by (simp add: unit_cost_def algebra_simps)
  have b: "0 \<le> dval s * unit_cost (dval ?f) (dval p)" "dval s * unit_cost (dval ?f) (dval p) \<le> dval s"
  proof -
    note ub = unit_cost_bounds [OF f(2,3) p(2,3)]
    have "0 \<le> unit_cost (dval ?f) (dval p)" using ub p by simp
    from unit_part [OF this ub(2) s(2) order_refl]
    show "0 \<le> dval s * unit_cost (dval ?f) (dval p)" "dval s * unit_cost (dval ?f) (dval p) \<le> dval s" .
  qed
  have "dval (dadd (dmul s p) (dmul (dmul (dmul s ?f) p) (dsub d1 p)))
      = dval s * unit_cost (dval ?f) (dval p)
      \<and> grid 18 (dadd (dmul s p) (dmul (dmul (dmul s ?f) p) (dsub d1 p)))"
    using dadd_exact [OF grid_mono [OF gross(2), of 18] 3(2)] b s
    by (simp add: prec28 gross 3 tot)
  then show "dval (fl_total_cost (fill_of order book s p c)) = dval s * unit_cost (dval ?f) (dval p)"
    and "grid 18 (fl_total_cost (fill_of order book s p c))"
    by (simp_all add: fill_of_def Let_def)
qed

lemma sum_dec_exact:
  assumes "\<forall>x \<in> set xs. grid 18 x \<and> 0 \<le> dval x" and "sum_list (map dval xs) < 10 ^ 10"
  shows "dval (sum_dec xs) = sum_list (map dval xs)"
proof -
  have "grid 18 a \<Longrightarrow> 0 \<le> dval a \<Longrightarrow> dval a + sum_list (map dval xs) < 10 ^ 10
      \<Longrightarrow> dval (fold (\<lambda>x acc. dadd acc x) xs a) = dval a + sum_list (map dval xs)" for a
    using assms(1)
  proof (induction xs arbitrary: a)
    case (Cons x xs)
    have nn: "0 \<le> sum_list (map dval xs)" using Cons.prems(4) by (intro sum_list_nonneg) auto
    have "dval (dadd a x) = dval a + dval x" "grid 18 (dadd a x)"
      using dadd_exact [of 18 a x] Cons.prems nn by (simp_all add: prec28)
    then show ?case using Cons by simp
  qed simp
  from this [of d0] show ?thesis using assms(2) by (simp add: sum_dec_def)
qed


section \<open>Conservation\<close>

definition levels_grid :: "levels \<Rightarrow> bool" where
  "levels_grid l \<longleftrightarrow> (\<forall>(p, s) \<in> set l. grid 4 p \<and> 0 \<le> dval p \<and> dval p \<le> 1
     \<and> grid 6 s \<and> 0 \<le> dval s \<and> dval s < 10 ^ 20)"

lemma set_lv_put_subset: "set (lv_put l p s) \<subseteq> set l \<union> insert p (fst ` set l) \<times> {s}"
  by (induction l) (auto split: if_splits)

lemma levels_grid_put:
  assumes "levels_grid l" and "levels_grid [(p, s)]"
  shows "levels_grid (lv_put l p s)"
  using assms set_lv_put_subset [of l p s] unfolding levels_grid_def by fastforce

lemma levels_grid_display: "levels_grid (rb_asks b) \<Longrightarrow> levels_grid (display_of b)"
proof -
  have "levels_grid xs \<Longrightarrow> levels_grid l \<Longrightarrow> levels_grid (fold (\<lambda>(p, s) l. lv_put l p s) xs l)" for xs l
  proof (induction xs arbitrary: l)
    case (Cons x xs)
    have "levels_grid [x]" "levels_grid xs" using Cons.prems(1) by (simp_all add: levels_grid_def)
    with Cons show ?case by (cases x) (simp add: levels_grid_put)
  qed simp
  moreover have "levels_grid []" by (simp add: levels_grid_def)
  ultimately show "levels_grid (rb_asks b) \<Longrightarrow> levels_grid (display_of b)"
    by (simp add: display_of_def)
qed

lemma lv_get_elem: "lv_get l p = Some s \<Longrightarrow> \<exists>q. (q, s) \<in> set l"
  by (induction l) (auto split: if_splits)

lemma levels_grid_get0: "levels_grid l \<Longrightarrow> grid 6 (lv_get0 l p) \<and> 0 \<le> dval (lv_get0 l p) \<and> dval (lv_get0 l p) < 10 ^ 20"
  by (auto simp: lv_get0_def levels_grid_def split: option.splits dest!: lv_get_elem)

definition depth_grid :: "levels \<Rightarrow> bool" where
  "depth_grid l \<longleftrightarrow> (\<forall>(p, d) \<in> set l. grid 4 p \<and> 0 \<le> dval p \<and> dval p \<le> 1 \<and> grid 6 d)"

lemma depth_grid_available:
  assumes cur: "levels_grid cur" and prev: "\<And>l. prev = Some l \<Longrightarrow> levels_grid l"
  shows "depth_grid (lv_sorted (available_depth prev cur))"
proof (cases prev)
  case None
  with cur show ?thesis by (auto simp: available_depth_def depth_grid_def levels_grid_def)
next
  case (Some l)
  have "grid 6 (dsub s (lv_get0 l p))" if "(p, s) \<in> set cur" for p s
    using dsub_exact(2) [of 6 s "lv_get0 l p"] levels_grid_get0 [OF prev [OF Some], of p] cur that
    by (fastforce simp: prec28 levels_grid_def)
  with cur Some show ?thesis by (auto simp: available_depth_def depth_grid_def levels_grid_def)
qed

definition fill_exact :: "paper_draft \<Rightarrow> fill_draft \<Rightarrow> bool" where
  "fill_exact order f \<longleftrightarrow> 0 \<le> dval (fl_price f) \<and> dval (fl_price f) \<le> 1 \<and> grid 18 (fl_total_cost f)
     \<and> dval (fl_total_cost f) = dval (fl_shares f) * unit_cost (dval (dr_signal_fee_rate order)) (dval (fl_price f))"

definition fee_ok :: "paper_draft \<Rightarrow> bool" where
  "fee_ok order \<longleftrightarrow> grid 4 (dr_signal_fee_rate order) \<and> 0 \<le> dval (dr_signal_fee_rate order)
     \<and> dval (dr_signal_fee_rate order) \<le> 1"

definition shares_of :: "fill_draft list \<Rightarrow> rat" where
  "shares_of fs = sum_list (map (\<lambda>f. dval (fl_shares f)) fs)"

lemma shares_of_simps [simp]:
  "shares_of [] = 0" "shares_of (f # fs) = dval (fl_shares f) + shares_of fs"
  "shares_of (fs @ gs) = shares_of fs + shares_of gs"
  by (simp_all add: shares_of_def)

lemma walk_depth_exact:
  assumes "walk_depth order book c avail r fs = (r', fs')" and "grid 6 r" "0 \<le> dval r" "dval r < 10 ^ 10"
    and "depth_grid avail" and fee: "fee_ok order"
  shows "grid 6 r' \<and> (\<exists>new. fs' = fs @ new \<and> shares_of new + dval r' = dval r \<and> (\<forall>f \<in> set new. fill_exact order f))"
  using assms(1-5)
proof (induction avail arbitrary: r fs)
  case (Cons a avail)
  obtain p d where a: "a = (p, d)" by (cases a)
  have g: "grid 4 p" "0 \<le> dval p" "dval p \<le> 1" "grid 6 d" "depth_grid avail"
    using Cons.prems(5) by (auto simp: a depth_grid_def)
  show ?case
  proof (cases "dle r d0 \<or> dlt (rq_limit_price (dr_request order)) p")
    case True
    with Cons.prems show ?thesis by (auto simp: a split: if_splits)
  next
    case go: False
    show ?thesis
    proof (cases "dle d d0")
      case True
      with Cons.prems go have "walk_depth order book c avail r fs = (r', fs')" by (simp add: a)
      from Cons.IH [OF this Cons.prems(2-4) g(5)] show ?thesis .
    next
      case False
      define s where "s = dmin d r"
      have s: "0 \<le> dval s" "dval s \<le> dval r" "grid 6 s"
        using False go grid_dmin [OF g(4) Cons.prems(2)] by (auto simp: s_def dcmp)
      have sub: "dval (dsub r s) = dval r - dval s" "grid 6 (dsub r s)"
        using dsub_exact [OF Cons.prems(2) s(3)] s Cons.prems(3,4) by (simp_all add: prec28)
      have "walk_depth order book c avail (dsub r s) (fs @ [fill_of order book s p c]) = (r', fs')"
        using Cons.prems(1) go False by (simp add: a s_def Let_def)
      from Cons.IH [OF this sub(2) _ _ g(5)] sub(1) s(1,2) Cons.prems(3,4)
      obtain new where new: "grid 6 r'" "fs' = fs @ fill_of order book s p c # new"
        "shares_of new + dval r' = dval r - dval s" "\<forall>f \<in> set new. fill_exact order f" by auto
      have "fill_exact order (fill_of order book s p c)"
        using fill_cost_exact [OF s(3,1) _ g(1-3)] fee s Cons.prems(4) g(2,3)
        by (simp add: fill_exact_def fee_ok_def)
      then show ?thesis using new by auto
    qed
  qed
qed simp

definition sim_exact :: "paper_draft \<Rightarrow> sim_state \<Rightarrow> bool" where
  "sim_exact order st \<longleftrightarrow> grid 6 (ss_remaining st)
     \<and> shares_of (ss_fills st) + dval (ss_remaining st) = dval (rq_requested_shares (dr_request order))
     \<and> (\<forall>f \<in> set (ss_fills st). fill_exact order f)
     \<and> (\<forall>l. ss_display st = Some l \<longrightarrow> levels_grid l)"

lemma sim_books_exact:
  assumes "sim_books order cutoff books st = Inr st'" and "sim_exact order st" and "sim_inv order cutoff st"
    and "dval (rq_requested_shares (dr_request order)) < 10 ^ 10"
    and "\<forall>b \<in> set books. levels_grid (rb_asks b)" and "fee_ok order"
  shows "sim_exact order st'"
  using assms
proof (induction books arbitrary: st)
  case (Cons b books)
  define c where "c = rb_replay_cutoff_at b"
  have v: "validate_book order b = Inr c"
    using Cons.prems(1) by (cases "validate_book order b") (auto simp: validate_book_def c_def split: if_splits)
  have chron: "\<not> (case ss_cutoff st of None \<Rightarrow> False | Some c' \<Rightarrow> c < c')"
    using Cons.prems(1) v by (simp split: if_splits del: not_less)
  have books: "\<forall>b \<in> set books. levels_grid (rb_asks b)" using Cons.prems(5) by simp
  show ?case
  proof (cases "c < rq_arrival_at (dr_request order) \<or> cutoff < c")
    case True
    then have "sim_books order cutoff books (st\<lparr>ss_cutoff := Some c\<rparr>) = Inr st'"
      using Cons.prems(1) v chron by simp
    moreover have "sim_exact order (st\<lparr>ss_cutoff := Some c\<rparr>)"
      using Cons.prems(2) by (simp add: sim_exact_def)
    moreover have "sim_inv order cutoff (st\<lparr>ss_cutoff := Some c\<rparr>)"
      using Cons.prems(3) chron by (fastforce simp: sim_inv_def)
    ultimately show ?thesis using Cons.IH books Cons.prems(4,6) by blast
  next
    case False
    obtain r fs where w: "walk_depth order b c (lv_sorted (available_depth (ss_display st) (display_of b)))
        (ss_remaining st) (ss_fills st) = (r, fs)" by (metis surj_pair)
    let ?st = "\<lparr>ss_remaining = r, ss_fills = fs, ss_display = Some (display_of b), ss_cutoff = Some c\<rparr>"
    have disp: "levels_grid (display_of b)" using Cons.prems(5) by (simp add: levels_grid_display)
    have "depth_grid (lv_sorted (available_depth (ss_display st) (display_of b)))"
      using disp Cons.prems(2) by (intro depth_grid_available) (auto simp: sim_exact_def)
    from walk_depth_exact [OF w _ _ _ this Cons.prems(6)]
    have "sim_exact order ?st"
      using Cons.prems(2-4) disp by (auto simp: sim_exact_def sim_inv_def)
    moreover have "sim_inv order cutoff ?st"
      using sim_step_inv [OF Cons.prems(3) w _ _ chron] False by simp
    moreover have "(if dle r d0 then Inr ?st else sim_books order cutoff books ?st) = Inr st'"
      using Cons.prems(1) v chron False w by (simp add: Let_def)
    ultimately show ?thesis using Cons.IH [OF _ _ _ Cons.prems(4) books Cons.prems(6)]
      by (auto split: if_splits)
  qed
qed simp


definition amounts_ok :: "paper_draft \<Rightarrow> replayed_book list \<Rightarrow> bool" where
  "amounts_ok order books \<longleftrightarrow> grid 6 (rq_requested_shares (dr_request order))
     \<and> dval (rq_requested_shares (dr_request order)) < 10 ^ 10
     \<and> fee_ok order \<and> (\<forall>b \<in> set books. levels_grid (rb_asks b))"

lemma simulate_buy_exact_run:
  assumes "simulate_buy order books cancel = Inr r" and "amounts_ok order books"
    and "0 \<le> dval (rq_requested_shares (dr_request order))"
  obtains cutoff st where "sim_exact order st" "sim_inv order cutoff st" "sm_fills r = ss_fills st"
    "sm_filled_shares r = dsub (rq_requested_shares (dr_request order)) (ss_remaining st)"
    "sm_remaining_shares r = ss_remaining st" "sm_total_cost r = sum_dec (map fl_total_cost (ss_fills st))"
proof -
  let ?q = "rq_requested_shares (dr_request order)"
  have q: "grid 6 ?q" "dval ?q < 10 ^ 10" using assms(2) by (simp_all add: amounts_ok_def)
  have rep: "representable ?q" using grid_representable [OF q(1)] q assms(3) by (simp add: prec28)
  from assms(1) obtain c st where run: "sim_books order (sim_cutoff order c) books (sim_start order) = Inr st"
    and r: "sm_fills r = ss_fills st" "sm_filled_shares r = dsub ?q (ss_remaining st)"
      "sm_remaining_shares r = ss_remaining st" "sm_total_cost r = sum_dec (map fl_total_cost (ss_fills st))"
    by (rule simulate_buy_run) (auto simp: sim_cutoff_def)
  have inv0: "sim_inv order (sim_cutoff order c) (sim_start order)"
    using rep assms(3) by (rule sim_start_inv)
  have "sim_exact order (sim_start order)" using q by (simp add: sim_exact_def sim_start_def)
  from sim_books_exact [OF run this inv0 q(2)] assms(2) have "sim_exact order st"
    by (simp add: amounts_ok_def)
  moreover have "sim_inv order (sim_cutoff order c) st" using run inv0 by (rule sim_books_inv)
  ultimately show ?thesis using that r by blast
qed

text \<open>shares are conserved: with amounts of the usual number of places, the fills' shares add up
  to exactly the filled shares, and with the remainder to exactly the request.
\<close>

theorem simulate_buy_conserves:
  assumes "simulate_buy order books cancel = Inr r" and "amounts_ok order books"
    and "0 \<le> dval (rq_requested_shares (dr_request order))"
  shows "shares_of (sm_fills r) = dval (sm_filled_shares r)
    \<and> shares_of (sm_fills r) + dval (sm_remaining_shares r) = dval (rq_requested_shares (dr_request order))"
proof -
  obtain cutoff st where st: "sim_exact order st" "sim_inv order cutoff st" "sm_fills r = ss_fills st"
    "sm_filled_shares r = dsub (rq_requested_shares (dr_request order)) (ss_remaining st)"
    "sm_remaining_shares r = ss_remaining st" using assms by (rule simulate_buy_exact_run)
  have "dval (dsub (rq_requested_shares (dr_request order)) (ss_remaining st))
      = dval (rq_requested_shares (dr_request order)) - dval (ss_remaining st)"
    using dsub_exact [of 6 "rq_requested_shares (dr_request order)" "ss_remaining st"] st(1,2) assms(2)
    by (simp add: sim_exact_def sim_inv_def amounts_ok_def prec28)
  with st show ?thesis by (simp add: sim_exact_def)
qed

lemma simulate_buy_cost:
  assumes "simulate_buy order books cancel = Inr r" and "amounts_ok order books"
    and "0 \<le> dval (rq_requested_shares (dr_request order))"
    and "0 \<le> dval (rq_limit_price (dr_request order))" "dval (rq_limit_price (dr_request order)) \<le> 1"
  shows "dval (sm_total_cost r) \<le> dval (rq_requested_shares (dr_request order))
    * unit_cost (dval (dr_signal_fee_rate order)) (dval (rq_limit_price (dr_request order)))"
proof -
  let ?q = "dval (rq_requested_shares (dr_request order))"
  let ?fee = "dval (dr_signal_fee_rate order)"
  let ?L = "dval (rq_limit_price (dr_request order))"
  obtain cutoff st where st: "sim_exact order st" "sim_inv order cutoff st" "sm_fills r = ss_fills st"
    "sm_total_cost r = sum_dec (map fl_total_cost (ss_fills st))"
    using assms(1-3) by (rule simulate_buy_exact_run)
  have fee: "0 \<le> ?fee" "?fee \<le> 1" using assms(2) by (simp_all add: amounts_ok_def fee_ok_def)
  have each: "grid 18 (fl_total_cost f) \<and> 0 \<le> dval (fl_total_cost f)
      \<and> dval (fl_total_cost f) \<le> dval (fl_shares f) * unit_cost ?fee ?L
      \<and> dval (fl_total_cost f) \<le> dval (fl_shares f) \<and> 0 \<le> unit_cost ?fee ?L"
    if "f \<in> set (ss_fills st)" for f
  proof -
    have f: "0 \<le> dval (fl_shares f)" "dval (fl_price f) \<le> ?L" "0 \<le> dval (fl_price f)" "dval (fl_price f) \<le> 1"
      "grid 18 (fl_total_cost f)" "dval (fl_total_cost f) = dval (fl_shares f) * unit_cost ?fee (dval (fl_price f))"
      using st(1,2) that by (auto simp: sim_inv_def sim_exact_def fill_ok_def fill_exact_def)
    note u = unit_cost_bounds [OF fee f(3,4)]
    have m: "unit_cost ?fee (dval (fl_price f)) \<le> unit_cost ?fee ?L"
      using fee f assms(5) by (intro unit_cost_mono)
    show ?thesis using f u m mult_left_mono [OF m f(1)] mult_left_mono [OF u(2) f(1)] by simp
  qed
  have nn: "0 \<le> shares_of (ss_fills st)"
    using st(2) unfolding shares_of_def by (intro sum_list_nonneg) (auto simp: sim_inv_def fill_ok_def)
  have le: "shares_of (ss_fills st) \<le> ?q" using st(1,2) by (simp add: sim_exact_def sim_inv_def)
  have sum1: "sum_list (map (\<lambda>f. dval (fl_total_cost f)) (ss_fills st)) \<le> shares_of (ss_fills st)"
    unfolding shares_of_def by (rule sum_list_mono) (use each in blast)
  then have "dval (sm_total_cost r) = sum_list (map (\<lambda>f. dval (fl_total_cost f)) (ss_fills st))"
    using sum_dec_exact [of "map fl_total_cost (ss_fills st)"] each le assms(2)
    by (simp add: st(4) comp_def amounts_ok_def)
  also have "\<dots> \<le> sum_list (map (\<lambda>f. dval (fl_shares f) * unit_cost ?fee ?L) (ss_fills st))"
    by (rule sum_list_mono) (use each in blast)
  also have "\<dots> = shares_of (ss_fills st) * unit_cost ?fee ?L"
    by (simp add: shares_of_def sum_list_mult_const)
  also have "\<dots> \<le> ?q * unit_cost ?fee ?L"
    using le unit_cost_bounds [OF fee assms(4,5)] assms(4) by (intro mult_right_mono) auto
  finally show ?thesis .
qed

section \<open>Solvency\<close>

lemma order_request_post_init_fields:
  "order_request_post_init r = Inr r' \<Longrightarrow>
    rq_requested_shares r = Finite (rq_requested_shares r')
    \<and> rq_target_notional_usd r = Finite (rq_target_notional_usd r')
    \<and> rq_limit_price r = Finite (rq_limit_price r')
    \<and> (\<exists>off. rq_submitted_at r = Aware (rq_submitted_at r') off)
    \<and> (\<exists>off. rq_arrival_at r = Aware (rq_arrival_at r') off)
    \<and> (\<exists>off. rq_expires_at r = Aware (rq_expires_at r') off)
    \<and> rq_token_id r' = strip (rq_token_id r) \<and> rq_condition_id r' = strip (rq_condition_id r)
    \<and> rq_prediction_id r' = strip (rq_prediction_id r)
    \<and> rq_selected_side r' = lower (strip (rq_selected_side r))"
  by (auto simp: order_request_post_init_def dest!: field_dests)

lemma read_order_inputs_side:
  assumes "read_order_inputs p cash = Inr i" and "skip_reason p = None"
  shows "in_selected_side i \<in> {''up'', ''down''} \<and> lower (strip (in_selected_side i)) = in_selected_side i
    \<and> in_selected_side i = lower (str_or_empty (dget p ''selected_side''))"
proof -
  obtain v where v: "dindex p ''selected_side'' = Inr v" and i: "in_selected_side i = lower (py_str v)"
    using assms(1) by (auto simp: read_order_inputs_def)
  have d: "dget p ''selected_side'' = v" using v by (auto simp: dindex_def dget_def split: option.splits)
  have s: "lower (str_or_empty v) \<in> {''up'', ''down''}"
    using assms(2) by (auto simp: skip_reason_def d split: if_splits)
  then have "str_or_empty v = py_str v" by (auto simp: str_or_empty_def lower_def split: if_splits)
  then have e: "in_selected_side i = lower (str_or_empty v)" by (simp add: i)
  have "lower (strip ''up'') = ''up''" "lower (strip ''down'') = ''down''" by code_simp+
  then show ?thesis using s by (auto simp: e d)
qed

lemma build_paper_order_Draft:
  assumes "build_paper_order H p config cash = Inr (Draft order)"
  obtains i shares where "read_order_inputs p cash = Inr i" "input_refusal i = None"
    "size_order config i = Inr shares" "0 < dval shares" "in_market_end_at i > fst (order_expiry config i)"
    "rq_requested_shares (dr_request order) = shares" "rq_limit_price (dr_request order) = limit_of i"
    "dr_signal_fee_rate order = in_fee_rate i" "dr_signal_selected_ask order = in_selected_ask i"
    "dr_signal_slippage_buffer order = in_slippage_buffer i" "dr_market_end_at order = Some (in_market_end_at i)"
    "rq_submitted_at (dr_request order) = in_submitted_at i"
    "rq_arrival_at (dr_request order) = fst (order_expiry config i)"
    "rq_expires_at (dr_request order) = snd (order_expiry config i)"
    "rq_target_notional_usd (dr_request order) = pc_target_notional_usd config"
    "rq_selected_side (dr_request order) = in_selected_side i"
    "rq_token_id (dr_request order)
      = strip (str_or_empty (dget p (token_key i)))"
    "request_ok (dr_request order)" "skip_reason p = None"
proof -
  from assms obtain i where skip: "skip_reason p = None" and i: "read_order_inputs p cash = Inr i"
    and ref: "input_refusal i = None" and b: "build_draft H p config i = Inr (Draft order)"
    by (auto simp: build_paper_order_def split: option.splits sum.splits)
  from b obtain shares csha rq where size: "size_order config i = Inr shares" and pos: "\<not> dle shares d0"
    and init: "order_request_post_init (request_args p config i shares csha) = Inr rq"
    and open_market: "draft_refusal p config i = None"
    and ord: "order = \<lparr>dr_request = rq, dr_signal_selected_ask = in_selected_ask i,
             dr_signal_fee_rate = in_fee_rate i, dr_signal_slippage_buffer = in_slippage_buffer i,
             dr_execution_config = paper_config_mapping config,
             dr_market_end_at = Some (in_market_end_at i)\<rparr>"
    by (auto simp: build_draft_def split: option.splits if_splits)
  have market: "in_market_end_at i > fst (order_expiry config i)"
    using open_market by (auto simp: draft_refusal_def Let_def split: if_splits)
  note f = order_request_post_init_fields [OF init, unfolded request_args_def, simplified]
  have side: "lower (strip (in_selected_side i)) = in_selected_side i"
    using read_order_inputs_side [OF i skip] by blast
  show ?thesis
    using that [OF i ref size _ market] f side pos ord skip order_request_post_init_request_ok [OF init]
    by (auto simp: dle_iff not_le)
qed

lemma input_refusal_None:
  "input_refusal i = None \<Longrightarrow> 0 < dval (in_selected_ask i) \<and> dval (in_selected_ask i) \<le> 1
    \<and> 0 \<le> dval (in_slippage_buffer i) \<and> 0 \<le> dval (in_fee_rate i) \<and> dval (in_fee_rate i) \<le> 1
    \<and> 0 < dval (in_cash i)"
  by (auto simp: input_refusal_def Let_def dcmp split: if_splits)

definition inputs_grid :: "dec paper_config \<Rightarrow> order_inputs \<Rightarrow> bool" where
  "inputs_grid config i \<longleftrightarrow> grid 4 (in_selected_ask i) \<and> grid 4 (in_slippage_buffer i) \<and> grid 4 (in_fee_rate i)
     \<and> dval (in_slippage_buffer i) < 10 ^ 10 \<and> grid 18 (pc_target_notional_usd config) \<and> grid 18 (in_cash i)
     \<and> 0 < dval (pc_target_notional_usd config) \<and> dval (pc_target_notional_usd config) \<le> 10 ^ 5
     \<and> 0 \<le> pc_share_precision config \<and> pc_share_precision config \<le> 6"

lemma limit_of_exact:
  assumes "inputs_grid config i" and "input_refusal i = None"
  shows "dval (limit_of i) = min 1 (dval (in_selected_ask i) + dval (in_slippage_buffer i))"
    and "grid 4 (limit_of i)" and "0 < dval (limit_of i)" and "dval (limit_of i) \<le> 1"
proof -
  have "dval (dadd (in_selected_ask i) (in_slippage_buffer i))
      = dval (in_selected_ask i) + dval (in_slippage_buffer i) \<and> grid 4 (dadd (in_selected_ask i) (in_slippage_buffer i))"
    using dadd_exact [of 4 "in_selected_ask i" "in_slippage_buffer i"] assms input_refusal_None [OF assms(2)]
    by (simp add: inputs_grid_def prec28)
  then show "dval (limit_of i) = min 1 (dval (in_selected_ask i) + dval (in_slippage_buffer i))"
    "grid 4 (limit_of i)" "0 < dval (limit_of i)" "dval (limit_of i) \<le> 1"
    using input_refusal_None [OF assms(2)] by (auto simp: limit_of_def intro: grid_dmin)
qed

lemma worst_total_exact:
  assumes "inputs_grid config i" and "input_refusal i = None"
  shows "dval (worst_total_of i) = unit_cost (dval (in_fee_rate i)) (dval (limit_of i))"
    and "grid 12 (worst_total_of i)"
proof -
  note L = limit_of_exact [OF assms]
  let ?f = "in_fee_rate i" and ?l = "limit_of i"
  have f: "0 \<le> dval ?f" "dval ?f \<le> 1" "grid 4 ?f"
    using assms(1) input_refusal_None [OF assms(2)] by (simp_all add: inputs_grid_def)
  note fl = unit_part [OF less_imp_le [OF L(3)] L(4) f(1,2)]
  have 1: "dval (dmul ?f ?l) = dval ?f * dval ?l" "grid 8 (dmul ?f ?l)"
    using dmul_exact [OF f(3) L(2)] fl by (simp_all add: prec28)
  have 2: "dval (dsub d1 ?l) = 1 - dval ?l" "grid 4 (dsub d1 ?l)"
    using dsub_exact [of 4 d1 ?l] L by (simp_all add: prec28)
  have "0 \<le> 1 - dval ?l" "1 - dval ?l \<le> 1" using L by simp_all
  note flq = unit_part [OF this fl]
  have 3: "dval (dmul (dmul ?f ?l) (dsub d1 ?l)) = dval ?f * dval ?l * (1 - dval ?l)"
    "grid 12 (dmul (dmul ?f ?l) (dsub d1 ?l))"
    using dmul_exact [OF 1(2) 2(2)] flq by (simp_all add: prec28 1 2)
  have "dval (dadd ?l (dmul (dmul ?f ?l) (dsub d1 ?l))) = dval ?l + dval ?f * dval ?l * (1 - dval ?l)
      \<and> grid 12 (dadd ?l (dmul (dmul ?f ?l) (dsub d1 ?l)))"
    using dadd_exact [OF grid_mono [OF L(2), of 12] 3(2)] L flq by (simp add: prec28 3)
  then show "dval (worst_total_of i) = unit_cost (dval (in_fee_rate i)) (dval (limit_of i))"
    "grid 12 (worst_total_of i)" by (simp_all add: worst_total_of_def Let_def unit_cost_def)
qed

text \<open>Sizing: at the worst price the shares never cost more than the budget.\<close>

lemma size_order_budget:
  assumes size: "size_order config i = Inr s" and ok: "inputs_grid config i" "input_refusal i = None"
  shows "dval s * unit_cost (dval (in_fee_rate i)) (dval (limit_of i))
      \<le> min (dval (pc_target_notional_usd config)) (dval (in_cash i))"
    and "grid 6 s" and "dval s < 10 ^ 10" and "0 \<le> dval s"
proof -
  define b where "b = dmin (pc_target_notional_usd config) (in_cash i)"
  define w where "w = worst_total_of i"
  note L = limit_of_exact [OF ok] and i = input_refusal_None [OF ok(2)]
  have w: "dval w = unit_cost (dval (in_fee_rate i)) (dval (limit_of i))" "grid 12 w"
    unfolding w_def using ok by (rule worst_total_exact)+
  have f: "0 \<le> dval (in_fee_rate i)" "dval (in_fee_rate i) \<le> 1" using i by auto
  have wL: "dval (limit_of i) \<le> dval w"
    unfolding w using unit_cost_bounds(1) [OF f less_imp_le [OF L(3)] L(4)] .
  have w0: "0 < dval w" using wL L(3) by simp
  have b: "0 < dval b" "dval b \<le> 10 ^ 5" "grid 18 b"
    using ok(1) i by (auto simp: b_def inputs_grid_def intro: grid_dmin)
  obtain q where q: "ddiv b w = Inr q" and s: "dquant_down q (nat (pc_share_precision config)) = Inr s"
    using size by (auto simp: size_order_def b_def w_def)
  note qb = ddiv_le [OF q b(1) w0]
  note sq = dquant_down_le [OF s qb(2)]
  show s0: "0 \<le> dval s" by (rule sq(1))
  show s6: "grid 6 s" using sq(3) ok(1) by (simp add: grid_def inputs_grid_def)
  have "dval s * dval w \<le> dval q * dval w" using sq(2) w0 by (intro mult_right_mono) auto
  then have "dval s * dval w * 10 ^ 27 \<le> dval q * dval w * 10 ^ 27" by (rule mult_right_mono) simp
  then have "dval s * dval w * 10 ^ 27 \<le> dval b * (10 ^ 27 + 1)" using qb(1) by (rule order_trans)
  then have lt: "dval s * dval w < dval b + 10 powi (- 18)" using b(2) by (simp add: power_int_minus field_simps)
  have "grid 18 (dec_mul_exact s w)" using s6 w(2) by (simp add: grid_def dec_mul_exact_def)
  then have "dval (dec_mul_exact s w) \<le> dval b" using b(3) lt by (intro grid_le [of 18]) simp_all
  then have bud: "dval s * dval w \<le> dval b" by simp
  then show "dval s * unit_cost (dval (in_fee_rate i)) (dval (limit_of i))
      \<le> min (dval (pc_target_notional_usd config)) (dval (in_cash i))" by (simp add: w b_def)
  have "1 \<le> dval (limit_of i) * 10 ^ 4"
  proof -
    have "dval (limit_of i) = of_int (coef_at (limit_of i) (- 4)) * 10 powi (- 4)"
      using coef_at_val [of "- 4" "limit_of i"] L(2) by (simp add: grid_def)
    then have v: "dval (limit_of i) * 10 ^ 4 = of_int (coef_at (limit_of i) (- 4))"
      by (simp add: power_int_minus)
    have "0 < coef_at (limit_of i) (- 4)" using L(3) v by (simp add: zero_less_mult_iff)
    then show ?thesis unfolding v by simp
  qed
  also have "\<dots> \<le> dval w * 10 ^ 4" using wL by simp
  finally have "1 \<le> dval w * 10 ^ 4" .
  then have "dval s * 1 \<le> dval s * (dval w * 10 ^ 4)" using s0 by (rule mult_left_mono)
  then show "dval s < 10 ^ 10" using bud b(2) by simp
qed


lemma ex_inputs_read: "read_order_inputs ex_prediction (Finite (Dec 100 0)) = Inr ex_inputs"
  by code_simp

lemma ex_inputs_grid: "inputs_grid ex_config ex_inputs"
  by (simp add: inputs_grid_def ex_config_def ex_inputs_def grid_def dval_def power_int_minus)

text \<open>the order built from a signal is well formed and says what the signal says: it buys the
  signal's side at a limit of its ask plus its slippage buffer but never above 1, arrives a
  latency after the signal, and expires at the time to live after that or at the market's end,
  whichever comes first, never before it arrives; it sells nothing and never exceeds the limits
  of a valid request.
\<close>

theorem build_paper_order_spec:
  assumes "build_paper_order H p config cash = Inr (Draft order)"
    and "read_order_inputs p cash = Inr i" and "inputs_grid config i"
  shows "let rq = dr_request order in
    request_ok rq \<and> rq_selected_side rq = lower (str_or_empty (dget p ''selected_side''))
    \<and> dval (rq_limit_price rq) = min 1 (dval (in_selected_ask i) + dval (in_slippage_buffer i))
    \<and> rq_submitted_at rq = in_submitted_at i
    \<and> rq_arrival_at rq = in_submitted_at i + pc_latency_ms config * 1000
    \<and> rq_expires_at rq = min (rq_arrival_at rq + pc_order_ttl_ms config * 1000) (in_market_end_at i)
    \<and> rq_expires_at rq \<le> in_market_end_at i"
proof -
  from assms(1) show ?thesis
  proof (rule build_paper_order_Draft)
    fix i' shares
    assume i': "read_order_inputs p cash = Inr i'" and ref: "input_refusal i' = None"
      and o: "rq_limit_price (dr_request order) = limit_of i'"
        "rq_submitted_at (dr_request order) = in_submitted_at i'"
        "rq_arrival_at (dr_request order) = fst (order_expiry config i')"
        "rq_expires_at (dr_request order) = snd (order_expiry config i')"
        "rq_selected_side (dr_request order) = in_selected_side i'"
        "request_ok (dr_request order)" "skip_reason p = None"
    have "i' = i" using i' assms(2) by simp
    then show ?thesis
      using o limit_of_exact [OF assms(3)] ref read_order_inputs_side [OF i' o(7)]
      by (simp add: Let_def order_expiry_def us_per_ms_def)
  qed
qed

theorem build_paper_order_spec_witness:
  "rq_expires_at (dr_request ex_order) \<le> 900000000 \<and> request_ok (dr_request ex_order)"
  using build_paper_order_spec [OF ex_order_build, of ex_inputs] ex_inputs_read ex_inputs_grid
  by (simp add: Let_def) (simp add: ex_inputs_def)



theorem simulate_buy_conserves_witness:
  "shares_of (sm_fills (projr ex_simulation)) + dval (sm_remaining_shares (projr ex_simulation)) = 9133471 / 10 ^ 6"
proof -
  have "amounts_ok ex_order ex_books"
    by (simp add: amounts_ok_def fee_ok_def ex_order_def ex_request_def ex_books_def ex_book_def
        levels_grid_def grid_def dval_def power_int_minus)
  from simulate_buy_conserves [OF ex_simulation_run this less_imp_le [OF ex_order_requested(2)]]
  show ?thesis by (simp add: ex_order_def ex_request_def dval_def power_int_minus)
qed

end
