(* ===== verification/PaperLedger.thy ===== *)
theory PaperLedger
  imports Ledger PaperSolvency
begin

text \<open>
  The paper ledger (\<open>bp_engine/execution/repository.py\<close>) over its tables
  (\<open>bp_engine/storage/paper_schema.py\<close>): orders, fills, terminal events and settlements, each
  stored under its natural key. \<open>N\<close> is the coercion of a decimal to a NUMERIC(38, 18) column.
\<close>

section \<open>The database\<close>

record live_prediction =
  lp_prediction_id :: string
  lp_semantic_sha256 :: string
  lp_prediction_version :: string
  lp_condition_id :: string
  lp_market_end_at :: int
  lp_scheduled_at :: int
  lp_recorded_at :: int
  lp_up_token_id :: string
  lp_down_token_id :: string
  lp_edge_config :: pyval
  lp_calibrated_probability :: dec
  lp_selected_side :: string
  lp_executable :: bool
  lp_trade :: bool
  lp_selected_ask :: "dec option"
  lp_selected_spread :: "dec option"
  lp_slippage_buffer :: dec
  lp_cost_adjusted_edge :: "dec option"

record evaluation =
  ev_prediction_id :: string
  ev_label_version :: string
  ev_official_outcome :: string
  ev_official_target :: int
  ev_label_source :: string
  ev_label_source_snapshot_sha256 :: string
  ev_label_source_observed_at :: int
  ev_evaluated_at :: int

record paper_db =
  db_predictions :: "live_prediction list"
  db_evaluations :: "evaluation list"
  db_events :: "raw_event list"
  db_orders :: "paper_order_row list"
  db_fills :: "paper_fill_row list"
  db_terminals :: "paper_terminal_row list"
  db_settlements :: "paper_settlement_row list"

section \<open>The columns\<close>

definition order_coerce :: "(dec \<Rightarrow> dec res) \<Rightarrow> paper_order_row \<Rightarrow> paper_order_row res" where
  "order_coerce N p =
     ebind (N (po_requested_shares p)) (\<lambda>shares.
     ebind (N (po_target_notional_usd p)) (\<lambda>target.
     ebind (N (po_limit_price p)) (\<lambda>limit.
     ebind (N (po_signal_selected_ask p)) (\<lambda>ask.
     ebind (N (po_signal_fee_rate p)) (\<lambda>fee.
     ebind (N (po_signal_slippage_buffer p)) (\<lambda>slip.
     ebind (integrity (dlt d0 shares \<and> dlt d0 target \<and> po_submitted_at p \<le> po_arrival_at p
       \<and> po_arrival_at p < po_expires_at p \<and> dlt d0 limit \<and> dle limit d1)) (\<lambda>_.
     Inr (p\<lparr>po_requested_shares := shares, po_target_notional_usd := target, po_limit_price := limit,
       po_signal_selected_ask := ask, po_signal_fee_rate := fee, po_signal_slippage_buffer := slip\<rparr>))))))))"

definition fill_coerce :: "(dec \<Rightarrow> dec res) \<Rightarrow> paper_fill_row \<Rightarrow> paper_fill_row res" where
  "fill_coerce N f =
     ebind (N (pf_shares f)) (\<lambda>shares.
     ebind (N (pf_price f)) (\<lambda>price.
     ebind (N (pf_gross_cost f)) (\<lambda>gross.
     ebind (N (pf_fee f)) (\<lambda>fee.
     ebind (N (pf_total_cost f)) (\<lambda>total.
     ebind (N (pf_signal_ask_slippage f)) (\<lambda>slip.
     ebind (integrity (dlt d0 shares \<and> dlt d0 price \<and> dle price d1 \<and> dle d0 gross \<and> dle d0 fee \<and> dle d0 total)) (\<lambda>_.
     Inr (f\<lparr>pf_shares := shares, pf_price := price, pf_gross_cost := gross, pf_fee := fee,
       pf_total_cost := total, pf_signal_ask_slippage := slip\<rparr>))))))))"

definition terminal_coerce :: "(dec \<Rightarrow> dec res) \<Rightarrow> paper_terminal_row \<Rightarrow> paper_terminal_row res" where
  "terminal_coerce N t =
     ebind (N (pt_remaining_shares t)) (\<lambda>remaining.
     ebind (integrity (dle d0 remaining)) (\<lambda>_.
     Inr (t\<lparr>pt_remaining_shares := remaining\<rparr>)))"

definition settlement_coerce :: "(dec \<Rightarrow> dec res) \<Rightarrow> paper_settlement_row \<Rightarrow> paper_settlement_row res" where
  "settlement_coerce N s =
     ebind (N (ps_filled_shares s)) (\<lambda>shares.
     ebind (N (ps_total_fill_cost s)) (\<lambda>cost.
     ebind (N (ps_total_fees s)) (\<lambda>fees.
     ebind (N (ps_payout s)) (\<lambda>payout.
     ebind (N (ps_realized_pnl s)) (\<lambda>pnl.
     ebind (integrity (ps_official_target s \<in> {0, 1} \<and> dlt d0 shares \<and> dle d0 cost \<and> dle d0 fees \<and> dle d0 payout)) (\<lambda>_.
     Inr (s\<lparr>ps_filled_shares := shares, ps_total_fill_cost := cost, ps_total_fees := fees,
       ps_payout := payout, ps_realized_pnl := pnl\<rparr>)))))))"

section \<open>Semantic equality of a stored and a new record\<close>

definition same_order :: "paper_order_row \<Rightarrow> paper_order_row \<Rightarrow> bool" where
  "same_order r v \<longleftrightarrow> po_paper_order_id r = po_paper_order_id v \<and> po_prediction_id r = po_prediction_id v
     \<and> po_prediction_semantic_sha256 r = po_prediction_semantic_sha256 v
     \<and> po_execution_version r = po_execution_version v
     \<and> po_execution_config_sha256 r = po_execution_config_sha256 v
     \<and> po_condition_id r = po_condition_id v \<and> po_token_id r = po_token_id v
     \<and> po_selected_side r = po_selected_side v
     \<and> same_dec (po_requested_shares r) (po_requested_shares v)
     \<and> same_dec (po_target_notional_usd r) (po_target_notional_usd v)
     \<and> po_submitted_at r = po_submitted_at v \<and> po_arrival_at r = po_arrival_at v
     \<and> po_expires_at r = po_expires_at v \<and> same_dec (po_limit_price r) (po_limit_price v)
     \<and> same_dec (po_signal_selected_ask r) (po_signal_selected_ask v)
     \<and> same_dec (po_signal_fee_rate r) (po_signal_fee_rate v)
     \<and> same_dec (po_signal_slippage_buffer r) (po_signal_slippage_buffer v)
     \<and> same_json (po_execution_config r) (po_execution_config v)
     \<and> po_semantic_sha256 r = po_semantic_sha256 v \<and> po_created_at r = po_created_at v"

definition same_fill :: "paper_fill_row \<Rightarrow> paper_fill_row \<Rightarrow> bool" where
  "same_fill r v \<longleftrightarrow> pf_paper_order_id r = pf_paper_order_id v \<and> pf_fill_key r = pf_fill_key v
     \<and> pf_fill_at r = pf_fill_at v \<and> same_dec (pf_shares r) (pf_shares v)
     \<and> same_dec (pf_price r) (pf_price v) \<and> same_dec (pf_gross_cost r) (pf_gross_cost v)
     \<and> same_dec (pf_fee r) (pf_fee v) \<and> same_dec (pf_total_cost r) (pf_total_cost v)
     \<and> same_dec (pf_signal_ask_slippage r) (pf_signal_ask_slippage v)
     \<and> pf_book_anchor_event_id r = pf_book_anchor_event_id v
     \<and> pf_book_anchor_dedupe_key r = pf_book_anchor_dedupe_key v
     \<and> pf_book_applied_event_ids r = pf_book_applied_event_ids v
     \<and> pf_book_applied_dedupe_keys r = pf_book_applied_dedupe_keys v
     \<and> pf_replay_cutoff_at r = pf_replay_cutoff_at v
     \<and> pf_semantic_sha256 r = pf_semantic_sha256 v \<and> pf_created_at r = pf_created_at v"

definition same_terminal :: "paper_terminal_row \<Rightarrow> paper_terminal_row \<Rightarrow> bool" where
  "same_terminal r v \<longleftrightarrow> pt_paper_order_id r = pt_paper_order_id v
     \<and> pt_terminal_status r = pt_terminal_status v
     \<and> same_dec (pt_remaining_shares r) (pt_remaining_shares v) \<and> pt_event_at r = pt_event_at v
     \<and> pt_reason r = pt_reason v \<and> pt_semantic_sha256 r = pt_semantic_sha256 v
     \<and> pt_created_at r = pt_created_at v"

definition same_settlement :: "paper_settlement_row \<Rightarrow> paper_settlement_row \<Rightarrow> bool" where
  "same_settlement r v \<longleftrightarrow> ps_paper_order_id r = ps_paper_order_id v
     \<and> ps_label_version r = ps_label_version v \<and> ps_official_outcome r = ps_official_outcome v
     \<and> ps_official_target r = ps_official_target v \<and> ps_label_source r = ps_label_source v
     \<and> ps_label_source_snapshot_sha256 r = ps_label_source_snapshot_sha256 v
     \<and> ps_label_source_observed_at r = ps_label_source_observed_at v
     \<and> same_dec (ps_filled_shares r) (ps_filled_shares v)
     \<and> same_dec (ps_total_fill_cost r) (ps_total_fill_cost v)
     \<and> same_dec (ps_total_fees r) (ps_total_fees v) \<and> same_dec (ps_payout r) (ps_payout v)
     \<and> same_dec (ps_realized_pnl r) (ps_realized_pnl v) \<and> ps_settled_at r = ps_settled_at v
     \<and> ps_semantic_sha256 r = ps_semantic_sha256 v \<and> ps_created_at r = ps_created_at v"

section \<open>The natural keys\<close>

definition order_key :: "paper_order_row \<Rightarrow> string \<times> string" where
  "order_key p = (po_prediction_id p, po_execution_version p)"

definition fill_key :: "paper_fill_row \<Rightarrow> string \<times> string" where
  "fill_key f = (pf_paper_order_id f, pf_fill_key f)"

definition settlement_key :: "paper_settlement_row \<Rightarrow> string \<times> string" where
  "settlement_key s = (ps_paper_order_id s, ps_label_version s)"

text \<open>The unique constraint of the orders that is not their natural key.\<close>

definition order_free :: "paper_order_row list \<Rightarrow> paper_order_row \<Rightarrow> bool" where
  "order_free table p \<longleftrightarrow> (\<forall>x \<in> set table. po_paper_order_id x \<noteq> po_paper_order_id p)"

interpretation orders: ledger_table order_key same_order "order_coerce N" order_free for N
  by unfold_locales (auto simp: order_coerce_def order_key_def integrity_def)

interpretation fills: ledger_table fill_key same_fill "fill_coerce N" no_other for N
  by unfold_locales (auto simp: fill_coerce_def fill_key_def integrity_def)

interpretation terminals: ledger_table pt_paper_order_id same_terminal "terminal_coerce N" no_other for N
  by unfold_locales (auto simp: terminal_coerce_def integrity_def)

interpretation settlements: ledger_table settlement_key same_settlement "settlement_coerce N" no_other for N
  by unfold_locales (auto simp: settlement_coerce_def settlement_key_def integrity_def)

section \<open>The repository\<close>

definition lookup_prediction :: "paper_db \<Rightarrow> string \<Rightarrow> live_prediction option res" where
  "lookup_prediction db pid = lookup_row lp_prediction_id (db_predictions db) pid"

definition lookup_order_id :: "paper_db \<Rightarrow> string \<Rightarrow> paper_order_row option res" where
  "lookup_order_id db oid = lookup_row po_paper_order_id (db_orders db) oid"

definition require_order :: "paper_db \<Rightarrow> string \<Rightarrow> paper_order_row res" where
  "require_order db oid = ebind (lookup_order_id db oid) (\<lambda>row. case row of
       None \<Rightarrow> Inl (ValueError (''paper order does not exist: '' @ oid))
     | Some r \<Rightarrow> Inr r)"

text \<open>\<open>_decimal\<close> of a JSON value: what is no number raises \<open>InvalidOperation\<close>.\<close>

definition rp_decimal :: "pyval \<Rightarrow> decimal res" where
  "rp_decimal v = (case to_decimal v of None \<Rightarrow> Inl InvalidOperation | Some x \<Rightarrow> Inr x)"

definition decimal_is :: "decimal \<Rightarrow> dec \<Rightarrow> bool" where
  "decimal_is v d = (case v of Finite x \<Rightarrow> deq x d | _ \<Rightarrow> False)"

definition validate_source_prediction :: "paper_db \<Rightarrow> paper_order_row \<Rightarrow> unit res" where
  "validate_source_prediction db order =
     ebind (lookup_prediction db (po_prediction_id order)) (\<lambda>row. case row of
       None \<Rightarrow> Inl (ValueError (''source prediction does not exist: '' @ po_prediction_id order))
     | Some source \<Rightarrow>
       ebind (require (lp_semantic_sha256 source = po_prediction_semantic_sha256 order)
         (ValueError ''source prediction semantic SHA-256 mismatch'')) (\<lambda>_.
       ebind (require (lp_trade source \<and> lp_executable source)
         (ValueError ''paper order requires trade=true and executable=true'')) (\<lambda>_.
       ebind (require (lp_condition_id source = po_condition_id order)
         (ValueError ''paper order condition does not match source prediction'')) (\<lambda>_.
       ebind (require (lower (lp_selected_side source) = po_selected_side order)
         (ValueError ''paper order side does not match source prediction'')) (\<lambda>_.
       ebind (require ((if po_selected_side order = ''up'' then lp_up_token_id source
           else lp_down_token_id source) = po_token_id order)
         (ValueError ''paper order token does not match selected source side'')) (\<lambda>_.
       ebind (require (case lp_selected_ask source of None \<Rightarrow> False
           | Some a \<Rightarrow> deq a (po_signal_selected_ask order))
         (ValueError ''paper order signal ask does not match source prediction'')) (\<lambda>_.
       ebind (require (deq (lp_slippage_buffer source) (po_signal_slippage_buffer order))
         (ValueError ''paper order slippage does not match source prediction'')) (\<lambda>_.
       case lp_edge_config source of
         PDict edge \<Rightarrow> (case map_of edge ''fee_rate'' of
             None \<Rightarrow> Inl (ValueError ''source prediction edge config is missing fee_rate'')
           | Some v \<Rightarrow> ebind (rp_decimal v) (\<lambda>fee.
               require (decimal_is fee (po_signal_fee_rate order))
                 (ValueError ''paper order fee rate does not match source prediction'')))
       | _ \<Rightarrow> Inl (ValueError ''source prediction edge config is missing fee_rate'')))))))))"

definition insert_order :: "(dec \<Rightarrow> dec res) \<Rightarrow> paper_db \<Rightarrow> paper_order_row \<Rightarrow> (paper_db \<times> bool) res" where
  "insert_order N db order =
     ebind (validate_source_prediction db order) (\<lambda>_.
     ebind (lookup_order_id db (po_paper_order_id order)) (\<lambda>by_id. case by_id of
       Some row \<Rightarrow> if same_order row order then Inr (db, False)
         else Inl (PaperLedgerConflictError (''conflicting paper order id='' @ po_paper_order_id order))
     | None \<Rightarrow>
         ebind (store_row order_key same_order (order_coerce N) order_free
           (PaperLedgerConflictError (''conflicting paper order prediction_id='' @ po_prediction_id order
             @ '' execution_version='' @ po_execution_version order)) [] (db_orders db) order) (\<lambda>(table, created).
         Inr (db\<lparr>db_orders := table\<rparr>, created))))"

definition insert_fill :: "(dec \<Rightarrow> dec res) \<Rightarrow> paper_db \<Rightarrow> paper_fill_row \<Rightarrow> (paper_db \<times> bool) res" where
  "insert_fill N db fill =
     ebind (require_order db (pf_paper_order_id fill)) (\<lambda>_.
     ebind (store_row fill_key same_fill (fill_coerce N) no_other
       (PaperLedgerConflictError (''conflicting paper fill order_id='' @ pf_paper_order_id fill
         @ '' fill_key='' @ pf_fill_key fill)) [] (db_fills db) fill) (\<lambda>(table, created).
     Inr (db\<lparr>db_fills := table\<rparr>, created)))"

definition insert_terminal_event ::
  "(dec \<Rightarrow> dec res) \<Rightarrow> paper_db \<Rightarrow> paper_terminal_row \<Rightarrow> (paper_db \<times> bool) res" where
  "insert_terminal_event N db event =
     ebind (require_order db (pt_paper_order_id event)) (\<lambda>_.
     ebind (store_row pt_paper_order_id same_terminal (terminal_coerce N) no_other
       (PaperLedgerConflictError (''conflicting paper terminal event order_id='' @ pt_paper_order_id event))
       [] (db_terminals db) event) (\<lambda>(table, created).
     Inr (db\<lparr>db_terminals := table\<rparr>, created)))"

definition insert_settlement ::
  "(dec \<Rightarrow> dec res) \<Rightarrow> paper_db \<Rightarrow> paper_settlement_row \<Rightarrow> (paper_db \<times> bool) res" where
  "insert_settlement N db settlement =
     ebind (require_order db (ps_paper_order_id settlement)) (\<lambda>_.
     ebind (store_row settlement_key same_settlement (settlement_coerce N) no_other
       (PaperLedgerConflictError (''conflicting paper settlement order_id='' @ ps_paper_order_id settlement
         @ '' label_version='' @ ps_label_version settlement)) [] (db_settlements db) settlement) (\<lambda>(table, created).
     Inr (db\<lparr>db_settlements := table\<rparr>, created)))"

section \<open>What the ledger keeps\<close>

definition db_extends :: "paper_db \<Rightarrow> paper_db \<Rightarrow> bool" where
  "db_extends db db' \<longleftrightarrow> db_predictions db' = db_predictions db \<and> db_evaluations db' = db_evaluations db
     \<and> db_events db' = db_events db \<and> prefix (db_orders db) (db_orders db')
     \<and> prefix (db_fills db) (db_fills db') \<and> prefix (db_terminals db) (db_terminals db')
     \<and> prefix (db_settlements db) (db_settlements db')"

definition order_ids :: "paper_db \<Rightarrow> string set" where
  "order_ids db = po_paper_order_id ` set (db_orders db)"

definition order_sourced :: "paper_db \<Rightarrow> paper_order_row \<Rightarrow> bool" where
  "order_sourced db o' \<longleftrightarrow> (\<exists>p \<in> set (db_predictions db). lp_prediction_id p = po_prediction_id o'
     \<and> lp_semantic_sha256 p = po_prediction_semantic_sha256 o' \<and> lp_trade p \<and> lp_executable p
     \<and> lp_condition_id p = po_condition_id o' \<and> lower (lp_selected_side p) = po_selected_side o'
     \<and> po_token_id o' = (if po_selected_side o' = ''up'' then lp_up_token_id p else lp_down_token_id p))"

definition paper_wf :: "paper_db \<Rightarrow> bool" where
  "paper_wf db \<longleftrightarrow> unique_on order_key (db_orders db) \<and> unique_on po_paper_order_id (db_orders db)
     \<and> unique_on fill_key (db_fills db) \<and> unique_on pt_paper_order_id (db_terminals db)
     \<and> unique_on settlement_key (db_settlements db)
     \<and> pf_paper_order_id ` set (db_fills db) \<subseteq> order_ids db
     \<and> pt_paper_order_id ` set (db_terminals db) \<subseteq> order_ids db
     \<and> ps_paper_order_id ` set (db_settlements db) \<subseteq> order_ids db
     \<and> (\<forall>o' \<in> set (db_orders db). order_sourced db o')"

text \<open>What every operation of the ledger does to the database.\<close>

definition ledger_step :: "paper_db \<Rightarrow> paper_db \<Rightarrow> bool" where
  "ledger_step db db' \<longleftrightarrow> db_extends db db' \<and> (paper_wf db \<longrightarrow> paper_wf db')"

lemma ledger_step_refl [simp, intro]: "ledger_step db db"
  by (simp add: ledger_step_def db_extends_def)

lemma ledger_step_trans: "ledger_step a b \<Longrightarrow> ledger_step b c \<Longrightarrow> ledger_step a c"
  by (auto simp: ledger_step_def db_extends_def intro: prefix_order.trans)

lemma ledger_step_efold:
  assumes "efold f xs s = Inr t" and "\<And>x s t. x \<in> set xs \<Longrightarrow> f x s = Inr t \<Longrightarrow> ledger_step (g s) (g t)"
  shows "ledger_step (g s) (g t)"
  using assms(1) by (rule efold_invariant [where P = "\<lambda>u. ledger_step (g s) (g u)"])
    (auto intro: ledger_step_trans assms(2))

lemma require_order_Inr: "require_order db oid = Inr r \<Longrightarrow> oid \<in> order_ids db"
proof -
  assume "require_order db oid = Inr r"
  then have "filter (\<lambda>x. po_paper_order_id x = oid) (db_orders db) = [r]"
    by (auto simp: require_order_def lookup_order_id_def lookup_row_def split: option.splits)
  then have "r \<in> set (filter (\<lambda>x. po_paper_order_id x = oid) (db_orders db))" by simp
  then show ?thesis by (auto simp: order_ids_def)
qed

lemma lookup_prediction_Some:
  "lookup_prediction db pid = Inr (Some p) \<Longrightarrow> p \<in> set (db_predictions db) \<and> lp_prediction_id p = pid"
proof -
  assume "lookup_prediction db pid = Inr (Some p)"
  then have "filter (\<lambda>x. lp_prediction_id x = pid) (db_predictions db) = [p]"
    by (simp add: lookup_prediction_def lookup_row_def)
  then have "p \<in> set (filter (\<lambda>x. lp_prediction_id x = pid) (db_predictions db))" by simp
  then show ?thesis by simp
qed

lemma validate_source_prediction_Inr:
  "validate_source_prediction db order = Inr u \<Longrightarrow> order_sourced db order"
  by (fastforce simp: validate_source_prediction_def order_sourced_def
      dest: lookup_prediction_Some split: option.splits)

lemma order_coerce_fields:
  assumes "order_coerce N p = Inr s"
  shows "po_paper_order_id s = po_paper_order_id p" "po_prediction_id s = po_prediction_id p"
    "order_sourced db s = order_sourced db p" "po_execution_version s = po_execution_version p"
  using assms by (auto simp: order_coerce_def order_sourced_def)

lemma insert_order_step:
  assumes "insert_order N db order = Inr (db', c)"
  shows "ledger_step db db'"
proof -
  from assms obtain by_id where src: "order_sourced db order"
    and by_id: "lookup_order_id db (po_paper_order_id order) = Inr by_id"
    by (auto simp: insert_order_def dest: validate_source_prediction_Inr)
  show ?thesis
  proof (cases by_id)
    case (Some row)
    with assms by_id show ?thesis by (auto simp: insert_order_def split: if_splits)
  next
    case None
    with assms by_id obtain e table where
      st: "store_row order_key same_order (order_coerce N) order_free e [] (db_orders db) order = Inr (table, c)"
      and db': "db' = db\<lparr>db_orders := table\<rparr>"
      by (auto simp: insert_order_def)
    from st show ?thesis
    proof (cases rule: orders.store_cases)
      case (inserted s)
      note f = order_coerce_fields [OF inserted(1)]
      have "unique_on order_key (db_orders db @ [s])" if "unique_on order_key (db_orders db)"
        using orders.store_unique [OF st] inserted(6) that by simp
      moreover have "unique_on po_paper_order_id (db_orders db @ [s])"
        if "unique_on po_paper_order_id (db_orders db)"
        using inserted(4) that by (auto simp: order_free_def)
      ultimately show ?thesis using inserted(6) src f
        by (auto simp: ledger_step_def db_extends_def paper_wf_def db' order_ids_def order_sourced_def)
    qed (auto simp: db' ledger_step_def db_extends_def)
  qed
qed

lemma insert_fill_step:
  assumes "insert_fill N db fill = Inr (db', c)"
  shows "ledger_step db db'"
proof -
  from assms obtain r e table where r: "require_order db (pf_paper_order_id fill) = Inr r"
    and st: "store_row fill_key same_fill (fill_coerce N) no_other e [] (db_fills db) fill = Inr (table, c)"
    and db': "db' = db\<lparr>db_fills := table\<rparr>" by (auto simp: insert_fill_def)
  obtain new where new: "table = db_fills db @ new" "set new \<subseteq> {s. fill_coerce N fill = Inr s}"
    using fills.store_appends [OF st] by auto
  have "\<forall>s \<in> set new. pf_paper_order_id s = pf_paper_order_id fill"
    using new(2) by (auto simp: fill_coerce_def)
  then show ?thesis
    using fills.store_unique [OF st] require_order_Inr [OF r] new(1)
    by (auto simp: ledger_step_def db_extends_def paper_wf_def db' order_ids_def order_sourced_def)
qed

lemma insert_terminal_event_step:
  assumes "insert_terminal_event N db event = Inr (db', c)"
  shows "ledger_step db db'"
proof -
  from assms obtain r e table where r: "require_order db (pt_paper_order_id event) = Inr r"
    and st: "store_row pt_paper_order_id same_terminal (terminal_coerce N) no_other e [] (db_terminals db) event
      = Inr (table, c)"
    and db': "db' = db\<lparr>db_terminals := table\<rparr>" by (auto simp: insert_terminal_event_def)
  obtain new where new: "table = db_terminals db @ new" "set new \<subseteq> {s. terminal_coerce N event = Inr s}"
    using terminals.store_appends [OF st] by auto
  have "\<forall>s \<in> set new. pt_paper_order_id s = pt_paper_order_id event"
    using new(2) by (auto simp: terminal_coerce_def)
  then show ?thesis
    using terminals.store_unique [OF st] require_order_Inr [OF r] new(1)
    by (auto simp: ledger_step_def db_extends_def paper_wf_def db' order_ids_def order_sourced_def)
qed

lemma insert_settlement_step:
  assumes "insert_settlement N db settlement = Inr (db', c)"
  shows "ledger_step db db'"
proof -
  from assms obtain r e table where r: "require_order db (ps_paper_order_id settlement) = Inr r"
    and st: "store_row settlement_key same_settlement (settlement_coerce N) no_other e [] (db_settlements db) settlement
      = Inr (table, c)"
    and db': "db' = db\<lparr>db_settlements := table\<rparr>" by (auto simp: insert_settlement_def)
  obtain new where new: "table = db_settlements db @ new" "set new \<subseteq> {s. settlement_coerce N settlement = Inr s}"
    using settlements.store_appends [OF st] by auto
  have "\<forall>s \<in> set new. ps_paper_order_id s = ps_paper_order_id settlement"
    using new(2) by (auto simp: settlement_coerce_def)
  then show ?thesis
    using settlements.store_unique [OF st] require_order_Inr [OF r] new(1)
    by (auto simp: ledger_step_def db_extends_def paper_wf_def db' order_ids_def order_sourced_def)
qed

lemmas insert_steps = insert_order_step insert_fill_step insert_terminal_event_step insert_settlement_step

lemma insert_order_present:
  assumes "insert_order N db order = Inr (db', c)" and "paper_wf db"
  shows "\<exists>x \<in> set (db_orders db'). same_order x order" and "validate_source_prediction db order = Inr ()"
proof -
  from assms obtain by_id where src: "validate_source_prediction db order = Inr ()"
    and by_id: "lookup_order_id db (po_paper_order_id order) = Inr by_id"
    by (auto simp: insert_order_def)
  show "\<exists>x \<in> set (db_orders db'). same_order x order"
  proof (cases by_id)
    case (Some row)
    then have "filter (\<lambda>o'. po_paper_order_id o' = po_paper_order_id order) (db_orders db) = [row]"
      using by_id by (simp add: lookup_order_id_def lookup_row_def)
    then have "row \<in> set (filter (\<lambda>o'. po_paper_order_id o' = po_paper_order_id order) (db_orders db))" by simp
    with assms by_id src Some show ?thesis by (auto simp: insert_order_def split: if_splits)
  next
    case None
    with assms(1) by_id obtain e table where
      st: "store_row order_key same_order (order_coerce N) order_free e [] (db_orders db) order = Inr (table, c)"
      and db': "db' = db\<lparr>db_orders := table\<rparr>"
      by (auto simp: insert_order_def)
    show ?thesis using orders.store_present [OF st] by (auto simp: db')
  qed
qed (use assms in \<open>auto simp: insert_order_def\<close>)

text \<open>A stored order is found again in every later state of the ledger.\<close>

lemma insert_order_again:
  assumes "insert_order N db order = Inr (db', c)" and "paper_wf db" and "ledger_step db' db''"
  shows "insert_order N db'' order = Inr (db'', False)"
proof -
  have step: "ledger_step db db''" using insert_order_step [OF assms(1)] assms(3) by (rule ledger_step_trans)
  then have src: "validate_source_prediction db'' order = Inr ()"
    using insert_order_present(2) [OF assms(1,2)]
    by (simp add: ledger_step_def db_extends_def validate_source_prediction_def lookup_prediction_def)
  obtain x where x: "x \<in> set (db_orders db'')" "same_order x order"
    using insert_order_present(1) [OF assms(1,2)] assms(3)
    by (auto simp: ledger_step_def db_extends_def dest: set_mono_prefix)
  have "unique_on po_paper_order_id (db_orders db'')"
    using step assms(2) by (simp add: ledger_step_def paper_wf_def)
  from unique_on_lookup [OF this x(1)] x(2)
  have "lookup_order_id db'' (po_paper_order_id order) = Inr (Some x)"
    by (simp add: lookup_order_id_def lookup_row_def same_order_def)
  then show ?thesis using src x(2) by (simp add: insert_order_def)
qed

text \<open>storing an order is idempotent: after a successful store of an order, storing it again
  succeeds, creates nothing and leaves the whole database as it is.
\<close>

theorem insert_order_idempotent:
  assumes "insert_order N db order = Inr (db', c)" and "paper_wf db"
  shows "insert_order N db' order = Inr (db', False)"
  using assms by (auto intro: insert_order_again)

text \<open>an order is never rewritten: with an order of the same prediction and execution version
  already stored, storing one that differs in anything raises, and so does storing a different
  one under a stored order's id.
\<close>

theorem insert_order_conflict:
  assumes "paper_wf db" and "x \<in> set (db_orders db)" and "\<not> same_order x order"
    and "order_key x = order_key order \<or> po_paper_order_id x = po_paper_order_id order"
  shows "isl (insert_order N db order)"
proof (cases "validate_source_prediction db order")
  case (Inr u)
  have uk: "unique_on order_key (db_orders db)" and ui: "unique_on po_paper_order_id (db_orders db)"
    using assms(1) by (simp_all add: paper_wf_def)
  show ?thesis
  proof (cases "po_paper_order_id x = po_paper_order_id order")
    case True
    with unique_on_lookup [OF ui assms(2)]
    have "lookup_order_id db (po_paper_order_id order) = Inr (Some x)"
      by (simp add: lookup_order_id_def lookup_row_def)
    then show ?thesis using Inr assms(3) by (simp add: insert_order_def)
  next
    case False
    then have key: "order_key x = order_key order" using assms(4) by simp
    show ?thesis
    proof (cases "lookup_order_id db (po_paper_order_id order)")
      case by_id: (Inr by_id)
      show ?thesis
      proof (cases by_id)
        case None
        then show ?thesis
          using Inr by_id orders.store_refuses [OF uk assms(2) key assms(3)] by (simp add: insert_order_def)
      next
        case (Some y)
        then have y: "filter (\<lambda>o'. po_paper_order_id o' = po_paper_order_id order) (db_orders db) = [y]"
          using by_id by (simp add: lookup_order_id_def lookup_row_def)
        then have "y \<in> set (filter (\<lambda>o'. po_paper_order_id o' = po_paper_order_id order) (db_orders db))" by simp
        then have y_in: "y \<in> set (db_orders db)" "po_paper_order_id y = po_paper_order_id order" by auto
        have "\<not> same_order y order"
        proof
          assume "same_order y order"
          then have "order_key y = order_key x" using key by (simp add: same_order_def order_key_def)
          then have "y = x" using uk y_in(1) assms(2)
            by (meson inj_on_eq_iff unique_on_def distinct_map)
          then show False using False y_in(2) by simp
        qed
        then show ?thesis using Inr by_id Some by (simp add: insert_order_def)
      qed
    qed (simp add: insert_order_def Inr)
  qed
qed (simp add: insert_order_def)

text \<open>two connections that race to store the order of one prediction cannot both create it: when
  the other connection's row is committed between this one's look-up and its insertion, this
  store creates nothing, and it succeeds exactly when the two rows say the same.
\<close>

theorem raced_store_order:
  assumes "unique_on order_key (orders @ others)" and "x \<in> set others" and "order_key x = order_key order"
    and "order_coerce N order = Inr s"
  shows "store_row order_key same_order (order_coerce N) order_free conflict others orders order
    = (if same_order x order then Inr (orders @ others, False) else Inl conflict)"
  using assms by (rule orders.store_raced)

section \<open>A concrete ledger\<close>

definition ex_N :: "dec \<Rightarrow> dec res" where
  "ex_N d = Inr d"

definition ex_live_prediction :: live_prediction where
  "ex_live_prediction = \<lparr>lp_prediction_id = ''p1'', lp_semantic_sha256 = replicate 64 CHR ''b'',
     lp_prediction_version = ''v3'', lp_condition_id = ''c'', lp_market_end_at = 900000000,
     lp_scheduled_at = 900000, lp_recorded_at = 1000000, lp_up_token_id = ''tok'', lp_down_token_id = ''kot'',
     lp_edge_config = PDict [(''fee_rate'', PStr ''0.07'')], lp_calibrated_probability = Dec 61 (- 2),
     lp_selected_side = ''Up'', lp_executable = True, lp_trade = True, lp_selected_ask = Some (Dec 52 (- 2)),
     lp_selected_spread = Some (Dec 2 (- 2)), lp_slippage_buffer = Dec 1 (- 2),
     lp_cost_adjusted_edge = Some (Dec 8 (- 2))\<rparr>"

definition ex_order_row :: paper_order_row where
  "ex_order_row = \<lparr>po_paper_order_id = ''o1'', po_prediction_id = ''p1'',
     po_prediction_semantic_sha256 = replicate 64 CHR ''b'', po_execution_version = PAPER_EXECUTION_VERSION,
     po_execution_config_sha256 = replicate 64 CHR ''c'', po_condition_id = ''c'', po_token_id = ''tok'',
     po_selected_side = ''up'', po_requested_shares = Dec 9133471 (- 6), po_target_notional_usd = Dec 500 (- 2),
     po_submitted_at = 1000000, po_arrival_at = 1250000, po_expires_at = 3250000, po_limit_price = Dec 53 (- 2),
     po_signal_selected_ask = Dec 52 (- 2), po_signal_fee_rate = Dec 7 (- 2),
     po_signal_slippage_buffer = Dec 1 (- 2), po_execution_config = [(''latency_ms'', PInt 250)],
     po_semantic_sha256 = replicate 64 CHR ''d'', po_created_at = 1000000\<rparr>"

definition ex_db :: paper_db where
  "ex_db = \<lparr>db_predictions = [ex_live_prediction], db_evaluations = [], db_events = [], db_orders = [],
     db_fills = [], db_terminals = [], db_settlements = []\<rparr>"

definition ex_db1 :: paper_db where
  "ex_db1 = ex_db\<lparr>db_orders := [ex_order_row]\<rparr>"

lemma ex_db_wf: "paper_wf ex_db"
  by (simp add: paper_wf_def ex_db_def)

lemma ex_insert_order: "insert_order ex_N ex_db ex_order_row = Inr (ex_db1, True)"
  by code_simp

lemma ex_db1_wf: "paper_wf ex_db1"
  using insert_order_step [OF ex_insert_order] ex_db_wf by (simp add: ledger_step_def)

theorem insert_order_idempotent_witness:
  "insert_order ex_N ex_db1 ex_order_row = Inr (ex_db1, False)"
  by (rule insert_order_idempotent [OF ex_insert_order ex_db_wf])

theorem insert_order_conflict_witness:
  "isl (insert_order ex_N ex_db1 (ex_order_row\<lparr>po_limit_price := Dec 54 (- 2)\<rparr>))"
proof (rule insert_order_conflict [OF ex_db1_wf, of ex_order_row])
  show "\<not> same_order ex_order_row (ex_order_row\<lparr>po_limit_price := Dec 54 (- 2)\<rparr>)" by code_simp
qed (simp_all add: ex_db1_def order_key_def)

theorem raced_store_order_witness:
  "store_row order_key same_order (order_coerce ex_N) order_free IntegrityError [ex_order_row] [] ex_order_row
    = Inr ([ex_order_row], False)"
proof -
  have 1: "same_order ex_order_row ex_order_row" by code_simp
  have 2: "order_coerce ex_N ex_order_row = Inr ex_order_row" by code_simp
  show ?thesis
    using raced_store_order [of "[]" "[ex_order_row]" ex_order_row ex_order_row ex_N ex_order_row IntegrityError] 1 2
    by (simp add: unique_on_def)
qed

end
