(* ===== verification/PaperService.thy ===== *)
theory PaperService
  imports PaperLedger
begin

text \<open>
  The paper execution service (\<open>bp_engine/execution/service.py\<close>): one run settles what is ready,
  turns the signals recorded so far into orders, fills the orders whose life is over from the
  replayed books, settles again and reports the cash. A run is one transaction: it either returns
  the new database and the report, or raises and leaves the database as it was. \<open>H\<close> is SHA-256
  and \<open>N\<close> the coercion of a decimal to a column.
\<close>

section \<open>Cash and payouts\<close>

definition svc_decimal :: "decimal \<Rightarrow> dec res" where
  "svc_decimal v = (case v of Finite d \<Rightarrow> Inr d
     | _ \<Rightarrow> Inl (ValueError ''paper numeric value must be finite''))"

definition derive_paper_cash :: "decimal \<Rightarrow> decimal list \<Rightarrow> decimal list \<Rightarrow> dec res" where
  "derive_paper_cash starting_cash fill_costs settlement_payouts =
     ebind (svc_decimal starting_cash) (\<lambda>starting.
     ebind (emap svc_decimal fill_costs) (\<lambda>costs.
     ebind (emap svc_decimal settlement_payouts) (\<lambda>payouts.
     let cash = dadd (dsub starting (sum_dec costs)) (sum_dec payouts)
     in if dlt cash d0 then Inl (PaperCashInvariantError ''derived paper cash is negative'')
        else Inr cash)))"

definition settlement_payout :: "decimal \<Rightarrow> string \<Rightarrow> string \<Rightarrow> dec res" where
  "settlement_payout filled_shares selected_side official_outcome =
     ebind (svc_decimal filled_shares) (\<lambda>shares.
     if dlt shares d0 then Inl (ValueError ''filled_shares must be non-negative'')
     else let side = lower selected_side; outcome = lower official_outcome in
       if side \<notin> {''up'', ''down''} then Inl (ValueError ''selected_side must be up or down'')
       else if outcome \<notin> {''up'', ''down''} then Inl (ValueError ''official_outcome must be Up or Down'')
       else Inr (if side = outcome then shares else d0))"

section \<open>The records a run writes\<close>

definition order_id_of :: "(string \<Rightarrow> string) \<Rightarrow> request \<Rightarrow> string res" where
  "order_id_of H request = canonical_hash H (PDict
     [(''prediction_id'', PStr (rq_prediction_id request)),
      (''execution_version'', PStr (rq_execution_version request))])"

definition order_record :: "(string \<Rightarrow> string) \<Rightarrow> paper_draft \<Rightarrow> paper_order_row res" where
  "order_record H draft = (let request = dr_request draft in
     ebind (order_id_of H request) (\<lambda>oid.
     ebind (canonical_hash H (PDict ([(''paper_order_id'', PStr oid)] @ order_request_mapping request @
       [(''signal_selected_ask'', PDec (Finite (dr_signal_selected_ask draft))),
        (''signal_fee_rate'', PDec (Finite (dr_signal_fee_rate draft))),
        (''signal_slippage_buffer'', PDec (Finite (dr_signal_slippage_buffer draft))),
        (''execution_config'', PDict (dr_execution_config draft))]))) (\<lambda>sha.
     paper_order_post_init
       \<lparr>po_paper_order_id = oid, po_prediction_id = rq_prediction_id request,
        po_prediction_semantic_sha256 = rq_prediction_semantic_sha256 request,
        po_execution_version = rq_execution_version request,
        po_execution_config_sha256 = rq_execution_config_sha256 request,
        po_condition_id = rq_condition_id request, po_token_id = rq_token_id request,
        po_selected_side = rq_selected_side request,
        po_requested_shares = Finite (rq_requested_shares request),
        po_target_notional_usd = Finite (rq_target_notional_usd request),
        po_submitted_at = Aware (rq_submitted_at request) 0, po_arrival_at = Aware (rq_arrival_at request) 0,
        po_expires_at = Aware (rq_expires_at request) 0, po_limit_price = Finite (rq_limit_price request),
        po_signal_selected_ask = Finite (dr_signal_selected_ask draft),
        po_signal_fee_rate = Finite (dr_signal_fee_rate draft),
        po_signal_slippage_buffer = Finite (dr_signal_slippage_buffer draft),
        po_execution_config = dr_execution_config draft, po_semantic_sha256 = sha,
        po_created_at = Aware (rq_submitted_at request) 0\<rparr>)))"

definition draft_from_rows :: "paper_order_row \<Rightarrow> live_prediction \<Rightarrow> paper_draft res" where
  "draft_from_rows order prediction =
     ebind (order_request_post_init
       \<lparr>rq_prediction_id = po_prediction_id order,
        rq_prediction_semantic_sha256 = po_prediction_semantic_sha256 order,
        rq_condition_id = po_condition_id order, rq_token_id = po_token_id order,
        rq_selected_side = po_selected_side order, rq_action = ''BUY'',
        rq_requested_shares = Finite (po_requested_shares order),
        rq_target_notional_usd = Finite (po_target_notional_usd order),
        rq_submitted_at = Aware (po_submitted_at order) 0, rq_arrival_at = Aware (po_arrival_at order) 0,
        rq_expires_at = Aware (po_expires_at order) 0, rq_limit_price = Finite (po_limit_price order),
        rq_execution_version = po_execution_version order,
        rq_execution_config_sha256 = po_execution_config_sha256 order\<rparr>) (\<lambda>request.
     Inr \<lparr>dr_request = request, dr_signal_selected_ask = po_signal_selected_ask order,
          dr_signal_fee_rate = po_signal_fee_rate order,
          dr_signal_slippage_buffer = po_signal_slippage_buffer order,
          dr_execution_config = po_execution_config order,
          dr_market_end_at = Some (lp_market_end_at prediction)\<rparr>)"

definition fill_values :: "string \<Rightarrow> fill_draft \<Rightarrow> pydict" where
  "fill_values oid f =
     [(''paper_order_id'', PStr oid), (''fill_at'', PTime (Aware (fl_fill_at f) 0)),
      (''shares'', PDec (Finite (fl_shares f))), (''price'', PDec (Finite (fl_price f))),
      (''gross_cost'', PDec (Finite (fl_gross_cost f))), (''fee'', PDec (Finite (fl_fee f))),
      (''total_cost'', PDec (Finite (fl_total_cost f))),
      (''signal_ask_slippage'', PDec (Finite (fl_signal_ask_slippage f))),
      (''book_anchor_event_id'', PInt (fl_book_anchor_event_id f)),
      (''book_anchor_dedupe_key'', PStr (fl_book_anchor_dedupe_key f)),
      (''book_applied_event_ids'', PList (map PInt (fl_book_applied_event_ids f))),
      (''book_applied_dedupe_keys'', PList (map PStr (fl_book_applied_dedupe_keys f))),
      (''replay_cutoff_at'', PTime (Aware (fl_replay_cutoff_at f) 0))]"

definition fill_record :: "(string \<Rightarrow> string) \<Rightarrow> string \<Rightarrow> fill_draft \<Rightarrow> paper_fill_row res" where
  "fill_record H oid f =
     ebind (canonical_hash H (PDict (fill_values oid f))) (\<lambda>key.
     ebind (canonical_hash H (PDict (fill_values oid f @ [(''fill_key'', PStr key)]))) (\<lambda>sha.
     paper_fill_post_init
       \<lparr>pf_paper_order_id = oid, pf_fill_key = key, pf_fill_at = Aware (fl_fill_at f) 0,
        pf_shares = Finite (fl_shares f), pf_price = Finite (fl_price f),
        pf_gross_cost = Finite (fl_gross_cost f), pf_fee = Finite (fl_fee f),
        pf_total_cost = Finite (fl_total_cost f),
        pf_signal_ask_slippage = Finite (fl_signal_ask_slippage f),
        pf_book_anchor_event_id = fl_book_anchor_event_id f,
        pf_book_anchor_dedupe_key = fl_book_anchor_dedupe_key f,
        pf_book_applied_event_ids = fl_book_applied_event_ids f,
        pf_book_applied_dedupe_keys = fl_book_applied_dedupe_keys f,
        pf_replay_cutoff_at = Aware (fl_replay_cutoff_at f) 0, pf_semantic_sha256 = sha,
        pf_created_at = Aware (fl_fill_at f) 0\<rparr>))"

definition terminal_record :: "(string \<Rightarrow> string) \<Rightarrow> string \<Rightarrow> terminal_draft \<Rightarrow> paper_terminal_row res" where
  "terminal_record H oid t = (case tm_event_at t of
       None \<Rightarrow> Inl (ValueError ''persisted paper terminal event requires event_at'')
     | Some event_at \<Rightarrow>
       ebind (canonical_hash H (PDict
         [(''paper_order_id'', PStr oid), (''terminal_status'', PStr (tm_status t)),
          (''remaining_shares'', PDec (Finite (tm_remaining_shares t))),
          (''event_at'', PTime (Aware event_at 0)), (''reason'', PStr (tm_reason t))])) (\<lambda>sha.
       paper_terminal_post_init
         \<lparr>pt_paper_order_id = oid, pt_terminal_status = tm_status t,
          pt_remaining_shares = Finite (tm_remaining_shares t), pt_event_at = Aware event_at 0,
          pt_reason = tm_reason t, pt_semantic_sha256 = sha, pt_created_at = Aware event_at 0\<rparr>))"

definition settlement_record ::
  "(string \<Rightarrow> string) \<Rightarrow> paper_order_row \<Rightarrow> evaluation \<Rightarrow> paper_fill_row list \<Rightarrow> paper_settlement_row res" where
  "settlement_record H order ev fills =
     (let shares = sum_dec (map pf_shares fills); cost = sum_dec (map pf_total_cost fills);
          fees = sum_dec (map pf_fee fills) in
     ebind (settlement_payout (Finite shares) (po_selected_side order) (ev_official_outcome ev)) (\<lambda>payout.
     let pnl = dsub payout cost in
     ebind (canonical_hash H (PDict
       [(''paper_order_id'', PStr (po_paper_order_id order)), (''label_version'', PStr (ev_label_version ev)),
        (''official_outcome'', PStr (ev_official_outcome ev)), (''official_target'', PInt (ev_official_target ev)),
        (''label_source'', PStr (ev_label_source ev)),
        (''label_source_snapshot_sha256'', PStr (ev_label_source_snapshot_sha256 ev)),
        (''label_source_observed_at'', PTime (Aware (ev_label_source_observed_at ev) 0)),
        (''filled_shares'', PDec (Finite shares)), (''total_fill_cost'', PDec (Finite cost)),
        (''total_fees'', PDec (Finite fees)), (''payout'', PDec (Finite payout)),
        (''realized_pnl'', PDec (Finite pnl)), (''settled_at'', PTime (Aware (ev_evaluated_at ev) 0))])) (\<lambda>sha.
     paper_settlement_post_init
       \<lparr>ps_paper_order_id = po_paper_order_id order, ps_label_version = ev_label_version ev,
        ps_official_outcome = ev_official_outcome ev, ps_official_target = ev_official_target ev,
        ps_label_source = ev_label_source ev,
        ps_label_source_snapshot_sha256 = ev_label_source_snapshot_sha256 ev,
        ps_label_source_observed_at = Aware (ev_label_source_observed_at ev) 0,
        ps_filled_shares = Finite shares, ps_total_fill_cost = Finite cost, ps_total_fees = Finite fees,
        ps_payout = Finite payout, ps_realized_pnl = Finite pnl,
        ps_settled_at = Aware (ev_evaluated_at ev) 0, ps_semantic_sha256 = sha,
        ps_created_at = Aware (ev_evaluated_at ev) 0\<rparr>)))"

section \<open>What a run reads\<close>

definition current_cash :: "dec paper_config \<Rightarrow> paper_db \<Rightarrow> dec res" where
  "current_cash config db =
     (let mine = \<lambda>oid. [o' \<leftarrow> db_orders db. po_paper_order_id o' = oid
            \<and> po_execution_version o' = pc_execution_version config];
          costs = concat (map (\<lambda>f. map (\<lambda>_. Finite (pf_total_cost f)) (mine (pf_paper_order_id f))) (db_fills db));
          payouts = concat (map (\<lambda>s. map (\<lambda>_. Finite (ps_payout s)) (mine (ps_paper_order_id s))) (db_settlements db))
      in derive_paper_cash (Finite (pc_starting_cash_usd config)) costs payouts)"

definition order_for_prediction :: "dec paper_config \<Rightarrow> paper_db \<Rightarrow> string \<Rightarrow> paper_order_row option res" where
  "order_for_prediction config db pid =
     lookup_row order_key (db_orders db) (pid, pc_execution_version config)"

text \<open>The books of an order: at its arrival and at every market event after it.\<close>

definition event_times :: "paper_db \<Rightarrow> request \<Rightarrow> int \<Rightarrow> int list" where
  "event_times db request until = sort (map re_received_at (filter (\<lambda>e. market_event (rq_condition_id request) e
      \<and> rq_arrival_at request < re_received_at e
      \<and> re_received_at e \<le> until \<and> re_event_type e \<in> {''book'', ''price_change''}) (db_events db)))"

fun books_at_times ::
  "paper_db \<Rightarrow> request \<Rightarrow> int option \<Rightarrow> int list \<Rightarrow> replayed_book list res" where
  "books_at_times db request prev [] = Inr []"
| "books_at_times db request prev (t # ts) =
     (if prev = Some t then books_at_times db request prev ts
      else ebind (book_at (db_events db) (rq_condition_id request) (rq_token_id request) (Aware t 0)) (\<lambda>book.
        ebind (books_at_times db request (Some t) ts) (\<lambda>books.
        Inr (case book of None \<Rightarrow> books | Some b \<Rightarrow> b # books))))"

definition books_for_order :: "paper_db \<Rightarrow> paper_draft \<Rightarrow> replayed_book list res" where
  "books_for_order db draft = (let request = dr_request draft in
     books_at_times db request None (rq_arrival_at request # event_times db request (rq_expires_at request)))"

definition lookup_terminal :: "paper_db \<Rightarrow> string \<Rightarrow> paper_terminal_row option res" where
  "lookup_terminal db oid = lookup_row pt_paper_order_id (db_terminals db) oid"


section \<open>Processing an order\<close>

text \<open>The counts of a step: created fills, existing fills, created and existing terminal events.\<close>

type_synonym step_counts = "int \<times> int \<times> int \<times> int"

definition count :: "bool \<Rightarrow> int" where
  "count b = (if b then 1 else 0)"

definition store_fill ::
  "(string \<Rightarrow> string) \<Rightarrow> (dec \<Rightarrow> dec res) \<Rightarrow> string \<Rightarrow> fill_draft \<Rightarrow> paper_db \<times> int \<times> int \<Rightarrow> (paper_db \<times> int \<times> int) res" where
  "store_fill H N oid f st = (case st of (db, created, existing) \<Rightarrow>
     ebind (fill_record H oid f) (\<lambda>r.
     ebind (insert_fill N db r) (\<lambda>(db', c).
     Inr (db', created + count c, existing + count (\<not> c)))))"

definition store_terminal ::
  "(string \<Rightarrow> string) \<Rightarrow> (dec \<Rightarrow> dec res) \<Rightarrow> paper_db \<Rightarrow> string \<Rightarrow> terminal_draft \<Rightarrow> (paper_db \<times> bool) res" where
  "store_terminal H N db oid t =
     ebind (terminal_record H oid t) (\<lambda>r. insert_terminal_event N db r)"

definition store_simulation ::
  "(string \<Rightarrow> string) \<Rightarrow> (dec \<Rightarrow> dec res) \<Rightarrow> paper_db \<Rightarrow> string \<Rightarrow> simulation \<Rightarrow> (paper_db \<times> step_counts) res" where
  "store_simulation H N db oid sim =
     ebind (efold (store_fill H N oid) (sm_fills sim) (db, 0, 0)) (\<lambda>(db1, created, existing).
     ebind (store_terminal H N db1 oid (sm_terminal sim)) (\<lambda>(db2, c).
     Inr (db2, created, existing, count c, count (\<not> c))))"

definition process_order ::
  "(string \<Rightarrow> string) \<Rightarrow> (dec \<Rightarrow> dec res) \<Rightarrow> paper_db \<Rightarrow> paper_order_row \<Rightarrow> live_prediction \<Rightarrow> int
    \<Rightarrow> (paper_db \<times> step_counts) res" where
  "process_order H N db order prediction now =
     ebind (lookup_terminal db (po_paper_order_id order)) (\<lambda>found.
     if found \<noteq> None then Inr (db, 0, 0, 0, 1)
     else if now < po_expires_at order then Inr (db, 0, 0, 0, 0)
     else ebind (draft_from_rows order prediction) (\<lambda>draft.
       case books_for_order db draft of
         Inl (BookReplayError m) \<Rightarrow>
           ebind (store_terminal H N db (po_paper_order_id order)
             (terminal ''EXPIRED'' (take 128 (''causal book replay failed closed: '' @ m))
               (Some (rq_expires_at (dr_request draft))) (rq_requested_shares (dr_request draft)))) (\<lambda>(db', c).
           Inr (db', 0, 0, count c, count (\<not> c)))
       | Inl e \<Rightarrow> Inl e
       | Inr books \<Rightarrow> ebind (simulate_buy draft books None) (store_simulation H N db (po_paper_order_id order))))"

section \<open>Settling\<close>

definition latest_evaluation :: "paper_db \<Rightarrow> int \<Rightarrow> string \<Rightarrow> evaluation option" where
  "latest_evaluation db now pid = last_option (sort_key ev_evaluated_at
     (filter (\<lambda>e. ev_prediction_id e = pid \<and> ev_evaluated_at e \<le> now) (db_evaluations db)))"

definition fills_of :: "paper_db \<Rightarrow> string \<Rightarrow> paper_fill_row list" where
  "fills_of db oid = sort_key pf_fill_at (filter (\<lambda>f. pf_paper_order_id f = oid) (db_fills db))"

text \<open>
  One order of the settling loop over the database \<open>db0\<close> read before it. The state holds the
  database, the counts and the keys settled so far.
\<close>

type_synonym settle_state = "paper_db \<times> int \<times> int \<times> (string \<times> string) list"

definition settle_order ::
  "(string \<Rightarrow> string) \<Rightarrow> (dec \<Rightarrow> dec res) \<Rightarrow> paper_db \<Rightarrow> int \<Rightarrow> paper_order_row \<Rightarrow> settle_state \<Rightarrow> settle_state res" where
  "settle_order H N db0 now order st = (case st of (db, created, existing, keys) \<Rightarrow>
     let oid = po_paper_order_id order in
     if oid \<notin> pt_paper_order_id ` set (db_terminals db0) then Inr st
     else case latest_evaluation db0 now (po_prediction_id order) of
         None \<Rightarrow> Inr st
       | Some ev \<Rightarrow>
         if (oid, ev_label_version ev) \<in> set keys then Inr (db, created, existing + 1, keys)
         else if fills_of db0 oid = [] then Inr st
         else ebind (settlement_record H order ev (fills_of db0 oid)) (\<lambda>r.
           ebind (insert_settlement N db r) (\<lambda>(db', c).
           Inr (db', created + count c, existing + count (\<not> c), (oid, ev_label_version ev) # keys))))"

definition settle_ready ::
  "(string \<Rightarrow> string) \<Rightarrow> (dec \<Rightarrow> dec res) \<Rightarrow> dec paper_config \<Rightarrow> paper_db \<Rightarrow> int \<Rightarrow> (paper_db \<times> int \<times> int) res" where
  "settle_ready H N config db now =
     (let orders = sort_key po_submitted_at
            (filter (\<lambda>o'. po_execution_version o' = pc_execution_version config) (db_orders db));
          ids = map po_paper_order_id orders
      in if orders = [] then Inr (db, 0, 0)
      else if \<forall>t \<in> set (db_terminals db). pt_paper_order_id t \<notin> set ids then Inr (db, 0, 0)
      else ebind (efold (settle_order H N db now) orders
             (db, 0, 0, map settlement_key (filter (\<lambda>s. ps_paper_order_id s \<in> set ids) (db_settlements db))))
           (\<lambda>(db', created, existing, keys). Inr (db', created, existing)))"

section \<open>A run\<close>

definition prediction_mapping :: "live_prediction \<Rightarrow> pydict" where
  "prediction_mapping p =
     [(''prediction_id'', PStr (lp_prediction_id p)), (''semantic_sha256'', PStr (lp_semantic_sha256 p)),
      (''prediction_version'', PStr (lp_prediction_version p)), (''condition_id'', PStr (lp_condition_id p)),
      (''market_end_at'', PTime (Aware (lp_market_end_at p) 0)),
      (''scheduled_at'', PTime (Aware (lp_scheduled_at p) 0)),
      (''recorded_at'', PTime (Aware (lp_recorded_at p) 0)),
      (''up_token_id'', PStr (lp_up_token_id p)), (''down_token_id'', PStr (lp_down_token_id p)),
      (''edge_config'', lp_edge_config p),
      (''calibrated_probability'', PDec (Finite (lp_calibrated_probability p))),
      (''selected_side'', PStr (lp_selected_side p)), (''executable'', PBool (lp_executable p)),
      (''trade'', PBool (lp_trade p)),
      (''selected_ask'', case lp_selected_ask p of None \<Rightarrow> PNone | Some a \<Rightarrow> PDec (Finite a)),
      (''selected_spread'', case lp_selected_spread p of None \<Rightarrow> PNone | Some a \<Rightarrow> PDec (Finite a)),
      (''slippage_buffer'', PDec (Finite (lp_slippage_buffer p))),
      (''cost_adjusted_edge'', case lp_cost_adjusted_edge p of None \<Rightarrow> PNone | Some a \<Rightarrow> PDec (Finite a))]"

definition predictions_due :: "dec paper_config \<Rightarrow> paper_db \<Rightarrow> int \<Rightarrow> live_prediction list" where
  "predictions_due config db now = sort_key lp_recorded_at (filter (\<lambda>p. lp_recorded_at p \<le> now
      \<and> (case pc_prediction_version config of None \<Rightarrow> True | Some v \<Rightarrow> lp_prediction_version p = v)
      \<and> lp_prediction_version p \<notin> set (pc_excluded_prediction_versions config)) (db_predictions db))"

record paper_report =
  pr_examined_predictions :: int
  pr_skipped_predictions :: int
  pr_created_orders :: int
  pr_existing_orders :: int
  pr_created_fills :: int
  pr_existing_fills :: int
  pr_created_terminal_events :: int
  pr_existing_terminal_events :: int
  pr_created_settlements :: int
  pr_existing_settlements :: int
  pr_current_cash :: dec

record run_state =
  rn_db :: paper_db
  rn_orders :: "(string \<times> paper_order_row) list"
  rn_report :: paper_report

text \<open>The order of a prediction: the one known, or a new one, or none when the signal is skipped.\<close>

definition ensure_order ::
  "(string \<Rightarrow> string) \<Rightarrow> (dec \<Rightarrow> dec res) \<Rightarrow> dec paper_config \<Rightarrow> live_prediction \<Rightarrow> run_state
    \<Rightarrow> (paper_order_row option \<times> run_state) res" where
  "ensure_order H N config p st =
     (let pid = lp_prediction_id p; rep = rn_report st in
      ebind (build_paper_order H (prediction_mapping p) config (Finite (pr_current_cash rep))) (\<lambda>decision.
      case decision of
        Terminal _ \<Rightarrow> Inr (None, st\<lparr>rn_report := rep\<lparr>pr_skipped_predictions := pr_skipped_predictions rep + 1\<rparr>\<rparr>)
      | Draft draft \<Rightarrow>
        ebind (order_record H draft) (\<lambda>r.
        ebind (insert_order N (rn_db st) r) (\<lambda>(db', c).
        ebind (order_for_prediction config db' pid) (\<lambda>found. case found of
          None \<Rightarrow> Inl (RuntimeError ''paper order insert did not become visible'')
        | Some order \<Rightarrow> Inr (Some order, st\<lparr>rn_db := db', rn_orders := (pid, order) # rn_orders st,
            rn_report := rep\<lparr>pr_created_orders := pr_created_orders rep + count c,
              pr_existing_orders := pr_existing_orders rep + count (\<not> c)\<rparr>\<rparr>))))))"

text \<open>\<open>available_cash\<close> is kept in the report's cash while the run goes on.\<close>

definition fill_order ::
  "(string \<Rightarrow> string) \<Rightarrow> (dec \<Rightarrow> dec res) \<Rightarrow> dec paper_config \<Rightarrow> int \<Rightarrow> live_prediction \<Rightarrow> paper_order_row
    \<Rightarrow> run_state \<Rightarrow> run_state res" where
  "fill_order H N config now p order st =
     ebind (process_order H N (rn_db st) order p now) (\<lambda>(db', new_fills, old_fills, new_terminal, old_terminal).
     let rep = rn_report st;
         rep' = rep\<lparr>pr_created_fills := pr_created_fills rep + new_fills,
           pr_existing_fills := pr_existing_fills rep + old_fills,
           pr_created_terminal_events := pr_created_terminal_events rep + new_terminal,
           pr_existing_terminal_events := pr_existing_terminal_events rep + old_terminal\<rparr>
     in if new_fills \<noteq> 0
        then ebind (current_cash config db') (\<lambda>cash.
          Inr (st\<lparr>rn_db := db', rn_report := rep'\<lparr>pr_current_cash := cash\<rparr>\<rparr>))
        else Inr (st\<lparr>rn_db := db', rn_report := rep'\<rparr>))"

definition run_prediction ::
  "(string \<Rightarrow> string) \<Rightarrow> (dec \<Rightarrow> dec res) \<Rightarrow> dec paper_config \<Rightarrow> int \<Rightarrow> string set \<Rightarrow> live_prediction
    \<Rightarrow> run_state \<Rightarrow> run_state res" where
  "run_prediction H N config now terminal_ids p st0 =
     (let rep = rn_report st0;
          st = st0\<lparr>rn_report := rep\<lparr>pr_examined_predictions := pr_examined_predictions rep + 1\<rparr>\<rparr>;
          rep = rn_report st
      in case map_of (rn_orders st) (lp_prediction_id p) of
        None \<Rightarrow> ebind (ensure_order H N config p st) (\<lambda>(order, st'). case order of
            None \<Rightarrow> Inr st' | Some o' \<Rightarrow> fill_order H N config now p o' st')
      | Some order \<Rightarrow>
          let st' = st\<lparr>rn_report := rep\<lparr>pr_existing_orders := pr_existing_orders rep + 1\<rparr>\<rparr> in
          if po_paper_order_id order \<in> terminal_ids
          then Inr (st'\<lparr>rn_report := (rn_report st')\<lparr>pr_existing_terminal_events :=
            pr_existing_terminal_events (rn_report st') + 1\<rparr>\<rparr>)
          else fill_order H N config now p order st')"

definition run_once ::
  "(string \<Rightarrow> string) \<Rightarrow> (dec \<Rightarrow> dec res) \<Rightarrow> dec paper_config \<Rightarrow> paper_db \<Rightarrow> pytime \<Rightarrow> (paper_db \<times> paper_report) res" where
  "run_once H N config db now =
     ebind (aware_utc (ValueError ''timestamp must be timezone-aware'') now) (\<lambda>now.
     ebind (settle_ready H N config db now) (\<lambda>(db1, created1, existing1).
     ebind (current_cash config db1) (\<lambda>cash.
     let predictions = predictions_due config db1 now;
         pids = map lp_prediction_id predictions;
         orders = filter (\<lambda>o'. po_prediction_id o' \<in> set pids
           \<and> po_execution_version o' = pc_execution_version config) (db_orders db1);
         ids = map po_paper_order_id orders;
         terminal_ids = set (filter (\<lambda>i. i \<in> set ids) (map pt_paper_order_id (db_terminals db1)));
         start = \<lparr>rn_db = db1, rn_orders = rev (map (\<lambda>o'. (po_prediction_id o', o')) orders),
           rn_report = \<lparr>pr_examined_predictions = 0, pr_skipped_predictions = 0, pr_created_orders = 0,
             pr_existing_orders = 0, pr_created_fills = 0, pr_existing_fills = 0,
             pr_created_terminal_events = 0, pr_existing_terminal_events = 0,
             pr_created_settlements = created1, pr_existing_settlements = existing1,
             pr_current_cash = cash\<rparr>\<rparr>
     in ebind (efold (run_prediction H N config now terminal_ids) predictions start) (\<lambda>st.
     ebind (settle_ready H N config (rn_db st) now) (\<lambda>(db2, created2, existing2).
     ebind (current_cash config db2) (\<lambda>final.
     let rep = rn_report st in
     Inr (db2, rep\<lparr>pr_created_settlements := pr_created_settlements rep + created2,
       pr_existing_settlements := pr_existing_settlements rep + existing2, pr_current_cash := final\<rparr>)))))))"

text \<open>The transaction around a run.\<close>

definition committed :: "paper_db \<Rightarrow> (paper_db \<times> 'a) res \<Rightarrow> paper_db" where
  "committed db result = (case result of Inl _ \<Rightarrow> db | Inr (db', _) \<Rightarrow> db')"

section \<open>A run and the ledger\<close>

lemma store_fill_step: "store_fill H N oid f st = Inr st' \<Longrightarrow> ledger_step (fst st) (fst st')"
  by (auto simp: store_fill_def split: prod.splits dest: insert_steps)

lemma store_terminal_step: "store_terminal H N db oid t = Inr (db', c) \<Longrightarrow> ledger_step db db'"
  by (auto simp: store_terminal_def dest: insert_steps)

lemma store_simulation_step:
  assumes "store_simulation H N db oid sim = Inr (db', c)"
  shows "ledger_step db db'"
proof -
  from assms obtain db1 a b db2 d where
    run: "efold (store_fill H N oid) (sm_fills sim) (db, 0, 0) = Inr (db1, a, b)"
    and t: "store_terminal H N db1 oid (sm_terminal sim) = Inr (db2, d)" and db': "db' = db2"
    by (auto simp: store_simulation_def)
  have "ledger_step (fst (db, 0 :: int, 0 :: int)) (fst (db1, a, b))"
    using run by (rule ledger_step_efold [where g = fst]) (rule store_fill_step)
  then show ?thesis using store_terminal_step [OF t] by (auto simp: db' intro: ledger_step_trans)
qed

lemma process_order_step:
  assumes "process_order H N db order p now = Inr (db', c)"
  shows "ledger_step db db'"
proof -
  obtain found where found: "lookup_terminal db (po_paper_order_id order) = Inr found"
    using assms by (auto simp: process_order_def)
  show ?thesis
  proof (cases "found \<noteq> None \<or> now < po_expires_at order")
    case True
    with assms found show ?thesis by (auto simp: process_order_def split: if_splits)
  next
    case False
    then obtain draft where draft: "draft_from_rows order p = Inr draft"
      using assms found by (auto simp: process_order_def)
    show ?thesis
    proof (cases "books_for_order db draft")
      case (Inl e)
      with assms found False draft show ?thesis
        by (cases e) (auto simp: process_order_def dest: store_terminal_step)
    next
      case (Inr books)
      with assms found False draft show ?thesis
        by (auto simp: process_order_def dest: store_simulation_step)
    qed
  qed
qed

lemma settle_order_step:
  assumes "settle_order H N db0 now order st = Inr st'"
  shows "ledger_step (fst st) (fst st')"
  using assms by (auto simp: settle_order_def Let_def split: prod.splits if_splits option.splits dest: insert_steps)

lemma settle_ready_step:
  assumes "settle_ready H N config db now = Inr (db', c)"
  shows "ledger_step db db'"
proof -
  from assms consider "db' = db" | orders keys st where
    "efold (settle_order H N db now) orders (db, 0, 0, keys) = Inr st" "db' = fst st"
    by (auto simp: settle_ready_def Let_def split: if_splits prod.splits)
  then show ?thesis
  proof cases
    case 2
    have "ledger_step (fst (db, 0 :: int, 0 :: int, keys)) (fst st)"
      using 2(1) by (rule ledger_step_efold [where g = fst]) (rule settle_order_step)
    then show ?thesis by (simp add: 2(2))
  qed simp
qed

lemma ensure_order_step:
  assumes "ensure_order H N config p st = Inr (order, st')"
  shows "ledger_step (rn_db st) (rn_db st')"
proof -
  obtain d where d: "build_paper_order H (prediction_mapping p) config (Finite (pr_current_cash (rn_report st))) = Inr d"
    using assms by (auto simp: ensure_order_def Let_def)
  show ?thesis
  proof (cases d)
    case (Draft draft)
    then obtain r db' c where "insert_order N (rn_db st) r = Inr (db', c)" "rn_db st' = db'"
      using assms d by (auto simp: ensure_order_def Let_def split: option.splits)
    then show ?thesis using insert_order_step by simp
  qed (use assms d in \<open>auto simp: ensure_order_def Let_def\<close>)
qed

lemma fill_order_step:
  assumes "fill_order H N config now p order st = Inr st'"
  shows "ledger_step (rn_db st) (rn_db st')"
  using assms by (auto simp: fill_order_def Let_def split: if_splits dest: process_order_step)

lemma run_prediction_step:
  assumes "run_prediction H N config now ids p st = Inr st'"
  shows "ledger_step (rn_db st) (rn_db st')"
  using assms
  by (fastforce simp: run_prediction_def Let_def split: option.splits if_splits
      dest: ensure_order_step fill_order_step intro: ledger_step_trans)

lemma derive_paper_cash_Inr: "derive_paper_cash s f p = Inr cash \<Longrightarrow> 0 \<le> dval cash"
  by (auto simp: derive_paper_cash_def Let_def dcmp not_less split: if_splits)

lemma run_once_step:
  assumes "run_once H N config db now = Inr (db', rep)"
  shows "ledger_step db db' \<and> 0 \<le> dval (pr_current_cash rep)"
proof -
  from assms obtain now' db1 c1 ids ps start st c2 cash where
    s1: "settle_ready H N config db now' = Inr (db1, c1)"
    and run: "efold (run_prediction H N config now' ids) ps start = Inr st"
    and start: "rn_db start = db1"
    and s2: "settle_ready H N config (rn_db st) now' = Inr (db', c2)"
    and cash: "current_cash config db' = Inr (pr_current_cash rep)"
    unfolding run_once_def Let_def
    by (clarsimp simp del: efold.simps)
  have "ledger_step (rn_db start) (rn_db st)"
    using run by (rule ledger_step_efold) (rule run_prediction_step)
  then have "ledger_step db db'"
    using settle_ready_step [OF s1] settle_ready_step [OF s2] start by (auto intro: ledger_step_trans)
  then show ?thesis using cash by (auto simp: current_cash_def Let_def dest: derive_paper_cash_Inr)
qed

text \<open>C6: a run only ever appends to the ledger: every order, fill, terminal event and settlement
  there before is still there, in its place and unchanged, the signals and market data are not
  touched, a well-formed ledger stays well-formed (one order per signal and execution version,
  one terminal event per order, one settlement per order and label version, nothing without its
  order, every order matching its source signal), and the cash it reports is not negative.
\<close>

theorem run_once_ledger:
  assumes "run_once H N config db now = Inr (db', rep)"
  shows "db_extends db db' \<and> (paper_wf db \<longrightarrow> paper_wf db') \<and> 0 \<le> dval (pr_current_cash rep)"
  using run_once_step [OF assms] by (simp add: ledger_step_def)

section \<open>The books of an order\<close>

lemma book_at_Some:
  assumes "book_at events cid asset (Aware t off) = Inr (Some b)"
  shows "rb_condition_id b = cid \<and> rb_asset_id b = asset \<and> rb_replay_cutoff_at b = t"
  using assms
  by (auto simp: book_at_def bk_aware_utc_def aware_utc_def replay_book_payloads_def bk_finish_def
      split: option.splits)

lemma books_at_times_spec:
  assumes "books_at_times db rq prev ts = Inr books" and "sorted ts"
  shows "(\<forall>b \<in> set books. rb_condition_id b = rq_condition_id rq \<and> rb_asset_id b = rq_token_id rq
      \<and> rb_replay_cutoff_at b \<in> set ts) \<and> sorted (map rb_replay_cutoff_at books)"
  using assms
proof (induction ts arbitrary: prev books)
  case (Cons t ts)
  show ?case
  proof (cases "prev = Some t")
    case True
    with Cons show ?thesis by fastforce
  next
    case False
    with Cons.prems obtain book rest where
      b: "book_at (db_events db) (rq_condition_id rq) (rq_token_id rq) (Aware t 0) = Inr book"
      and r: "books_at_times db rq (Some t) ts = Inr rest"
      and books: "books = (case book of None \<Rightarrow> rest | Some b \<Rightarrow> b # rest)" by auto
    have "sorted ts" using Cons.prems(2) by simp
    note IH = Cons.IH [OF r this]
    show ?thesis
    proof (cases book)
      case None
      with IH books show ?thesis by auto
    next
      case (Some b')
      note at_t = book_at_Some [OF b [unfolded Some]]
      have "\<forall>b \<in> set rest. t \<le> rb_replay_cutoff_at b" using IH Cons.prems(2) by auto
      with Some at_t IH books show ?thesis by auto
    qed
  qed
qed simp

lemma event_times_window:
  "t \<in> set (event_times db rq until) \<Longrightarrow> rq_arrival_at rq < t \<and> t \<le> until"
  by (auto simp: event_times_def)

lemma books_for_order_spec:
  assumes "books_for_order db draft = Inr books" and "rq_arrival_at (dr_request draft) \<le> rq_expires_at (dr_request draft)"
  shows "(\<forall>b \<in> set books. book_for draft b \<and> in_window draft (rq_expires_at (dr_request draft)) b)
    \<and> sorted (map rb_replay_cutoff_at books)"
proof -
  let ?rq = "dr_request draft"
  have "sorted (rq_arrival_at ?rq # event_times db ?rq (rq_expires_at ?rq))"
  proof -
    have "sorted (event_times db ?rq (rq_expires_at ?rq))" by (simp add: event_times_def)
    moreover have "rq_arrival_at ?rq \<le> t" if "t \<in> set (event_times db ?rq (rq_expires_at ?rq))" for t
      using event_times_window [OF that] by simp
    ultimately show ?thesis by simp
  qed
  note spec = books_at_times_spec [OF assms(1) [unfolded books_for_order_def Let_def] this]
  have "rq_arrival_at ?rq \<le> t \<and> t \<le> rq_expires_at ?rq"
    if "t \<in> set (rq_arrival_at ?rq # event_times db ?rq (rq_expires_at ?rq))" for t
    using that event_times_window [of t db ?rq "rq_expires_at ?rq"] assms(2) by auto
  then show ?thesis using spec by (simp add: book_for_def in_window_def)
qed

text \<open>the books an order is filled from are all of its own market and token, lie between its
  arrival and its expiry, come in chronological order, and depend on no event received after the
  expiry; so, for a valid order, the simulation over them returns.
\<close>

theorem books_for_order_sound:
  assumes "books_for_order db draft = Inr books" and "request_ok (dr_request draft)"
    and "representable (rq_requested_shares (dr_request draft))"
    and "filter (\<lambda>e. re_received_at e \<le> rq_expires_at (dr_request draft)) (db_events db2)
      = filter (\<lambda>e. re_received_at e \<le> rq_expires_at (dr_request draft)) (db_events db)"
  shows "(\<forall>b \<in> set books. book_for draft b \<and> in_window draft (rq_expires_at (dr_request draft)) b)
    \<and> sorted (map rb_replay_cutoff_at books) \<and> books_for_order db2 draft = Inr books
    \<and> (\<exists>sim. simulate_buy draft books None = Inr sim)"
proof -
  let ?rq = "dr_request draft" and ?x = "rq_expires_at (dr_request draft)"
  have rq: "rq_arrival_at ?rq < ?x" "0 < dval (rq_requested_shares ?rq)"
    using assms(2) by (simp_all add: request_ok_def)
  note spec = books_for_order_spec [OF assms(1) less_imp_le [OF rq(1)]]
  have f: "filter P (db_events db2) = filter P (db_events db)" if "\<And>e. P e \<Longrightarrow> re_received_at e \<le> ?x" for P
    using that by (rule filter_until [OF assms(4)])
  have times: "event_times db2 ?rq ?x = event_times db ?rq ?x"
    unfolding event_times_def by (subst f) simp_all
  have at_t: "book_at (db_events db2) cid asset (Aware t 0) = book_at (db_events db) cid asset (Aware t 0)"
    if "t \<le> ?x" for cid asset t
  proof (rule book_at_prefix)
    fix P :: "raw_event \<Rightarrow> bool" assume "\<And>e. P e \<Longrightarrow> re_received_at e \<le> t"
    then show "filter P (db_events db2) = filter P (db_events db)" using that by (intro f) (rule order_trans)
  qed
  have same: "books_at_times db2 ?rq prev ts = books_at_times db ?rq prev ts" if "\<forall>t \<in> set ts. t \<le> ?x" for prev ts
    using that by (induction ts arbitrary: prev) (auto simp: at_t)
  have "books_for_order db2 draft = books_for_order db draft"
    unfolding books_for_order_def Let_def times
    by (rule same) (use rq event_times_window [of _ db ?rq ?x] in auto)
  moreover have "\<exists>sim. simulate_buy draft books None = Inr sim"
    using spec assms(3) rq(2) by (intro simulate_buy_returns) auto
  ultimately show ?thesis using spec assms(1) by simp
qed

section \<open>When an order is processed\<close>

text \<open>an order is left alone until its life is over and once it has ended: before its expiry,
  or with a terminal event stored, processing it changes nothing in the database.
\<close>

theorem process_order_waits:
  assumes "process_order H N db order p now = Inr (db', counts)"
    and "now < po_expires_at order \<or> lookup_terminal db (po_paper_order_id order) \<noteq> Inr None"
  shows "db' = db \<and> fst counts = 0"
  using assms by (auto simp: process_order_def split: if_splits)

lemma store_terminal_present:
  assumes "store_terminal H N db oid t = Inr (db', c)" and "strip oid = oid"
  shows "\<exists>e \<in> set (db_terminals db'). pt_paper_order_id e = oid"
proof -
  obtain r where r: "terminal_record H oid t = Inr r" and ins: "insert_terminal_event N db r = Inr (db', c)"
    using assms(1) by (auto simp: store_terminal_def)
  have "pt_paper_order_id r = oid"
    using r assms(2) by (auto simp: terminal_record_def paper_terminal_post_init_def split: option.splits
        dest!: text_field_Inr)
  moreover obtain e table where "store_row pt_paper_order_id same_terminal (terminal_coerce N) no_other e []
      (db_terminals db) r = Inr (table, c)" "db' = db\<lparr>db_terminals := table\<rparr>"
    using ins by (auto simp: insert_terminal_event_def)
  ultimately show ?thesis using terminals.store_present by fastforce
qed

lemma process_order_terminal:
  assumes "process_order H N db order p now = Inr (db', counts)"
    and "po_expires_at order \<le> now" and "strip (po_paper_order_id order) = po_paper_order_id order"
  shows "\<exists>e \<in> set (db_terminals db'). pt_paper_order_id e = po_paper_order_id order"
proof -
  obtain found where found: "lookup_terminal db (po_paper_order_id order) = Inr found"
    using assms(1) by (auto simp: process_order_def)
  show ?thesis
  proof (cases found)
    case (Some e)
    then have "filter (\<lambda>x. pt_paper_order_id x = po_paper_order_id order) (db_terminals db) = [e]"
      using found by (simp add: lookup_terminal_def lookup_row_def)
    then have "e \<in> set (filter (\<lambda>x. pt_paper_order_id x = po_paper_order_id order) (db_terminals db))" by simp
    moreover have "db' = db" using assms(1) found Some by (simp add: process_order_def)
    ultimately show ?thesis by auto
  next
    case None
    then obtain draft where draft: "draft_from_rows order p = Inr draft"
      using assms found by (auto simp: process_order_def)
    show ?thesis
    proof (cases "books_for_order db draft")
      case (Inl e)
      with assms found None draft show ?thesis
        by (cases e) (auto simp: process_order_def dest: store_terminal_present)
    next
      case (Inr books)
      with assms found None draft show ?thesis
        by (auto simp: process_order_def store_simulation_def dest: store_terminal_present)
    qed
  qed
qed


section \<open>Settlements and cash\<close>

definition amounts18 :: "dec list \<Rightarrow> bool" where
  "amounts18 ds \<longleftrightarrow> (\<forall>d \<in> set ds. grid 18 d \<and> 0 \<le> dval d) \<and> sum_list (map dval ds) < 10 ^ 9"

lemma grid_sum_dec:
  assumes "amounts18 ds"
  shows "grid 18 (sum_dec ds)" and "dval (sum_dec ds) = sum_list (map dval ds)" and "0 \<le> dval (sum_dec ds)"
proof -
  have "grid 18 a \<Longrightarrow> 0 \<le> dval a \<Longrightarrow> dval a + sum_list (map dval ds) < 10 ^ 9
      \<Longrightarrow> grid 18 (fold (\<lambda>x acc. dadd acc x) ds a) \<and> dval (fold (\<lambda>x acc. dadd acc x) ds a) = dval a + sum_list (map dval ds)" for a
    using assms unfolding amounts18_def
  proof (induction ds arbitrary: a)
    case (Cons x xs)
    have nn: "0 \<le> sum_list (map dval xs)" using Cons.prems(4) by (intro sum_list_nonneg) auto
    have "dval (dadd a x) = dval a + dval x" "grid 18 (dadd a x)"
      using dadd_exact [of 18 a x] Cons.prems nn by (simp_all add: prec28)
    then show ?case using Cons by simp
  qed simp
  from this [of d0] show "grid 18 (sum_dec ds)" "dval (sum_dec ds) = sum_list (map dval ds)"
    using assms by (simp_all add: sum_dec_def amounts18_def)
  then show "0 \<le> dval (sum_dec ds)" using assms by (auto simp: amounts18_def intro!: sum_list_nonneg)
qed

text \<open>a settlement is exact: it records the shares, cost and fees of the order's fills; it pays
  one dollar a share when the official outcome is the side the order bought and nothing when it
  is the other; and its profit is the payout less the cost.
\<close>

theorem settlement_record_exact:
  assumes "settlement_record H order ev fills = Inr s"
    and "amounts18 (map pf_shares fills)" and "amounts18 (map pf_total_cost fills)"
  shows "dval (ps_filled_shares s) = sum_list (map (\<lambda>f. dval (pf_shares f)) fills)
    \<and> dval (ps_total_fill_cost s) = sum_list (map (\<lambda>f. dval (pf_total_cost f)) fills)
    \<and> dval (ps_payout s) = (if lower (po_selected_side order) = lower (ev_official_outcome ev)
        then dval (ps_filled_shares s) else 0)
    \<and> dval (ps_realized_pnl s) = dval (ps_payout s) - dval (ps_total_fill_cost s)"
proof -
  let ?shares = "sum_dec (map pf_shares fills)" and ?cost = "sum_dec (map pf_total_cost fills)"
  from assms(1) obtain payout where p: "settlement_payout (Finite ?shares) (po_selected_side order) (ev_official_outcome ev) = Inr payout"
    and s: "ps_filled_shares s = ?shares" "ps_total_fill_cost s = ?cost" "ps_payout s = payout"
      "ps_realized_pnl s = dsub payout ?cost"
    by (auto simp: settlement_record_def Let_def paper_settlement_post_init_def
        dest!: positive_decimal_Inr nonnegative_decimal_Inr finite_decimal_Inr)
  note sh = grid_sum_dec [OF assms(2)] and co = grid_sum_dec [OF assms(3)]
  have pay: "payout = (if lower (po_selected_side order) = lower (ev_official_outcome ev) then ?shares else d0)"
    using p by (auto simp: settlement_payout_def svc_decimal_def Let_def split: if_splits)
  have lim: "dval ?shares < 10 ^ 9" "dval ?cost < 10 ^ 9" using sh co assms(2,3) by (simp_all add: amounts18_def)
  have "dval (dsub payout ?cost) = dval payout - dval ?cost"
    using dsub_exact [of 18 payout ?cost] sh co lim pay by (simp add: prec28 abs_if)
  then show ?thesis using s pay sh(2) co(2) by (simp add: comp_def)
qed

lemma emap_svc_decimal [simp]: "emap svc_decimal (map Finite xs) = Inr xs"
  by (induction xs) (simp_all add: svc_decimal_def)

text \<open>the cash is the account identity: the starting cash less what every fill cost plus what
  every settlement paid, exactly; and when that is negative the derivation raises instead.
\<close>

theorem derive_paper_cash_exact:
  assumes "amounts18 costs" and "amounts18 payouts" and "grid 18 starting"
    and "0 \<le> dval starting" and "dval starting < 10 ^ 9"
  shows "let cash = dval starting - sum_list (map dval costs) + sum_list (map dval payouts) in
    if cash < 0
    then derive_paper_cash (Finite starting) (map Finite costs) (map Finite payouts)
      = Inl (PaperCashInvariantError ''derived paper cash is negative'')
    else \<exists>c. derive_paper_cash (Finite starting) (map Finite costs) (map Finite payouts) = Inr c \<and> dval c = cash"
proof -
  note co = grid_sum_dec [OF assms(1)] and pa = grid_sum_dec [OF assms(2)]
  have lim: "dval (sum_dec costs) < 10 ^ 9" "dval (sum_dec payouts) < 10 ^ 9"
    using co pa assms(1,2) by (simp_all add: amounts18_def)
  have s: "dval (dsub starting (sum_dec costs)) = dval starting - dval (sum_dec costs)"
    "grid 18 (dsub starting (sum_dec costs))"
    using dsub_exact [of 18 starting "sum_dec costs"] assms(3-5) co lim by (simp_all add: prec28 abs_if)
  have "dval (dadd (dsub starting (sum_dec costs)) (sum_dec payouts))
      = dval starting - dval (sum_dec costs) + dval (sum_dec payouts)"
    using dadd_exact [OF s(2) pa(1)] s co pa lim assms(4,5) by (simp add: prec28 abs_if)
  then show ?thesis
    by (simp add: derive_paper_cash_def svc_decimal_def Let_def dcmp co(2) pa(2))
qed

end
