(* ===== verification/PaperGateway.thy ===== *)
theory PaperGateway
  imports PaperService
begin

text \<open>
  The execution boundary (\<open>bp_engine/execution/protocol.py\<close>) and its paper implementation
  (\<open>bp_engine/execution/gateway.py\<close>). The boundary has two calls, submitting a request and
  cancelling an order; a call that raises leaves the state as it was, being one transaction. The
  locales state what a client may rely on, and the paper gateway interprets them.
\<close>

section \<open>The boundary\<close>

datatype 'r gateway_call = SubmitCall 'r | CancelCall string pytime

text \<open>
  A call leaves a state and answers or raises. One that is a single transaction leaves the state
  as it was when it raises.
\<close>

definition transact :: "('s \<Rightarrow> ('s \<times> 'a) res) \<Rightarrow> 's \<Rightarrow> 's \<times> 'a res" where
  "transact f s = (case f s of Inl e \<Rightarrow> (s, Inl e) | Inr (s', a) \<Rightarrow> (s', Inr a))"

text \<open>A client's sequence of calls.\<close>

fun gateway_calls ::
  "('s \<Rightarrow> 'r \<Rightarrow> 's \<times> int order_ack res) \<Rightarrow> ('s \<Rightarrow> string \<Rightarrow> pytime \<Rightarrow> 's \<times> int cancel_ack res)
    \<Rightarrow> 's \<Rightarrow> 'r gateway_call list \<Rightarrow> 's" where
  "gateway_calls submit cancel s [] = s"
| "gateway_calls submit cancel s (SubmitCall r # calls) = gateway_calls submit cancel (fst (submit s r)) calls"
| "gateway_calls submit cancel s (CancelCall oid t # calls) = gateway_calls submit cancel (fst (cancel s oid t)) calls"

locale execution_gateway =
  fixes submit :: "'s \<Rightarrow> 'r \<Rightarrow> 's \<times> int order_ack res"
    and cancel :: "'s \<Rightarrow> string \<Rightarrow> pytime \<Rightarrow> 's \<times> int cancel_ack res"
    and step :: "'s \<Rightarrow> 's \<Rightarrow> bool"
  assumes step_refl: "step s s"
    and step_trans: "step s t \<Longrightarrow> step t u \<Longrightarrow> step s u"
    and submit_step: "step s (fst (submit s r))"
    and cancel_step: "step s (fst (cancel s oid at_time))"
begin

lemma calls_step: "step s (gateway_calls submit cancel s calls)"
proof (induction calls arbitrary: s)
  case (Cons call calls)
  then show ?case by (cases call) (auto intro: step_trans [OF submit_step] step_trans [OF cancel_step])
qed (simp add: step_refl)

end

text \<open>
  An accepted request stays accepted: submitting it again later finds its order, and the answer is
  the first one repeated (\<open>again\<close>).
\<close>

locale idempotent_gateway = execution_gateway +
  fixes inv :: "'a \<Rightarrow> bool" and again :: "'a \<Rightarrow> int order_ack \<Rightarrow> int order_ack"
  assumes step_inv: "step s s' \<Longrightarrow> inv s \<Longrightarrow> inv s'"
    and resubmit: "inv s \<Longrightarrow> submit s r = (s', Inr ack) \<Longrightarrow> ack_accepted ack \<Longrightarrow> step s' s''
      \<Longrightarrow> submit s'' r = (s'', Inr (again s'' ack))"
begin

lemma resubmit_after_calls:
  assumes "inv s" and "submit s r = (s', Inr ack)" and "ack_accepted ack"
  shows "submit (gateway_calls submit cancel s' calls) r
    = (gateway_calls submit cancel s' calls, Inr (again (gateway_calls submit cancel s' calls) ack))"
  using assms calls_step by (rule resubmit)

end

section \<open>Submitting a request\<close>

text \<open>\<open>_decimal\<close> of a dynamic value.\<close>

definition svc_number :: "pyval \<Rightarrow> dec res" where
  "svc_number v = (case to_decimal v of None \<Rightarrow> Inl InvalidOperation | Some x \<Rightarrow> svc_decimal x)"

definition draft_for_request ::
  "(string \<Rightarrow> string) \<Rightarrow> dec paper_config \<Rightarrow> request \<Rightarrow> live_prediction \<Rightarrow> paper_draft res" where
  "draft_for_request H config request p =
     ebind (canonical_hash H (PDict (paper_config_mapping config))) (\<lambda>expected.
     ebind (require (rq_execution_version request = pc_execution_version config)
       (ValueError ''execution version does not match paper gateway config'')) (\<lambda>_.
     ebind (require (rq_execution_config_sha256 request = expected)
       (ValueError ''execution config SHA-256 does not match paper gateway config'')) (\<lambda>_.
     case lp_selected_ask p of
       None \<Rightarrow> Inl (ValueError ''source prediction selected_ask is required'')
     | Some ask \<Rightarrow> (case lp_edge_config p of
         PDict edge \<Rightarrow>
           if dget edge ''fee_rate'' = PNone
           then Inl (ValueError ''source prediction edge_config fee_rate is required'')
           else ebind (svc_decimal (Finite ask)) (\<lambda>ask'.
             ebind (svc_number (dget edge ''fee_rate'')) (\<lambda>fee.
             ebind (svc_decimal (Finite (lp_slippage_buffer p))) (\<lambda>slip.
             Inr \<lparr>dr_request = request, dr_signal_selected_ask = ask', dr_signal_fee_rate = fee,
                  dr_signal_slippage_buffer = slip, dr_execution_config = paper_config_mapping config,
                  dr_market_end_at = Some (lp_market_end_at p)\<rparr>)))
       | _ \<Rightarrow> Inl (ValueError ''source prediction edge_config fee_rate is required'')))))"

definition order_ack_of :: "string \<Rightarrow> bool \<Rightarrow> int \<Rightarrow> string \<Rightarrow> int order_ack res" where
  "order_ack_of oid accepted observed reason = order_ack_post_init
     \<lparr>ack_order_id = oid, ack_accepted = accepted, ack_observed_at = Aware observed 0, ack_reason = reason\<rparr>"

definition caught_by_gateway :: "exn \<Rightarrow> bool" where
  "caught_by_gateway e = (case e of KeyError _ \<Rightarrow> True | TypeError _ \<Rightarrow> True | ValueError _ \<Rightarrow> True | _ \<Rightarrow> False)"

definition submit_order ::
  "(string \<Rightarrow> string) \<Rightarrow> (dec \<Rightarrow> dec res) \<Rightarrow> dec paper_config \<Rightarrow> paper_db \<Rightarrow> request
    \<Rightarrow> (paper_db \<times> int order_ack) res" where
  "submit_order H N config db request =
     ebind (order_id_of H request) (\<lambda>oid.
     ebind (lookup_prediction db (rq_prediction_id request)) (\<lambda>found. case found of
       None \<Rightarrow> ebind (order_ack_of oid False (rq_submitted_at request) ''source_prediction_missing'')
         (\<lambda>ack. Inr (db, ack))
     | Some p \<Rightarrow>
       (case ebind (draft_for_request H config request p) (\<lambda>draft.
          ebind (order_record H draft) (insert_order N db)) of
          Inl e \<Rightarrow> if caught_by_gateway e
            then ebind (order_ack_of oid False (rq_submitted_at request) ''source_validation_failed'')
              (\<lambda>ack. Inr (db, ack))
            else Inl e
        | Inr (db', created) \<Rightarrow>
            ebind (order_ack_of oid True (rq_submitted_at request)
              (if created then ''accepted'' else ''existing'')) (\<lambda>ack. Inr (db', ack)))))"

section \<open>Cancelling an order\<close>

definition books_until :: "paper_db \<Rightarrow> paper_draft \<Rightarrow> int \<Rightarrow> replayed_book list res" where
  "books_until db draft until_at =
     (let request = dr_request draft; cutoff = min until_at (rq_expires_at request) in
      if cutoff < rq_arrival_at request then Inr []
      else books_at_times db request None (rq_arrival_at request # event_times db request cutoff))"

definition persist_simulation ::
  "(string \<Rightarrow> string) \<Rightarrow> (dec \<Rightarrow> dec res) \<Rightarrow> paper_db \<Rightarrow> string \<Rightarrow> paper_draft \<Rightarrow> int option
    \<Rightarrow> (paper_db \<times> terminal_draft) res" where
  "persist_simulation H N db oid draft cancel_at =
     ebind (case cancel_at of Some t \<Rightarrow> books_until db draft t | None \<Rightarrow> books_for_order db draft) (\<lambda>books.
     ebind (simulate_buy draft books (map_option (\<lambda>t. Aware t 0) cancel_at)) (\<lambda>sim.
     ebind (store_simulation H N db oid sim) (\<lambda>(db', counts).
     Inr (db', sm_terminal sim))))"

definition cancel_ack_of :: "string \<Rightarrow> bool \<Rightarrow> int \<Rightarrow> string \<Rightarrow> int cancel_ack res" where
  "cancel_ack_of oid cancelled observed reason = cancel_ack_post_init
     \<lparr>cak_order_id = oid, cak_cancelled = cancelled, cak_observed_at = Aware observed 0, cak_reason = reason\<rparr>"

definition answer :: "'s \<Rightarrow> 'a res \<Rightarrow> ('s \<times> 'a) res" where
  "answer s r = ebind r (\<lambda>a. Inr (s, a))"

definition cancel_order ::
  "(string \<Rightarrow> string) \<Rightarrow> (dec \<Rightarrow> dec res) \<Rightarrow> paper_db \<Rightarrow> string \<Rightarrow> pytime \<Rightarrow> (paper_db \<times> int cancel_ack) res" where
  "cancel_order H N db oid observed_at =
     ebind (aware_utc (ValueError ''timestamp must be timezone-aware'') observed_at) (\<lambda>current.
     ebind (lookup_order_id db oid) (\<lambda>found. case found of
       None \<Rightarrow> answer db (cancel_ack_of oid False current ''unknown_order'')
     | Some order \<Rightarrow>
       ebind (lookup_terminal db oid) (\<lambda>ended. case ended of
         Some t \<Rightarrow> let status = upper (pt_terminal_status t) in
           answer db (cancel_ack_of oid (status = ''CANCELLED'') current
             (if status = ''CANCELLED'' then ''already_cancelled'' else ''already_'' @ lower status))
       | None \<Rightarrow>
         if current < po_submitted_at order
         then answer db (cancel_ack_of oid False current ''cancel_before_submission'')
         else ebind (lookup_prediction db (po_prediction_id order)) (\<lambda>source. case source of
             None \<Rightarrow> answer db (cancel_ack_of oid False current ''source_prediction_missing'')
           | Some p \<Rightarrow>
             ebind (draft_from_rows order p) (\<lambda>draft.
             if po_expires_at order \<le> current
             then ebind (persist_simulation H N db oid draft None) (\<lambda>(db', t).
               answer db' (cancel_ack_of oid False current (''already_'' @ lower (tm_status t))))
             else ebind (persist_simulation H N db oid draft (Some current)) (\<lambda>(db', t).
               answer db' (cancel_ack_of oid (tm_status t = ''CANCELLED'') current (tm_reason t))))))))"

lemma answer_Inr [simp]: "answer s r = Inr (s', a) \<longleftrightarrow> s' = s \<and> r = Inr a"
  by (auto simp: answer_def)

lemma answer_Inl [simp]: "answer s (Inl e) = Inl e"
  by (simp add: answer_def)

lemma answer_Inr_simp [simp]: "answer s (Inr a) = Inr (s, a)"
  by (simp add: answer_def)

section \<open>The paper gateway keeps the contract\<close>

lemma submit_order_cases:
  assumes "submit_order H N config db r = Inr (db', ack)"
  obtains (rejected) oid reason where "order_id_of H r = Inr oid" "db' = db"
      "order_ack_of oid False (rq_submitted_at r) reason = Inr ack"
  | (accepted) oid p draft row created where "order_id_of H r = Inr oid"
      "lookup_prediction db (rq_prediction_id r) = Inr (Some p)" "draft_for_request H config r p = Inr draft"
      "order_record H draft = Inr row" "insert_order N db row = Inr (db', created)"
      "order_ack_of oid True (rq_submitted_at r) (if created then ''accepted'' else ''existing'') = Inr ack"
proof -
  obtain oid found where oid: "order_id_of H r = Inr oid"
    and found: "lookup_prediction db (rq_prediction_id r) = Inr found"
    using assms by (auto simp: submit_order_def)
  show ?thesis
  proof (cases found)
    case None
    then show ?thesis using assms oid found by (intro rejected [OF oid]) (auto simp: submit_order_def)
  next
    case (Some p)
    let ?body = "ebind (draft_for_request H config r p) (\<lambda>draft. ebind (order_record H draft) (insert_order N db))"
    show ?thesis
    proof (cases ?body)
      case (Inl e)
      then show ?thesis
        using assms oid found Some by (intro rejected [OF oid]) (auto simp: submit_order_def split: if_splits)
    next
      case (Inr res)
      obtain db1 created where res: "res = (db1, created)" by (cases res)
      have ack: "order_ack_of oid True (rq_submitted_at r) (if created then ''accepted'' else ''existing'') = Inr ack"
        and db1: "db1 = db'"
        using assms oid found Some Inr by (auto simp: submit_order_def res)
      obtain draft row where "draft_for_request H config r p = Inr draft" "order_record H draft = Inr row"
        "insert_order N db row = Inr (db1, created)" using Inr by (auto simp: res)
      then show ?thesis using accepted oid found Some ack db1 by blast
    qed
  qed
qed

lemma submit_order_step: "submit_order H N config db r = Inr (db', ack) \<Longrightarrow> ledger_step db db'"
  by (erule submit_order_cases) (auto dest: insert_order_step)

lemma persist_simulation_step:
  "persist_simulation H N db oid draft c = Inr (db', t) \<Longrightarrow> ledger_step db db'"
  by (auto simp: persist_simulation_def dest: store_simulation_step)

lemma cancel_order_cases:
  assumes "cancel_order H N db oid observed_at = Inr (db', ack)"
  obtains (unknown) "lookup_order_id db oid = Inr None" "db' = db" "\<not> cak_cancelled ack"
  | (ended) order t where "lookup_order_id db oid = Inr (Some order)" "lookup_terminal db oid = Inr (Some t)"
      "db' = db" "cancel_ack_of oid (upper (pt_terminal_status t) = ''CANCELLED'') (instant observed_at)
        (if upper (pt_terminal_status t) = ''CANCELLED'' then ''already_cancelled''
         else ''already_'' @ lower (upper (pt_terminal_status t))) = Inr ack"
  | (refused) order where "lookup_order_id db oid = Inr (Some order)" "lookup_terminal db oid = Inr None"
      "db' = db" "\<not> cak_cancelled ack"
      "instant observed_at < po_submitted_at order \<or> lookup_prediction db (po_prediction_id order) = Inr None"
  | (simulated) order p draft t c where "lookup_order_id db oid = Inr (Some order)" "lookup_terminal db oid = Inr None"
      "po_submitted_at order \<le> instant observed_at" "lookup_prediction db (po_prediction_id order) = Inr (Some p)"
      "draft_from_rows order p = Inr draft" "persist_simulation H N db oid draft c = Inr (db', t)"
      "c = (if po_expires_at order \<le> instant observed_at then None else Some (instant observed_at))"
      "cak_cancelled ack = (c \<noteq> None \<and> tm_status t = ''CANCELLED'')" "cak_order_id ack = strip oid"
proof -
  have flag: "cancel_ack_of i b o' m = Inr a \<Longrightarrow> cak_cancelled a = b \<and> cak_order_id a = strip i" for i b o' m a
    by (auto simp: cancel_ack_of_def cancel_ack_post_init_def dest: text_field_Inr)
  obtain off current where at: "observed_at = Aware current off"
    using assms by (auto simp: cancel_order_def)
  then obtain found where found: "lookup_order_id db oid = Inr found"
    using assms by (auto simp: cancel_order_def)
  show ?thesis
  proof (cases found)
    case None
    with assms at found show ?thesis by (intro unknown) (auto simp: cancel_order_def aware_utc_def dest: flag)
  next
    case (Some order)
    then obtain e where e: "lookup_terminal db oid = Inr e"
      using assms at found by (auto simp: cancel_order_def aware_utc_def)
    show ?thesis
    proof (cases e)
      case (Some t)
      with assms at found e \<open>found = Some order\<close> show ?thesis
        by (intro ended [of order t]) (auto simp: cancel_order_def aware_utc_def Let_def instant_def split: if_splits)
    next
      case None
      note known = found [unfolded \<open>found = Some order\<close>] e [unfolded None]
      show ?thesis
      proof (cases "current < po_submitted_at order")
        case True
        with assms at known show ?thesis
          by (intro refused) (auto simp: cancel_order_def aware_utc_def instant_def dest: flag)
      next
        case False
        then obtain source where source: "lookup_prediction db (po_prediction_id order) = Inr source"
          using assms at known by (auto simp: cancel_order_def aware_utc_def)
        show ?thesis
        proof (cases source)
          case None
          with assms at known source False show ?thesis
            by (intro refused) (auto simp: cancel_order_def aware_utc_def instant_def dest: flag)
        next
          case (Some p)
          obtain draft where draft: "draft_from_rows order p = Inr draft"
            using assms at known source False Some by (auto simp: cancel_order_def aware_utc_def)
          show ?thesis
            using assms at known source False Some draft simulated [of order p draft]
            by (cases "po_expires_at order \<le> current")
              (auto simp: cancel_order_def aware_utc_def instant_def dest!: flag)
        qed
      qed
    qed
  qed
qed

lemma cancel_order_step: "cancel_order H N db oid t = Inr (db', ack) \<Longrightarrow> ledger_step db db'"
  by (erule cancel_order_cases) (auto dest: persist_simulation_step)

text \<open>The gateway's calls: one transaction each.\<close>

definition paper_submit ::
  "(string \<Rightarrow> string) \<Rightarrow> (dec \<Rightarrow> dec res) \<Rightarrow> dec paper_config \<Rightarrow> paper_db \<Rightarrow> request \<Rightarrow> paper_db \<times> int order_ack res" where
  "paper_submit H N config db r = transact (\<lambda>d. submit_order H N config d r) db"

definition paper_cancel ::
  "(string \<Rightarrow> string) \<Rightarrow> (dec \<Rightarrow> dec res) \<Rightarrow> paper_db \<Rightarrow> string \<Rightarrow> pytime \<Rightarrow> paper_db \<times> int cancel_ack res" where
  "paper_cancel H N db oid t = transact (\<lambda>d. cancel_order H N d oid t) db"

lemma transact_Inr [simp]: "transact f s = (s', Inr a) \<longleftrightarrow> f s = Inr (s', a)"
  by (auto simp: transact_def split: sum.splits)

lemma fst_transact: "(\<And>s' a. f s = Inr (s', a) \<Longrightarrow> R s s') \<Longrightarrow> R s s \<Longrightarrow> R s (fst (transact f s))"
  by (auto simp: transact_def split: sum.splits)

interpretation paper_gateway: execution_gateway "paper_submit H N config" "paper_cancel H N" ledger_step
  for H N config
  by unfold_locales (auto simp: paper_submit_def paper_cancel_def
    intro: ledger_step_trans fst_transact submit_order_step cancel_order_step)

lemma submit_order_again:
  assumes "paper_wf db" and "submit_order H N config db r = Inr (db', ack)" and "ack_accepted ack"
    and "ledger_step db' db''"
  shows "submit_order H N config db'' r = Inr (db'', ack\<lparr>ack_reason := ''existing''\<rparr>)"
  using assms(2)
proof (cases rule: submit_order_cases)
  case (rejected oid reason)
  with assms(3) show ?thesis by (auto simp: order_ack_of_def order_ack_post_init_def)
next
  case (accepted oid p draft row created)
  have "ledger_step db db''" using submit_order_step [OF assms(2)] assms(4) by (rule ledger_step_trans)
  then have "lookup_prediction db'' (rq_prediction_id r) = Inr (Some p)"
    using accepted(2) by (simp add: ledger_step_def db_extends_def lookup_prediction_def)
  moreover have "insert_order N db'' row = Inr (db'', False)"
    using insert_order_again [OF accepted(5) assms(1,4)] .
  moreover have "order_ack_of oid True (rq_submitted_at r) ''existing'' = Inr (ack\<lparr>ack_reason := ''existing''\<rparr>)"
  proof -
    have "text_field ''reason'' ''existing'' = Inr ''existing''" by code_simp
    then show ?thesis using accepted(6) by (auto simp: order_ack_of_def order_ack_post_init_def)
  qed
  ultimately show ?thesis using accepted by (simp add: submit_order_def)
qed

interpretation paper_again: idempotent_gateway "paper_submit H N config" "paper_cancel H N" ledger_step paper_wf
  "\<lambda>_ ack. ack\<lparr>ack_reason := ''existing''\<rparr>" for H N config
  by unfold_locales (auto simp: ledger_step_def paper_submit_def intro: submit_order_again)

text \<open>whatever a client does through the gateway, in whatever order and with whatever arguments,
  the ledger is only appended to and stays well-formed.
\<close>

theorem gateway_calls_ledger:
  assumes "paper_wf db"
  shows "paper_wf (gateway_calls (paper_submit H N config) (paper_cancel H N) db calls)
    \<and> db_extends db (gateway_calls (paper_submit H N config) (paper_cancel H N) db calls)"
  using paper_gateway.calls_step [of db H N config calls] assms by (simp add: ledger_step_def)

text \<open>submission is idempotent: a request that was accepted and is submitted again, whatever
  calls came between, is accepted under the same order id as existing and changes nothing.
\<close>

theorem submit_order_idempotent:
  assumes "paper_wf db" and "submit_order H N config db r = Inr (db', ack)" and "ack_accepted ack"
  shows "let later = gateway_calls (paper_submit H N config) (paper_cancel H N) db' calls in
    submit_order H N config later r = Inr (later, ack\<lparr>ack_reason := ''existing''\<rparr>)"
  using paper_again.resubmit_after_calls [OF assms(1), of H N config r db' ack calls] assms(2,3)
  by (simp add: Let_def paper_submit_def)

lemma lower_hex: "list_all is_hex_lower s \<Longrightarrow> lower s = s"
proof (induction s)
  case (Cons c s)
  have "is_hex_lower c \<Longrightarrow> lower_char c = c"
    by (auto simp: is_hex_lower_def lower_char_def Let_def)
  with Cons show ?case by (simp add: lower_def)
qed (simp add: lower_def)

lemma canonical_hash_sha256: "sha256_like H \<Longrightarrow> canonical_hash H v = Inr s \<Longrightarrow> lower s = s"
  by (auto simp: canonical_hash_def sha256_like_def intro: lower_hex)

lemma svc_decimal_Finite [simp]: "svc_decimal (Finite d) = Inr d"
  by (simp add: svc_decimal_def)

lemma request_post_init_execution:
  "order_request_post_init r = Inr r' \<Longrightarrow> rq_execution_version r' = rq_execution_version r
    \<and> rq_execution_config_sha256 r' = lower (rq_execution_config_sha256 r)"
  by (auto simp: order_request_post_init_def dest!: field_dests)

lemma prediction_mapping_get:
  "dget (prediction_mapping p) ''selected_ask'' = (case lp_selected_ask p of None \<Rightarrow> PNone | Some a \<Rightarrow> PDec (Finite a))"
  "dget (prediction_mapping p) ''edge_config'' = lp_edge_config p"
  "dindex (prediction_mapping p) ''selected_ask''
    = Inr (case lp_selected_ask p of None \<Rightarrow> PNone | Some a \<Rightarrow> PDec (Finite a))"
  "dindex (prediction_mapping p) ''edge_config'' = Inr (lp_edge_config p)"
  "dindex (prediction_mapping p) ''slippage_buffer'' = Inr (PDec (Finite (lp_slippage_buffer p)))"
  "dindex (prediction_mapping p) ''market_end_at'' = Inr (PTime (Aware (lp_market_end_at p) 0))"
  by (simp_all add: prediction_mapping_def dget_def dindex_def)

lemma dget_dindex: "dindex d k = Inr v \<Longrightarrow> dget d k = v"
  by (auto simp: dget_def dindex_def split: option.splits)

text \<open>C30: the service and the gateway agree on an order: the request of the order the service sizes
  from a signal is one the gateway, with the same configuration, accepts for that signal, and it
  builds the same order from it.
\<close>

theorem gateway_draft_agrees:
  assumes "build_paper_order H (prediction_mapping p) config cash = Inr (Draft draft)" and "sha256_like H"
  shows "draft_for_request H config (dr_request draft) p = Inr draft"
proof -
  let ?m = "prediction_mapping p"
  obtain i csha shares where skip: "skip_reason ?m = None" and i: "read_order_inputs ?m cash = Inr i"
    and csha: "canonical_hash H (PDict (paper_config_mapping config)) = Inr csha"
    and rq: "order_request_post_init (request_args ?m config i shares csha) = Inr (dr_request draft)"
    and draft: "draft = \<lparr>dr_request = dr_request draft, dr_signal_selected_ask = in_selected_ask i,
             dr_signal_fee_rate = in_fee_rate i, dr_signal_slippage_buffer = in_slippage_buffer i,
             dr_execution_config = paper_config_mapping config, dr_market_end_at = Some (in_market_end_at i)\<rparr>"
    using assms(1) by (auto simp: build_paper_order_def build_draft_def split: option.splits sum.splits if_splits)
  obtain ask where ask: "lp_selected_ask p = Some ask"
    using skip by (auto simp: skip_reason_def prediction_mapping_get split: if_splits option.splits)
  obtain edge where edge: "lp_edge_config p = PDict edge" and fee: "dget edge ''fee_rate'' \<noteq> PNone"
    using skip ask by (auto simp: skip_reason_def prediction_mapping_get split: if_splits pyval.splits)
  have inputs: "in_selected_ask i = ask" "in_slippage_buffer i = lp_slippage_buffer p"
    "in_market_end_at i = lp_market_end_at p" "pp_decimal ''fee_rate'' (dget edge ''fee_rate'') = Inr (in_fee_rate i)"
    using i ask edge by (auto simp: read_order_inputs_def prediction_mapping_get dget_dindex pp_decimal_def pp_utc_def)
  have "svc_number (dget edge ''fee_rate'') = Inr (in_fee_rate i)"
    using inputs(4) by (auto simp: pp_decimal_def checked_decimal_def svc_number_def svc_decimal_def
        split: if_splits option.splits decimal.splits)
  moreover have "rq_execution_version (dr_request draft) = pc_execution_version config"
    "rq_execution_config_sha256 (dr_request draft) = csha"
    using request_post_init_execution [OF rq] canonical_hash_sha256 [OF assms(2) csha] by (simp_all add: request_args_def)
  ultimately show ?thesis
    by (subst (2) draft) (simp add: draft_for_request_def csha ask edge fee inputs)
qed
section \<open>What a cancellation leaves behind\<close>

lemma sim_terminal_status:
  assumes "sim_terminal order c rem fills = Inr t"
  shows "tm_status t \<in> {''FILLED'', ''CANCELLED'', ''MARKET_ENDED_UNFILLED'', ''EXPIRED''}"
    and "c = None \<Longrightarrow> tm_status t \<noteq> ''CANCELLED''"
  using assms by (auto simp: sim_terminal_def Let_def terminal_def split: if_splits option.splits)

lemma status_text:
  assumes "s \<in> {''FILLED'', ''CANCELLED'', ''MARKET_ENDED_UNFILLED'', ''EXPIRED''}"
  shows "upper (strip s) = s \<and> upper s = s"
proof -
  have "upper (strip ''FILLED'') = ''FILLED''" "upper (strip ''CANCELLED'') = ''CANCELLED''"
    "upper (strip ''MARKET_ENDED_UNFILLED'') = ''MARKET_ENDED_UNFILLED''" "upper (strip ''EXPIRED'') = ''EXPIRED''"
    "upper ''FILLED'' = ''FILLED''" "upper ''CANCELLED'' = ''CANCELLED''"
    "upper ''MARKET_ENDED_UNFILLED'' = ''MARKET_ENDED_UNFILLED''" "upper ''EXPIRED'' = ''EXPIRED''"
    by code_simp+
  then show ?thesis using assms by auto
qed

lemma store_terminal_status:
  assumes "store_terminal H N db oid t = Inr (db', c)" and "strip oid = oid"
    and "tm_status t \<in> {''FILLED'', ''CANCELLED'', ''MARKET_ENDED_UNFILLED'', ''EXPIRED''}"
  shows "\<exists>e \<in> set (db_terminals db'). pt_paper_order_id e = oid \<and> pt_terminal_status e = tm_status t"
proof -
  obtain r where r: "terminal_record H oid t = Inr r" and ins: "insert_terminal_event N db r = Inr (db', c)"
    using assms(1) by (auto simp: store_terminal_def)
  have "pt_paper_order_id r = oid" "pt_terminal_status r = tm_status t"
    using r assms(2) status_text [OF assms(3)]
    by (auto simp: terminal_record_def paper_terminal_post_init_def split: option.splits dest!: text_field_Inr)
  moreover obtain e table where "store_row pt_paper_order_id same_terminal (terminal_coerce N) no_other e []
      (db_terminals db) r = Inr (table, c)" "db' = db\<lparr>db_terminals := table\<rparr>"
    using ins by (auto simp: insert_terminal_event_def)
  ultimately show ?thesis using terminals.store_present by (fastforce simp: same_terminal_def)
qed

lemma persist_simulation_terminal:
  assumes "persist_simulation H N db oid draft c = Inr (db', t)" and "strip oid = oid"
  shows "\<exists>e \<in> set (db_terminals db'). pt_paper_order_id e = oid \<and> pt_terminal_status e = tm_status t"
    and "upper (tm_status t) = tm_status t" and "c = None \<Longrightarrow> tm_status t \<noteq> ''CANCELLED''"
proof -
  obtain books sim db1 a b d where
    sim: "simulate_buy draft books (map_option (\<lambda>t. Aware t 0) c) = Inr sim" and t: "t = sm_terminal sim"
    and st: "store_terminal H N db1 oid t = Inr (db', d)"
    using assms(1) by (auto simp: persist_simulation_def store_simulation_def)
  obtain c' rem fills where end_of: "sim_terminal draft c' rem fills = Inr t" and "c = None \<Longrightarrow> c' = None"
    by (rule simulate_buy_run [OF sim]) (use t cancellation_of_Inr in fastforce)
  then show "c = None \<Longrightarrow> tm_status t \<noteq> ''CANCELLED''" using sim_terminal_status(2) by blast
  note status = sim_terminal_status(1) [OF end_of]
  show "upper (tm_status t) = tm_status t" using status_text [OF status] by simp
  show "\<exists>e \<in> set (db_terminals db'). pt_paper_order_id e = oid \<and> pt_terminal_status e = tm_status t"
    using store_terminal_status [OF st assms(2) status] .
qed

lemma lookup_order_id_Some:
  assumes "lookup_order_id db oid = Inr (Some order)"
  shows "order \<in> set (db_orders db)" "po_paper_order_id order = oid"
proof -
  have "filter (\<lambda>x. po_paper_order_id x = oid) (db_orders db) = [order]"
    using assms by (simp add: lookup_order_id_def lookup_row_def)
  then have "order \<in> set (filter (\<lambda>x. po_paper_order_id x = oid) (db_orders db))" by simp
  then show "order \<in> set (db_orders db)" "po_paper_order_id order = oid" by simp_all
qed

lemma lookup_terminal_unique:
  assumes "paper_wf db" and "e \<in> set (db_terminals db)"
  shows "lookup_terminal db (pt_paper_order_id e) = Inr (Some e)"
  using unique_on_lookup [of pt_paper_order_id "db_terminals db" e] assms
  by (simp add: paper_wf_def lookup_terminal_def lookup_row_def)

text \<open>A known order that has ended answers every later cancellation the same.\<close>

lemma cancel_order_ended:
  assumes "lookup_order_id db oid = Inr (Some order)" and "lookup_terminal db oid = Inr (Some e)" and "strip oid \<noteq> []"
  shows "\<exists>ack. cancel_order H N db oid (Aware us off) = Inr (db, ack)
    \<and> cak_cancelled ack = (upper (pt_terminal_status e) = ''CANCELLED'')"
proof -
  have ack: "\<exists>ack. cancel_ack_of oid b us m = Inr ack \<and> cak_cancelled ack = b" if "strip m \<noteq> []" for b m
    using that assms(3) by (simp add: cancel_ack_of_def cancel_ack_post_init_def text_field_def utc_time_def aware_utc_def Let_def)
  have a: "\<not> is_space CHR ''a''" by code_simp
  have "strip (CHR ''a'' # x) \<noteq> []" for x
    using a by (simp add: strip_def dropWhile_eq_Nil_conv)
  then show ?thesis
    using assms(1,2) ack [of "''already_cancelled''" True] ack [of "''already_'' @ lower (upper (pt_terminal_status e))" False]
    by (cases "upper (pt_terminal_status e) = ''CANCELLED''") (auto simp: cancel_order_def aware_utc_def Let_def)
qed

text \<open>a cancellation settles an order's end: cancelling a known order after its submission, when
  it returns, leaves exactly one terminal event of the order; it reports cancelled exactly when
  that event says so, and every later cancellation changes nothing and reports the same.
\<close>

theorem cancel_order_final:
  assumes "cancel_order H N db oid t = Inr (db', ack)" and "paper_wf db"
    and "lookup_order_id db oid = Inr (Some order)" and "po_submitted_at order \<le> instant t"
    and "strip oid = oid" and "oid \<noteq> []"
  shows "\<exists>e. filter (\<lambda>x. pt_paper_order_id x = oid) (db_terminals db') = [e]
    \<and> cak_cancelled ack = (upper (pt_terminal_status e) = ''CANCELLED'')
    \<and> (\<forall>us off. \<exists>again. cancel_order H N db' oid (Aware us off) = Inr (db', again)
        \<and> cak_cancelled again = cak_cancelled ack)"
proof -
  have step: "ledger_step db db'" using cancel_order_step [OF assms(1)] .
  then have wf': "paper_wf db'" using assms(2) by (simp add: ledger_step_def)
  note order = lookup_order_id_Some [OF assms(3)]
  have known: "lookup_order_id db' oid = Inr (Some order)"
  proof -
    have "order \<in> set (db_orders db')" using order(1) step by (auto simp: ledger_step_def db_extends_def dest: set_mono_prefix)
    then show ?thesis using unique_on_lookup [of po_paper_order_id "db_orders db'" order] wf' order(2)
      by (simp add: paper_wf_def lookup_order_id_def lookup_row_def)
  qed
  have "\<exists>e \<in> set (db_terminals db'). pt_paper_order_id e = oid
      \<and> cak_cancelled ack = (upper (pt_terminal_status e) = ''CANCELLED'')"
    using assms(1)
  proof (cases rule: cancel_order_cases)
    case unknown
    with assms(3) show ?thesis by simp
  next
    case (ended o' e)
    then have "filter (\<lambda>x. pt_paper_order_id x = oid) (db_terminals db) = [e]"
      by (simp add: lookup_terminal_def lookup_row_def)
    then have "e \<in> set (filter (\<lambda>x. pt_paper_order_id x = oid) (db_terminals db))" by simp
    with ended show ?thesis by (auto simp: cancel_ack_of_def cancel_ack_post_init_def)
  next
    case (refused o')
    have "order_sourced db order" using assms(2) order(1) by (simp add: paper_wf_def)
    then have "lookup_prediction db (po_prediction_id order) \<noteq> Inr None"
      by (auto simp: order_sourced_def lookup_prediction_def lookup_row_def filter_empty_conv)
    with refused assms(3,4) show ?thesis by simp
  next
    case (simulated o' p draft td c)
    note fin = persist_simulation_terminal [OF simulated(6) assms(5)]
    from fin(1) obtain e where "e \<in> set (db_terminals db')" "pt_paper_order_id e = oid"
      "pt_terminal_status e = tm_status td" by blast
    with fin(2,3) simulated(8) show ?thesis by (cases c) auto
  qed
  then obtain e where e: "e \<in> set (db_terminals db')" "pt_paper_order_id e = oid"
    "cak_cancelled ack = (upper (pt_terminal_status e) = ''CANCELLED'')" by blast
  have found: "lookup_terminal db' oid = Inr (Some e)" using lookup_terminal_unique [OF wf' e(1)] e(2) by simp
  then have "filter (\<lambda>x. pt_paper_order_id x = oid) (db_terminals db') = [e]"
    by (simp add: lookup_terminal_def lookup_row_def)
  moreover have "\<exists>again. cancel_order H N db' oid (Aware us off) = Inr (db', again)
        \<and> cak_cancelled again = cak_cancelled ack" for us off
    using cancel_order_ended [OF known found, where us = us and off = off and H = H and N = N] e(3) assms(5,6) by auto
  ultimately show ?thesis using e(3) by blast
qed

text \<open>The fills a step adds come from the simulation.\<close>

definition fills_from :: "paper_db \<Rightarrow> fill_draft list \<Rightarrow> paper_fill_row set" where
  "fills_from db drafts = set (db_fills db) \<union> {x. \<exists>d \<in> set drafts. pf_fill_at x = fl_fill_at d}"

lemma store_fill_from:
  assumes "store_fill H N oid f st = Inr st'" and "f \<in> set drafts" and "set (db_fills (fst st)) \<subseteq> fills_from db drafts"
  shows "set (db_fills (fst st')) \<subseteq> fills_from db drafts"
proof -
  obtain db1 a b r db2 c where st: "st = (db1, a, b)" and r: "fill_record H oid f = Inr r"
    and ins: "insert_fill N db1 r = Inr (db2, c)" and st': "fst st' = db2"
    using assms(1) by (cases st) (auto simp: store_fill_def)
  have at: "pf_fill_at r = fl_fill_at f"
    using r by (auto simp: fill_record_def paper_fill_post_init_def utc_time_def aware_utc_def)
  obtain e table where store: "store_row fill_key same_fill (fill_coerce N) no_other e [] (db_fills db1) r = Inr (table, c)"
    and db2: "db2 = db1\<lparr>db_fills := table\<rparr>"
    using ins by (auto simp: insert_fill_def)
  obtain new where "table = db_fills db1 @ new" "set new \<subseteq> {s. fill_coerce N r = Inr s}"
    using fills.store_appends [OF store] by auto
  moreover have "fill_coerce N r = Inr s \<Longrightarrow> pf_fill_at s = fl_fill_at f" for s
    using at by (auto simp: fill_coerce_def)
  ultimately show ?thesis using assms(2,3) by (auto simp: st st' db2 fills_from_def)
qed

lemma store_simulation_from:
  assumes "store_simulation H N db oid sim = Inr (db', c)"
  shows "set (db_fills db') \<subseteq> fills_from db (sm_fills sim)"
proof -
  from assms obtain db1 a b db2 d where
    run: "efold (store_fill H N oid) (sm_fills sim) (db, 0, 0) = Inr (db1, a, b)"
    and t: "store_terminal H N db1 oid (sm_terminal sim) = Inr (db2, d)" and db': "db' = db2"
    by (auto simp: store_simulation_def)
  have "set (db_fills (fst (db1, a, b))) \<subseteq> fills_from db (sm_fills sim)"
    using run by (rule efold_invariant [where P = "\<lambda>s. set (db_fills (fst s)) \<subseteq> fills_from db (sm_fills sim)"])
      (auto simp: fills_from_def dest: store_fill_from [where drafts = "sm_fills sim" and db = db, unfolded fills_from_def])
  moreover have "db_fills db2 = db_fills db1"
    using t by (auto simp: store_terminal_def insert_terminal_event_def)
  ultimately show ?thesis by (simp add: db')
qed

text \<open>no fill comes after a cancellation: every fill a cancellation adds to the ledger lies
  between the order's arrival and the earlier of the cancellation's instant and the expiry.
\<close>

theorem cancel_order_no_late_fill:
  assumes "cancel_order H N db oid t = Inr (db', ack)" and "lookup_order_id db oid = Inr (Some order)"
    and "representable (po_requested_shares order)" and "f \<in> set (db_fills db')" and "f \<notin> set (db_fills db)"
  shows "po_arrival_at order \<le> pf_fill_at f \<and> pf_fill_at f \<le> min (instant t) (po_expires_at order)"
  using assms(1)
proof (cases rule: cancel_order_cases)
  case (simulated o' p draft td c)
  then have o': "o' = order" using assms(2) by simp
  obtain books sim cnt where sim: "simulate_buy draft books (map_option (\<lambda>t. Aware t 0) c) = Inr sim"
    and st: "store_simulation H N db oid sim = Inr (db', cnt)"
    using simulated(6) by (auto simp: persist_simulation_def)
  from store_simulation_from [OF st] assms(4,5) obtain d where
    d: "d \<in> set (sm_fills sim)" "pf_fill_at f = fl_fill_at d" by (auto simp: fills_from_def)
  obtain rq where rq: "order_request_post_init
       \<lparr>rq_prediction_id = po_prediction_id order,
        rq_prediction_semantic_sha256 = po_prediction_semantic_sha256 order,
        rq_condition_id = po_condition_id order, rq_token_id = po_token_id order,
        rq_selected_side = po_selected_side order, rq_action = ''BUY'',
        rq_requested_shares = Finite (po_requested_shares order),
        rq_target_notional_usd = Finite (po_target_notional_usd order),
        rq_submitted_at = Aware (po_submitted_at order) 0, rq_arrival_at = Aware (po_arrival_at order) 0,
        rq_expires_at = Aware (po_expires_at order) 0, rq_limit_price = Finite (po_limit_price order),
        rq_execution_version = po_execution_version order,
        rq_execution_config_sha256 = po_execution_config_sha256 order\<rparr> = Inr rq" and dr: "dr_request draft = rq"
    using simulated(5) by (auto simp: draft_from_rows_def o')
  note f = order_request_post_init_fields [OF rq] order_request_post_init_request_ok [OF rq, unfolded request_ok_def]
  have rep: "representable (rq_requested_shares (dr_request draft))" "0 \<le> dval (rq_requested_shares (dr_request draft))"
    using f assms(3) by (auto simp: dr)
  note sound = simulate_buy_fills [OF sim rep]
  have "fill_ok draft (rq_expires_at (dr_request draft)) d" using sound d(1) by blast
  moreover have "fl_fill_at d \<le> instant t" if "c = Some (instant t)"
    using sound d(1) that by auto
  ultimately show ?thesis using simulated(7) d(2) f by (auto simp: fill_ok_def dr o' split: if_splits)
qed (use assms in auto)

end
