(* ===== verification/PaperRun.thy ===== *)
theory PaperRun
  imports PaperGateway
begin

text \<open>
  Concrete runs of the paper execution service: the witnesses of the properties of
  \<^theory_text>\<open>PaperService\<close>, and a run that shows what the service does not guard against:
  it sizes every new order against the whole cash, without setting aside what the orders it has
  not filled yet may cost.
\<close>

section \<open>One order, filled and settled\<close>

text \<open>
  A market shows 100 shares at 0.52 to the token of one signal; the life of its order is over at
  the time of the run, and the outcome is already known.
\<close>

definition ex_market_event :: "int \<Rightarrow> string \<Rightarrow> int \<Rightarrow> pydict \<Rightarrow> raw_event" where
  "ex_market_event i kind received payload = \<lparr>re_id = i, re_source = ''polymarket'', re_stream = ''market'',
     re_instrument = ''c'', re_event_type = kind, re_asset_id = Some ''tok'', re_received_at = received,
     re_dedupe_key = ex_key, re_payload = payload\<rparr>"

definition ex_ask_book :: pydict where
  "ex_ask_book = [(''event_type'', PStr ''book''), (''market'', PStr ''c''), (''asset_id'', PStr ''tok''),
     (''bids'', PList [ex_level ''0.48'' ''30'']), (''asks'', PList [ex_level ''0.52'' ''100''])]"

definition ex_evaluation :: evaluation where
  "ex_evaluation = \<lparr>ev_prediction_id = ''p1'', ev_label_version = ''l1'', ev_official_outcome = ''Up'',
     ev_official_target = 1, ev_label_source = ''src'',
     ev_label_source_snapshot_sha256 = replicate 64 CHR ''e'', ev_label_source_observed_at = 3300000,
     ev_evaluated_at = 3400000\<rparr>"

definition ex_db2 :: paper_db where
  "ex_db2 = ex_db\<lparr>db_events := [ex_market_event 7 ''book'' 900000 ex_ask_book],
     db_evaluations := [ex_evaluation]\<rparr>"

definition ex_fill_row :: paper_fill_row where
  "ex_fill_row = \<lparr>pf_paper_order_id = ''o1'', pf_fill_key = replicate 64 CHR ''f'', pf_fill_at = 1250000,
     pf_shares = Dec 9133471 (- 6), pf_price = Dec 52 (- 2), pf_gross_cost = Dec 474940492 (- 8),
     pf_fee = Dec 159580005312 (- 12), pf_total_cost = Dec 4908984925312 (- 12),
     pf_signal_ask_slippage = Dec 0 (- 2), pf_book_anchor_event_id = 7, pf_book_anchor_dedupe_key = ex_key,
     pf_book_applied_event_ids = [], pf_book_applied_dedupe_keys = [], pf_replay_cutoff_at = 1250000,
     pf_semantic_sha256 = replicate 64 CHR ''d'', pf_created_at = 1250000\<rparr>"

definition ex_run :: "(paper_db \<times> paper_report) res" where
  "ex_run = run_once ex_H ex_N ex_config ex_db2 (Aware 4000000 0)"

lemma ex_request_sha: "is_sha256 (replicate 64 CHR ''b'')" "is_sha256 (replicate 64 CHR ''c'')"
  by code_simp+

lemma ex_amounts: "dval (Dec 9133471 (- 6)) = 9133471 / 10 ^ 6" "dval (Dec 4908984925312 (- 12)) = 4908984925312 / 10 ^ 12"
  "dval (Dec 100 0) = 100"
  by (simp_all add: dval_def power_int_def power_divide)

lemma ex_db2_wf: "paper_wf ex_db2"
  by (simp add: paper_wf_def ex_db2_def ex_db_def)

lemma ex_open_wf: "paper_wf (ex_db2\<lparr>db_orders := [ex_order_row]\<rparr>)"
proof -
  let ?db = "ex_db2\<lparr>db_orders := [ex_order_row]\<rparr>"
  have "db_predictions ?db = db_predictions ex_db1" by (simp add: ex_db1_def ex_db2_def)
  then have "order_sourced ?db = order_sourced ex_db1" by (simp add: order_sourced_def fun_eq_iff)
  then show ?thesis
    using ex_db1_wf by (simp add: paper_wf_def ex_db1_def ex_db2_def ex_db_def order_ids_def)
qed

theorem run_once_ledger_witness:
  "paper_wf (fst (projr ex_run)) \<and> db_extends ex_db2 (fst (projr ex_run))
    \<and> 0 \<le> dval (pr_current_cash (snd (projr ex_run)))"
proof -
  have "\<not> isl ex_run" by code_simp
  then have "ex_run = Inr (projr ex_run)" by (rule not_isl_projr)
  then have "run_once ex_H ex_N ex_config ex_db2 (Aware 4000000 0) = Inr (fst (projr ex_run), snd (projr ex_run))"
    by (simp add: ex_run_def)
  from run_once_ledger [OF this] ex_db2_wf show ?thesis by simp
qed

theorem books_for_order_sound_witness:
  "books_for_order (ex_db2\<lparr>db_events := db_events ex_db2 @ [ex_market_event 9 ''book'' 5000000 []]\<rparr>) ex_order
    = books_for_order ex_db2 ex_order \<and> \<not> isl (books_for_order ex_db2 ex_order)"
proof -
  have ok: "\<not> isl (books_for_order ex_db2 ex_order)" by code_simp
  then have run: "books_for_order ex_db2 ex_order = Inr (projr (books_for_order ex_db2 ex_order))"
    by (rule not_isl_projr)
  have rq: "request_ok (dr_request ex_order)"
    using ex_request_sha by (simp add: request_ok_def ex_order_def ex_request_def dval_pos_iff
        allowed_execution_versions_def) (simp add: dval_def power_int_def power_divide)
  have "filter (\<lambda>e. re_received_at e \<le> rq_expires_at (dr_request ex_order))
      (db_events (ex_db2\<lparr>db_events := db_events ex_db2 @ [ex_market_event 9 ''book'' 5000000 []]\<rparr>))
    = filter (\<lambda>e. re_received_at e \<le> rq_expires_at (dr_request ex_order)) (db_events ex_db2)"
    by (simp add: ex_order_def ex_request_def ex_market_event_def)
  from books_for_order_sound [OF run rq ex_order_requested(1) this] run ok show ?thesis by simp
qed

theorem process_order_waits_witness:
  "process_order ex_H ex_N ex_db1 ex_order_row ex_live_prediction 2000000 = Inr (ex_db1, 0, 0, 0, 0)"
proof -
  let ?r = "process_order ex_H ex_N ex_db1 ex_order_row ex_live_prediction 2000000"
  have "\<not> isl ?r" "snd (projr ?r) = (0, 0, 0, 0)" by code_simp+
  then have r: "?r = Inr (fst (projr ?r), 0, 0, 0, 0)" by (metis not_isl_projr prod.collapse)
  have "2000000 < po_expires_at ex_order_row" by (simp add: ex_order_row_def)
  with process_order_waits [OF r] r show ?thesis by simp
qed


lemma ex_fill_amounts: "amounts18 (map pf_shares [ex_fill_row])" "amounts18 (map pf_total_cost [ex_fill_row])"
  by (simp_all add: amounts18_def ex_fill_row_def ex_amounts grid_def)

theorem settlement_record_exact_witness:
  "dval (ps_realized_pnl (projr (settlement_record ex_H ex_order_row ex_evaluation [ex_fill_row])))
    = 9133471 / 10 ^ 6 - 4908984925312 / 10 ^ 12"
proof -
  let ?s = "settlement_record ex_H ex_order_row ex_evaluation [ex_fill_row]"
  have "\<not> isl ?s" by code_simp
  then have "?s = Inr (projr ?s)" by (rule not_isl_projr)
  note x = settlement_record_exact [OF this ex_fill_amounts]
  have "lower (po_selected_side ex_order_row) = lower (ev_official_outcome ex_evaluation)" by code_simp
  moreover have "dval (pf_shares ex_fill_row) = 9133471 / 10 ^ 6" "dval (pf_total_cost ex_fill_row) = 4908984925312 / 10 ^ 12"
    by (simp_all add: ex_fill_row_def ex_amounts)
  ultimately show ?thesis using x by simp
qed

theorem derive_paper_cash_exact_witness:
  "\<exists>c. derive_paper_cash (Finite (Dec 100 0)) (map Finite [Dec 4908984925312 (- 12)]) (map Finite [Dec 9133471 (- 6)])
    = Inr c \<and> dval c = 100 - 4908984925312 / 10 ^ 12 + 9133471 / 10 ^ 6"
proof -
  have "amounts18 [Dec 4908984925312 (- 12)]" "amounts18 [Dec 9133471 (- 6)]"
    using ex_fill_amounts by (simp_all add: ex_fill_row_def)
  from derive_paper_cash_exact [OF this, of "Dec 100 0"] show ?thesis
    by (simp add: ex_amounts)
qed

section \<open>The gateway on concrete calls\<close>

definition ex_submit :: "(paper_db \<times> int order_ack) res" where
  "ex_submit = submit_order ex_H ex_N ex_config ex_db ex_request"

theorem gateway_calls_ledger_witness:
  "paper_wf (gateway_calls (paper_submit ex_H ex_N ex_config) (paper_cancel ex_H ex_N) ex_db
      [SubmitCall ex_request, CancelCall ''o1'' (Aware 2000000 0)])"
  by (rule gateway_calls_ledger [OF ex_db_wf, THEN conjunct1])

theorem submit_order_idempotent_witness:
  "submit_order ex_H ex_N ex_config (fst (projr ex_submit)) ex_request
    = Inr (fst (projr ex_submit), (snd (projr ex_submit))\<lparr>ack_reason := ''existing''\<rparr>)"
proof -
  have "\<not> isl ex_submit" "ack_accepted (snd (projr ex_submit))" by code_simp+
  then have "submit_order ex_H ex_N ex_config ex_db ex_request = Inr (fst (projr ex_submit), snd (projr ex_submit))"
    and acc: "ack_accepted (snd (projr ex_submit))"
    by (simp_all add: not_isl_projr flip: ex_submit_def)
  from submit_order_idempotent [OF ex_db_wf this, of "[]"] show ?thesis by (simp add: Let_def)
qed

definition the_draft :: "paper_decision res \<Rightarrow> paper_draft" where
  "the_draft r = (case r of Inr (Draft d) \<Rightarrow> d | _ \<Rightarrow> undefined)"

theorem gateway_draft_agrees_witness:
  "draft_for_request ex_H ex_config
      (dr_request (the_draft (build_paper_order ex_H (prediction_mapping ex_live_prediction) ex_config (Finite (Dec 100 0)))))
      ex_live_prediction
    = Inr (the_draft (build_paper_order ex_H (prediction_mapping ex_live_prediction) ex_config (Finite (Dec 100 0))))"
proof (rule gateway_draft_agrees)
  let ?b = "build_paper_order ex_H (prediction_mapping ex_live_prediction) ex_config (Finite (Dec 100 0))"
  have "case ?b of Inr (Draft d) \<Rightarrow> True | _ \<Rightarrow> False" by code_simp
  then show "?b = Inr (Draft (the_draft ?b))"
    by (auto simp: the_draft_def split: sum.splits paper_decision.splits)
  have "is_hex_lower CHR ''c''" by code_simp
  then show "sha256_like ex_H" by (simp add: sha256_like_def ex_H_def list_all_iff)
qed

definition ex_cancel :: "(paper_db \<times> int cancel_ack) res" where
  "ex_cancel = cancel_order ex_H ex_N (ex_db2\<lparr>db_orders := [ex_order_row]\<rparr>) ''o1'' (Aware 2000000 0)"

lemma ex_cancel_run:
  "cancel_order ex_H ex_N (ex_db2\<lparr>db_orders := [ex_order_row]\<rparr>) ''o1'' (Aware 2000000 0)
    = Inr (fst (projr ex_cancel), snd (projr ex_cancel))"
proof -
  have "\<not> isl ex_cancel" by code_simp
  then show ?thesis by (simp add: not_isl_projr flip: ex_cancel_def)
qed

lemma ex_cancel_order: "lookup_order_id (ex_db2\<lparr>db_orders := [ex_order_row]\<rparr>) ''o1'' = Inr (Some ex_order_row)"
  by (simp add: lookup_order_id_def lookup_row_def ex_order_row_def)

theorem cancel_order_final_witness:
  "\<exists>e. filter (\<lambda>x. pt_paper_order_id x = ''o1'') (db_terminals (fst (projr ex_cancel))) = [e]
    \<and> cak_cancelled (snd (projr ex_cancel)) = (upper (pt_terminal_status e) = ''CANCELLED'')"
proof -
  have "po_submitted_at ex_order_row \<le> instant (Aware 2000000 0)" by (simp add: ex_order_row_def instant_def)
  moreover have "strip ''o1'' = ''o1''" by code_simp
  ultimately show ?thesis using cancel_order_final [OF ex_cancel_run ex_open_wf ex_cancel_order] by auto
qed

theorem cancel_order_no_late_fill_witness:
  "pf_fill_at (hd (db_fills (fst (projr ex_cancel)))) \<le> 2000000"
proof -
  have "db_fills (fst (projr ex_cancel)) \<noteq> []" by code_simp
  then have "hd (db_fills (fst (projr ex_cancel))) \<in> set (db_fills (fst (projr ex_cancel)))" by simp
  moreover have "representable (po_requested_shares ex_order_row)"
    by (simp add: ex_order_row_def representable_def prec_def)
  moreover have "hd (db_fills (fst (projr ex_cancel))) \<notin> set (db_fills (ex_db2\<lparr>db_orders := [ex_order_row]\<rparr>))"
    by (simp add: ex_db2_def ex_db_def)
  ultimately show ?thesis
    using cancel_order_no_late_fill [OF ex_cancel_run ex_cancel_order] by (simp add: instant_def)
qed

section \<open>Orders are not reserved against the cash\<close>

text \<open>A stand-in for SHA-256 that tells texts of different lengths apart.\<close>

definition ex_hash :: "string \<Rightarrow> string" where
  "ex_hash s = pad 64 (fold (\<lambda>c n. n + 1) s 0)"

definition ex_small_config :: "dec paper_config" where
  "ex_small_config = ex_config\<lparr>pc_starting_cash_usd := Dec 500 (- 2)\<rparr>"

definition ex_two_signals :: paper_db where
  "ex_two_signals = ex_db2\<lparr>db_predictions := [ex_live_prediction, ex_live_prediction\<lparr>lp_prediction_id := ''p10''\<rparr>]\<rparr>"

definition ex_open_order :: "string \<Rightarrow> string \<Rightarrow> string \<Rightarrow> paper_order_row" where
  "ex_open_order oid pid sha = ex_order_row\<lparr>po_paper_order_id := replicate 62 CHR ''0'' @ oid, po_prediction_id := pid,
     po_execution_config_sha256 := replicate 61 CHR ''0'' @ ''155'', po_semantic_sha256 := replicate 61 CHR ''0'' @ sha,
     po_execution_config := paper_config_mapping ex_small_config\<rparr>"

definition ex_two_open :: paper_db where
  "ex_two_open = ex_two_signals\<lparr>db_orders := [ex_open_order ''63'' ''p1'' ''870'', ex_open_order ''64'' ''p10'' ''871'']\<rparr>"

lemma ex_two_open_run:
  "(case run_once ex_hash ex_N ex_small_config ex_two_signals (Aware 1100000 0) of
      Inr (db, rep) \<Rightarrow> db = ex_two_open \<and> pr_created_orders rep = 2 \<and> pr_current_cash rep = Dec 500 (- 2)
    | _ \<Rightarrow> False)"
  by code_simp

lemma ex_two_open_stuck:
  "run_once ex_hash ex_N ex_small_config ex_two_open (Aware 4000000 0)
    = Inl (PaperCashInvariantError ''derived paper cash is negative'')"
  by code_simp


end
