(* ===== verification/PaperRestore.thy ===== *)
theory PaperRestore
  imports PaperRun
begin

text \<open>
  The round trip of an order through the ledger of paper trading: validating a validated request
  changes nothing, and the row of an order, read back by a later run, is the order again.
\<close>

text \<open>A validated request as the input of its own validation.\<close>

definition request_as_input :: "request \<Rightarrow> (decimal, pytime) order_request" where
  "request_as_input r =
     \<lparr>rq_prediction_id = rq_prediction_id r, rq_prediction_semantic_sha256 = rq_prediction_semantic_sha256 r,
      rq_condition_id = rq_condition_id r, rq_token_id = rq_token_id r,
      rq_selected_side = rq_selected_side r, rq_action = rq_action r,
      rq_requested_shares = Finite (rq_requested_shares r), rq_target_notional_usd = Finite (rq_target_notional_usd r),
      rq_submitted_at = Aware (rq_submitted_at r) 0, rq_arrival_at = Aware (rq_arrival_at r) 0,
      rq_expires_at = Aware (rq_expires_at r) 0, rq_limit_price = Finite (rq_limit_price r),
      rq_execution_version = rq_execution_version r,
      rq_execution_config_sha256 = rq_execution_config_sha256 r\<rparr>"

lemma side_field_again: "side_field v = Inr s \<Longrightarrow> side_field s = Inr s"
proof -
  assume "side_field v = Inr s"
  then have "s \<in> {''up'', ''down''}" by (auto dest: side_field_Inr)
  moreover have "side_field ''up'' = Inr ''up''" "side_field ''down'' = Inr ''down''" by code_simp+
  ultimately show ?thesis by auto
qed

lemma order_request_again: "order_request_post_init q = Inr r \<Longrightarrow> order_request_post_init (request_as_input r) = Inr r"
  by (auto simp: order_request_post_init_def request_as_input_def text_field_def sha256_field_def Let_def lower_idem
      positive_decimal_def probability_price_def utc_time_def side_field_again
      split: if_splits decimal.splits)


lemmas amount_dests = positive_decimal_Inr nonnegative_decimal_Inr probability_price_Inr utc_time_Inr
  text_field_Inr sha256_field_Inr

lemma paper_order_fields:
  "paper_order_post_init q = Inr row \<Longrightarrow> po_requested_shares q = Finite (po_requested_shares row) \<and> po_target_notional_usd q = Finite (po_target_notional_usd row)
    \<and> po_limit_price q = Finite (po_limit_price row) \<and> po_signal_selected_ask q = Finite (po_signal_selected_ask row)
    \<and> po_signal_fee_rate q = Finite (po_signal_fee_rate row) \<and> po_signal_slippage_buffer q = Finite (po_signal_slippage_buffer row)
    \<and> instant (po_submitted_at q) = po_submitted_at row \<and> instant (po_arrival_at q) = po_arrival_at row
    \<and> instant (po_expires_at q) = po_expires_at row \<and> po_execution_config row = po_execution_config q
    \<and> po_execution_version row = po_execution_version q
    \<and> po_prediction_id row = strip (po_prediction_id q) \<and> po_condition_id row = strip (po_condition_id q)
    \<and> po_token_id row = strip (po_token_id q) \<and> po_prediction_semantic_sha256 row = lower (po_prediction_semantic_sha256 q)
    \<and> po_execution_config_sha256 row = lower (po_execution_config_sha256 q) \<and> side_field (po_selected_side q) = Inr (po_selected_side row)"
  unfolding paper_order_post_init_def
  by (clarsimp, (drule amount_dests)+, clarsimp simp: instant_def)

lemma order_request_fields:
  "order_request_post_init q = Inr r \<Longrightarrow> rq_action r = ''BUY'' \<and> side_field (rq_selected_side r) = Inr (rq_selected_side r)
    \<and> rq_prediction_id r = strip (rq_prediction_id q) \<and> rq_condition_id r = strip (rq_condition_id q)
    \<and> rq_token_id r = strip (rq_token_id q)
    \<and> rq_prediction_semantic_sha256 r = lower (rq_prediction_semantic_sha256 q)
    \<and> rq_execution_config_sha256 r = lower (rq_execution_config_sha256 q)"
  unfolding order_request_post_init_def
  by (clarsimp, (drule amount_dests)+, clarsimp, erule side_field_again)

lemma draft_rebuilt:
  assumes q: "order_request_post_init q = Inr (dr_request d)" and row: "order_record H d = Inr row"
    and e: "dr_market_end_at d = Some (lp_market_end_at p)"
  shows "draft_from_rows row p = Inr d"
proof -
  let ?r = "dr_request d"
  from row obtain oid sha where post: "paper_order_post_init
       \<lparr>po_paper_order_id = oid, po_prediction_id = rq_prediction_id ?r,
        po_prediction_semantic_sha256 = rq_prediction_semantic_sha256 ?r,
        po_execution_version = rq_execution_version ?r,
        po_execution_config_sha256 = rq_execution_config_sha256 ?r,
        po_condition_id = rq_condition_id ?r, po_token_id = rq_token_id ?r,
        po_selected_side = rq_selected_side ?r,
        po_requested_shares = Finite (rq_requested_shares ?r),
        po_target_notional_usd = Finite (rq_target_notional_usd ?r),
        po_submitted_at = Aware (rq_submitted_at ?r) 0, po_arrival_at = Aware (rq_arrival_at ?r) 0,
        po_expires_at = Aware (rq_expires_at ?r) 0, po_limit_price = Finite (rq_limit_price ?r),
        po_signal_selected_ask = Finite (dr_signal_selected_ask d),
        po_signal_fee_rate = Finite (dr_signal_fee_rate d),
        po_signal_slippage_buffer = Finite (dr_signal_slippage_buffer d),
        po_execution_config = dr_execution_config d, po_semantic_sha256 = sha,
        po_created_at = Aware (rq_submitted_at ?r) 0\<rparr> = Inr row"
    by (auto simp: order_record_def Let_def)
  have fixed: "rq_action ?r = ''BUY''" "side_field (rq_selected_side ?r) = Inr (rq_selected_side ?r)"
    "strip (rq_prediction_id ?r) = rq_prediction_id ?r" "strip (rq_condition_id ?r) = rq_condition_id ?r"
    "strip (rq_token_id ?r) = rq_token_id ?r"
    "lower (rq_prediction_semantic_sha256 ?r) = rq_prediction_semantic_sha256 ?r"
    "lower (rq_execution_config_sha256 ?r) = rq_execution_config_sha256 ?r"
    using order_request_fields [OF q] by (simp_all add: lower_idem)
  have "request_as_input ?r =
      \<lparr>rq_prediction_id = po_prediction_id row, rq_prediction_semantic_sha256 = po_prediction_semantic_sha256 row,
       rq_condition_id = po_condition_id row, rq_token_id = po_token_id row, rq_selected_side = po_selected_side row,
       rq_action = ''BUY'', rq_requested_shares = Finite (po_requested_shares row),
       rq_target_notional_usd = Finite (po_target_notional_usd row), rq_submitted_at = Aware (po_submitted_at row) 0,
       rq_arrival_at = Aware (po_arrival_at row) 0, rq_expires_at = Aware (po_expires_at row) 0,
       rq_limit_price = Finite (po_limit_price row), rq_execution_version = po_execution_version row,
       rq_execution_config_sha256 = po_execution_config_sha256 row\<rparr>"
    using paper_order_fields [OF post] fixed by (simp add: request_as_input_def instant_def)
  with order_request_again [OF q] paper_order_fields [OF post] e show ?thesis
    by (cases d) (simp add: draft_from_rows_def)
qed




text \<open>The example digest ignores its argument: evaluation leaves it unread.\<close>

declare json_dumps.simps [code del]

definition ex_restore_row :: "paper_order_row res" where
  "ex_restore_row = order_record ex_H (the_draft (build_paper_order ex_H (prediction_mapping ex_live_prediction) ex_config (Finite (Dec 100 0))))"

definition ex_restore_db :: "(paper_db \<times> bool) res" where
  "ex_restore_db = insert_order ex_N ex_db (projr ex_restore_row)"


end
