(* ===== verification/LiveModels.thy ===== *)
theory LiveModels
  imports PaperLedger
begin

text \<open>
  The data model of live trading (\<open>bp_engine/live_readiness/models.py\<close>): the risk policy, the
  account snapshot and context a risk decision is made from, the decision, the activation
  manifest and the geographic check. As in \<^theory_text>\<open>ExecModels\<close>, a dataclass is a record
  whose numbers and timestamps are type parameters: as constructed they are dynamic values,
  decimal inputs being decimals, ints, floats or texts, and \<open>__post_init__\<close> turns them into finite
  decimals and instants or raises \<open>ValueError\<close>. The lemmas show what a constructed record is
  guaranteed to satisfy.
\<close>

section \<open>Hashing\<close>

text \<open>
  \<open>canonical_payload\<close> is the same function as the canonical form of
  \<open>bp_engine/features/hashing.py\<close>, extended to dataclasses, which are their field mappings here.
\<close>

definition canonical_payload :: "pyval \<Rightarrow> pyval res" where
  "canonical_payload v = canonicalize v"

definition semantic_sha256 :: "(string \<Rightarrow> string) \<Rightarrow> pyval \<Rightarrow> string res" where
  "semantic_sha256 H v = ebind (canonical_payload v) (\<lambda>c. Inr (H (json_dumps c)))"

section \<open>Field validation\<close>

definition lr_aware :: "string \<Rightarrow> pytime \<Rightarrow> int res" where
  "lr_aware name t = aware_utc (ValueError (name @ '' must be timezone-aware'')) t"

definition lr_sha :: "string \<Rightarrow> string \<Rightarrow> string res" where
  "lr_sha name v = (if length v \<noteq> 64 \<or> \<not> list_all is_hex v
     then Inl (ValueError (name @ '' must be a 64-character SHA-256 digest'')) else Inr (lower v))"

definition lr_decimal :: "string \<Rightarrow> pyval \<Rightarrow> dec res" where
  "lr_decimal name v = (case to_decimal v of Some (Finite d) \<Rightarrow> Inr d
     | _ \<Rightarrow> Inl (ValueError (name @ '' must be a finite decimal'')))"

definition lr_nonnegative :: "string \<Rightarrow> pyval \<Rightarrow> dec res" where
  "lr_nonnegative name v = ebind (lr_decimal name v) (\<lambda>d.
     if dlt d d0 then Inl (ValueError (name @ '' must be nonnegative'')) else Inr d)"

definition not_blank :: "string \<Rightarrow> string \<Rightarrow> unit res" where
  "not_blank name v = require (strip v \<noteq> []) (ValueError (name @ '' must not be blank''))"

text \<open>An optional field: \<open>None\<close> is kept, a value is validated.\<close>

definition optional_field :: "('a \<Rightarrow> 'b res) \<Rightarrow> 'a option \<Rightarrow> 'b option res" where
  "optional_field f v = (case v of None \<Rightarrow> Inr None | Some x \<Rightarrow> ebind (f x) (\<lambda>y. Inr (Some y)))"

lemma lr_nonnegative_Inr: "lr_nonnegative n v = Inr d \<Longrightarrow> 0 \<le> dval d"
  by (auto simp: lr_nonnegative_def dcmp split: if_splits)

lemma lr_sha_Inr: "lr_sha n v = Inr s \<Longrightarrow> s = lower v \<and> length s = 64"
  by (auto simp: lr_sha_def split: if_splits)

lemma lr_aware_Inr: "lr_aware n t = Inr us \<Longrightarrow> \<exists>off. t = Aware us off"
  by (simp add: lr_aware_def)

lemma optional_field_Inr: "optional_field f v = Inr r \<longleftrightarrow> rel_option (\<lambda>x y. f x = Inr y) v r"
  by (cases v; cases r) (auto simp: optional_field_def)

section \<open>The activation manifest and the geographic check\<close>

record 't geoblock_result =
  gb_blocked :: bool
  gb_country :: string
  gb_region :: string
  gb_checked_at :: 't

definition geoblock_post_init :: "pytime geoblock_result \<Rightarrow> int geoblock_result res" where
  "geoblock_post_init g = ebind (lr_aware ''checked_at'' (gb_checked_at g)) (\<lambda>at_time.
     Inr \<lparr>gb_blocked = gb_blocked g, gb_country = gb_country g, gb_region = gb_region g, gb_checked_at = at_time\<rparr>)"

text \<open>
  The manifest's texts come from a JSON document unchecked: \<open>len\<close> of a number is a \<open>TypeError\<close>,
  and a list of 64 hexadecimal digits passes the test of a digest but has no \<open>lower\<close>, as a
  number has no \<open>strip\<close>.
\<close>

definition lr_sha_value :: "string \<Rightarrow> pyval \<Rightarrow> string res" where
  "lr_sha_value name v = (case v of
       PStr s \<Rightarrow> lr_sha name s
     | PList xs \<Rightarrow> if length xs \<noteq> 64 \<or> \<not> list_all (\<lambda>x. case x of PStr [c] \<Rightarrow> is_hex c | _ \<Rightarrow> False) xs
         then Inl (ValueError (name @ '' must be a 64-character SHA-256 digest''))
         else Inl (AttributeError ''lower'')
     | PDict d \<Rightarrow> Inl (ValueError (name @ '' must be a 64-character SHA-256 digest''))
     | _ \<Rightarrow> Inl (TypeError ''object has no len()''))"

definition not_blank_value :: "string \<Rightarrow> pyval \<Rightarrow> string res" where
  "not_blank_value name v = (case v of
       PStr s \<Rightarrow> ebind (not_blank name s) (\<lambda>_. Inr s)
     | _ \<Rightarrow> Inl (AttributeError ''strip''))"

record ('s, 't) activation_manifest =
  am_authorized :: bool
  am_git_sha :: 's
  am_authorization_id :: 's
  am_issued_at :: 't
  am_expires_at :: 't

type_synonym manifest = "(string, int) activation_manifest"

definition activation_post_init :: "(pyval, pytime) activation_manifest \<Rightarrow> manifest res" where
  "activation_post_init m =
     ebind (lr_sha_value ''git_sha'' (am_git_sha m)) (\<lambda>sha.
     ebind (lr_aware ''issued_at'' (am_issued_at m)) (\<lambda>issued.
     ebind (lr_aware ''expires_at'' (am_expires_at m)) (\<lambda>expires.
     ebind (require (issued < expires) (ValueError ''expires_at must be after issued_at'')) (\<lambda>_.
     ebind (not_blank_value ''authorization_id'' (am_authorization_id m)) (\<lambda>authorization.
     Inr \<lparr>am_authorized = am_authorized m, am_git_sha = sha, am_authorization_id = authorization,
          am_issued_at = issued, am_expires_at = expires\<rparr>)))))"

lemma activation_post_init_Inr:
  assumes "activation_post_init m = Inr r"
  shows "am_issued_at r < am_expires_at r" "strip (am_authorization_id r) \<noteq> []" "length (am_git_sha r) = 64"
    "am_authorized r = am_authorized m"
  using assms
  by (auto simp: activation_post_init_def not_blank_value_def not_blank_def lr_sha_value_def
      dest: lr_sha_Inr split: pyval.splits if_splits)

section \<open>The risk policy\<close>

definition LIVE_POLICY_VERSION :: string where
  "LIVE_POLICY_VERSION = ''live-risk-v1''"

record 'd live_policy =
  lr_max_trade_size_usd :: 'd
  lr_max_total_exposure_usd :: 'd
  lr_max_daily_loss_usd :: 'd
  lr_max_consecutive_losses :: int
  lr_min_edge :: 'd
  lr_min_probability :: 'd
  lr_min_liquidity_usd :: 'd
  lr_max_spread :: 'd
  lr_max_prediction_age_seconds :: 'd
  lr_min_time_to_expiry_seconds :: 'd
  lr_cooldown_seconds :: 'd
  lr_policy_version :: string

definition live_policy_post_init :: "pyval live_policy \<Rightarrow> dec live_policy res" where
  "live_policy_post_init p =
     ebind (lr_nonnegative ''max_trade_size_usd'' (lr_max_trade_size_usd p)) (\<lambda>trade.
     ebind (lr_nonnegative ''max_total_exposure_usd'' (lr_max_total_exposure_usd p)) (\<lambda>exposure.
     ebind (lr_nonnegative ''max_daily_loss_usd'' (lr_max_daily_loss_usd p)) (\<lambda>loss.
     ebind (lr_nonnegative ''min_edge'' (lr_min_edge p)) (\<lambda>edge.
     ebind (lr_nonnegative ''min_probability'' (lr_min_probability p)) (\<lambda>probability.
     ebind (lr_nonnegative ''min_liquidity_usd'' (lr_min_liquidity_usd p)) (\<lambda>liquidity.
     ebind (lr_nonnegative ''max_spread'' (lr_max_spread p)) (\<lambda>spread.
     ebind (lr_nonnegative ''max_prediction_age_seconds'' (lr_max_prediction_age_seconds p)) (\<lambda>age.
     ebind (lr_nonnegative ''min_time_to_expiry_seconds'' (lr_min_time_to_expiry_seconds p)) (\<lambda>expiry.
     ebind (lr_nonnegative ''cooldown_seconds'' (lr_cooldown_seconds p)) (\<lambda>cooldown.
     ebind (require (0 \<le> lr_max_consecutive_losses p) (ValueError ''max_consecutive_losses must be nonnegative'')) (\<lambda>_.
     ebind (require (dle probability d1) (ValueError ''min_probability must be between 0 and 1'')) (\<lambda>_.
     ebind (require (dle spread d1) (ValueError ''max_spread must be between 0 and 1'')) (\<lambda>_.
     ebind (require (\<not> (dlt d0 trade \<and> dlt d0 exposure \<and> dlt exposure trade))
       (ValueError ''max_trade_size_usd cannot exceed max_total_exposure_usd'')) (\<lambda>_.
     ebind (not_blank ''policy_version'' (lr_policy_version p)) (\<lambda>_.
     Inr \<lparr>lr_max_trade_size_usd = trade, lr_max_total_exposure_usd = exposure, lr_max_daily_loss_usd = loss,
          lr_max_consecutive_losses = lr_max_consecutive_losses p, lr_min_edge = edge,
          lr_min_probability = probability, lr_min_liquidity_usd = liquidity, lr_max_spread = spread,
          lr_max_prediction_age_seconds = age, lr_min_time_to_expiry_seconds = expiry,
          lr_cooldown_seconds = cooldown, lr_policy_version = lr_policy_version p\<rparr>)))))))))))))))"

definition live_policy_ok :: "dec live_policy \<Rightarrow> bool" where
  "live_policy_ok p \<longleftrightarrow> 0 \<le> dval (lr_max_trade_size_usd p) \<and> 0 \<le> dval (lr_max_total_exposure_usd p)
     \<and> 0 \<le> dval (lr_max_daily_loss_usd p) \<and> 0 \<le> lr_max_consecutive_losses p
     \<and> 0 \<le> dval (lr_min_probability p) \<and> dval (lr_min_probability p) \<le> 1
     \<and> 0 \<le> dval (lr_max_spread p) \<and> dval (lr_max_spread p) \<le> 1
     \<and> 0 \<le> dval (lr_min_edge p) \<and> 0 \<le> dval (lr_min_liquidity_usd p)
     \<and> 0 \<le> dval (lr_max_prediction_age_seconds p) \<and> 0 \<le> dval (lr_min_time_to_expiry_seconds p)
     \<and> 0 \<le> dval (lr_cooldown_seconds p)
     \<and> (0 < dval (lr_max_total_exposure_usd p) \<longrightarrow> dval (lr_max_trade_size_usd p) \<le> dval (lr_max_total_exposure_usd p))"

lemma live_policy_post_init_ok: "live_policy_post_init p = Inr q \<Longrightarrow> live_policy_ok q"
  unfolding live_policy_post_init_def
  by (clarsimp, (drule lr_nonnegative_Inr)+, auto simp: live_policy_ok_def dcmp)

definition live_policy_mapping :: "dec live_policy \<Rightarrow> pydict" where
  "live_policy_mapping p =
     [(''max_trade_size_usd'', PDec (Finite (lr_max_trade_size_usd p))),
      (''max_total_exposure_usd'', PDec (Finite (lr_max_total_exposure_usd p))),
      (''max_daily_loss_usd'', PDec (Finite (lr_max_daily_loss_usd p))),
      (''max_consecutive_losses'', PInt (lr_max_consecutive_losses p)),
      (''min_edge'', PDec (Finite (lr_min_edge p))),
      (''min_probability'', PDec (Finite (lr_min_probability p))),
      (''min_liquidity_usd'', PDec (Finite (lr_min_liquidity_usd p))),
      (''max_spread'', PDec (Finite (lr_max_spread p))),
      (''max_prediction_age_seconds'', PDec (Finite (lr_max_prediction_age_seconds p))),
      (''min_time_to_expiry_seconds'', PDec (Finite (lr_min_time_to_expiry_seconds p))),
      (''cooldown_seconds'', PDec (Finite (lr_cooldown_seconds p))),
      (''policy_version'', PStr (lr_policy_version p))]"

section \<open>What a decision is made from\<close>

record ('d, 't) live_account =
  la_total_exposure_usd :: 'd
  la_realized_daily_pnl_usd :: 'd
  la_consecutive_losses :: int
  la_last_order_at :: "'t option"
  la_unresolved_critical :: int

type_synonym account_snapshot = "(dec, int) live_account"

definition live_account_post_init :: "(pyval, pytime) live_account \<Rightarrow> account_snapshot res" where
  "live_account_post_init a =
     ebind (lr_nonnegative ''total_exposure_usd'' (la_total_exposure_usd a)) (\<lambda>exposure.
     ebind (lr_decimal ''realized_daily_pnl_usd'' (la_realized_daily_pnl_usd a)) (\<lambda>pnl.
     ebind (require (0 \<le> la_consecutive_losses a) (ValueError ''consecutive_losses must be nonnegative'')) (\<lambda>_.
     ebind (require (0 \<le> la_unresolved_critical a)
       (ValueError ''unresolved_critical_reconciliation must be nonnegative'')) (\<lambda>_.
     ebind (optional_field (lr_aware ''last_order_at'') (la_last_order_at a)) (\<lambda>last.
     Inr \<lparr>la_total_exposure_usd = exposure, la_realized_daily_pnl_usd = pnl,
          la_consecutive_losses = la_consecutive_losses a, la_last_order_at = last,
          la_unresolved_critical = la_unresolved_critical a\<rparr>)))))"

definition live_account_mapping :: "account_snapshot \<Rightarrow> pydict" where
  "live_account_mapping a =
     [(''total_exposure_usd'', PDec (Finite (la_total_exposure_usd a))),
      (''realized_daily_pnl_usd'', PDec (Finite (la_realized_daily_pnl_usd a))),
      (''consecutive_losses'', PInt (la_consecutive_losses a)),
      (''last_order_at'', case la_last_order_at a of None \<Rightarrow> PNone | Some t \<Rightarrow> PTime (Aware t 0)),
      (''unresolved_critical_reconciliation'', PInt (la_unresolved_critical a))]"

record ('d, 't) live_context =
  lc_prediction_id :: string
  lc_prediction_semantic_sha256 :: string
  lc_recorded_at :: 't
  lc_market_end_at :: 't
  lc_trade :: bool
  lc_executable :: bool
  lc_probability :: 'd
  lc_expected_edge :: 'd
  lc_selected_ask :: "'d option"
  lc_spread :: "'d option"
  lc_selected_liquidity_usd :: "'d option"
  lc_requested_notional_usd :: 'd
  lc_observed_at :: 't
  lc_api_healthy :: bool
  lc_duplicate_intent :: bool
  lc_account :: account_snapshot

type_synonym risk_context = "(dec, int) live_context"

definition lr_ask :: "pyval \<Rightarrow> dec res" where
  "lr_ask v = ebind (lr_decimal ''selected_ask'' v) (\<lambda>d.
     if dle d d0 \<or> dlt d1 d then Inl (ValueError ''selected_ask must be within (0, 1]'') else Inr d)"

definition lr_spread :: "pyval \<Rightarrow> dec res" where
  "lr_spread v = ebind (lr_nonnegative ''spread'' v) (\<lambda>d.
     if dlt d1 d then Inl (ValueError ''spread must be at most 1'') else Inr d)"

definition live_context_post_init :: "(pyval, pytime) live_context \<Rightarrow> risk_context res" where
  "live_context_post_init c =
     ebind (not_blank ''prediction_id'' (lc_prediction_id c)) (\<lambda>_.
     ebind (lr_sha ''prediction_semantic_sha256'' (lc_prediction_semantic_sha256 c)) (\<lambda>sha.
     ebind (lr_aware ''recorded_at'' (lc_recorded_at c)) (\<lambda>recorded.
     ebind (lr_aware ''market_end_at'' (lc_market_end_at c)) (\<lambda>market_end.
     ebind (lr_aware ''observed_at'' (lc_observed_at c)) (\<lambda>observed.
     ebind (lr_decimal ''probability'' (lc_probability c)) (\<lambda>probability.
     ebind (require (dle d0 probability \<and> dle probability d1)
       (ValueError ''probability must be between 0 and 1'')) (\<lambda>_.
     ebind (lr_decimal ''expected_edge'' (lc_expected_edge c)) (\<lambda>edge.
     ebind (optional_field lr_ask (lc_selected_ask c)) (\<lambda>ask.
     ebind (optional_field lr_spread (lc_spread c)) (\<lambda>spread.
     ebind (optional_field (lr_nonnegative ''selected_liquidity_usd'') (lc_selected_liquidity_usd c)) (\<lambda>liquidity.
     ebind (lr_decimal ''requested_notional_usd'' (lc_requested_notional_usd c)) (\<lambda>notional.
     ebind (require (dlt d0 notional) (ValueError ''requested_notional_usd must be positive'')) (\<lambda>_.
     Inr \<lparr>lc_prediction_id = lc_prediction_id c, lc_prediction_semantic_sha256 = sha,
          lc_recorded_at = recorded, lc_market_end_at = market_end, lc_trade = lc_trade c,
          lc_executable = lc_executable c, lc_probability = probability, lc_expected_edge = edge,
          lc_selected_ask = ask, lc_spread = spread, lc_selected_liquidity_usd = liquidity,
          lc_requested_notional_usd = notional, lc_observed_at = observed,
          lc_api_healthy = lc_api_healthy c, lc_duplicate_intent = lc_duplicate_intent c,
          lc_account = lc_account c\<rparr>)))))))))))))"

definition optional_dec :: "dec option \<Rightarrow> pyval" where
  "optional_dec v = (case v of None \<Rightarrow> PNone | Some d \<Rightarrow> PDec (Finite d))"

definition live_context_mapping :: "risk_context \<Rightarrow> pydict" where
  "live_context_mapping c =
     [(''prediction_id'', PStr (lc_prediction_id c)),
      (''prediction_semantic_sha256'', PStr (lc_prediction_semantic_sha256 c)),
      (''recorded_at'', PTime (Aware (lc_recorded_at c) 0)),
      (''market_end_at'', PTime (Aware (lc_market_end_at c) 0)),
      (''trade'', PBool (lc_trade c)), (''executable'', PBool (lc_executable c)),
      (''probability'', PDec (Finite (lc_probability c))),
      (''expected_edge'', PDec (Finite (lc_expected_edge c))),
      (''selected_ask'', optional_dec (lc_selected_ask c)), (''spread'', optional_dec (lc_spread c)),
      (''selected_liquidity_usd'', optional_dec (lc_selected_liquidity_usd c)),
      (''requested_notional_usd'', PDec (Finite (lc_requested_notional_usd c))),
      (''observed_at'', PTime (Aware (lc_observed_at c) 0)),
      (''api_healthy'', PBool (lc_api_healthy c)), (''duplicate_intent'', PBool (lc_duplicate_intent c)),
      (''account'', PDict (live_account_mapping (lc_account c)))]"

section \<open>Rule results and decisions\<close>

record rule_result =
  rr_rule :: string
  rr_passed :: bool
  rr_reason :: string

definition rule_result_post_init :: "rule_result \<Rightarrow> rule_result res" where
  "rule_result_post_init r =
     ebind (not_blank ''rule'' (rr_rule r)) (\<lambda>_. ebind (not_blank ''reason'' (rr_reason r)) (\<lambda>_. Inr r))"

definition rule_result_mapping :: "rule_result \<Rightarrow> pyval" where
  "rule_result_mapping r = PDict [(''rule'', PStr (rr_rule r)), (''passed'', PBool (rr_passed r)),
     (''reason'', PStr (rr_reason r))]"

record risk_decision =
  rd_eligible :: bool
  rd_reasons :: "string list"
  rd_rules :: "rule_result list"
  rd_policy_sha256 :: string
  rd_semantic_sha256 :: string

definition risk_decision_post_init :: "risk_decision \<Rightarrow> risk_decision res" where
  "risk_decision_post_init d =
     ebind (lr_sha ''policy_sha256'' (rd_policy_sha256 d)) (\<lambda>policy.
     ebind (lr_sha ''semantic_sha256'' (rd_semantic_sha256 d)) (\<lambda>semantic.
     ebind (require (\<not> (rd_eligible d \<and> rd_reasons d \<noteq> []))
       (ValueError ''eligible decision cannot contain blocking reasons'')) (\<lambda>_.
     Inr (d\<lparr>rd_policy_sha256 := policy, rd_semantic_sha256 := semantic\<rparr>))))"

definition risk_decision_mapping :: "risk_decision \<Rightarrow> pydict" where
  "risk_decision_mapping d =
     [(''eligible'', PBool (rd_eligible d)), (''reasons'', PList (map PStr (rd_reasons d))),
      (''rules'', PList (map rule_result_mapping (rd_rules d))),
      (''policy_sha256'', PStr (rd_policy_sha256 d)), (''semantic_sha256'', PStr (rd_semantic_sha256 d))]"

lemma risk_decision_post_init_Inr:
  "risk_decision_post_init d = Inr r \<Longrightarrow> rd_eligible r = rd_eligible d \<and> rd_reasons r = rd_reasons d
    \<and> rd_rules r = rd_rules d \<and> (rd_eligible r \<longrightarrow> rd_reasons r = [])"
  by (auto simp: risk_decision_post_init_def)

end
