(* ===== verification/LiveInterlock.thy ===== *)
theory LiveInterlock
  imports LiveModels
begin

text \<open>
  The outer interlocks of live trading (\<open>bp_engine/live_readiness/interlock.py\<close>,
  \<open>geoblock.py\<close>): the activation manifest, the kill switch and the geographic check. The
  environment is a parameter: \<open>read_json\<close> the JSON document at a path, \<open>None\<close> where the file cannot
  be read or is no JSON; \<open>parse_time\<close> is \<open>datetime.fromisoformat\<close>, \<open>None\<close> where it raises
  \<open>ValueError\<close>; \<open>path_exists\<close> is \<open>Path.exists\<close>, \<open>None\<close> where it raises \<open>OSError\<close>; \<open>http_get\<close>
  is the response of a GET, its status and its JSON body, \<open>None\<close> where the transport fails.
\<close>

section \<open>The activation manifest\<close>

definition manifest_time :: "(string \<Rightarrow> pytime option) \<Rightarrow> pyval \<Rightarrow> pytime res" where
  "manifest_time parse_time v = (case v of
       PStr s \<Rightarrow> (case parse_time s of Some t \<Rightarrow> Inr t | None \<Rightarrow> Inl (ValueError ''Invalid isoformat string''))
     | _ \<Rightarrow> Inl (TypeError ''fromisoformat: argument must be str''))"

definition read_manifest ::
  "(string \<Rightarrow> pytime option) \<Rightarrow> pyval \<Rightarrow> string \<Rightarrow> pytime \<Rightarrow> manifest res" where
  "read_manifest parse_time document expected_git_sha observed_at = (case document of
       PDict payload \<Rightarrow>
         ebind (require (is_true (dget payload ''authorized''))
           (ValueError ''activation manifest is not authorized'')) (\<lambda>_.
         ebind (dindex payload ''git_sha'') (\<lambda>sha.
         ebind (dindex payload ''authorization_id'') (\<lambda>authorization.
         ebind (ebind (dindex payload ''issued_at'') (manifest_time parse_time)) (\<lambda>issued.
         ebind (ebind (dindex payload ''expires_at'') (manifest_time parse_time)) (\<lambda>expires.
         ebind (activation_post_init \<lparr>am_authorized = True, am_git_sha = sha, am_authorization_id = authorization,
           am_issued_at = issued, am_expires_at = expires\<rparr>) (\<lambda>manifest.
         ebind (lr_aware ''observed_at'' observed_at) (\<lambda>observed.
         ebind (require (am_git_sha manifest = lower expected_git_sha)
           (ValueError ''activation manifest does not match the deployed git SHA'')) (\<lambda>_.
         ebind (require (am_issued_at manifest \<le> observed)
           (ValueError ''activation manifest was issued in the future'')) (\<lambda>_.
         ebind (require (observed < am_expires_at manifest)
           (ValueError ''activation manifest is expired'')) (\<lambda>_.
         Inr manifest))))))))))
     | _ \<Rightarrow> Inl (ValueError ''activation manifest must be a JSON object''))"

definition manifest_error :: exn where
  "manifest_error = ActivationManifestError ''activation manifest is missing or invalid''"

definition caught_by_loader :: "exn \<Rightarrow> bool" where
  "caught_by_loader e = (case e of KeyError _ \<Rightarrow> True | TypeError _ \<Rightarrow> True | ValueError _ \<Rightarrow> True | _ \<Rightarrow> False)"

definition load_activation_manifest ::
  "(string \<Rightarrow> pyval option) \<Rightarrow> (string \<Rightarrow> pytime option) \<Rightarrow> string \<Rightarrow> string \<Rightarrow> pytime \<Rightarrow> manifest res" where
  "load_activation_manifest read_json parse_time path expected_git_sha observed_at = (case read_json path of
       None \<Rightarrow> Inl manifest_error
     | Some document \<Rightarrow> (case read_manifest parse_time document expected_git_sha observed_at of
         Inl e \<Rightarrow> Inl (if caught_by_loader e then manifest_error else e)
       | Inr m \<Rightarrow> Inr m))"

section \<open>The kill switch and the geographic check\<close>

definition kill_switch_engaged :: "(string \<Rightarrow> bool option) \<Rightarrow> string \<Rightarrow> bool" where
  "kill_switch_engaged path_exists path = (case path_exists path of Some b \<Rightarrow> b | None \<Rightarrow> True)"

definition json_bool :: "pyval \<Rightarrow> bool option" where
  "json_bool v = (case v of PBool b \<Rightarrow> Some b | _ \<Rightarrow> None)"

definition json_text :: "pyval \<Rightarrow> string option" where
  "json_text v = (case v of PStr s \<Rightarrow> Some s | _ \<Rightarrow> None)"

lemma json_Some [simp]: "json_bool v = Some b \<longleftrightarrow> v = PBool b" "json_text v = Some s \<longleftrightarrow> v = PStr s"
  by (auto simp: json_bool_def json_text_def split: pyval.splits)

definition geoblock_check ::
  "(string \<Rightarrow> (int \<times> pyval option) option) \<Rightarrow> string \<Rightarrow> pytime \<Rightarrow> pytime option \<Rightarrow> int geoblock_result res" where
  "geoblock_check http_get url now observed_at =
     (let checked_at = (case observed_at of None \<Rightarrow> now | Some t \<Rightarrow> t) in
      case http_get url of
        None \<Rightarrow> Inl (GeoblockError ''geoblock check failed'')
      | Some (status, body) \<Rightarrow>
        if status \<noteq> 200 then Inl (GeoblockError ''geoblock check returned a non-success status'')
        else (case body of
          None \<Rightarrow> Inl (GeoblockError ''geoblock check returned invalid JSON'')
        | Some (PDict payload) \<Rightarrow>
          (case (json_bool (dget payload ''blocked''), json_text (dget payload ''country''), json_text (dget payload ''region'')) of
             (Some blocked, Some country, Some region) \<Rightarrow>
               geoblock_post_init \<lparr>gb_blocked = blocked, gb_country = country, gb_region = region,
                 gb_checked_at = checked_at\<rparr>
           | _ \<Rightarrow> Inl (GeoblockError ''geoblock check returned an invalid schema''))
        | Some _ \<Rightarrow> Inl (GeoblockError ''geoblock check returned an invalid schema'')))"

lemma caught_by_loader_simps [simp]:
  "caught_by_loader (KeyError s)" "caught_by_loader (TypeError s)" "caught_by_loader (ValueError s)"
  by (simp_all add: caught_by_loader_def)

section \<open>Activation is what the manifest says\<close>

text \<open>C35: a manifest that loads authorises this deployment, now: its document says \<open>authorized\<close> is
  true, its commit is the expected one, its authorisation is named, and the observation lies at
  or after its issue and before its expiry.
\<close>

theorem activation_manifest_sound:
  assumes "load_activation_manifest read_json parse_time path expected observed_at = Inr m"
  shows "(\<exists>payload. read_json path = Some (PDict payload) \<and> dget payload ''authorized'' = PBool True)
    \<and> am_authorized m \<and> am_git_sha m = lower expected \<and> length (am_git_sha m) = 64
    \<and> strip (am_authorization_id m) \<noteq> []
    \<and> (\<exists>now off. observed_at = Aware now off \<and> am_issued_at m \<le> now \<and> now < am_expires_at m)"
proof -
  obtain document where d: "read_json path = Some document"
    and r: "read_manifest parse_time document expected observed_at = Inr m"
    using assms by (auto simp: load_activation_manifest_def split: option.splits sum.splits)
  from r obtain payload where p: "document = PDict payload"
    by (cases document) (auto simp: read_manifest_def)
  have "dget payload ''authorized'' = PBool True"
    using r by (cases "dget payload ''authorized''") (auto simp: p read_manifest_def is_true_def)
  then show ?thesis using r d p
    by (auto simp: read_manifest_def lr_aware_def dest: activation_post_init_Inr)
qed

lemma read_manifest_caught:
  assumes "read_manifest parse_time document expected observed_at = Inl e"
    and "\<And>payload k v. document = PDict payload \<Longrightarrow> k \<in> {''git_sha'', ''authorization_id''}
      \<Longrightarrow> map_of payload k = Some v \<Longrightarrow> \<exists>s. v = PStr s"
  shows "caught_by_loader e"
proof -
  have post: "caught_by_loader e" if "activation_post_init m = Inl e" "am_git_sha m = PStr s" "am_authorization_id m = PStr a"
    for m :: "(pyval, pytime) activation_manifest" and s a e
    using that by (auto simp: activation_post_init_def lr_sha_value_def not_blank_value_def not_blank_def lr_sha_def
        lr_aware_def aware_utc_def ebind_Inl_iff split: if_splits pytime.splits)
  have time: "caught_by_loader e" if "manifest_time parse_time v = Inl e" for v e
    using that by (auto simp: manifest_time_def split: pyval.splits option.splits)
  show ?thesis
  proof (cases document)
    case (PDict payload)
    have post': "caught_by_loader e"
      if "activation_post_init \<lparr>am_authorized = b, am_git_sha = x, am_authorization_id = y, am_issued_at = i,
          am_expires_at = j\<rparr> = Inl e" "map_of payload ''git_sha'' = Some x" "map_of payload ''authorization_id'' = Some y"
      for b x y i j e
      using post [OF that(1)] assms(2) [OF PDict, of "''git_sha''" x] assms(2) [OF PDict, of "''authorization_id''" y] that(2,3)
      by auto
    show ?thesis using assms(1) unfolding PDict read_manifest_def
      by (auto simp: ebind_Inl_iff dindex_def lr_aware_def aware_utc_def dest: time post'
          split: option.splits pytime.splits)
  qed (use assms(1) in \<open>auto simp: read_manifest_def\<close>)
qed

text \<open>a manifest is refused with one exception: where its commit and its authorisation, if it has
  them, are texts, every failure of the loader, the file's, the document's or the checks', is
  \<open>ActivationManifestError\<close>.
\<close>

theorem activation_manifest_errors:
  assumes "load_activation_manifest read_json parse_time path expected observed_at = Inl e"
    and "\<And>payload k v. read_json path = Some (PDict payload) \<Longrightarrow> k \<in> {''git_sha'', ''authorization_id''}
      \<Longrightarrow> map_of payload k = Some v \<Longrightarrow> \<exists>s. v = PStr s"
  shows "e = manifest_error"
proof (cases "read_json path")
  case (Some document)
  with assms(1) obtain e' where e': "read_manifest parse_time document expected observed_at = Inl e'"
    and e: "e = (if caught_by_loader e' then manifest_error else e')"
    by (auto simp: load_activation_manifest_def split: sum.splits)
  have "caught_by_loader e'" using e' by (rule read_manifest_caught) (use assms(2) Some in auto)
  then show ?thesis by (simp add: e)
qed (use assms(1) in \<open>simp add: load_activation_manifest_def\<close>)

text \<open>the geographic check fails closed: it answers only from a successful response whose JSON
  object says, as a boolean and two texts, whether and where access is blocked, and then says
  the same.
\<close>

theorem geoblock_check_closed:
  assumes "geoblock_check http_get url now observed_at = Inr g"
  shows "\<exists>payload. http_get url = Some (200, Some (PDict payload))
    \<and> dget payload ''blocked'' = PBool (gb_blocked g) \<and> dget payload ''country'' = PStr (gb_country g)
    \<and> dget payload ''region'' = PStr (gb_region g)"
proof -
  obtain status body where r: "http_get url = Some (status, body)"
    using assms by (cases "http_get url") (auto simp: geoblock_check_def)
  with assms have status: "status = 200" by (simp add: geoblock_check_def split: if_splits)
  obtain v where v: "body = Some v" using assms r status by (cases body) (auto simp: geoblock_check_def)
  obtain payload where p: "v = PDict payload" using assms r status v by (cases v) (simp_all add: geoblock_check_def)
  have a: "(case (json_bool (dget payload ''blocked''), json_text (dget payload ''country''), json_text (dget payload ''region'')) of
      (Some b, Some c, Some x) \<Rightarrow> geoblock_post_init \<lparr>gb_blocked = b, gb_country = c, gb_region = x,
        gb_checked_at = (case observed_at of None \<Rightarrow> now | Some t \<Rightarrow> t)\<rparr>
      | _ \<Rightarrow> Inl (GeoblockError ''geoblock check returned an invalid schema'')) = Inr g"
    using assms by (simp add: geoblock_check_def r status v p)
  show ?thesis using a by (auto simp: r status v p geoblock_post_init_def split: option.splits)
qed

section \<open>Concrete manifests\<close>

definition ex_parse_time :: "string \<Rightarrow> pytime option" where
  "ex_parse_time s = (if s = ''2026-09-01T00:00:00+00:00'' then Some (Aware 1788220800000000 0)
     else if s = ''2026-09-02T00:00:00+00:00'' then Some (Aware 1788307200000000 0) else None)"

definition ex_manifest :: "pyval \<Rightarrow> string \<Rightarrow> pyval option" where
  "ex_manifest authorization path = Some (PDict [(''authorized'', PBool True), (''git_sha'', PStr (replicate 64 CHR ''A'')),
     (''authorization_id'', authorization), (''issued_at'', PStr ''2026-09-01T00:00:00+00:00''),
     (''expires_at'', PStr ''2026-09-02T00:00:00+00:00'')])"

definition ex_load :: "pyval \<Rightarrow> int \<Rightarrow> manifest res" where
  "ex_load authorization now = load_activation_manifest (ex_manifest authorization) ex_parse_time ''activation.json''
     (replicate 64 CHR ''a'') (Aware now 0)"

theorem activation_manifest_sound_witness:
  "am_git_sha (projr (ex_load (PStr ''auth-1'') 1788250000000000)) = replicate 64 CHR ''a''"
proof -
  have "\<not> isl (ex_load (PStr ''auth-1'') 1788250000000000)" by code_simp
  then have run: "load_activation_manifest (ex_manifest (PStr ''auth-1'')) ex_parse_time ''activation.json''
     (replicate 64 CHR ''a'') (Aware 1788250000000000 0) = Inr (projr (ex_load (PStr ''auth-1'') 1788250000000000))"
    unfolding ex_load_def by (rule not_isl_projr)
  have "lower (replicate 64 CHR ''a'') = replicate 64 CHR ''a''" by code_simp
  then show ?thesis using activation_manifest_sound [OF run] by simp
qed

theorem activation_manifest_errors_witness: "ex_load (PStr ''auth-1'') 1788307200000000 = Inl manifest_error"
proof -
  have "isl (ex_load (PStr ''auth-1'') 1788307200000000)" by code_simp
  then obtain e where e: "ex_load (PStr ''auth-1'') 1788307200000000 = Inl e" by (auto simp: isl_def)
  have "e = manifest_error"
    by (rule activation_manifest_errors [OF e [unfolded ex_load_def]]) (auto simp: ex_manifest_def)
  then show ?thesis using e by simp
qed

theorem geoblock_check_closed_witness:
  "gb_country (projr (geoblock_check (\<lambda>u. Some (200, Some (PDict [(''blocked'', PBool False), (''country'', PStr ''DE''),
      (''region'', PStr ''BE'')]))) ''u'' (Aware 5 0) None)) = ''DE''"
  using geoblock_check_closed [of "\<lambda>u. Some (200, Some (PDict [(''blocked'', PBool False), (''country'', PStr ''DE''),
      (''region'', PStr ''BE'')]))" "''u''" "Aware 5 0" None]
  by (simp add: geoblock_check_def geoblock_post_init_def lr_aware_def aware_utc_def dget_def json_bool_def json_text_def)

text \<open>one malformed manifest is not refused but breaks the loader: where the authorisation is a
  number, as JSON allows, the loader raises \<open>AttributeError\<close>, which it does not turn into
  \<open>ActivationManifestError\<close>.
\<close>

theorem numeric_authorization_breaks_loader:
  "ex_load (PInt 7) 1788250000000000 = Inl (AttributeError ''strip'') \<and> AttributeError ''strip'' \<noteq> manifest_error"
proof -
  have "ex_load (PInt 7) 1788250000000000 = Inl (AttributeError ''strip'')" by code_simp
  then show ?thesis by (simp add: manifest_error_def)
qed

end
