(* ===== verification/LiveRisk.thy ===== *)
theory LiveRisk
  imports LiveModels
begin

text \<open>
  The live risk gate (\<open>bp_engine/live_readiness/risk.py\<close>): every rule is evaluated, none is
  skipped, and a decision is eligible exactly when no rule failed. The lemmas give the decision's
  meaning in terms of the numbers it was made from, and show that it always returns.
\<close>

section \<open>The rules\<close>

definition live_rule :: "string \<Rightarrow> bool \<Rightarrow> string \<Rightarrow> rule_result res" where
  "live_rule name passed failure_reason = rule_result_post_init
     \<lparr>rr_rule = name, rr_passed = passed, rr_reason = (if passed then ''passed'' else failure_reason)\<rparr>"

definition append_new :: "'a list \<Rightarrow> 'a \<Rightarrow> 'a list" where
  "append_new xs x = (if x \<in> set xs then xs else xs @ [x])"

definition add_interlock_reason :: "string \<Rightarrow> string list \<Rightarrow> string list res" where
  "add_interlock_reason reason acc = (if strip reason = []
     then Inl (ValueError ''interlock_reasons must contain nonblank strings'')
     else Inr (append_new acc (strip reason)))"

definition trade_size_ok :: "dec live_policy \<Rightarrow> risk_context \<Rightarrow> bool" where
  "trade_size_ok p c \<longleftrightarrow> dlt d0 (lr_max_trade_size_usd p) \<and> dle (lc_requested_notional_usd c) (lr_max_trade_size_usd p)"

definition total_exposure_ok :: "dec live_policy \<Rightarrow> risk_context \<Rightarrow> bool" where
  "total_exposure_ok p c \<longleftrightarrow> dlt d0 (lr_max_total_exposure_usd p)
     \<and> dle (dadd (la_total_exposure_usd (lc_account c)) (lc_requested_notional_usd c)) (lr_max_total_exposure_usd p)"

text \<open>Unary minus rounds to the context.\<close>

definition daily_loss_ok :: "dec live_policy \<Rightarrow> risk_context \<Rightarrow> bool" where
  "daily_loss_ok p c \<longleftrightarrow> dlt d0 (lr_max_daily_loss_usd p)
     \<and> dlt (dec_fix (dneg (lr_max_daily_loss_usd p))) (la_realized_daily_pnl_usd (lc_account c))"

definition consecutive_loss_ok :: "dec live_policy \<Rightarrow> risk_context \<Rightarrow> bool" where
  "consecutive_loss_ok p c \<longleftrightarrow> lr_max_consecutive_losses p = 0
     \<or> la_consecutive_losses (lc_account c) < lr_max_consecutive_losses p"

definition prediction_fresh :: "dec live_policy \<Rightarrow> risk_context \<Rightarrow> bool" where
  "prediction_fresh p c \<longleftrightarrow> (let age = seconds_dec (lc_observed_at c - lc_recorded_at c) in
     dle d0 age \<and> dle age (lr_max_prediction_age_seconds p))"

definition expiry_ok :: "dec live_policy \<Rightarrow> risk_context \<Rightarrow> bool" where
  "expiry_ok p c \<longleftrightarrow> dle (lr_min_time_to_expiry_seconds p) (seconds_dec (lc_market_end_at c - lc_observed_at c))"

definition cooldown_ok :: "dec live_policy \<Rightarrow> risk_context \<Rightarrow> bool" where
  "cooldown_ok p c \<longleftrightarrow> (case la_last_order_at (lc_account c) of None \<Rightarrow> True
     | Some t \<Rightarrow> (let elapsed = seconds_dec (lc_observed_at c - t) in
         dle d0 elapsed \<and> dle (lr_cooldown_seconds p) elapsed))"

text \<open>The rules in their order: name, outcome, and the reason of a failure.\<close>

definition risk_rules :: "dec live_policy \<Rightarrow> risk_context \<Rightarrow> bool \<Rightarrow> (string \<times> bool \<times> string) list" where
  "risk_rules p c interlock_eligible =
     [(''live_interlock'', interlock_eligible, ''live_interlock_blocked''),
      (''trade_signal'', lc_trade c, ''trade_signal_false''),
      (''prediction_executable'', lc_executable c, ''prediction_not_executable''),
      (''trade_size_limit'', trade_size_ok p c, ''trade_size_limit_exceeded''),
      (''total_exposure_limit'', total_exposure_ok p c, ''total_exposure_limit_exceeded''),
      (''daily_loss_limit'', daily_loss_ok p c, ''daily_loss_limit_reached''),
      (''consecutive_loss_limit'', consecutive_loss_ok p c, ''consecutive_loss_limit_reached''),
      (''probability_minimum'', dle (lr_min_probability p) (lc_probability c), ''probability_below_minimum''),
      (''edge_minimum'', dle (lr_min_edge p) (lc_expected_edge c), ''edge_below_minimum''),
      (''selected_ask_present'', lc_selected_ask c \<noteq> None, ''selected_ask_missing''),
      (''spread_present'', lc_spread c \<noteq> None, ''spread_missing''),
      (''spread_limit'', (case lc_spread c of None \<Rightarrow> True | Some s \<Rightarrow> dle s (lr_max_spread p)), ''spread_too_wide''),
      (''liquidity_present'', lc_selected_liquidity_usd c \<noteq> None, ''liquidity_missing''),
      (''liquidity_minimum'', (case lc_selected_liquidity_usd c of None \<Rightarrow> True
         | Some l \<Rightarrow> dle (lr_min_liquidity_usd p) l), ''liquidity_below_minimum''),
      (''prediction_freshness'', prediction_fresh p c, ''prediction_stale''),
      (''time_to_expiry'', expiry_ok p c, ''too_close_to_expiry''),
      (''cooldown'', cooldown_ok p c, ''cooldown_active''),
      (''api_health'', lc_api_healthy c, ''api_unhealthy''),
      (''duplicate_intent'', \<not> lc_duplicate_intent c, ''duplicate_intent''),
      (''reconciliation'', la_unresolved_critical (lc_account c) = 0, ''reconciliation_blocked'')]"

text \<open>The blocking reasons: of the failed rules in order, those of the interlock after its rule's.\<close>

definition rule_reasons :: "string list \<Rightarrow> nat \<times> rule_result \<Rightarrow> string list \<Rightarrow> string list" where
  "rule_reasons interlock ir acc = (case ir of (index, r) \<Rightarrow>
     if rr_passed r then acc
     else (let acc' = append_new acc (rr_reason r) in
       if index = 0 then foldl append_new acc' interlock else acc'))"

definition risk_reasons :: "string list \<Rightarrow> rule_result list \<Rightarrow> string list" where
  "risk_reasons interlock rules = fold (rule_reasons interlock) (zip [0..<length rules] rules) []"

definition evaluate_live_risk ::
  "(string \<Rightarrow> string) \<Rightarrow> dec live_policy \<Rightarrow> risk_context \<Rightarrow> bool \<Rightarrow> string list \<Rightarrow> risk_decision res" where
  "evaluate_live_risk H p c interlock_eligible interlock_reasons =
     ebind (efold add_interlock_reason interlock_reasons []) (\<lambda>interlock.
     ebind (emap (\<lambda>(name, passed, failure). live_rule name passed failure) (risk_rules p c interlock_eligible)) (\<lambda>rules.
     let reasons = risk_reasons interlock rules; eligible = (reasons = []) in
     ebind (semantic_sha256 H (PDict (live_policy_mapping p))) (\<lambda>policy_sha.
     ebind (semantic_sha256 H (PDict
       [(''eligible'', PBool eligible), (''reasons'', PList (map PStr reasons)),
        (''rules'', PList (map rule_result_mapping rules)), (''policy_sha256'', PStr policy_sha),
        (''context'', PDict (live_context_mapping c)), (''interlock_eligible'', PBool interlock_eligible),
        (''interlock_reasons'', PList (map PStr interlock))])) (\<lambda>sha.
     risk_decision_post_init \<lparr>rd_eligible = eligible, rd_reasons = reasons, rd_rules = rules,
       rd_policy_sha256 = policy_sha, rd_semantic_sha256 = sha\<rparr>))))"

section \<open>Which reasons a decision carries\<close>

lemma append_new_set [simp]: "set (append_new xs x) = insert x (set xs)"
  by (auto simp: append_new_def)

lemma append_new_distinct [simp]: "distinct (append_new xs x) = distinct xs"
  by (simp add: append_new_def)

lemma foldl_append_new:
  "set (foldl append_new xs ys) = set xs \<union> set ys" "distinct (foldl append_new xs ys) = distinct xs"
  by (induction ys arbitrary: xs) auto

lemma rule_reasons_set:
  "set (rule_reasons interlock (i, r) acc) = set acc \<union> (if rr_passed r then {}
     else insert (rr_reason r) (if i = 0 then set interlock else {}))"
  "distinct (rule_reasons interlock (i, r) acc) = distinct acc"
  by (simp_all add: rule_reasons_def Let_def foldl_append_new)

lemma fold_rule_reasons:
  "set (fold (rule_reasons interlock) irs acc) = set acc
     \<union> (\<Union>(i, r) \<in> set irs. if rr_passed r then {} else insert (rr_reason r) (if i = 0 then set interlock else {}))"
  "distinct (fold (rule_reasons interlock) irs acc) = distinct acc"
  by (induction irs arbitrary: acc) (auto simp: rule_reasons_set split: prod.splits)

lemma risk_reasons_set:
  "set (risk_reasons interlock rules) = (rr_reason ` {r \<in> set rules. \<not> rr_passed r})
     \<union> (if rules \<noteq> [] \<and> \<not> rr_passed (hd rules) then set interlock else {})"
  "distinct (risk_reasons interlock rules)"
proof -
  have zip: "set (zip [0..<length rules] rules) = (\<lambda>i. (i, rules ! i)) ` {..<length rules}"
    by (force simp: set_zip image_iff)
  have mem: "x \<in> (if b then {} else insert a (if z then S else {})) \<longleftrightarrow> \<not> b \<and> (x = a \<or> z \<and> x \<in> S)"
    for x a :: string and b z S by auto
  have reasons: "set (risk_reasons interlock rules) = (\<Union>i \<in> {..<length rules}. if rr_passed (rules ! i) then {}
      else insert (rr_reason (rules ! i)) (if i = 0 then set interlock else {}))"
    by (simp add: risk_reasons_def fold_rule_reasons zip)
  have "x \<in> set (risk_reasons interlock rules) \<longleftrightarrow> (\<exists>i < length rules. \<not> rr_passed (rules ! i)
      \<and> (x = rr_reason (rules ! i) \<or> i = 0 \<and> x \<in> set interlock))" for x
    unfolding reasons UN_iff mem by auto
  then show "set (risk_reasons interlock rules) = (rr_reason ` {r \<in> set rules. \<not> rr_passed r})
     \<union> (if rules \<noteq> [] \<and> \<not> rr_passed (hd rules) then set interlock else {})"
    by (auto simp: in_set_conv_nth hd_conv_nth image_iff) blast+
  show "distinct (risk_reasons interlock rules)" by (simp add: risk_reasons_def fold_rule_reasons)
qed

lemma failed_reasons:
  "rr_reason ` {x \<in> set (map (\<lambda>(n, b, f). \<lparr>rr_rule = n, rr_passed = b,
      rr_reason = (if b then ''passed'' else f)\<rparr>) specs). \<not> rr_passed x} = {f. \<exists>n. (n, False, f) \<in> set specs}"
proof -
  let ?g = "\<lambda>(n, b, f). \<lparr>rr_rule = n, rr_passed = b, rr_reason = (if b then ''passed'' else f)\<rparr>"
  have "{x \<in> set (map ?g specs). \<not> rr_passed x} = ?g ` {y \<in> set specs. \<not> fst (snd y)}"
    by (force simp: image_iff)
  then have "rr_reason ` {x \<in> set (map ?g specs). \<not> rr_passed x} = (\<lambda>y. snd (snd y)) ` {y \<in> set specs. \<not> fst (snd y)}"
    by (auto simp: image_image intro!: image_cong)
  also have "\<dots> = {f. \<exists>n. (n, False, f) \<in> set specs}" by (force simp: image_iff)
  finally show ?thesis .
qed

lemma live_rule_Inr: "live_rule n b f = Inr r \<Longrightarrow> r = \<lparr>rr_rule = n, rr_passed = b,
    rr_reason = (if b then ''passed'' else f)\<rparr>"
  by (auto simp: live_rule_def rule_result_post_init_def not_blank_def)

lemma emap_live_rule:
  assumes "emap (\<lambda>(n, b, f). live_rule n b f) specs = Inr rules"
  shows "rules = map (\<lambda>(n, b, f). \<lparr>rr_rule = n, rr_passed = b, rr_reason = (if b then ''passed'' else f)\<rparr>) specs"
  using assms by (induction specs arbitrary: rules) (auto dest: live_rule_Inr split: prod.splits)

lemma add_interlock_reasons:
  assumes "efold add_interlock_reason xs acc = Inr ys"
  shows "set ys = set acc \<union> strip ` set xs"
  using assms by (induction xs arbitrary: acc) (auto simp: add_interlock_reason_def split: if_splits)

lemma evaluate_live_risk_run:
  assumes "evaluate_live_risk H p c ok reasons = Inr d"
  obtains interlock where "set interlock = strip ` set reasons"
    "rd_rules d = map (\<lambda>(n, b, f). \<lparr>rr_rule = n, rr_passed = b, rr_reason = (if b then ''passed'' else f)\<rparr>) (risk_rules p c ok)"
    "rd_reasons d = risk_reasons interlock (rd_rules d)" "rd_eligible d = (rd_reasons d = [])"
proof -
  from assms obtain interlock rules where i: "efold add_interlock_reason reasons [] = Inr interlock"
    and r: "emap (\<lambda>(n, b, f). live_rule n b f) (risk_rules p c ok) = Inr rules"
    and d: "rd_rules d = rules" "rd_reasons d = risk_reasons interlock rules" "rd_eligible d = (rd_reasons d = [])"
    by (auto simp: evaluate_live_risk_def Let_def dest!: risk_decision_post_init_Inr)
  show ?thesis
    using that [of interlock] add_interlock_reasons [OF i] emap_live_rule [OF r] d by simp
qed

lemma evaluate_live_risk_holds:
  assumes "evaluate_live_risk H p c ok reasons = Inr d"
  shows "rd_eligible d \<longleftrightarrow> ok \<and> lc_trade c \<and> lc_executable c
    \<and> 0 < dval (lr_max_trade_size_usd p) \<and> dval (lc_requested_notional_usd c) \<le> dval (lr_max_trade_size_usd p)
    \<and> total_exposure_ok p c \<and> daily_loss_ok p c
    \<and> (lr_max_consecutive_losses p = 0 \<or> la_consecutive_losses (lc_account c) < lr_max_consecutive_losses p)
    \<and> dval (lr_min_probability p) \<le> dval (lc_probability c) \<and> dval (lr_min_edge p) \<le> dval (lc_expected_edge c)
    \<and> lc_selected_ask c \<noteq> None
    \<and> (\<exists>s. lc_spread c = Some s \<and> dval s \<le> dval (lr_max_spread p))
    \<and> (\<exists>l. lc_selected_liquidity_usd c = Some l \<and> dval (lr_min_liquidity_usd p) \<le> dval l)
    \<and> lc_recorded_at c \<le> lc_observed_at c
    \<and> of_int (lc_observed_at c - lc_recorded_at c) / 1000000 \<le> dval (lr_max_prediction_age_seconds p)
    \<and> dval (lr_min_time_to_expiry_seconds p) \<le> of_int (lc_market_end_at c - lc_observed_at c) / 1000000
    \<and> cooldown_ok p c \<and> lc_api_healthy c \<and> \<not> lc_duplicate_intent c
    \<and> la_unresolved_critical (lc_account c) = 0"
proof -
  obtain interlock where r: "rd_rules d = map (\<lambda>(n, b, f). \<lparr>rr_rule = n, rr_passed = b,
        rr_reason = (if b then ''passed'' else f)\<rparr>) (risk_rules p c ok)"
    and e: "rd_reasons d = risk_reasons interlock (rd_rules d)" "rd_eligible d = (rd_reasons d = [])"
    by (rule evaluate_live_risk_run [OF assms])
  have "rd_eligible d \<longleftrightarrow> list_all rr_passed (rd_rules d)"
    using risk_reasons_set(1) [of interlock "rd_rules d"] unfolding e set_empty [symmetric]
    by (cases "rd_rules d") (auto simp: list_all_iff)
  also have "\<dots> \<longleftrightarrow> list_all (\<lambda>(n, b, f). b) (risk_rules p c ok)"
    by (simp add: r list.pred_map comp_def case_prod_unfold)
  finally show ?thesis
    by (auto simp: risk_rules_def trade_size_ok_def consecutive_loss_ok_def prediction_fresh_def expiry_ok_def
        dcmp dval_seconds_dec Let_def split: option.splits)
qed


text \<open>a decision explains itself: its reasons, each once, are those of the rules that failed and,
  when the interlock failed, the interlock's own; an eligible decision has none.
\<close>

theorem evaluate_live_risk_reasons:
  assumes "evaluate_live_risk H p c ok reasons = Inr d"
  shows "distinct (rd_reasons d) \<and> (rd_eligible d \<longleftrightarrow> rd_reasons d = [])
    \<and> set (rd_reasons d) = {f. \<exists>n. (n, False, f) \<in> set (risk_rules p c ok)} \<union> (if ok then {} else strip ` set reasons)"
proof -
  obtain interlock where i: "set interlock = strip ` set reasons"
    and r: "rd_rules d = map (\<lambda>(n, b, f). \<lparr>rr_rule = n, rr_passed = b,
        rr_reason = (if b then ''passed'' else f)\<rparr>) (risk_rules p c ok)"
    and e: "rd_reasons d = risk_reasons interlock (rd_rules d)" "rd_eligible d = (rd_reasons d = [])"
    by (rule evaluate_live_risk_run [OF assms])
  have "rr_reason ` {x \<in> set (rd_rules d). \<not> rr_passed x} = {f. \<exists>n. (n, False, f) \<in> set (risk_rules p c ok)}"
    unfolding r by (rule failed_reasons)
  moreover have "rd_rules d \<noteq> [] \<and> \<not> rr_passed (hd (rd_rules d)) \<longleftrightarrow> \<not> ok"
    by (simp add: r risk_rules_def)
  ultimately show ?thesis
    using risk_reasons_set [of interlock "rd_rules d"] by (simp add: e i)
qed

section \<open>The gate always answers\<close>

lemma hex_lower_hex: "list_all is_hex_lower s \<Longrightarrow> list_all is_hex s"
  by (auto simp: list_all_iff is_hex_lower_def is_hex_def Let_def)

lemma semantic_sha256_ok:
  assumes "sha256_like H" and "canonicalize v = Inr c"
  shows "\<exists>s. semantic_sha256 H v = Inr s \<and> length s = 64 \<and> list_all is_hex s"
  using assms by (auto simp: semantic_sha256_def canonical_payload_def sha256_like_def intro: hex_lower_hex)

lemma decimal_text_Finite [simp]: "\<exists>s. decimal_text (Finite d) = Inr s"
  by (simp add: decimal_text_def Let_def)

lemma canonicalize_total:
  "\<exists>c. canonicalize (PDec (Finite d)) = Inr c" "\<exists>c. canonicalize (PTime (Aware t off)) = Inr c"
  "\<exists>c. canonicalize (optional_dec o') = Inr c"
  using decimal_text_Finite by (auto simp: optional_dec_def split: option.splits)

lemma emap_total: "(\<And>x. x \<in> set xs \<Longrightarrow> \<exists>y. f x = Inr y) \<Longrightarrow> \<exists>ys. emap f xs = Inr ys"
proof (induction xs)
  case (Cons x xs)
  then obtain y ys where "f x = Inr y" "emap f xs = Inr ys" by (metis list.set_intros)
  then show ?case by simp
qed simp

lemma canonicalize_dict:
  "\<exists>c. canonicalize (PDict d) = Inr c" if "\<And>k v. (k, v) \<in> set d \<Longrightarrow> \<exists>c. canonicalize v = Inr c"
proof -
  have "\<exists>ys. emap (\<lambda>(k, v). ebind (canonicalize v) (\<lambda>w. Inr (k, w))) d = Inr ys"
    using that by (intro emap_total) fastforce
  then show ?thesis by auto
qed

lemma canonicalize_list: "\<exists>c. canonicalize (PList xs) = Inr c" if "\<And>v. v \<in> set xs \<Longrightarrow> \<exists>c. canonicalize v = Inr c"
  using emap_total [of xs canonicalize] that by auto

lemma live_mappings_total:
  "\<exists>c. canonicalize (PDict (live_policy_mapping p)) = Inr c"
  "\<exists>c. canonicalize (PDict (live_account_mapping a)) = Inr c"
  "\<exists>c. canonicalize (PDict (live_context_mapping x)) = Inr c"
proof -
  show "\<exists>c. canonicalize (PDict (live_policy_mapping p)) = Inr c"
    by (rule canonicalize_dict) (auto simp: live_policy_mapping_def intro: canonicalize_total simp del: canonicalize.simps(6))
  show a: "\<exists>c. canonicalize (PDict (live_account_mapping a)) = Inr c" for a
    by (rule canonicalize_dict) (auto simp: live_account_mapping_def intro: canonicalize_total
        simp del: canonicalize.simps(6) split: option.splits)
  show "\<exists>c. canonicalize (PDict (live_context_mapping x)) = Inr c"
    by (rule canonicalize_dict) (auto simp: live_context_mapping_def intro: canonicalize_total a
        simp del: canonicalize.simps(6,8))
qed

text \<open>the gate always answers: for every policy and context that passed validation, and interlock
  reasons that are not blank, a decision is made; no rule can raise.
\<close>

theorem evaluate_live_risk_total:
  assumes "sha256_like H" and "list_all (\<lambda>r. strip r \<noteq> []) reasons"
  shows "\<exists>d. evaluate_live_risk H p c ok reasons = Inr d"
proof -
  have "\<exists>ys. efold add_interlock_reason reasons acc = Inr ys" for acc
    using assms(2) by (induction reasons arbitrary: acc) (auto simp: add_interlock_reason_def)
  then obtain interlock where i: "efold add_interlock_reason reasons [] = Inr interlock" by blast
  have "list_all (\<lambda>(n, b, f). strip n \<noteq> [] \<and> strip f \<noteq> []) (risk_rules p c ok)" "strip ''passed'' \<noteq> []"
    by code_simp+
  then have "\<exists>rules. emap (\<lambda>(n, b, f). live_rule n b f) (risk_rules p c ok) = Inr rules"
    by (intro emap_total) (auto simp: live_rule_def rule_result_post_init_def not_blank_def list_all_iff)
  then obtain rules where r: "emap (\<lambda>(n, b, f). live_rule n b f) (risk_rules p c ok) = Inr rules" by blast
  let ?reasons = "risk_reasons interlock rules"
  obtain psha where p: "semantic_sha256 H (PDict (live_policy_mapping p)) = Inr psha" "length psha = 64" "list_all is_hex psha"
    using semantic_sha256_ok [OF assms(1)] live_mappings_total(1) [of p] by blast
  let ?payload = "PDict [(''eligible'', PBool (?reasons = [])), (''reasons'', PList (map PStr ?reasons)),
        (''rules'', PList (map rule_result_mapping rules)), (''policy_sha256'', PStr psha),
        (''context'', PDict (live_context_mapping c)), (''interlock_eligible'', PBool ok),
        (''interlock_reasons'', PList (map PStr interlock))]"
  have "\<exists>x. canonicalize (rule_result_mapping y) = Inr x" for y
    by (simp add: rule_result_mapping_def)
  then have "\<exists>x. canonicalize ?payload = Inr x"
    by (intro canonicalize_dict) (auto intro!: canonicalize_list live_mappings_total simp del: canonicalize.simps(8,9))
  from semantic_sha256_ok [OF assms(1)] this obtain sha where
    "semantic_sha256 H ?payload = Inr sha" "length sha = 64" "list_all is_hex sha" by blast
  then show ?thesis
    by (simp add: evaluate_live_risk_def i r p risk_decision_post_init_def lr_sha_def Let_def del: canonicalize.simps)
qed

section \<open>What an eligible decision guarantees\<close>

lemma dec_fix_dneg_representable: "representable d \<Longrightarrow> dval (dec_fix (dneg d)) = - dval d"
  by simp

text \<open>C33: the caps are real: with amounts of at most 18 decimals and below a billion, an eligible
  order's notional with everything already exposed stays within the exposure limit, the day's
  loss is below its limit, and a policy with any of the three limits at zero admits nothing.
\<close>

theorem evaluate_live_risk_caps:
  assumes "evaluate_live_risk H p c ok reasons = Inr d" and "rd_eligible d"
    and "grid 18 (la_total_exposure_usd (lc_account c))" and "grid 18 (lc_requested_notional_usd c)"
    and "0 \<le> dval (la_total_exposure_usd (lc_account c))" and "0 \<le> dval (lc_requested_notional_usd c)"
    and "dval (la_total_exposure_usd (lc_account c)) < 10 ^ 9" and "dval (lc_requested_notional_usd c) < 10 ^ 9"
    and "representable (lr_max_daily_loss_usd p)"
  shows "dval (la_total_exposure_usd (lc_account c)) + dval (lc_requested_notional_usd c) \<le> dval (lr_max_total_exposure_usd p)
    \<and> dval (lc_requested_notional_usd c) \<le> dval (lr_max_trade_size_usd p)
    \<and> - dval (lr_max_daily_loss_usd p) < dval (la_realized_daily_pnl_usd (lc_account c))
    \<and> 0 < dval (lr_max_trade_size_usd p) \<and> 0 < dval (lr_max_total_exposure_usd p) \<and> 0 < dval (lr_max_daily_loss_usd p)"
  using evaluate_live_risk_holds [OF assms(1)] assms(2)
    dadd_exact [OF assms(3,4)] assms(5-8) dec_fix_dneg_representable [OF assms(9)]
  by (simp add: total_exposure_ok_def daily_loss_ok_def dcmp prec_def)


section \<open>A concrete decision\<close>

definition ex_policy_input :: "pyval live_policy" where
  "ex_policy_input = \<lparr>lr_max_trade_size_usd = PStr ''5'', lr_max_total_exposure_usd = PFloat ''20.0'',
     lr_max_daily_loss_usd = PInt 10, lr_max_consecutive_losses = 3, lr_min_edge = PStr ''0.05'',
     lr_min_probability = PStr ''0.55'', lr_min_liquidity_usd = PInt 50, lr_max_spread = PStr ''0.05'',
     lr_max_prediction_age_seconds = PInt 30, lr_min_time_to_expiry_seconds = PInt 60,
     lr_cooldown_seconds = PInt 60, lr_policy_version = LIVE_POLICY_VERSION\<rparr>"

definition ex_policy :: "dec live_policy" where
  "ex_policy = \<lparr>lr_max_trade_size_usd = Dec 5 0, lr_max_total_exposure_usd = Dec 200 (- 1),
     lr_max_daily_loss_usd = Dec 10 0, lr_max_consecutive_losses = 3, lr_min_edge = Dec 5 (- 2),
     lr_min_probability = Dec 55 (- 2), lr_min_liquidity_usd = Dec 50 0, lr_max_spread = Dec 5 (- 2),
     lr_max_prediction_age_seconds = Dec 30 0, lr_min_time_to_expiry_seconds = Dec 60 0,
     lr_cooldown_seconds = Dec 60 0, lr_policy_version = LIVE_POLICY_VERSION\<rparr>"

lemma ex_policy_valid: "live_policy_post_init ex_policy_input = Inr ex_policy"
  by code_simp

definition ex_account :: account_snapshot where
  "ex_account = \<lparr>la_total_exposure_usd = Dec 10 0, la_realized_daily_pnl_usd = Dec (- 15) (- 1),
     la_consecutive_losses = 1, la_last_order_at = Some 100000000, la_unresolved_critical = 0\<rparr>"

definition ex_context :: risk_context where
  "ex_context = \<lparr>lc_prediction_id = ''p1'', lc_prediction_semantic_sha256 = replicate 64 CHR ''b'',
     lc_recorded_at = 195000000, lc_market_end_at = 900000000, lc_trade = True, lc_executable = True,
     lc_probability = Dec 61 (- 2), lc_expected_edge = Dec 8 (- 2), lc_selected_ask = Some (Dec 52 (- 2)),
     lc_spread = Some (Dec 2 (- 2)), lc_selected_liquidity_usd = Some (Dec 80 0),
     lc_requested_notional_usd = Dec 5 0, lc_observed_at = 200000000, lc_api_healthy = True,
     lc_duplicate_intent = False, lc_account = ex_account\<rparr>"

definition ex_decision :: "risk_decision res" where
  "ex_decision = evaluate_live_risk ex_H ex_policy ex_context True []"

definition ex_blocked :: "risk_decision res" where
  "ex_blocked = evaluate_live_risk ex_H ex_policy (ex_context\<lparr>lc_spread := None\<rparr>) False ['' kill_switch_engaged '']"

lemma ex_decision_run: "evaluate_live_risk ex_H ex_policy ex_context True [] = Inr (projr ex_decision)"
  unfolding ex_decision_def by (rule not_isl_projr) code_simp

lemma ex_decision_eligible: "rd_eligible (projr ex_decision)"
  by code_simp

lemma ex_blocked_run: "evaluate_live_risk ex_H ex_policy (ex_context\<lparr>lc_spread := None\<rparr>) False
    ['' kill_switch_engaged ''] = Inr (projr ex_blocked)"
  unfolding ex_blocked_def by (rule not_isl_projr) code_simp



theorem evaluate_live_risk_reasons_witness:
  "rd_reasons (projr ex_blocked) = [''live_interlock_blocked'', ''kill_switch_engaged'', ''spread_missing'']
    \<and> \<not> rd_eligible (projr ex_blocked)"
proof -
  have "rd_reasons (projr ex_blocked) = [''live_interlock_blocked'', ''kill_switch_engaged'', ''spread_missing'']"
    by code_simp
  then show ?thesis using evaluate_live_risk_reasons [OF ex_blocked_run] by simp
qed

theorem evaluate_live_risk_total_witness: "\<exists>d. evaluate_live_risk ex_H ex_policy ex_context False [''kill_switch_engaged''] = Inr d"
proof (rule evaluate_live_risk_total)
  have "is_hex_lower CHR ''c''" by code_simp
  then show "sha256_like ex_H" by (simp add: sha256_like_def ex_H_def list_all_iff)
  show "list_all (\<lambda>r. strip r \<noteq> []) [''kill_switch_engaged'']" by code_simp
qed

theorem evaluate_live_risk_caps_witness:
  "dval (la_total_exposure_usd ex_account) + dval (lc_requested_notional_usd ex_context) \<le> dval (lr_max_total_exposure_usd ex_policy)"
  using evaluate_live_risk_caps [OF ex_decision_run ex_decision_eligible]
  by (simp add: ex_context_def ex_account_def ex_policy_def representable_def prec_def) (simp add: dval_def)

end
