(* ===== verification/LiveLedger.thy ===== *)
theory LiveLedger
  imports LiveModels
begin

text \<open>
  The ledger of live trading (\<open>bp_engine/live_readiness/repository.py\<close>) over its tables
  (\<open>bp_engine/storage/live_readiness_schema.py\<close>): readiness checks, risk decisions, order intents,
  order events and reconciliation runs. Every row carries the digest of its content; a store finds
  the row of its key with the same digest, or inserts, or raises. \<open>H\<close> is SHA-256 and \<open>N\<close> the
  coercion of a decimal to a NUMERIC(38, 18) column.
\<close>

section \<open>Field validation\<close>

definition rp_utc :: "string \<Rightarrow> pytime \<Rightarrow> int res" where
  "rp_utc name t = aware_utc (ValueError (name @ '' must be timezone-aware'')) t"

definition rp_sha :: "string \<Rightarrow> string \<Rightarrow> string res" where
  "rp_sha name v = (let n = lower (strip v) in
     if length n \<noteq> 64 \<or> \<not> list_all is_hex_lower n
     then Inl (ValueError (name @ '' must be a 64-character SHA-256 digest'')) else Inr n)"

definition rp_text :: "string \<Rightarrow> string \<Rightarrow> string res" where
  "rp_text name v = (let n = strip v in
     if n = [] then Inl (ValueError (name @ '' must not be blank'')) else Inr n)"

definition rp_number :: "string \<Rightarrow> pyval \<Rightarrow> dec res" where
  "rp_number name v = (case to_decimal v of
       None \<Rightarrow> Inl (ValueError (name @ '' must be a decimal''))
     | Some (Finite d) \<Rightarrow> Inr d
     | Some _ \<Rightarrow> Inl (ValueError (name @ '' must be finite'')))"

lemma rp_text_Inr: "rp_text n v = Inr s \<longleftrightarrow> s = strip v \<and> s \<noteq> []"
  by (auto simp: rp_text_def Let_def)

section \<open>The tables\<close>

record readiness_row =
  rc_check_id :: string
  rc_candidate_git_sha :: string
  rc_observed_at :: int
  rc_eligible :: bool
  rc_reasons :: pyval
  rc_evidence :: pyval
  rc_semantic_sha256 :: string
  rc_created_at :: int

record risk_row =
  rk_decision_id :: string
  rk_prediction_id :: string
  rk_prediction_semantic_sha256 :: string
  rk_policy_version :: string
  rk_policy_sha256 :: string
  rk_eligible :: bool
  rk_reasons :: pyval
  rk_rules :: pyval
  rk_account_snapshot :: pyval
  rk_evidence :: pyval
  rk_semantic_sha256 :: string
  rk_created_at :: int

record intent_row =
  li_intent_id :: string
  li_prediction_id :: string
  li_policy_version :: string
  li_request_id :: string
  li_risk_decision_id :: string
  li_token_id :: string
  li_side :: string
  li_size :: dec
  li_limit_price :: dec
  li_pre_submit_at :: int
  li_evidence :: pyval
  li_semantic_sha256 :: string
  li_created_at :: int

record order_event_row =
  le_event_key :: string
  le_intent_id :: string
  le_event_type :: string
  le_external_order_id :: "string option"
  le_external_trade_id :: "string option"
  le_observed_at :: int
  le_evidence :: pyval
  le_semantic_sha256 :: string
  le_created_at :: int

record reconciliation_row =
  lx_reconciliation_id :: string
  lx_observed_at :: int
  lx_unresolved_count :: int
  lx_critical_count :: int
  lx_evidence :: pyval
  lx_semantic_sha256 :: string
  lx_created_at :: int

record live_db =
  ld_checks :: "readiness_row list"
  ld_risks :: "risk_row list"
  ld_intents :: "intent_row list"
  ld_order_events :: "order_event_row list"
  ld_reconciliations :: "reconciliation_row list"

section \<open>Storing a row\<close>

text \<open>
  The row of the key with the same digest, or the inserted row; the insertion raises where a
  unique or check constraint is violated.
\<close>

definition existing_or_insert ::
  "('r \<Rightarrow> 'k) \<Rightarrow> ('r \<Rightarrow> string) \<Rightarrow> ('r \<Rightarrow> 'r res) \<Rightarrow> ('r list \<Rightarrow> 'r \<Rightarrow> bool) \<Rightarrow> exn
    \<Rightarrow> 'r list \<Rightarrow> 'r \<Rightarrow> ('r list \<times> bool \<times> 'r) res" where
  "existing_or_insert key sha coerce free conflict table r = (case find (\<lambda>x. key x = key r) table of
       Some x \<Rightarrow> if sha x \<noteq> sha r then Inl conflict else Inr (table, False, x)
     | None \<Rightarrow> ebind (coerce r) (\<lambda>s.
         if \<not> free table s then Inl IntegrityError
         else (case find (\<lambda>x. key x = key r) (table @ [s]) of
             None \<Rightarrow> Inl (RuntimeError ''failed to reload inserted row'')
           | Some y \<Rightarrow> Inr (table @ [s], True, y))))"

locale semantic_table = ledger_table key "\<lambda>x r. sha x = sha r" coerce free
  for key :: "'r \<Rightarrow> 'k" and sha :: "'r \<Rightarrow> string" and coerce :: "'r \<Rightarrow> 'r res" and free :: "'r list \<Rightarrow> 'r \<Rightarrow> bool" +
  assumes sha_coerce: "coerce r = Inr s \<Longrightarrow> sha s = sha r"
begin

abbreviation keep where "keep \<equiv> existing_or_insert key sha coerce free"

lemma find_key: "find (\<lambda>x. key x = k) table = Some x \<Longrightarrow> x \<in> set table \<and> key x = k"
  by (auto simp: find_Some_iff)

lemma find_unique: "unique_on key table \<Longrightarrow> x \<in> set table \<Longrightarrow> find (\<lambda>y. key y = key x) table = Some x"
proof (induction table)
  case (Cons a table)
  then show ?case by (auto simp: unique_on_def)
qed simp

lemma keep_cases:
  assumes "keep conflict table r = Inr (table', created, x)"
  obtains (existing) "table' = table" "\<not> created" "x \<in> set table" "key x = key r" "sha x = sha r"
  | (inserted) "coerce r = Inr x" "key x = key r" "sha x = sha r" "free table x" "table' = table @ [x]" "created"
      "\<forall>y \<in> set table. key y \<noteq> key r"
proof (cases "find (\<lambda>y. key y = key r) table")
  case (Some y)
  with assms show ?thesis
    by (intro existing) (auto simp: existing_or_insert_def dest: find_key split: if_splits)
next
  case None
  then have none: "\<forall>y \<in> set table. key y \<noteq> key r" by (auto simp: find_None_iff)
  with None assms obtain s where s: "coerce r = Inr s" "free table s"
    and f: "(case find (\<lambda>x. key x = key r) (table @ [s]) of
             None \<Rightarrow> Inl (RuntimeError ''failed to reload inserted row'')
           | Some y \<Rightarrow> Inr (table @ [s], True, y)) = Inr (table', created, x)"
    by (auto simp: existing_or_insert_def split: if_splits)
  have "find (\<lambda>x. key x = key r) (table @ [s]) = Some s"
    using none key_coerce [OF s(1)] by (induction table) auto
  with f s none show ?thesis
    using key_coerce [OF s(1)] sha_coerce [OF s(1)] by (intro inserted) auto
qed

lemma keep_appends:
  assumes "keep conflict table r = Inr (table', created, x)"
  shows "\<exists>new. table' = table @ new \<and> (\<forall>s \<in> set new. coerce r = Inr s)"
  using assms by (cases rule: keep_cases) auto

lemma keep_unique:
  assumes "keep conflict table r = Inr (table', created, x)" and "unique_on key table"
  shows "unique_on key table'"
  using assms(1) by (cases rule: keep_cases) (use assms(2) in auto)

lemma keep_record:
  assumes "keep conflict table r = Inr (table', created, x)"
  shows "x \<in> set table' \<and> key x = key r \<and> sha x = sha r"
  using assms by (cases rule: keep_cases) auto

text \<open>Storing again finds the row, in every later table that only grew.\<close>

lemma keep_again:
  assumes "keep conflict table r = Inr (table', created, x)" and "prefix table' later" and "unique_on key later"
  shows "keep conflict later r = Inr (later, False, x)"
proof -
  note x = keep_record [OF assms(1)]
  then have "x \<in> set later" using assms(2) by (auto dest: set_mono_prefix)
  from find_unique [OF assms(3) this] x show ?thesis by (simp add: existing_or_insert_def)
qed

lemma keep_refuses:
  assumes "unique_on key table" and "x \<in> set table" and "key x = key r" and "sha x \<noteq> sha r"
  shows "keep conflict table r = Inl conflict"
  using find_unique [OF assms(1,2)] assms(3,4) by (simp add: existing_or_insert_def)

end

definition intent_key :: "intent_row \<Rightarrow> string \<times> string" where
  "intent_key i = (li_prediction_id i, li_policy_version i)"

definition intent_coerce :: "(dec \<Rightarrow> dec res) \<Rightarrow> intent_row \<Rightarrow> intent_row res" where
  "intent_coerce N i =
     ebind (N (li_size i)) (\<lambda>size.
     ebind (N (li_limit_price i)) (\<lambda>price.
     ebind (integrity (li_side i = ''BUY'' \<and> dlt d0 size \<and> dlt d0 price \<and> dle price d1
       \<and> length (li_semantic_sha256 i) = 64)) (\<lambda>_.
     Inr (i\<lparr>li_size := size, li_limit_price := price\<rparr>))))"

definition intent_free :: "intent_row list \<Rightarrow> intent_row \<Rightarrow> bool" where
  "intent_free table i \<longleftrightarrow> (\<forall>x \<in> set table. li_intent_id x \<noteq> li_intent_id i)"

definition check_coerce :: "readiness_row \<Rightarrow> readiness_row res" where
  "check_coerce c = ebind (integrity (length (rc_candidate_git_sha c) = 64 \<and> length (rc_semantic_sha256 c) = 64)) (\<lambda>_. Inr c)"

definition risk_coerce :: "risk_row \<Rightarrow> risk_row res" where
  "risk_coerce r = ebind (integrity (length (rk_prediction_semantic_sha256 r) = 64
     \<and> length (rk_policy_sha256 r) = 64 \<and> length (rk_semantic_sha256 r) = 64)) (\<lambda>_. Inr r)"

definition event_coerce :: "order_event_row \<Rightarrow> order_event_row res" where
  "event_coerce e = ebind (integrity (length (le_semantic_sha256 e) = 64)) (\<lambda>_. Inr e)"

definition reconciliation_coerce :: "reconciliation_row \<Rightarrow> reconciliation_row res" where
  "reconciliation_coerce x = ebind (integrity (0 \<le> lx_unresolved_count x \<and> 0 \<le> lx_critical_count x
     \<and> lx_critical_count x \<le> lx_unresolved_count x \<and> length (lx_semantic_sha256 x) = 64)) (\<lambda>_. Inr x)"

interpretation checks: semantic_table rc_check_id rc_semantic_sha256 check_coerce no_other
  by unfold_locales (auto simp: check_coerce_def integrity_def)

interpretation risks: semantic_table rk_decision_id rk_semantic_sha256 risk_coerce no_other
  by unfold_locales (auto simp: risk_coerce_def integrity_def)

interpretation intents: semantic_table intent_key li_semantic_sha256 "intent_coerce N" intent_free for N
  by unfold_locales (auto simp: intent_coerce_def intent_key_def integrity_def)

interpretation order_events: semantic_table le_event_key le_semantic_sha256 event_coerce no_other
  by unfold_locales (auto simp: event_coerce_def integrity_def)

interpretation reconciliations: semantic_table lx_reconciliation_id lx_semantic_sha256 reconciliation_coerce no_other
  by unfold_locales (auto simp: reconciliation_coerce_def integrity_def)

section \<open>The operations\<close>

definition utc :: "int \<Rightarrow> pyval" where
  "utc us = PTime (Aware us 0)"

definition store_readiness_check ::
  "(string \<Rightarrow> string) \<Rightarrow> live_db \<Rightarrow> string \<Rightarrow> pytime \<Rightarrow> bool \<Rightarrow> string list \<Rightarrow> pydict \<Rightarrow> string option
    \<Rightarrow> (live_db \<times> bool \<times> readiness_row) res" where
  "store_readiness_check H db sha at_time eligible reasons evidence check_id =
     (let conflict = LiveConflict ''readiness check id collides with different semantic content'' in
     ebind (rp_sha ''candidate_git_sha'' sha) (\<lambda>candidate.
     ebind (rp_utc ''observed_at'' at_time) (\<lambda>observed.
     ebind (canonical_payload (PList (map PStr reasons))) (\<lambda>reasons'.
     ebind (canonical_payload (PDict evidence)) (\<lambda>evidence'.
     ebind (semantic_sha256 H (PDict
       [(''candidate_git_sha'', PStr candidate), (''observed_at'', utc observed),
        (''eligible'', PBool eligible), (''reasons'', reasons'), (''evidence'', evidence')])) (\<lambda>digest.
     ebind (derive_id ''live-readiness'' digest) (\<lambda>derived.
     ebind (case check_id of None \<Rightarrow> Inr derived | Some i \<Rightarrow> rp_text ''check_id'' i) (\<lambda>chosen.
     ebind (if chosen = derived then Inr ()
       else require (\<exists>x \<in> set (ld_checks db). rc_check_id x = chosen \<and> rc_semantic_sha256 x = digest) conflict) (\<lambda>_.
     ebind (existing_or_insert rc_check_id rc_semantic_sha256 check_coerce no_other conflict (ld_checks db)
       \<lparr>rc_check_id = chosen, rc_candidate_git_sha = candidate, rc_observed_at = observed,
        rc_eligible = eligible, rc_reasons = reasons', rc_evidence = evidence',
        rc_semantic_sha256 = digest, rc_created_at = observed\<rparr>) (\<lambda>(table, created, x).
     Inr (db\<lparr>ld_checks := table\<rparr>, created, x)))))))))))"

definition store_risk_decision ::
  "(string \<Rightarrow> string) \<Rightarrow> live_db \<Rightarrow> string \<Rightarrow> string \<Rightarrow> string \<Rightarrow> risk_decision \<Rightarrow> pydict \<Rightarrow> pydict \<Rightarrow> pytime
    \<Rightarrow> (live_db \<times> bool \<times> risk_row) res" where
  "store_risk_decision H db prediction_id prediction_sha version d account evidence at_time =
     ebind (rp_text ''prediction_id'' prediction_id) (\<lambda>prediction.
     ebind (rp_sha ''prediction_semantic_sha256'' prediction_sha) (\<lambda>sha.
     ebind (rp_text ''policy_version'' version) (\<lambda>version'.
     ebind (rp_utc ''created_at'' at_time) (\<lambda>created_at.
     ebind (rp_sha ''decision.policy_sha256'' (rd_policy_sha256 d)) (\<lambda>policy_sha.
     ebind (canonical_payload (PDict account)) (\<lambda>account'.
     ebind (canonical_payload (PDict evidence)) (\<lambda>evidence'.
     ebind (canonical_payload (PList (map PStr (rd_reasons d)))) (\<lambda>reasons.
     ebind (canonical_payload (PList (map rule_result_mapping (rd_rules d)))) (\<lambda>rules.
     ebind (canonical_payload (PDict (risk_decision_mapping d))) (\<lambda>decision.
     ebind (semantic_sha256 H (PDict
       [(''prediction_id'', PStr prediction), (''prediction_semantic_sha256'', PStr sha),
        (''policy_version'', PStr version'), (''decision'', decision),
        (''account_snapshot'', account'), (''evidence'', evidence'), (''created_at'', utc created_at)])) (\<lambda>digest.
     ebind (derive_id ''live-risk'' digest) (\<lambda>decision_id.
     ebind (existing_or_insert rk_decision_id rk_semantic_sha256 risk_coerce no_other
       (LiveConflict ''risk decision id collides with different semantic content'') (ld_risks db)
       \<lparr>rk_decision_id = decision_id, rk_prediction_id = prediction, rk_prediction_semantic_sha256 = sha,
        rk_policy_version = version', rk_policy_sha256 = policy_sha, rk_eligible = rd_eligible d,
        rk_reasons = reasons, rk_rules = rules, rk_account_snapshot = account', rk_evidence = evidence',
        rk_semantic_sha256 = digest, rk_created_at = created_at\<rparr>) (\<lambda>(table, created, x).
     Inr (db\<lparr>ld_risks := table\<rparr>, created, x))))))))))))))"

text \<open>The fields of an order intent, validated; its digest and its row.\<close>

record ('d, 't) intent_input =
  ii_prediction_id :: string
  ii_policy_version :: string
  ii_request_id :: string
  ii_risk_decision_id :: string
  ii_token_id :: string
  ii_side :: string
  ii_size :: 'd
  ii_limit_price :: 'd
  ii_pre_submit_at :: 't
  ii_evidence :: pydict

definition intent_row_of :: "(string \<Rightarrow> string) \<Rightarrow> (pyval, pytime) intent_input \<Rightarrow> intent_row res" where
  "intent_row_of H i =
     ebind (rp_text ''prediction_id'' (ii_prediction_id i)) (\<lambda>prediction.
     ebind (rp_text ''policy_version'' (ii_policy_version i)) (\<lambda>version.
     ebind (rp_text ''request_id'' (ii_request_id i)) (\<lambda>request.
     ebind (rp_text ''risk_decision_id'' (ii_risk_decision_id i)) (\<lambda>risk.
     ebind (rp_text ''token_id'' (ii_token_id i)) (\<lambda>token.
     ebind (rp_text ''side'' (ii_side i)) (\<lambda>side.
     ebind (require (upper side = ''BUY'') (ValueError ''side must be BUY for live readiness v1'')) (\<lambda>_.
     ebind (rp_number ''size'' (ii_size i)) (\<lambda>size.
     ebind (rp_number ''limit_price'' (ii_limit_price i)) (\<lambda>price.
     ebind (require (\<not> dle size d0) (ValueError ''size must be positive'')) (\<lambda>_.
     ebind (require (\<not> (dle price d0 \<or> dlt d1 price)) (ValueError ''limit_price must be within (0, 1]'')) (\<lambda>_.
     ebind (rp_utc ''pre_submit_at'' (ii_pre_submit_at i)) (\<lambda>pre_submit.
     ebind (canonical_payload (PDict (ii_evidence i))) (\<lambda>evidence.
     ebind (semantic_sha256 H (PDict
       [(''prediction_id'', PStr prediction), (''policy_version'', PStr version), (''request_id'', PStr request),
        (''risk_decision_id'', PStr risk), (''token_id'', PStr token), (''side'', PStr ''BUY''),
        (''size'', PDec (Finite size)), (''limit_price'', PDec (Finite price)),
        (''pre_submit_at'', utc pre_submit), (''evidence'', evidence)])) (\<lambda>digest.
     ebind (derive_id ''live-intent'' digest) (\<lambda>intent_id.
     Inr \<lparr>li_intent_id = intent_id, li_prediction_id = prediction, li_policy_version = version,
          li_request_id = request, li_risk_decision_id = risk, li_token_id = token, li_side = ''BUY'',
          li_size = size, li_limit_price = price, li_pre_submit_at = pre_submit, li_evidence = evidence,
          li_semantic_sha256 = digest, li_created_at = pre_submit\<rparr>)))))))))))))))"

definition intent_conflict :: exn where
  "intent_conflict = LiveConflict ''live order intent natural key collides with different semantic content''"

definition store_order_intent ::
  "(string \<Rightarrow> string) \<Rightarrow> (dec \<Rightarrow> dec res) \<Rightarrow> live_db \<Rightarrow> (pyval, pytime) intent_input
    \<Rightarrow> (live_db \<times> bool \<times> intent_row) res" where
  "store_order_intent H N db i =
     ebind (intent_row_of H i) (\<lambda>r.
     ebind (existing_or_insert intent_key li_semantic_sha256 (intent_coerce N) intent_free
       intent_conflict
       (ld_intents db) r) (\<lambda>(table, created, x).
     Inr (db\<lparr>ld_intents := table\<rparr>, created, x)))"

definition optional_text :: "string \<Rightarrow> string option \<Rightarrow> string option res" where
  "optional_text name v = optional_field (rp_text name) v"

definition optional_str :: "string option \<Rightarrow> pyval" where
  "optional_str v = (case v of None \<Rightarrow> PNone | Some s \<Rightarrow> PStr s)"

record 't event_input =
  ei_event_key :: string
  ei_intent_id :: string
  ei_event_type :: string
  ei_observed_at :: 't
  ei_external_order_id :: "string option"
  ei_external_trade_id :: "string option"
  ei_evidence :: pydict

definition event_row_of :: "(string \<Rightarrow> string) \<Rightarrow> pytime event_input \<Rightarrow> order_event_row res" where
  "event_row_of H i =
     ebind (rp_text ''event_key'' (ei_event_key i)) (\<lambda>key.
     ebind (rp_text ''intent_id'' (ei_intent_id i)) (\<lambda>intent.
     ebind (rp_text ''event_type'' (ei_event_type i)) (\<lambda>event.
     ebind (rp_utc ''observed_at'' (ei_observed_at i)) (\<lambda>observed.
     ebind (optional_text ''external_order_id'' (ei_external_order_id i)) (\<lambda>order.
     ebind (optional_text ''external_trade_id'' (ei_external_trade_id i)) (\<lambda>trade.
     ebind (canonical_payload (PDict (ei_evidence i))) (\<lambda>evidence.
     ebind (semantic_sha256 H (PDict
       [(''event_key'', PStr key), (''intent_id'', PStr intent), (''event_type'', PStr event),
        (''observed_at'', utc observed), (''external_order_id'', optional_str order),
        (''external_trade_id'', optional_str trade), (''evidence'', evidence)])) (\<lambda>digest.
     Inr \<lparr>le_event_key = key, le_intent_id = intent, le_event_type = event, le_external_order_id = order,
        le_external_trade_id = trade, le_observed_at = observed, le_evidence = evidence,
        le_semantic_sha256 = digest, le_created_at = observed\<rparr>))))))))"

definition event_conflict :: exn where
  "event_conflict = LiveConflict ''live order event key collides with different semantic content''"

definition store_order_event ::
  "(string \<Rightarrow> string) \<Rightarrow> live_db \<Rightarrow> pytime event_input \<Rightarrow> (live_db \<times> bool \<times> order_event_row) res" where
  "store_order_event H db i =
     ebind (event_row_of H i) (\<lambda>r.
     ebind (existing_or_insert le_event_key le_semantic_sha256 event_coerce no_other event_conflict
       (ld_order_events db) r) (\<lambda>(table, created, x).
     Inr (db\<lparr>ld_order_events := table\<rparr>, created, x)))"

definition store_reconciliation_run ::
  "(string \<Rightarrow> string) \<Rightarrow> live_db \<Rightarrow> pytime \<Rightarrow> int \<Rightarrow> int \<Rightarrow> pydict \<Rightarrow> (live_db \<times> bool \<times> reconciliation_row) res" where
  "store_reconciliation_run H db at_time unresolved critical evidence =
     ebind (rp_utc ''observed_at'' at_time) (\<lambda>observed.
     ebind (require (0 \<le> unresolved) (ValueError ''unresolved_count must be nonnegative'')) (\<lambda>_.
     ebind (require (0 \<le> critical \<and> critical \<le> unresolved)
       (ValueError ''critical_count must be nonnegative and no greater than unresolved_count'')) (\<lambda>_.
     ebind (canonical_payload (PDict evidence)) (\<lambda>evidence'.
     ebind (semantic_sha256 H (PDict
       [(''observed_at'', utc observed), (''unresolved_count'', PInt unresolved),
        (''critical_count'', PInt critical), (''evidence'', evidence')])) (\<lambda>digest.
     ebind (derive_id ''live-reconciliation'' digest) (\<lambda>run_id.
     ebind (existing_or_insert lx_reconciliation_id lx_semantic_sha256 reconciliation_coerce no_other
       (LiveConflict ''reconciliation id collides with different semantic content'') (ld_reconciliations db)
       \<lparr>lx_reconciliation_id = run_id, lx_observed_at = observed, lx_unresolved_count = unresolved,
        lx_critical_count = critical, lx_evidence = evidence', lx_semantic_sha256 = digest,
        lx_created_at = observed\<rparr>) (\<lambda>(table, created, x).
     Inr (db\<lparr>ld_reconciliations := table\<rparr>, created, x))))))))"

section \<open>What every store keeps\<close>

definition intent_ok :: "intent_row \<Rightarrow> bool" where
  "intent_ok i \<longleftrightarrow> li_side i = ''BUY'' \<and> 0 < dval (li_size i) \<and> 0 < dval (li_limit_price i)
     \<and> dval (li_limit_price i) \<le> 1 \<and> length (li_semantic_sha256 i) = 64"

definition reconciliation_ok :: "reconciliation_row \<Rightarrow> bool" where
  "reconciliation_ok x \<longleftrightarrow> 0 \<le> lx_critical_count x \<and> lx_critical_count x \<le> lx_unresolved_count x"

definition live_wf :: "live_db \<Rightarrow> bool" where
  "live_wf db \<longleftrightarrow> unique_on rc_check_id (ld_checks db) \<and> unique_on rk_decision_id (ld_risks db)
     \<and> unique_on intent_key (ld_intents db) \<and> unique_on li_intent_id (ld_intents db)
     \<and> unique_on le_event_key (ld_order_events db) \<and> unique_on lx_reconciliation_id (ld_reconciliations db)
     \<and> (\<forall>i \<in> set (ld_intents db). intent_ok i) \<and> (\<forall>x \<in> set (ld_reconciliations db). reconciliation_ok x)"

definition live_extends :: "live_db \<Rightarrow> live_db \<Rightarrow> bool" where
  "live_extends db db' \<longleftrightarrow> prefix (ld_checks db) (ld_checks db') \<and> prefix (ld_risks db) (ld_risks db')
     \<and> prefix (ld_intents db) (ld_intents db') \<and> prefix (ld_order_events db) (ld_order_events db')
     \<and> prefix (ld_reconciliations db) (ld_reconciliations db')"

definition live_step :: "live_db \<Rightarrow> live_db \<Rightarrow> bool" where
  "live_step db db' \<longleftrightarrow> live_extends db db' \<and> (live_wf db \<longrightarrow> live_wf db')"

lemma live_extends_refl [simp]: "live_extends db db"
  by (simp add: live_extends_def)

lemma live_extends_trans: "live_extends a b \<Longrightarrow> live_extends b c \<Longrightarrow> live_extends a c"
  by (auto simp: live_extends_def intro: prefix_order.trans)

lemma live_step_refl [simp]: "live_step db db"
  by (simp add: live_step_def)

lemma live_step_trans: "live_step a b \<Longrightarrow> live_step b c \<Longrightarrow> live_step a c"
  by (auto simp: live_step_def intro: live_extends_trans)

lemma intent_coerce_ok: "intent_coerce N i = Inr s \<Longrightarrow> intent_ok s \<and> intent_key s = intent_key i"
  by (auto simp: intent_coerce_def intent_ok_def intent_key_def integrity_def dcmp)

lemma reconciliation_coerce_ok: "reconciliation_coerce x = Inr s \<Longrightarrow> reconciliation_ok s"
  by (auto simp: reconciliation_coerce_def reconciliation_ok_def integrity_def)

lemma keep_check_step:
  assumes "existing_or_insert rc_check_id rc_semantic_sha256 check_coerce no_other c (ld_checks db) r = Inr (t, b, x)"
  shows "live_step db (db\<lparr>ld_checks := t\<rparr>)"
  using checks.keep_appends [OF assms] checks.keep_unique [OF assms]
  by (auto simp: live_step_def live_extends_def live_wf_def)

lemma keep_risk_step:
  assumes "existing_or_insert rk_decision_id rk_semantic_sha256 risk_coerce no_other c (ld_risks db) r = Inr (t, b, x)"
  shows "live_step db (db\<lparr>ld_risks := t\<rparr>)"
  using risks.keep_appends [OF assms] risks.keep_unique [OF assms]
  by (auto simp: live_step_def live_extends_def live_wf_def)

lemma keep_event_step:
  assumes "existing_or_insert le_event_key le_semantic_sha256 event_coerce no_other c (ld_order_events db) r = Inr (t, b, x)"
  shows "live_step db (db\<lparr>ld_order_events := t\<rparr>)"
  using order_events.keep_appends [OF assms] order_events.keep_unique [OF assms]
  by (auto simp: live_step_def live_extends_def live_wf_def)

lemma keep_reconciliation_step:
  assumes "existing_or_insert lx_reconciliation_id lx_semantic_sha256 reconciliation_coerce no_other c
    (ld_reconciliations db) r = Inr (t, b, x)"
  shows "live_step db (db\<lparr>ld_reconciliations := t\<rparr>)"
  using reconciliations.keep_appends [OF assms] reconciliations.keep_unique [OF assms]
  by (auto simp: live_step_def live_extends_def live_wf_def dest: reconciliation_coerce_ok)

lemma keep_intent_step:
  assumes "existing_or_insert intent_key li_semantic_sha256 (intent_coerce N) intent_free c (ld_intents db) r = Inr (t, b, x)"
  shows "live_step db (db\<lparr>ld_intents := t\<rparr>)"
  using assms
proof (cases rule: intents.keep_cases)
  case inserted
  have "x \<in> set t \<and> intent_key x = intent_key r" using inserted by simp
  with inserted intent_coerce_ok [OF inserted(1)] show ?thesis
    by (auto simp: live_step_def live_extends_def live_wf_def intent_free_def image_iff)
qed simp

lemma store_readiness_check_step:
  "store_readiness_check H db s t e r v i = Inr (db', b, x) \<Longrightarrow> live_step db db'"
  by (auto simp: store_readiness_check_def Let_def intro: keep_check_step)

lemma store_risk_decision_step:
  "store_risk_decision H db p s v d a e t = Inr (db', b, x) \<Longrightarrow> live_step db db'"
  by (auto simp: store_risk_decision_def intro: keep_risk_step)

lemma store_order_intent_step:
  "store_order_intent H N db i = Inr (db', b, x) \<Longrightarrow> live_step db db'"
  by (auto simp: store_order_intent_def intro: keep_intent_step)

lemma store_order_event_step:
  "store_order_event H db i = Inr (db', b, x) \<Longrightarrow> live_step db db'"
  by (auto simp: store_order_event_def intro: keep_event_step)

lemma store_reconciliation_run_step:
  "store_reconciliation_run H db t u c v = Inr (db', b, x) \<Longrightarrow> live_step db db'"
  by (auto simp: store_reconciliation_run_def intro: keep_reconciliation_step)

lemmas live_store_steps = store_readiness_check_step store_risk_decision_step store_order_intent_step
  store_order_event_step store_reconciliation_run_step

section \<open>Sequences of calls\<close>

text \<open>
  Every call of the ledger, and a sequence of them: a call that raises rolls its transaction back.
\<close>

datatype live_call =
    CheckCall string pytime bool "string list" pydict "string option"
  | RiskCall string string string risk_decision pydict pydict pytime
  | IntentCall "(pyval, pytime) intent_input"
  | EventCall "pytime event_input"
  | ReconciliationCall pytime int int pydict

definition db_of :: "live_db \<Rightarrow> (live_db \<times> bool \<times> 'r) res \<Rightarrow> live_db" where
  "db_of db r = (case r of Inl _ \<Rightarrow> db | Inr (db', _, _) \<Rightarrow> db')"

fun serve :: "(string \<Rightarrow> string) \<Rightarrow> (dec \<Rightarrow> dec res) \<Rightarrow> live_call \<Rightarrow> live_db \<Rightarrow> live_db" where
  "serve H N (CheckCall s t e r v i) db = db_of db (store_readiness_check H db s t e r v i)"
| "serve H N (RiskCall p s v d a e t) db = db_of db (store_risk_decision H db p s v d a e t)"
| "serve H N (IntentCall i) db = db_of db (store_order_intent H N db i)"
| "serve H N (EventCall i) db = db_of db (store_order_event H db i)"
| "serve H N (ReconciliationCall t u c v) db = db_of db (store_reconciliation_run H db t u c v)"

definition live_calls :: "(string \<Rightarrow> string) \<Rightarrow> (dec \<Rightarrow> dec res) \<Rightarrow> live_call list \<Rightarrow> live_db \<Rightarrow> live_db" where
  "live_calls H N = fold (serve H N)"

lemma db_of_step: "(\<And>db' b x. r = Inr (db', b, x) \<Longrightarrow> live_step db db') \<Longrightarrow> live_step db (db_of db r)"
  by (auto simp: db_of_def split: sum.splits)

lemma serve_step: "live_step db (serve H N c db)"
  by (cases c) (auto intro!: db_of_step intro: live_store_steps)

lemma live_calls_step: "live_step db (live_calls H N cs db)"
  unfolding live_calls_def
proof (induction cs arbitrary: db)
  case (Cons c cs)
  show ?case using live_step_trans [OF serve_step Cons.IH] by simp
qed simp

lemma live_step_wf: "live_step db db' \<Longrightarrow> live_wf db \<Longrightarrow> live_wf db'"
  by (simp add: live_step_def)

lemma live_wf_intents: "live_wf db \<Longrightarrow> unique_on intent_key (ld_intents db)"
  by (simp add: live_wf_def)

lemma live_step_intents: "live_step db db' \<Longrightarrow> prefix (ld_intents db) (ld_intents db')"
  by (simp add: live_step_def live_extends_def)

lemma live_step_intent:
  assumes "live_step db db'" and "live_wf db" and "x \<in> set (ld_intents db)"
  shows "filter (\<lambda>y. intent_key y = intent_key x) (ld_intents db') = [x]"
  using set_mono_prefix [OF live_step_intents [OF assms(1)]] assms(3)
  by (intro unique_on_lookup live_wf_intents live_step_wf [OF assms(1,2)]) blast

lemma store_order_intent_stored:
  assumes "store_order_intent H N db i = Inr (db', created, x)"
  shows "x \<in> set (ld_intents db')"
  using assms by (auto simp: store_order_intent_def dest: intents.keep_record)

lemma store_order_intent_Inr:
  "store_order_intent H N db i = Inr (db', created, x) \<longleftrightarrow> (\<exists>r t. intent_row_of H i = Inr r
    \<and> existing_or_insert intent_key li_semantic_sha256 (intent_coerce N) intent_free intent_conflict
        (ld_intents db) r = Inr (t, created, x) \<and> db' = db\<lparr>ld_intents := t\<rparr>)"
  by (auto simp: store_order_intent_def)

lemma store_order_event_Inr:
  "store_order_event H db i = Inr (db', created, x) \<longleftrightarrow> (\<exists>r t. event_row_of H i = Inr r
    \<and> existing_or_insert le_event_key le_semantic_sha256 event_coerce no_other event_conflict
        (ld_order_events db) r = Inr (t, created, x) \<and> db' = db\<lparr>ld_order_events := t\<rparr>)"
  by (auto simp: store_order_event_def)

lemma event_row_of_key: "event_row_of H i = Inr r \<Longrightarrow> le_event_key r = strip (ei_event_key i)"
  by (auto simp: event_row_of_def rp_text_Inr)

lemma store_order_intent_again:
  assumes "store_order_intent H N db i = Inr (db', created, x)" and "live_wf db" and "live_step db' later"
  shows "store_order_intent H N later i = Inr (later, False, x)"
proof -
  from assms(1) obtain r t where r: "intent_row_of H i = Inr r"
    and k: "existing_or_insert intent_key li_semantic_sha256 (intent_coerce N) intent_free intent_conflict
        (ld_intents db) r = Inr (t, created, x)" and t: "db' = db\<lparr>ld_intents := t\<rparr>"
    unfolding store_order_intent_Inr by blast
  have "prefix t (ld_intents later)" using live_step_intents [OF assms(3)] t by simp
  moreover have "unique_on intent_key (ld_intents later)"
    by (intro live_wf_intents live_step_wf [OF assms(3)] live_step_wf [OF store_order_intent_step [OF assms(1)] assms(2)])
  ultimately have "existing_or_insert intent_key li_semantic_sha256 (intent_coerce N) intent_free intent_conflict
        (ld_intents later) r = Inr (ld_intents later, False, x)" by (rule intents.keep_again [OF k])
  with r show ?thesis by (simp add: store_order_intent_Inr)
qed

text \<open>C36: Whatever calls the ledger of live trading serves, refused ones included, rows are only ever
  appended to its five tables, every identifier, event key and (prediction, policy) pair stays
  unique, every intent stays a BUY of positive size at a price in (0, 1], and every reconciliation
  run's counts stay ordered.
\<close>

theorem live_ledger_calls:
  assumes "live_wf db"
  shows "live_wf (live_calls H N calls db) \<and> live_extends db (live_calls H N calls db)"
  using live_calls_step [of db H N calls] assms by (auto simp: live_step_def)

text \<open>C16: One intent per prediction and policy, forever: once an order intent is stored, after any further
  calls the ledger holds exactly that intent for its prediction and policy, and storing the same
  intent again returns it without inserting a row.
\<close>

theorem order_intent_once:
  assumes "live_wf db" and "store_order_intent H N db i = Inr (db', created, x)"
  shows "intent_ok x \<and> filter (\<lambda>y. intent_key y = intent_key x) (ld_intents (live_calls H N calls db')) = [x]
    \<and> store_order_intent H N (live_calls H N calls db') i = Inr (live_calls H N calls db', False, x)"
proof -
  have wf: "live_wf db'" using store_order_intent_step [OF assms(2)] assms(1) by (simp add: live_step_def)
  then have "intent_ok x" using store_order_intent_stored [OF assms(2)] by (simp add: live_wf_def)
  with wf show ?thesis
    using live_step_intent [OF live_calls_step wf store_order_intent_stored [OF assms(2)]]
      store_order_intent_again [OF assms(2,1) live_calls_step] by blast
qed

text \<open>A second order for a prediction and policy that already have an intent is refused: it raises
  when its content has another digest, and nothing is stored.
\<close>

theorem second_intent_refused:
  assumes "live_wf db" and "x \<in> set (ld_intents db)" and "intent_row_of H i = Inr r"
    and "intent_key r = intent_key x" and "li_semantic_sha256 r \<noteq> li_semantic_sha256 x"
  shows "store_order_intent H N db i =
    Inl intent_conflict"
  using assms intents.keep_refuses [of "ld_intents db" x r]
  by (simp add: store_order_intent_def live_wf_def)

text \<open>Every event of an order is recorded under its key, and storing it again finds the recorded row
  and changes nothing.
\<close>

theorem order_event_kept:
  assumes "live_wf db" and "store_order_event H db i = Inr (db', created, x)"
  shows "store_order_event H db' i = Inr (db', False, x)
    \<and> le_event_key x = strip (ei_event_key i) \<and> x \<in> set (ld_order_events db')"
proof -
  from assms(2) obtain r t where r: "event_row_of H i = Inr r"
    and k: "existing_or_insert le_event_key le_semantic_sha256 event_coerce no_other event_conflict
        (ld_order_events db) r = Inr (t, created, x)" and t: "db' = db\<lparr>ld_order_events := t\<rparr>"
    unfolding store_order_event_Inr by blast
  have "unique_on le_event_key t" using order_events.keep_unique [OF k] assms(1) by (simp add: live_wf_def)
  from order_events.keep_again [OF k prefix_order.refl this] order_events.keep_record [OF k] r t
  show ?thesis by (simp add: store_order_event_Inr event_row_of_key [OF r])
qed

section \<open>Example: one intent and one event\<close>

text \<open>A digest that tells texts of even length from those of odd length.\<close>

definition ex_parity :: "string \<Rightarrow> string" where
  "ex_parity s = replicate 64 (if even (length s) then CHR ''a'' else CHR ''b'')"

definition ex_live_db :: live_db where
  "ex_live_db = \<lparr>ld_checks = [], ld_risks = [], ld_intents = [], ld_order_events = [], ld_reconciliations = []\<rparr>"

definition ex_intent_input :: "(pyval, pytime) intent_input" where
  "ex_intent_input = \<lparr>ii_prediction_id = ''p1'', ii_policy_version = ''live-risk-v1'', ii_request_id = ''r1'',
     ii_risk_decision_id = ''d1'', ii_token_id = ''t1'', ii_side = '' buy'', ii_size = PStr ''5'',
     ii_limit_price = PStr ''0.4'', ii_pre_submit_at = Aware 0 0, ii_evidence = [(''execution_version'', PStr ''v1'')]\<rparr>"

definition ex_event_input :: "pytime event_input" where
  "ex_event_input = \<lparr>ei_event_key = ''i1:accepted'', ei_intent_id = ''i1'', ei_event_type = ''accepted'',
     ei_observed_at = Aware 0 0, ei_external_order_id = Some ''x1'', ei_external_trade_id = None,
     ei_evidence = [(''status'', PStr ''live'')]\<rparr>"

definition ex_intent_row :: intent_row where
  "ex_intent_row = \<lparr>li_intent_id = ''live-intent-'' @ replicate 32 (CHR ''b''), li_prediction_id = ''p1'',
     li_policy_version = ''live-risk-v1'', li_request_id = ''r1'', li_risk_decision_id = ''d1'', li_token_id = ''t1'',
     li_side = ''BUY'', li_size = Dec 5 0, li_limit_price = Dec 4 (-1), li_pre_submit_at = 0,
     li_evidence = PDict [(''execution_version'', PStr ''v1'')], li_semantic_sha256 = replicate 64 (CHR ''b''),
     li_created_at = 0\<rparr>"

lemma ex_live_wf: "live_wf ex_live_db"
  by (simp add: live_wf_def ex_live_db_def)

lemma ex_intent_row: "intent_row_of ex_parity ex_intent_input = Inr ex_intent_row"
  by code_simp

lemma ex_intent_stored:
  "store_order_intent ex_parity Inr ex_live_db ex_intent_input = Inr (ex_live_db\<lparr>ld_intents := [ex_intent_row]\<rparr>, True, ex_intent_row)"
  by code_simp

lemma ex_other_intent:
  "case intent_row_of ex_parity (ex_intent_input\<lparr>ii_request_id := ''r10''\<rparr>) of Inl _ \<Rightarrow> False
   | Inr r \<Rightarrow> intent_key r = intent_key ex_intent_row \<and> li_semantic_sha256 r \<noteq> li_semantic_sha256 ex_intent_row"
  by code_simp

lemma ex_event_stored:
  "case store_order_event ex_parity ex_live_db ex_event_input of Inl _ \<Rightarrow> False | Inr (_, created, _) \<Rightarrow> created"
  by code_simp

theorem live_ledger_calls_witness:
  "live_wf ex_live_db \<and> live_wf (live_calls ex_parity Inr [IntentCall ex_intent_input, EventCall ex_event_input] ex_live_db)"
  using live_ledger_calls [OF ex_live_wf] ex_live_wf by blast

theorem order_intent_once_witness:
  "store_order_intent ex_parity Inr ex_live_db ex_intent_input
      = Inr (ex_live_db\<lparr>ld_intents := [ex_intent_row]\<rparr>, True, ex_intent_row)
    \<and> intent_ok ex_intent_row"
  using order_intent_once [OF ex_live_wf ex_intent_stored] ex_intent_stored by blast

theorem second_intent_refused_witness:
  "store_order_intent ex_parity Inr (ex_live_db\<lparr>ld_intents := [ex_intent_row]\<rparr>) (ex_intent_input\<lparr>ii_request_id := ''r10''\<rparr>)
    = Inl intent_conflict"
proof -
  obtain r where r: "intent_row_of ex_parity (ex_intent_input\<lparr>ii_request_id := ''r10''\<rparr>) = Inr r"
    "intent_key r = intent_key ex_intent_row" "li_semantic_sha256 r \<noteq> li_semantic_sha256 ex_intent_row"
    using ex_other_intent by (auto split: sum.splits)
  show ?thesis
    by (rule second_intent_refused [OF live_step_wf [OF store_order_intent_step [OF ex_intent_stored] ex_live_wf] _ r]) simp
qed

theorem order_event_kept_witness:
  "\<exists>db x. store_order_event ex_parity ex_live_db ex_event_input = Inr (db, True, x)
    \<and> store_order_event ex_parity db ex_event_input = Inr (db, False, x)"
proof -
  obtain db x where s: "store_order_event ex_parity ex_live_db ex_event_input = Inr (db, True, x)"
    using ex_event_stored by (auto split: sum.splits)
  show ?thesis using order_event_kept [OF ex_live_wf s] s by blast
qed

end
