(* ===== verification/LiveAccount.thy ===== *)
theory LiveAccount
  imports PaperGateway LiveRisk LiveLedger
begin

text \<open>
  What the live gateway reads before it decides (\<open>bp_engine/execution/live.py\<close>): whether a request
  is the stored prediction's, the outcome an earlier submission had, the account that intents,
  order events and reconciliation runs add up to, and the liquidity the latest market state shows.
\<close>

section \<open>Conversions\<close>

definition lg_decimal :: "string \<Rightarrow> pyval \<Rightarrow> dec res" where
  "lg_decimal name v = checked_decimal (ValueError (name @ '' must be numeric'')) (ValueError (name @ '' must be finite'')) v"

definition lg_optional :: "pyval \<Rightarrow> dec option" where
  "lg_optional v = (case lg_decimal ''value'' v of Inr d \<Rightarrow> Some d | Inl _ \<Rightarrow> None)"

definition lg_safe_decimal :: "dec \<Rightarrow> pyval \<Rightarrow> dec" where
  "lg_safe_decimal fallback v = (case lg_decimal ''value'' v of Inr d \<Rightarrow> d | Inl _ \<Rightarrow> fallback)"

definition lg_safe_nonnegative :: "dec \<Rightarrow> pyval \<Rightarrow> dec" where
  "lg_safe_nonnegative fallback v = (let d = lg_safe_decimal fallback v in if dle d0 d then d else fallback)"

definition lg_safe_int :: "int \<Rightarrow> pyval \<Rightarrow> int" where
  "lg_safe_int fallback v = (case py_int v of Inr i \<Rightarrow> if 0 \<le> i then i else fallback | Inl _ \<Rightarrow> fallback)"

text \<open>\<open>dict(value or {})\<close> of a JSON column; the ledger stores mappings only.\<close>

definition dict_or_empty :: "pyval \<Rightarrow> pydict res" where
  "dict_or_empty v = (if \<not> truthy v then Inr [] else case v of PDict d \<Rightarrow> Inr d
     | _ \<Rightarrow> Inl (TypeError ''cannot convert dictionary update sequence''))"

definition dict_of :: "pyval \<Rightarrow> pydict option" where
  "dict_of v = (case v of PDict d \<Rightarrow> Some d | _ \<Rightarrow> None)"

lemma lg_decimal_PDec [simp]: "lg_decimal n (PDec (Finite d)) = Inr d"
  by (simp add: lg_decimal_def)

section \<open>The source prediction\<close>

definition source_request_matches :: "live_prediction option \<Rightarrow> request \<Rightarrow> bool" where
  "source_request_matches prediction r = (case prediction of None \<Rightarrow> False
     | Some p \<Rightarrow> (let side = lower (lp_selected_side p);
           token = (if side = ''up'' then lp_up_token_id p else lp_down_token_id p) in
       lp_prediction_id p = rq_prediction_id r \<and> lp_semantic_sha256 p = rq_prediction_semantic_sha256 r
       \<and> lp_condition_id p = rq_condition_id r \<and> side = rq_selected_side r \<and> token = rq_token_id r
       \<and> rq_action r = ''BUY'' \<and> rq_submitted_at r = lp_recorded_at p \<and> rq_expires_at r \<le> lp_market_end_at p
       \<and> (case lp_selected_ask p of None \<Rightarrow> False | Some ask \<Rightarrow> dle ask (rq_limit_price r))
       \<and> dle (dmul (rq_requested_shares r) (rq_limit_price r)) (rq_target_notional_usd r)))"

definition prediction_by_id :: "live_prediction list \<Rightarrow> string \<Rightarrow> live_prediction option res" where
  "prediction_by_id predictions pid = one_or_none (filter (\<lambda>p. lp_prediction_id p = pid) predictions)"

section \<open>Earlier submissions\<close>

definition intent_for_prediction :: "live_db \<Rightarrow> string \<Rightarrow> string \<Rightarrow> intent_row option res" where
  "intent_for_prediction db pid version =
     one_or_none (filter (\<lambda>i. li_prediction_id i = pid \<and> li_policy_version i = version) (ld_intents db))"

definition submission_types :: "string list" where
  "submission_types = [''accepted'', ''rejected'', ''submission_unknown'']"

definition terminal_types :: "string list" where
  "terminal_types = submission_types @ [''closed_before_submission'']"

definition events_of :: "live_db \<Rightarrow> string list \<Rightarrow> string \<Rightarrow> order_event_row list" where
  "events_of db types iid = filter (\<lambda>e. le_intent_id e = iid \<and> le_event_type e \<in> set types) (ld_order_events db)"

definition nonempty_text :: "string option \<Rightarrow> string option" where
  "nonempty_text v = (case v of Some s \<Rightarrow> if s = [] then None else Some s | None \<Rightarrow> None)"

definition replay_submission_ack :: "live_db \<Rightarrow> intent_row \<Rightarrow> int \<Rightarrow> int order_ack option res" where
  "replay_submission_ack db i observed = (case last_option (events_of db submission_types (li_intent_id i)) of
       None \<Rightarrow> Inr None
     | Some e \<Rightarrow> ebind
         (case (le_event_type e = ''accepted'', nonempty_text (le_external_order_id e)) of
            (True, Some oid) \<Rightarrow> order_ack_of oid True observed ''existing''
          | _ \<Rightarrow> if le_event_type e = ''rejected''
              then ebind (dict_or_empty (le_evidence e)) (\<lambda>evidence.
                order_ack_of (li_intent_id i) False observed
                  (let code = dget evidence ''code'' in if truthy code then py_str code else ''rejected''))
              else order_ack_of (li_intent_id i) False observed ''submission_unknown'')
         (\<lambda>ack. Inr (Some ack)))"

section \<open>The account\<close>

text \<open>
  The intent a reconciliation run proves to have been filled with nothing: \<open>None\<close> where the run
  does not, for whatever reason.
\<close>

definition zero_fill_numbers :: "pydict \<Rightarrow> pydict \<Rightarrow> (int \<times> dec \<times> dec \<times> dec) res" where
  "zero_fill_numbers evidence account =
     ebind (py_int (dget evidence ''official_open_order_count'')) (\<lambda>open_orders.
     ebind (lg_decimal ''reconciliation.confirmed_filled_shares'' (dget evidence ''confirmed_filled_shares'')) (\<lambda>shares.
     ebind (lg_decimal ''reconciliation.confirmed_filled_notional_usd'' (dget evidence ''confirmed_filled_notional_usd'')) (\<lambda>notional.
     ebind (lg_decimal ''reconciliation.account_snapshot.total_exposure_usd'' (dget account ''total_exposure_usd'')) (\<lambda>exposure.
     Inr (open_orders, shares, notional, exposure)))))"

definition zero_fill_intent :: "reconciliation_row \<Rightarrow> string option res" where
  "zero_fill_intent x =
     (if lx_unresolved_count x \<noteq> 0 \<or> lx_critical_count x \<noteq> 0 then Inr None
      else ebind (dict_or_empty (lx_evidence x)) (\<lambda>evidence.
        if dget evidence ''reconciliation_kind'' \<noteq> PStr ''post_submission_official_zero_fill'' then Inr None
        else (let iid = str_or_empty (dget evidence ''intent_id''); oid = str_or_empty (dget evidence ''external_order_id'') in
          case dict_of (dget evidence ''account_snapshot'') of
            None \<Rightarrow> Inr None
          | Some account \<Rightarrow>
              if iid = [] \<or> oid = [] then Inr None
              else (case zero_fill_numbers evidence account of
                  Inl _ \<Rightarrow> Inr None
                | Inr (open_orders, shares, notional, exposure) \<Rightarrow>
                    if open_orders = 0 \<and> deq shares d0 \<and> deq notional d0 \<and> deq exposure d0
                      \<and> dget evidence ''official_fill_state'' = PStr ''zero_fill_observed''
                      \<and> is_true (dget evidence ''network_submission_attempt_consumed'')
                    then Inr (Some iid) else Inr None))))"

definition reconciliations_until :: "live_db \<Rightarrow> int \<Rightarrow> reconciliation_row list" where
  "reconciliations_until db observed = filter (\<lambda>x. lx_observed_at x \<le> observed) (ld_reconciliations db)"

definition official_zero_fill_intents :: "live_db \<Rightarrow> int \<Rightarrow> string list res" where
  "official_zero_fill_intents db observed =
     ebind (emap zero_fill_intent (reconciliations_until db observed)) (\<lambda>found. Inr (List.map_filter id found))"

text \<open>The newest run: the greatest instant, and among equals the greatest id.\<close>

definition newest :: "('r \<Rightarrow> int) \<Rightarrow> 'r list \<Rightarrow> 'r option" where
  "newest time rows = last_option (sort_key time rows)"

text \<open>One intent's share of the account.\<close>

record tally =
  ty_last_order_at :: "int option"
  ty_exposure :: dec
  ty_attempt_seen :: bool
  ty_unresolved_seen :: bool

definition later :: "int option \<Rightarrow> int \<Rightarrow> int option" where
  "later prev t = (case prev of None \<Rightarrow> Some t | Some u \<Rightarrow> if u < t then Some t else Some u)"

definition outcome_of :: "live_db \<Rightarrow> string \<Rightarrow> string option" where
  "outcome_of db iid = map_option le_event_type (last_option (events_of db terminal_types iid))"

definition tally_intent :: "live_db \<Rightarrow> string list \<Rightarrow> intent_row \<Rightarrow> tally \<Rightarrow> tally" where
  "tally_intent db resolved i t =
     (let outcome = outcome_of db (li_intent_id i);
          attempted = (case outcome of None \<Rightarrow> False | Some e \<Rightarrow> e \<in> set submission_types) in
      if li_intent_id i \<in> set resolved
      then t\<lparr>ty_attempt_seen := True, ty_last_order_at := later (ty_last_order_at t) (li_pre_submit_at i)\<rparr>
      else t\<lparr>ty_attempt_seen := ty_attempt_seen t \<or> attempted,
             ty_last_order_at := (if attempted then later (ty_last_order_at t) (li_pre_submit_at i) else ty_last_order_at t),
             ty_unresolved_seen := ty_unresolved_seen t \<or> outcome = None,
             ty_exposure := (if outcome \<in> {Some ''rejected'', Some ''closed_before_submission''} then ty_exposure t
               else dadd (ty_exposure t) (dmul (li_size i) (li_limit_price i)))\<rparr>)"

definition tally_start :: tally where
  "tally_start = \<lparr>ty_last_order_at = None, ty_exposure = d0, ty_attempt_seen = False, ty_unresolved_seen = False\<rparr>"

definition intents_until :: "live_db \<Rightarrow> int \<Rightarrow> intent_row list" where
  "intents_until db observed = filter (\<lambda>i. li_pre_submit_at i \<le> observed) (ld_intents db)"

definition pre_submission_close :: "pydict \<Rightarrow> bool res" where
  "pre_submission_close evidence =
     (if dget evidence ''reconciliation_kind'' = PStr ''pre_submission_intent_close''
         \<and> is_false (dget evidence ''submission_attempt_consumed'')
      then (let n = dget evidence ''official_open_order_count'' in
        ebind (py_int (if truthy n then n else PInt 0)) (\<lambda>k. Inr (k = 0)))
      else Inr False)"

definition account_values :: "dec \<Rightarrow> dec \<Rightarrow> int \<Rightarrow> int option \<Rightarrow> int \<Rightarrow> (pyval, pytime) live_account" where
  "account_values exposure pnl losses last_at critical =
     \<lparr>la_total_exposure_usd = PDec (Finite exposure), la_realized_daily_pnl_usd = PDec (Finite pnl),
      la_consecutive_losses = losses, la_last_order_at = map_option (\<lambda>t. Aware t 0) last_at,
      la_unresolved_critical = critical\<rparr>"

definition read_account :: "live_db \<Rightarrow> int \<Rightarrow> account_snapshot res" where
  "read_account db observed =
     ebind (official_zero_fill_intents db observed) (\<lambda>resolved.
     let intents = intents_until db observed; t = fold (tally_intent db resolved) intents tally_start in
     case newest lx_observed_at (reconciliations_until db observed) of
       None \<Rightarrow> live_account_post_init (account_values (ty_exposure t) d0 0 (ty_last_order_at t) 1)
     | Some x \<Rightarrow>
       ebind (dict_or_empty (lx_evidence x)) (\<lambda>evidence.
       let account = (case dget evidence ''account_snapshot'' of PDict d \<Rightarrow> d | _ \<Rightarrow> []);
           shown = lg_safe_nonnegative (ty_exposure t) (dget account ''total_exposure_usd'');
           exposure = (if dlt (ty_exposure t) shown then shown else ty_exposure t) in
       ebind (pre_submission_close evidence) (\<lambda>closed.
       let critical = (if ty_unresolved_seen t
             \<or> (intents \<noteq> [] \<and> account = [] \<and> \<not> (closed \<and> \<not> ty_attempt_seen t \<and> \<not> ty_unresolved_seen t))
           then max (lx_critical_count x) 1 else lx_critical_count x) in
       live_account_post_init (account_values exposure
         (lg_safe_decimal d0 (dget account ''realized_daily_pnl_usd''))
         (lg_safe_int 0 (dget account ''consecutive_losses'')) (ty_last_order_at t) critical))))"

section \<open>Liquidity\<close>

record market_state =
  ms_source :: string
  ms_stream :: string
  ms_instrument :: string
  ms_asset_id :: "string option"
  ms_bucket_at :: int
  ms_last_event_at :: int
  ms_state :: pyval

definition market_state_for :: "market_state list \<Rightarrow> request \<Rightarrow> int \<Rightarrow> market_state option" where
  "market_state_for states r observed = newest ms_bucket_at (filter (\<lambda>s. ms_source s = ''polymarket''
     \<and> ms_stream s = ''market'' \<and> ms_instrument s = rq_condition_id r \<and> ms_asset_id s = Some (rq_token_id r)
     \<and> ms_bucket_at s \<le> observed \<and> ms_last_event_at s \<le> observed) states)"

definition selected_liquidity_usd ::
  "market_state list \<Rightarrow> live_prediction \<Rightarrow> request \<Rightarrow> int \<Rightarrow> dec \<Rightarrow> dec option res" where
  "selected_liquidity_usd states p r observed freshness = (case market_state_for states r observed of
       None \<Rightarrow> Inr None
     | Some s \<Rightarrow> (let age = seconds_dec (observed - ms_last_event_at s) in
         if dlt age d0 \<or> dlt freshness age then Inr None
         else ebind (dict_or_empty (ms_state s)) (\<lambda>payload.
           case (lg_decimal ''state.best_ask'' (dget payload ''best_ask''),
                 lg_decimal ''state.ask_depth'' (dget payload ''ask_depth'')) of
             (Inr best_ask, Inr ask_depth) \<Rightarrow>
               if dle best_ask d0 \<or> dlt ask_depth d0 then Inr None
               else if lp_selected_ask p = None \<or> dlt (rq_limit_price r) best_ask then Inr None
               else Inr (Some (dmul best_ask ask_depth))
           | _ \<Rightarrow> Inr None)))"

end
