(* ===== verification/LiveReadiness.thy ===== *)
theory LiveReadiness
  imports LiveInterlock LiveAccount "HOL-Library.Product_Lexorder"
begin

text \<open>
  The readiness service (\<open>bp_engine/live_readiness/service.py\<close>): the evidence that decides whether
  live trading is allowed at all, the reconciliation of the ledger with a snapshot of the venue's
  orders, and the stored report. The settings, the probes the service is given and the ledger are
  arguments; a probe that raises is \<open>None\<close>.
\<close>

section \<open>Field validation\<close>

definition sv_utc :: "string \<Rightarrow> pytime \<Rightarrow> int res" where
  "sv_utc name t = aware_utc (ValueError (name @ '' must be timezone-aware'')) t"

definition sv_text :: "string \<Rightarrow> string \<Rightarrow> string res" where
  "sv_text name v = (let n = strip v in
     if n = [] then Inl (ValueError (name @ '' must be a nonblank string'')) else Inr n)"

definition sv_sha :: "string \<Rightarrow> string \<Rightarrow> string res" where
  "sv_sha name v = ebind (sv_text name v) (\<lambda>text.
     if length text \<noteq> 64 \<or> \<not> list_all is_hex text
     then Inl (ValueError (name @ '' must be a 64-character SHA'')) else Inr (lower text))"

definition sv_decimal :: "string \<Rightarrow> pyval \<Rightarrow> dec res" where
  "sv_decimal name v = checked_decimal (ValueError (name @ '' must be numeric'')) (ValueError (name @ '' must be finite'')) v"

definition setting_decimal :: "pyval \<Rightarrow> dec res" where
  "setting_decimal v = (case read_decimal (py_str v) of Some (Finite d) \<Rightarrow> Inr d
     | _ \<Rightarrow> Inl (ValueError ''live setting must be a finite decimal''))"

definition optional_int :: "pyval \<Rightarrow> int option" where
  "optional_int v = (if v = PNone then None else (case py_int v of Inr i \<Rightarrow> Some i | Inl _ \<Rightarrow> None))"

definition mapping_of :: "pyval \<Rightarrow> pydict" where
  "mapping_of v = (case v of PDict d \<Rightarrow> d | _ \<Rightarrow> [])"

definition safe_boolean_probe :: "pyval option \<Rightarrow> bool" where
  "safe_boolean_probe probe = (case probe of Some v \<Rightarrow> is_true v | None \<Rightarrow> False)"

definition reason_if :: "bool \<Rightarrow> string \<Rightarrow> string list \<Rightarrow> string list" where
  "reason_if blocked reason reasons = (if blocked then append_new reasons reason else reasons)"

definition reason_tuple :: "string list \<Rightarrow> string list res" where
  "reason_tuple reasons = efold (\<lambda>r acc. ebind (sv_text ''reason'' r) (\<lambda>v. Inr (append_new acc v))) reasons []"

section \<open>The readiness check\<close>

record 't readiness_check =
  cc_candidate_git_sha :: string
  cc_observed_at :: 't
  cc_eligible :: bool
  cc_reasons :: "string list"
  cc_evidence :: pydict

definition readiness_check_post_init :: "pytime readiness_check \<Rightarrow> int readiness_check res" where
  "readiness_check_post_init c =
     ebind (sv_sha ''candidate_git_sha'' (cc_candidate_git_sha c)) (\<lambda>sha.
     ebind (sv_utc ''observed_at'' (cc_observed_at c)) (\<lambda>observed.
     ebind (reason_tuple (cc_reasons c)) (\<lambda>reasons.
     ebind (require (\<not> (cc_eligible c \<and> reasons \<noteq> []))
       (ValueError ''eligible readiness check cannot contain blocking reasons'')) (\<lambda>_.
     Inr \<lparr>cc_candidate_git_sha = sha, cc_observed_at = observed, cc_eligible = cc_eligible c,
          cc_reasons = reasons, cc_evidence = cc_evidence c\<rparr>))))"

record live_settings =
  se_mode :: string
  se_live_trading_enabled :: bool
  se_max_trade_size_usd :: pyval
  se_max_total_exposure_usd :: pyval
  se_max_daily_loss_usd :: pyval
  se_max_consecutive_losses :: int
  se_activation_manifest_path :: string
  se_kill_switch_path :: string

text \<open>
  The loader answers \<open>None\<close> where it raises or returns something else than a manifest, and so
  does the geographic check; the service treats both alike.
\<close>

record probes =
  pb_activation :: "string \<Rightarrow> string \<Rightarrow> int \<Rightarrow> manifest option"
  pb_kill_switch :: "string \<Rightarrow> pyval option"
  pb_geoblock :: "int \<Rightarrow> int geoblock_result option"
  pb_sdk_health :: "pyval option"
  pb_wallet_configured :: "pyval option"

definition activation_evidence :: "manifest option \<Rightarrow> string list \<Rightarrow> pydict \<times> string list" where
  "activation_evidence loaded reasons = (case loaded of
       None \<Rightarrow> ([(''status'', PStr ''invalid''), (''authorized'', PBool False), (''authorization_id'', PNone),
           (''git_sha'', PNone), (''issued_at'', PNone), (''expires_at'', PNone)],
         append_new reasons ''activation_manifest_invalid'')
     | Some m \<Rightarrow> ([(''status'', PStr ''ok''), (''authorized'', PBool (am_authorized m)),
           (''authorization_id'', PStr (am_authorization_id m)), (''git_sha'', PStr (am_git_sha m)),
           (''issued_at'', PStr (iso_utc (am_issued_at m))), (''expires_at'', PStr (iso_utc (am_expires_at m)))],
         reason_if (\<not> am_authorized m) ''activation_not_authorized'' reasons))"

definition kill_switch_evidence :: "pyval option \<Rightarrow> string list \<Rightarrow> pydict \<times> string list" where
  "kill_switch_evidence probe reasons = (let engaged = (case probe of Some v \<Rightarrow> is_true v | None \<Rightarrow> True) in
     ([(''status'', PStr (if probe = None then ''error'' else ''ok'')), (''engaged'', PBool engaged)],
      reason_if engaged ''kill_switch_engaged'' reasons))"

definition geoblock_evidence :: "int geoblock_result option \<Rightarrow> string list \<Rightarrow> pydict \<times> string list" where
  "geoblock_evidence result reasons = (case result of
       None \<Rightarrow> ([(''status'', PStr ''error''), (''blocked'', PNone), (''country'', PNone), (''region'', PNone)],
         append_new reasons ''geoblock_error'')
     | Some g \<Rightarrow> ([(''status'', PStr ''ok''), (''blocked'', PBool (gb_blocked g)),
           (''country'', PStr (gb_country g)), (''region'', PStr (gb_region g))],
         reason_if (gb_blocked g) ''geographic_eligibility_blocked'' reasons))"

definition latest_reconciliation :: "live_db \<Rightarrow> int \<Rightarrow> reconciliation_row option" where
  "latest_reconciliation db observed = newest lx_observed_at (reconciliations_until db observed)"

definition reconciliation_evidence :: "reconciliation_row option \<Rightarrow> pydict" where
  "reconciliation_evidence row = (case row of
       None \<Rightarrow> [(''status'', PStr ''unavailable''), (''reconciliation_id'', PNone), (''observed_at'', PNone),
         (''unresolved_count'', PInt 0), (''critical_count'', PInt 0)]
     | Some x \<Rightarrow> [(''status'', PStr (if 0 < lx_critical_count x then ''blocked'' else ''ok'')),
         (''reconciliation_id'', PStr (lx_reconciliation_id x)), (''observed_at'', PStr (iso_utc (lx_observed_at x))),
         (''unresolved_count'', PInt (lx_unresolved_count x)), (''critical_count'', PInt (lx_critical_count x))])"

definition reconciliation_reasons :: "reconciliation_row option \<Rightarrow> string list \<Rightarrow> string list" where
  "reconciliation_reasons row reasons = (case row of
       None \<Rightarrow> append_new reasons ''reconciliation_unavailable''
     | Some x \<Rightarrow> reason_if (0 < lx_critical_count x) ''reconciliation_blocked'' reasons)"

text \<open>The settings: mode, switch and the four limits.\<close>

definition settings_limits :: "live_settings \<Rightarrow> (dec \<times> dec \<times> dec) res" where
  "settings_limits s =
     ebind (setting_decimal (se_max_trade_size_usd s)) (\<lambda>trade.
     ebind (setting_decimal (se_max_total_exposure_usd s)) (\<lambda>exposure.
     ebind (setting_decimal (se_max_daily_loss_usd s)) (\<lambda>loss.
     Inr (trade, exposure, loss))))"

definition settings_reasons :: "live_settings \<Rightarrow> dec \<times> dec \<times> dec \<Rightarrow> string list" where
  "settings_reasons s limits = (case limits of (trade, exposure, loss) \<Rightarrow>
     reason_if (se_max_consecutive_losses s \<le> 0) ''consecutive_loss_limit_zero''
       (reason_if (dle loss d0) ''daily_loss_limit_zero''
       (reason_if (dle exposure d0) ''total_exposure_limit_zero''
       (reason_if (dle trade d0) ''trade_size_limit_zero''
       (reason_if (\<not> se_live_trading_enabled s) ''live_trading_disabled''
       (reason_if (se_mode s \<noteq> ''live'') ''mode_not_live'' []))))))"

definition build_readiness_check ::
  "live_settings \<Rightarrow> probes \<Rightarrow> live_db \<Rightarrow> string \<Rightarrow> pytime \<Rightarrow> int readiness_check res" where
  "build_readiness_check s p db expected_git_sha observed_at =
     ebind (sv_sha ''expected_git_sha'' expected_git_sha) (\<lambda>expected.
     ebind (sv_utc ''observed_at'' observed_at) (\<lambda>observed.
     ebind (settings_limits s) (\<lambda>(trade, exposure, loss).
     let (activation, r1) = activation_evidence (pb_activation p (se_activation_manifest_path s) expected observed)
           (settings_reasons s (trade, exposure, loss));
         (kill_switch, r2) = kill_switch_evidence (pb_kill_switch p (se_kill_switch_path s)) r1;
         (geoblock, r3) = geoblock_evidence (pb_geoblock p observed) r2;
         sdk_healthy = safe_boolean_probe (pb_sdk_health p);
         r4 = reason_if (\<not> sdk_healthy) ''sdk_unhealthy'' r3;
         wallet_configured = safe_boolean_probe (pb_wallet_configured p);
         r5 = reason_if (\<not> wallet_configured) ''wallet_not_configured'' r4;
         reconciliation = latest_reconciliation db observed;
         reasons = reconciliation_reasons reconciliation r5
     in readiness_check_post_init \<lparr>cc_candidate_git_sha = expected, cc_observed_at = Aware observed 0,
          cc_eligible = (reasons = []), cc_reasons = reasons,
          cc_evidence = [(''mode'', PStr (se_mode s)),
            (''live_trading_enabled'', PBool (se_live_trading_enabled s)),
            (''limits'', PDict [(''max_trade_size_usd'', PStr (dec_str trade)),
              (''max_total_exposure_usd'', PStr (dec_str exposure)), (''max_daily_loss_usd'', PStr (dec_str loss)),
              (''max_consecutive_losses'', PInt (se_max_consecutive_losses s))]),
            (''activation'', PDict activation), (''kill_switch'', PDict kill_switch), (''geoblock'', PDict geoblock),
            (''sdk_healthy'', PBool sdk_healthy), (''wallet_configured'', PBool wallet_configured),
            (''reconciliation'', PDict (reconciliation_evidence reconciliation))]\<rparr>)))"

definition store_check :: "(string \<Rightarrow> string) \<Rightarrow> live_db \<Rightarrow> int readiness_check \<Rightarrow> (live_db \<times> bool \<times> readiness_row) res" where
  "store_check H db check = store_readiness_check H db (cc_candidate_git_sha check) (Aware (cc_observed_at check) 0)
     (cc_eligible check) (cc_reasons check) (cc_evidence check) None"

section \<open>The report\<close>

definition get_or :: "pydict \<Rightarrow> string \<Rightarrow> pyval \<Rightarrow> pyval" where
  "get_or d k v = (case map_of d k of Some x \<Rightarrow> x | None \<Rightarrow> v)"

definition report_unavailable :: pydict where
  "report_unavailable = [(''eligible'', PBool False), (''reasons'', PList [PStr ''readiness_unavailable'']),
     (''candidate_git_sha'', PNone), (''observed_at'', PNone), (''mode'', PNone),
     (''live_trading_enabled'', PBool False), (''activation_authorized'', PBool False),
     (''kill_switch_engaged'', PBool True), (''geoblock_blocked'', PNone), (''country'', PNone), (''region'', PNone),
     (''sdk_healthy'', PBool False), (''wallet_configured'', PBool False),
     (''reconciliation_status'', PStr ''unavailable''), (''critical_discrepancy_count'', PNone)]"

definition get_report :: "live_db \<Rightarrow> pydict res" where
  "get_report db = (case newest rc_observed_at (ld_checks db) of
       None \<Rightarrow> Inr report_unavailable
     | Some readiness \<Rightarrow>
       ebind (dict_or_empty (rc_evidence readiness)) (\<lambda>evidence.
       let activation = mapping_of (dget evidence ''activation'');
           kill_switch = mapping_of (dget evidence ''kill_switch'');
           geoblock = mapping_of (dget evidence ''geoblock'');
           reconciliation = mapping_of (dget evidence ''reconciliation'');
           critical = (case newest lx_observed_at (ld_reconciliations db) of
               None \<Rightarrow> optional_int (dget reconciliation ''critical_count'')
             | Some x \<Rightarrow> Some (lx_critical_count x))
       in Inr [(''eligible'', PBool (rc_eligible readiness)),
         (''reasons'', if truthy (rc_reasons readiness) then rc_reasons readiness else PList []),
         (''candidate_git_sha'', PStr (rc_candidate_git_sha readiness)),
         (''observed_at'', PStr (iso_utc (rc_observed_at readiness))),
         (''mode'', dget evidence ''mode''),
         (''live_trading_enabled'', PBool (truthy (get_or evidence ''live_trading_enabled'' (PBool False)))),
         (''activation_authorized'', PBool (truthy (get_or activation ''authorized'' (PBool False)))),
         (''kill_switch_engaged'', PBool (truthy (get_or kill_switch ''engaged'' (PBool True)))),
         (''geoblock_blocked'', dget geoblock ''blocked''), (''country'', dget geoblock ''country''),
         (''region'', dget geoblock ''region''),
         (''sdk_healthy'', PBool (truthy (get_or evidence ''sdk_healthy'' (PBool False)))),
         (''wallet_configured'', PBool (truthy (get_or evidence ''wallet_configured'' (PBool False)))),
         (''reconciliation_status'', get_or reconciliation ''status'' (PStr ''unavailable'')),
         (''critical_discrepancy_count'', case critical of None \<Rightarrow> PNone | Some n \<Rightarrow> PInt n)]))"

section \<open>When live trading is allowed\<close>

lemma reason_lists [simp]:
  "append_new rs r \<noteq> []" "reason_if b r rs = [] \<longleftrightarrow> \<not> b \<and> rs = []"
  by (auto simp: append_new_def reason_if_def)

lemma safe_boolean_probe_iff [simp]: "safe_boolean_probe probe \<longleftrightarrow> probe = Some (PBool True)"
  by (auto simp: safe_boolean_probe_def is_true_def split: option.splits pyval.splits)

lemma evidence_reasons:
  "snd (activation_evidence loaded rs) = [] \<longleftrightarrow> (\<exists>m. loaded = Some m \<and> am_authorized m) \<and> rs = []"
  "snd (kill_switch_evidence switch rs) = [] \<longleftrightarrow> (\<exists>v. switch = Some v \<and> \<not> is_true v) \<and> rs = []"
  "snd (geoblock_evidence result rs) = [] \<longleftrightarrow> (\<exists>g. result = Some g \<and> \<not> gb_blocked g) \<and> rs = []"
  "reconciliation_reasons row rs = [] \<longleftrightarrow> (\<exists>x. row = Some x \<and> lx_critical_count x \<le> 0) \<and> rs = []"
  by (auto simp: activation_evidence_def kill_switch_evidence_def geoblock_evidence_def reconciliation_reasons_def
      Let_def split: option.splits)

lemma settings_reasons_Nil:
  "settings_reasons s (trade, exposure, loss) = [] \<longleftrightarrow> se_mode s = ''live'' \<and> se_live_trading_enabled s
    \<and> 0 < dval trade \<and> 0 < dval exposure \<and> 0 < dval loss \<and> 0 < se_max_consecutive_losses s"
  by (auto simp: settings_reasons_def dcmp)

lemma readiness_check_post_init_Inr:
  "readiness_check_post_init r = Inr c \<Longrightarrow> cc_eligible c = cc_eligible r \<and> cc_observed_at c = instant (cc_observed_at r)"
  by (auto simp: readiness_check_post_init_def sv_utc_def instant_def)


section \<open>A concrete check\<close>

definition ex_manifest_now :: manifest where
  "ex_manifest_now = \<lparr>am_authorized = True, am_git_sha = replicate 64 CHR ''a'', am_authorization_id = ''auth-1'',
     am_issued_at = 0, am_expires_at = 9000000\<rparr>"

definition ex_probes :: "pyval option \<Rightarrow> probes" where
  "ex_probes switch = \<lparr>pb_activation = (\<lambda>path sha t. if path = ''activation.json'' then Some ex_manifest_now else None),
     pb_kill_switch = (\<lambda>path. switch),
     pb_geoblock = (\<lambda>t. Some \<lparr>gb_blocked = False, gb_country = ''PT'', gb_region = ''11'', gb_checked_at = t\<rparr>),
     pb_sdk_health = Some (PBool True), pb_wallet_configured = Some (PBool True)\<rparr>"

definition ex_settings :: live_settings where
  "ex_settings = \<lparr>se_mode = ''live'', se_live_trading_enabled = True, se_max_trade_size_usd = PFloat ''5.0'',
     se_max_total_exposure_usd = PFloat ''20.0'', se_max_daily_loss_usd = PFloat ''10.0'', se_max_consecutive_losses = 3,
     se_activation_manifest_path = ''activation.json'', se_kill_switch_path = ''KILL''\<rparr>"

definition ex_checked_db :: live_db where
  "ex_checked_db = \<lparr>ld_checks = [], ld_risks = [], ld_intents = [], ld_order_events = [],
     ld_reconciliations = [\<lparr>lx_reconciliation_id = ''x1'', lx_observed_at = 1000000, lx_unresolved_count = 0,
       lx_critical_count = 0, lx_evidence = PDict [], lx_semantic_sha256 = replicate 64 CHR ''a'', lx_created_at = 1000000\<rparr>]\<rparr>"

definition ex_check :: "pyval option \<Rightarrow> int readiness_check res" where
  "ex_check switch = build_readiness_check ex_settings (ex_probes switch) ex_checked_db (replicate 64 CHR ''A'') (Aware 2000000 0)"

lemma ex_check_run:
  "ex_check (Some (PBool False)) = Inr (projr (ex_check (Some (PBool False))))" "ex_check None = Inr (projr (ex_check None))"
proof -
  have "\<not> isl (ex_check (Some (PBool False)))" "\<not> isl (ex_check None)" by code_simp+
  then show "ex_check (Some (PBool False)) = Inr (projr (ex_check (Some (PBool False))))"
    "ex_check None = Inr (projr (ex_check None))"
    by (simp_all add: not_isl_projr)
qed


end
