(* ===== verification/LiveReconcile.thy ===== *)
theory LiveReconcile
  imports LiveReadiness
begin

text \<open>
  Reconciliation (\<open>LiveReadinessService.reconcile_snapshot\<close>): the ledger's intents and order events
  against a snapshot of the venue's orders, every disagreement an issue. The venue's orders are
  an argument; an order is the record of its validated fields.
\<close>

section \<open>The venue's orders\<close>

record ('d, 't) official_order =
  oo_external_order_id :: string
  oo_token_id :: string
  oo_side :: string
  oo_status :: string
  oo_original_size :: 'd
  oo_filled_size :: 'd
  oo_limit_price :: 'd
  oo_average_fill_price :: "'d option"
  oo_observed_at :: 't

type_synonym snapshot = "(dec, int) official_order"

definition price_in :: "string \<Rightarrow> dec \<Rightarrow> unit res" where
  "price_in name d = (if dle d d0 \<or> dlt d1 d then Inl (ValueError (name @ '' must be within (0, 1]'')) else Inr ())"

definition official_order_post_init :: "(pyval, pytime) official_order \<Rightarrow> snapshot res" where
  "official_order_post_init o' =
     ebind (sv_text ''external_order_id'' (oo_external_order_id o')) (\<lambda>oid.
     ebind (sv_text ''token_id'' (oo_token_id o')) (\<lambda>token.
     ebind (sv_text ''side'' (oo_side o')) (\<lambda>side.
     ebind (require (upper side \<in> {''BUY'', ''SELL''}) (ValueError ''side must be BUY or SELL'')) (\<lambda>_.
     ebind (sv_text ''status'' (oo_status o')) (\<lambda>status.
     ebind (sv_decimal ''original_size'' (oo_original_size o')) (\<lambda>size.
     ebind (sv_decimal ''filled_size'' (oo_filled_size o')) (\<lambda>filled.
     ebind (sv_decimal ''limit_price'' (oo_limit_price o')) (\<lambda>limit.
     ebind (require (dlt d0 size) (ValueError ''original_size must be positive'')) (\<lambda>_.
     ebind (require (dle d0 filled) (ValueError ''filled_size must be nonnegative'')) (\<lambda>_.
     ebind (price_in ''limit_price'' limit) (\<lambda>_.
     ebind (optional_field (\<lambda>v. ebind (sv_decimal ''average_fill_price'' v) (\<lambda>d.
       ebind (price_in ''average_fill_price'' d) (\<lambda>_. Inr d))) (oo_average_fill_price o')) (\<lambda>average.
     ebind (sv_utc ''observed_at'' (oo_observed_at o')) (\<lambda>observed.
     Inr \<lparr>oo_external_order_id = oid, oo_token_id = token, oo_side = upper side, oo_status = lower status,
          oo_original_size = size, oo_filled_size = filled, oo_limit_price = limit,
          oo_average_fill_price = average, oo_observed_at = observed\<rparr>)))))))))))))"

section \<open>Issues\<close>

record issue =
  is_code :: string
  is_critical :: bool
  is_intent_id :: "string option"
  is_external_order_id :: "string option"
  is_evidence :: pydict

definition issue_post_init :: "issue \<Rightarrow> issue res" where
  "issue_post_init i =
     ebind (sv_text ''code'' (is_code i)) (\<lambda>code.
     ebind (optional_field (sv_text ''intent_id'') (is_intent_id i)) (\<lambda>iid.
     ebind (optional_field (sv_text ''external_order_id'') (is_external_order_id i)) (\<lambda>oid.
     Inr \<lparr>is_code = code, is_critical = is_critical i, is_intent_id = iid, is_external_order_id = oid,
          is_evidence = is_evidence i\<rparr>)))"

definition issue_mapping :: "issue \<Rightarrow> pyval" where
  "issue_mapping i = PDict
     [(''code'', PStr (is_code i)), (''critical'', PBool (is_critical i)), (''intent_id'', optional_str (is_intent_id i)),
      (''external_order_id'', optional_str (is_external_order_id i)), (''evidence'', PDict (is_evidence i))]"

definition or_blank :: "string option \<Rightarrow> string" where
  "or_blank v = (case v of None \<Rightarrow> [] | Some s \<Rightarrow> s)"

definition issue_key :: "issue \<Rightarrow> string \<times> string \<times> string" where
  "issue_key i = (is_code i, or_blank (is_external_order_id i), or_blank (is_intent_id i))"

definition add_issue :: "issue \<Rightarrow> issue list \<Rightarrow> issue list" where
  "add_issue i unique = (if issue_key i \<in> issue_key ` set unique then unique else unique @ [i])"

definition deduplicate_issues :: "issue list \<Rightarrow> issue list" where
  "deduplicate_issues issues = fold add_issue issues []"

definition critical_issue :: "string \<Rightarrow> string option \<Rightarrow> string option \<Rightarrow> pydict \<Rightarrow> issue" where
  "critical_issue code iid oid evidence = \<lparr>is_code = code, is_critical = True, is_intent_id = iid,
     is_external_order_id = oid, is_evidence = evidence\<rparr>"

definition issue_if :: "bool \<Rightarrow> issue \<Rightarrow> issue list" where
  "issue_if found i = (if found then [i] else [])"

section \<open>The ledger's side\<close>

definition intent_events :: "live_db \<Rightarrow> string \<Rightarrow> order_event_row list" where
  "intent_events db iid = filter (\<lambda>e. le_intent_id e = iid) (ld_order_events db)"

text \<open>The set of an intent's external ids; the code reads it only as a set and as its least element.\<close>

definition external_ids :: "live_db \<Rightarrow> string \<Rightarrow> string list" where
  "external_ids db iid = remdups (List.map_filter (\<lambda>e. nonempty_text (le_external_order_id e)) (intent_events db iid))"

definition intent_rejected :: "live_db \<Rightarrow> string \<Rightarrow> bool" where
  "intent_rejected db iid \<longleftrightarrow> (\<exists>e \<in> set (intent_events db iid). le_event_type e = ''rejected'')"

definition risk_of :: "live_db \<Rightarrow> string \<Rightarrow> risk_row option" where
  "risk_of db did = find (\<lambda>r. rk_decision_id r = did) (rev (ld_risks db))"

text \<open>Which intent an external id belongs to, and the ids claimed by two.\<close>

record claims =
  cl_owner :: "(string \<times> intent_row) list"
  cl_duplicates :: "string list"

definition claim_id :: "intent_row \<Rightarrow> string \<Rightarrow> claims \<Rightarrow> claims" where
  "claim_id i oid c = (case map_of (cl_owner c) oid of
       Some x \<Rightarrow> if li_intent_id x \<noteq> li_intent_id i then c\<lparr>cl_duplicates := oid # cl_duplicates c\<rparr>
         else c\<lparr>cl_owner := (oid, i) # cl_owner c\<rparr>
     | None \<Rightarrow> c\<lparr>cl_owner := (oid, i) # cl_owner c\<rparr>)"

definition local_claims :: "live_db \<Rightarrow> claims" where
  "local_claims db = fold (\<lambda>i. fold (claim_id i) (external_ids db (li_intent_id i))) (ld_intents db)
     \<lparr>cl_owner = [], cl_duplicates = []\<rparr>"

definition intent_issues :: "live_db \<Rightarrow> intent_row \<Rightarrow> issue list" where
  "intent_issues db i = (let iid = li_intent_id i; ids = external_ids db iid in
     issue_if (\<not> intent_rejected db iid \<and> ids = [])
       (critical_issue ''intent_without_external_result'' (Some iid) None
         [(''prediction_id'', PStr (li_prediction_id i))])
     @ issue_if (ids \<noteq> [] \<and> (case risk_of db (li_risk_decision_id i) of None \<Rightarrow> False | Some r \<Rightarrow> \<not> rk_eligible r))
       (critical_issue ''order_created_while_risk_blocked'' (Some iid) (Some (hd (sort ids)))
         [(''risk_decision_id'', PStr (li_risk_decision_id i))]))"

definition local_duplicate_issues :: "claims \<Rightarrow> issue list" where
  "local_duplicate_issues c = map (\<lambda>oid. critical_issue ''duplicate_external_order_id'' None (Some oid)
     [(''source'', PStr ''local_events'')]) (sort (remdups (cl_duplicates c)))"

section \<open>The venue's side\<close>

definition snapshot_ids :: "snapshot list \<Rightarrow> string list" where
  "snapshot_ids orders = sort (remdups (map oo_external_order_id orders))"

definition official_duplicate_issues :: "snapshot list \<Rightarrow> issue list" where
  "official_duplicate_issues orders = concat (map (\<lambda>oid. let n = count_list (map oo_external_order_id orders) oid in
     issue_if (1 < n) (critical_issue ''duplicate_external_order_id'' None (Some oid)
       [(''source'', PStr ''official_snapshot''), (''count'', PInt (int n))])) (snapshot_ids orders))"

definition known_statuses :: "string list" where
  "known_statuses = [''open'', ''live'', ''partially_filled'', ''filled'', ''matched'', ''cancelled'', ''canceled'',
     ''expired'', ''rejected'']"

definition cancellation_statuses :: "string list" where
  "cancellation_statuses = [''cancelled'', ''canceled'']"

definition order_issues :: "live_db \<Rightarrow> int \<Rightarrow> dec \<Rightarrow> intent_row \<Rightarrow> snapshot \<Rightarrow> issue list" where
  "order_issues db observed stale i o' =
     (let iid = li_intent_id i; size = li_size i; limit = li_limit_price i; side = upper (li_side i);
          age = seconds_dec (observed - oo_observed_at o');
          mk = (\<lambda>code. critical_issue code (Some iid) (Some (oo_external_order_id o')))
      in issue_if (oo_token_id o' \<noteq> li_token_id i)
           (mk ''external_token_mismatch'' [(''expected_token_id'', PStr (li_token_id i))])
       @ issue_if (oo_side o' \<noteq> side) (mk ''external_side_mismatch'' [(''expected_side'', PStr side)])
       @ issue_if (\<not> deq (oo_original_size o') size) (mk ''external_order_size_mismatch''
           [(''requested_size'', PStr (dec_str size)), (''official_original_size'', PStr (dec_str (oo_original_size o')))])
       @ issue_if (\<not> deq (oo_limit_price o') limit) (mk ''external_limit_price_mismatch''
           [(''local_limit_price'', PStr (dec_str limit)), (''official_limit_price'', PStr (dec_str (oo_limit_price o')))])
       @ issue_if (dlt size (oo_filled_size o')) (mk ''filled_amount_exceeds_request''
           [(''requested_size'', PStr (dec_str size)), (''filled_size'', PStr (dec_str (oo_filled_size o')))])
       @ (case oo_average_fill_price o' of None \<Rightarrow> []
          | Some average \<Rightarrow> issue_if (side = ''BUY'' \<and> dlt limit average) (mk ''fill_price_above_limit''
              [(''limit_price'', PStr (dec_str limit)), (''average_fill_price'', PStr (dec_str average))]))
       @ issue_if (oo_status o' \<notin> set known_statuses) (mk ''unknown_external_state'' [(''status'', PStr (oo_status o'))])
       @ (if dlt age d0 then [mk ''external_state_from_future'' []]
          else issue_if (dlt stale age) (mk ''stale_external_state'' [(''age_seconds'', PStr (dec_str age))]))
       @ issue_if ((\<exists>e \<in> set (intent_events db iid). le_event_type e = ''cancelled'') \<and> oo_status o' \<notin> set cancellation_statuses)
           (mk ''cancellation_disagreement'' [(''official_status'', PStr (oo_status o'))]))"

definition snapshot_issues :: "live_db \<Rightarrow> claims \<Rightarrow> int \<Rightarrow> dec \<Rightarrow> snapshot list \<Rightarrow> string \<Rightarrow> issue list" where
  "snapshot_issues db c observed stale orders oid = (case find (\<lambda>o'. oo_external_order_id o' = oid) orders of
       None \<Rightarrow> []
     | Some o' \<Rightarrow> (case map_of (cl_owner c) oid of
           None \<Rightarrow> [critical_issue ''external_order_without_local_intent'' None (Some oid) [(''status'', PStr (oo_status o'))]]
         | Some i \<Rightarrow> order_issues db observed stale i o'))"

section \<open>A reconciliation run\<close>

definition found_issues :: "live_db \<Rightarrow> snapshot list \<Rightarrow> int \<Rightarrow> dec \<Rightarrow> issue list" where
  "found_issues db orders observed stale = (let c = local_claims db in
     concat (map (intent_issues db) (ld_intents db)) @ local_duplicate_issues c @ official_duplicate_issues orders
     @ concat (map (snapshot_issues db c observed stale orders) (snapshot_ids orders)))"

definition reconciliation_issues :: "live_db \<Rightarrow> snapshot list \<Rightarrow> int \<Rightarrow> dec \<Rightarrow> issue list res" where
  "reconciliation_issues db orders observed stale =
     ebind (emap issue_post_init (found_issues db orders observed stale)) (\<lambda>issues. Inr (deduplicate_issues issues))"

record 't reconciliation_result =
  rr_observed_at :: 't
  rr_unresolved_count :: int
  rr_critical_count :: int
  rr_issues :: "issue list"

definition critical_of :: "issue list \<Rightarrow> int" where
  "critical_of issues = int (length (filter is_critical issues))"

definition reconciliation_result_post_init :: "pytime reconciliation_result \<Rightarrow> int reconciliation_result res" where
  "reconciliation_result_post_init r =
     ebind (sv_utc ''observed_at'' (rr_observed_at r)) (\<lambda>observed.
     ebind (require (0 \<le> rr_unresolved_count r) (ValueError ''unresolved_count must be nonnegative'')) (\<lambda>_.
     ebind (require (0 \<le> rr_critical_count r \<and> rr_critical_count r \<le> rr_unresolved_count r)
       (ValueError ''critical_discrepancy_count must be within unresolved count'')) (\<lambda>_.
     ebind (require (rr_unresolved_count r = int (length (rr_issues r)))
       (ValueError ''unresolved_count must equal issue count'')) (\<lambda>_.
     ebind (require (critical_of (rr_issues r) = rr_critical_count r)
       (ValueError ''critical_discrepancy_count must equal critical issue count'')) (\<lambda>_.
     Inr \<lparr>rr_observed_at = observed, rr_unresolved_count = rr_unresolved_count r,
          rr_critical_count = rr_critical_count r, rr_issues = rr_issues r\<rparr>)))))"

definition reconciliation_run_evidence :: "live_db \<Rightarrow> snapshot list \<Rightarrow> issue list \<Rightarrow> pydict" where
  "reconciliation_run_evidence db orders issues =
     [(''local_intent_count'', PInt (int (length (ld_intents db)))),
      (''local_event_count'', PInt (int (length (ld_order_events db)))),
      (''official_order_count'', PInt (int (length orders))),
      (''issues'', PList (map issue_mapping issues))]"

definition reconcile_snapshot ::
  "(string \<Rightarrow> string) \<Rightarrow> dec \<Rightarrow> live_db \<Rightarrow> snapshot list \<Rightarrow> pytime \<Rightarrow> (live_db \<times> int reconciliation_result) res" where
  "reconcile_snapshot H stale db orders observed_at =
     ebind (sv_utc ''observed_at'' observed_at) (\<lambda>observed.
     ebind (reconciliation_issues db orders observed stale) (\<lambda>issues.
     let sorted_issues = sort_key issue_key issues in
     ebind (reconciliation_result_post_init \<lparr>rr_observed_at = Aware observed 0,
       rr_unresolved_count = int (length sorted_issues), rr_critical_count = critical_of sorted_issues,
       rr_issues = sorted_issues\<rparr>) (\<lambda>result.
     ebind (store_reconciliation_run H db (Aware observed 0) (rr_unresolved_count result) (rr_critical_count result)
       (reconciliation_run_evidence db orders (rr_issues result))) (\<lambda>(db', created, x).
     Inr (db', result)))))"

section \<open>Who owns an external id\<close>

definition claimed :: "live_db \<Rightarrow> (intent_row \<times> string) list" where
  "claimed db = concat (map (\<lambda>i. map (\<lambda>oid. (i, oid)) (external_ids db (li_intent_id i))) (ld_intents db))"

definition claim_all :: "(intent_row \<times> string) list \<Rightarrow> claims \<Rightarrow> claims" where
  "claim_all ps c = fold (\<lambda>(i, oid). claim_id i oid) ps c"

lemma local_claims_claimed: "local_claims db = claim_all (claimed db) \<lparr>cl_owner = [], cl_duplicates = []\<rparr>"
proof -
  have "fold (\<lambda>i. fold (claim_id i) (f i)) is c = claim_all (concat (map (\<lambda>i. map (\<lambda>oid. (i, oid)) (f i)) is)) c" for f "is" c
  proof (induction "is" arbitrary: c)
    case (Cons i "is")
    have "fold (claim_id i) xs c = claim_all (map (\<lambda>oid. (i, oid)) xs) c" for xs
      by (induction xs arbitrary: c) (simp_all add: claim_all_def)
    with Cons show ?case by (simp add: claim_all_def)
  qed (simp add: claim_all_def)
  then show ?thesis by (simp add: local_claims_def claimed_def)
qed

lemma set_claimed: "(i, oid) \<in> set (claimed db) \<longleftrightarrow> i \<in> set (ld_intents db) \<and> oid \<in> set (external_ids db (li_intent_id i))"
  by (auto simp: claimed_def)

definition claims_inv :: "(intent_row \<times> string) set \<Rightarrow> claims \<Rightarrow> bool" where
  "claims_inv done c \<longleftrightarrow> (\<forall>oid x. map_of (cl_owner c) oid = Some x \<longrightarrow> (x, oid) \<in> done)
     \<and> (\<forall>i oid. (i, oid) \<in> done \<longrightarrow> (\<exists>x. map_of (cl_owner c) oid = Some x
          \<and> (li_intent_id x = li_intent_id i \<or> oid \<in> set (cl_duplicates c))))
     \<and> (\<forall>oid \<in> set (cl_duplicates c). \<exists>i j. (i, oid) \<in> done \<and> (j, oid) \<in> done \<and> li_intent_id i \<noteq> li_intent_id j)"

lemma claim_id_inv:
  assumes "claims_inv done c" shows "claims_inv (insert (i, oid) done) (claim_id i oid c)"
proof (cases "map_of (cl_owner c) oid")
  case None
  with assms show ?thesis by (auto simp: claims_inv_def claim_id_def; (metis option.distinct(1) | blast))
next
  case (Some x)
  then have x: "(x, oid) \<in> done" using assms by (simp add: claims_inv_def)
  show ?thesis
  proof (cases "li_intent_id x = li_intent_id i")
    case True
    with Some assms show ?thesis by (auto simp: claims_inv_def claim_id_def) (metis option.sel)+
  next
    case False
    with Some assms x show ?thesis by (auto simp: claims_inv_def claim_id_def) metis+
  qed
qed

lemma claim_all_inv: "claims_inv done c \<Longrightarrow> claims_inv (set ps \<union> done) (claim_all ps c)"
proof (induction ps arbitrary: "done" c)
  case (Cons p ps)
  obtain i oid where p: "p = (i, oid)" by fastforce
  from Cons.IH [OF claim_id_inv [OF Cons.prems, of i oid]] show ?case by (simp add: p claim_all_def)
qed (simp add: claim_all_def)

lemma local_claims_inv: "claims_inv (set (claimed db)) (local_claims db)"
  using claim_all_inv [of "{}" "\<lparr>cl_owner = [], cl_duplicates = []\<rparr>" "claimed db"]
  by (simp add: local_claims_claimed) (simp add: claims_inv_def)

text \<open>No external id is claimed by two intents; then the owner of an id is the intent that has it.\<close>

definition ids_exclusive :: "live_db \<Rightarrow> bool" where
  "ids_exclusive db \<longleftrightarrow> (\<forall>i \<in> set (ld_intents db). \<forall>j \<in> set (ld_intents db). li_intent_id i \<noteq> li_intent_id j
     \<longrightarrow> set (external_ids db (li_intent_id i)) \<inter> set (external_ids db (li_intent_id j)) = {})"

lemma no_duplicates: "cl_duplicates (local_claims db) = [] \<longleftrightarrow> ids_exclusive db"
proof
  assume d: "cl_duplicates (local_claims db) = []"
  have "li_intent_id i = li_intent_id j" if "(i, oid) \<in> set (claimed db)" "(j, oid) \<in> set (claimed db)" for i j oid
    using local_claims_inv [of db] that d by (auto simp: claims_inv_def) (metis option.inject)
  then show "ids_exclusive db" by (auto simp: ids_exclusive_def set_claimed)
next
  assume e: "ids_exclusive db"
  show "cl_duplicates (local_claims db) = []"
  proof (rule ccontr)
    assume "cl_duplicates (local_claims db) \<noteq> []"
    then obtain oid where "oid \<in> set (cl_duplicates (local_claims db))" by (cases "cl_duplicates (local_claims db)") auto
    with local_claims_inv [of db] obtain i j where "(i, oid) \<in> set (claimed db)" "(j, oid) \<in> set (claimed db)"
      "li_intent_id i \<noteq> li_intent_id j" by (auto simp: claims_inv_def)
    with e show False by (auto simp: ids_exclusive_def set_claimed)
  qed
qed

lemma owner_iff:
  assumes "ids_exclusive db" and "unique_on li_intent_id (ld_intents db)"
  shows "map_of (cl_owner (local_claims db)) oid = Some i
    \<longleftrightarrow> i \<in> set (ld_intents db) \<and> oid \<in> set (external_ids db (li_intent_id i))"
proof
  assume "map_of (cl_owner (local_claims db)) oid = Some i"
  then show "i \<in> set (ld_intents db) \<and> oid \<in> set (external_ids db (li_intent_id i))"
    using local_claims_inv [of db] by (simp add: claims_inv_def set_claimed)
next
  assume i: "i \<in> set (ld_intents db) \<and> oid \<in> set (external_ids db (li_intent_id i))"
  then obtain x where x: "map_of (cl_owner (local_claims db)) oid = Some x" "li_intent_id x = li_intent_id i"
    using local_claims_inv [of db] assms(1) no_duplicates [of db] by (fastforce simp: claims_inv_def set_claimed)
  moreover have "x \<in> set (ld_intents db)" using x(1) local_claims_inv [of db] by (simp add: claims_inv_def set_claimed)
  ultimately show "map_of (cl_owner (local_claims db)) oid = Some i"
    using assms(2) i unique_on_inj by fastforce
qed

section \<open>Issues are critical, unique and sorted\<close>

lemma set_issue_if [simp]: "x \<in> set (issue_if b i) \<longleftrightarrow> b \<and> x = i" "issue_if b i = [] \<longleftrightarrow> \<not> b"
  by (auto simp: issue_if_def)

lemma critical_issue_critical [simp]: "is_critical (critical_issue code iid oid evidence)"
  by (simp add: critical_issue_def)

lemma order_issues_critical: "x \<in> set (order_issues db observed stale i o') \<Longrightarrow> is_critical x"
  by (auto simp: order_issues_def Let_def split: option.splits if_splits)

lemma found_issues_critical: "x \<in> set (found_issues db orders observed stale) \<Longrightarrow> is_critical x"
  by (auto simp: found_issues_def Let_def intent_issues_def local_duplicate_issues_def
      official_duplicate_issues_def snapshot_issues_def order_issues_critical split: option.splits)

lemma issue_post_init_critical: "issue_post_init i = Inr j \<Longrightarrow> is_critical j = is_critical i"
  by (auto simp: issue_post_init_def)

lemma fold_add_issue:
  assumes "distinct (map issue_key acc)"
  shows "distinct (map issue_key (fold add_issue is acc)) \<and> set acc \<subseteq> set (fold add_issue is acc)
    \<and> set (fold add_issue is acc) \<subseteq> set acc \<union> set is
    \<and> issue_key ` set (fold add_issue is acc) = issue_key ` (set acc \<union> set is)"
  using assms
proof (induction "is" arbitrary: acc)
  case (Cons i "is")
  show ?case
  proof (cases "issue_key i \<in> issue_key ` set acc")
    case True
    with Cons.IH [OF Cons.prems] show ?thesis by (auto simp: add_issue_def)
  next
    case False
    with Cons.prems have "distinct (map issue_key (acc @ [i]))" by auto
    from Cons.IH [OF this] False show ?thesis by (auto simp: add_issue_def)
  qed
qed simp

lemma deduplicate_issues:
  "distinct (map issue_key (deduplicate_issues is))" "set (deduplicate_issues is) \<subseteq> set is"
  "issue_key ` set (deduplicate_issues is) = issue_key ` set is" "deduplicate_issues is = [] \<longleftrightarrow> is = []"
proof -
  show d: "distinct (map issue_key (deduplicate_issues is))" "set (deduplicate_issues is) \<subseteq> set is"
    and k: "issue_key ` set (deduplicate_issues is) = issue_key ` set is"
    using fold_add_issue [of "[]" "is"] by (auto simp: deduplicate_issues_def)
  show "deduplicate_issues is = [] \<longleftrightarrow> is = []" using k by (metis image_is_empty set_empty)
qed

lemma emap_set: "emap f xs = Inr ys \<Longrightarrow> y \<in> set ys \<Longrightarrow> \<exists>x \<in> set xs. f x = Inr y"
  by (induction xs arbitrary: ys) auto

lemma emap_Nil: "emap f xs = Inr ys \<Longrightarrow> ys = [] \<longleftrightarrow> xs = []"
  by (cases xs) auto

lemma reconcile_snapshot_Inr:
  assumes "reconcile_snapshot H stale db orders t = Inr (db', res)"
  obtains observed off issues created x where "t = Aware observed off"
    "reconciliation_issues db orders observed stale = Inr issues" "rr_observed_at res = observed"
    "rr_issues res = sort_key issue_key issues" "rr_unresolved_count res = int (length issues)"
    "rr_critical_count res = critical_of issues"
    "store_reconciliation_run H db (Aware observed 0) (int (length issues)) (critical_of issues)
       (reconciliation_run_evidence db orders (sort_key issue_key issues)) = Inr (db', created, x)"
proof -
  have c: "critical_of (sort_key issue_key is) = critical_of is" for "is"
    by (simp add: critical_of_def filter_sort)
  show ?thesis
    using assms that by (auto simp: reconcile_snapshot_def sv_utc_def Let_def reconciliation_result_post_init_def c)
qed

lemma reconciliation_issues_critical:
  assumes "reconciliation_issues db orders observed stale = Inr issues"
  shows "critical_of issues = int (length issues)" "distinct (map issue_key issues)"
    "issues = [] \<longleftrightarrow> found_issues db orders observed stale = []"
proof -
  from assms obtain js where js: "emap issue_post_init (found_issues db orders observed stale) = Inr js"
    and issues: "issues = deduplicate_issues js" by (auto simp: reconciliation_issues_def)
  have "\<forall>x \<in> set issues. is_critical x"
    using emap_set [OF js] deduplicate_issues(2) [of js] found_issues_critical issue_post_init_critical
    by (fastforce simp: issues)
  then have "filter is_critical issues = issues" by simp
  then show "critical_of issues = int (length issues)" by (simp add: critical_of_def)
  show "distinct (map issue_key issues)" by (simp add: issues deduplicate_issues)
  show "issues = [] \<longleftrightarrow> found_issues db orders observed stale = []"
    using emap_Nil [OF js] by (simp add: issues deduplicate_issues)
qed

section \<open>What a clean reconciliation proves\<close>

text \<open>The venue's order is the intent's, up to the value of its amounts.\<close>

definition order_agrees :: "live_db \<Rightarrow> int \<Rightarrow> dec \<Rightarrow> intent_row \<Rightarrow> snapshot \<Rightarrow> bool" where
  "order_agrees db observed stale i o' \<longleftrightarrow> oo_token_id o' = li_token_id i \<and> oo_side o' = upper (li_side i)
     \<and> dval (oo_original_size o') = dval (li_size i) \<and> dval (oo_limit_price o') = dval (li_limit_price i)
     \<and> dval (oo_filled_size o') \<le> dval (li_size i)
     \<and> (upper (li_side i) = ''BUY'' \<longrightarrow> (\<forall>p. oo_average_fill_price o' = Some p \<longrightarrow> dval p \<le> dval (li_limit_price i)))
     \<and> oo_status o' \<in> set known_statuses
     \<and> oo_observed_at o' \<le> observed \<and> of_int (observed - oo_observed_at o') / 1000000 \<le> dval stale
     \<and> ((\<exists>e \<in> set (intent_events db (li_intent_id i)). le_event_type e = ''cancelled'')
          \<longrightarrow> oo_status o' \<in> set cancellation_statuses)"

definition ledger_agrees :: "live_db \<Rightarrow> snapshot list \<Rightarrow> int \<Rightarrow> dec \<Rightarrow> bool" where
  "ledger_agrees db orders observed stale \<longleftrightarrow>
     (\<forall>i \<in> set (ld_intents db). intent_rejected db (li_intent_id i) \<or> external_ids db (li_intent_id i) \<noteq> [])
     \<and> (\<forall>i \<in> set (ld_intents db). \<forall>r. external_ids db (li_intent_id i) \<noteq> []
          \<and> risk_of db (li_risk_decision_id i) = Some r \<longrightarrow> rk_eligible r)
     \<and> ids_exclusive db \<and> distinct (map oo_external_order_id orders)
     \<and> (\<forall>o' \<in> set orders. \<exists>i \<in> set (ld_intents db). oo_external_order_id o' \<in> set (external_ids db (li_intent_id i))
          \<and> order_agrees db observed stale i o')"

lemma order_issues_Nil: "order_issues db observed stale i o' = [] \<longleftrightarrow> order_agrees db observed stale i o'"
proof -
  have age: "dval d0 \<le> rat_of_int (observed - oo_observed_at o') / 1000000 \<longleftrightarrow> oo_observed_at o' \<le> observed"
    by (simp add: zero_le_divide_iff)
  have if_Nil: "(if b then [x] else issue_if c y) = [] \<longleftrightarrow> \<not> b \<and> \<not> c" for b c x y
    by simp
  have average: "(case p of None \<Rightarrow> [] | Some a \<Rightarrow> issue_if (b \<and> f a) (g a)) = [] \<longleftrightarrow> (b \<longrightarrow> (\<forall>a. p = Some a \<longrightarrow> \<not> f a))"
    for p b f and g :: "dec \<Rightarrow> issue"
    by (cases p) auto
  show ?thesis
    unfolding order_issues_def order_agrees_def Let_def deq_iff dlt_iff append_is_Nil_conv set_issue_if if_Nil average
      not_less dval_seconds_dec age
    by blast
qed

lemma distinct_count_list: "distinct xs \<longleftrightarrow> (\<forall>x \<in> set xs. count_list xs x \<le> 1)"
proof (induction xs)
  case (Cons a xs)
  show ?case
  proof (cases "a \<in> set xs")
    case True
    then have "0 < count_list xs a" by (simp add: count_list_0_iff neq0_conv [symmetric] del: neq0_conv)
    with True show ?thesis by auto
  next
    case False
    then have "count_list (a # xs) a = 1" "x \<in> set xs \<Longrightarrow> count_list (a # xs) x = count_list xs x" for x
      by (auto simp: count_list_0_iff)
    then have "(\<forall>x \<in> set (a # xs). count_list (a # xs) x \<le> 1) \<longleftrightarrow> (\<forall>x \<in> set xs. count_list xs x \<le> 1)"
      by (metis list.set_intros(2) order_refl set_ConsD)
    with False Cons.IH show ?thesis by simp
  qed
qed simp

lemma official_duplicates_Nil: "official_duplicate_issues orders = [] \<longleftrightarrow> distinct (map oo_external_order_id orders)"
  unfolding distinct_count_list by (auto simp: official_duplicate_issues_def Let_def snapshot_ids_def not_less)

lemma intent_issues_Nil:
  "intent_issues db i = [] \<longleftrightarrow> (intent_rejected db (li_intent_id i) \<or> external_ids db (li_intent_id i) \<noteq> [])
    \<and> (\<forall>r. external_ids db (li_intent_id i) \<noteq> [] \<and> risk_of db (li_risk_decision_id i) = Some r \<longrightarrow> rk_eligible r)"
  by (auto simp: intent_issues_def Let_def split: option.splits)

lemma local_duplicates_Nil: "local_duplicate_issues (local_claims db) = [] \<longleftrightarrow> ids_exclusive db"
  by (simp add: local_duplicate_issues_def flip: no_duplicates)
    (metis remdups_eq_nil_iff set_empty2 set_sort)

lemma snapshot_issues_Nil:
  assumes "ids_exclusive db" and "unique_on li_intent_id (ld_intents db)" and "distinct (map oo_external_order_id orders)"
    and "o' \<in> set orders"
  shows "snapshot_issues db (local_claims db) observed stale orders (oo_external_order_id o') = []
    \<longleftrightarrow> (\<exists>i \<in> set (ld_intents db). oo_external_order_id o' \<in> set (external_ids db (li_intent_id i))
          \<and> order_agrees db observed stale i o')"
proof -
  have "find (\<lambda>x. oo_external_order_id x = oo_external_order_id o') orders = Some o'"
    using assms(3,4) by (induction orders) auto
  moreover note owner = owner_iff [OF assms(1,2), of "oo_external_order_id o'"]
  ultimately show ?thesis
  proof (cases "map_of (cl_owner (local_claims db)) (oo_external_order_id o')")
    case (Some x)
    with owner have "i \<in> set (ld_intents db) \<and> oo_external_order_id o' \<in> set (external_ids db (li_intent_id i)) \<longleftrightarrow> x = i" for i
      by simp
    then have "(\<exists>i \<in> set (ld_intents db). oo_external_order_id o' \<in> set (external_ids db (li_intent_id i))
        \<and> order_agrees db observed stale i o') \<longleftrightarrow> order_agrees db observed stale x o'" by metis
    with \<open>find _ _ = _\<close> Some show ?thesis by (simp add: snapshot_issues_def order_issues_Nil)
  qed (auto simp: snapshot_issues_def)
qed

lemma found_issues_Nil:
  assumes "unique_on li_intent_id (ld_intents db)"
  shows "found_issues db orders observed stale = [] \<longleftrightarrow> ledger_agrees db orders observed stale"
proof (cases "ids_exclusive db \<and> distinct (map oo_external_order_id orders)")
  case True
  then have "concat (map (snapshot_issues db (local_claims db) observed stale orders) (snapshot_ids orders)) = []
      \<longleftrightarrow> (\<forall>o' \<in> set orders. \<exists>i \<in> set (ld_intents db). oo_external_order_id o' \<in> set (external_ids db (li_intent_id i))
          \<and> order_agrees db observed stale i o')"
    using snapshot_issues_Nil [OF _ assms] by (auto simp: snapshot_ids_def)
  moreover have "concat (map (intent_issues db) (ld_intents db)) = [] \<longleftrightarrow> (\<forall>i \<in> set (ld_intents db). intent_issues db i = [])"
    by auto
  ultimately show ?thesis
    using True
    by (simp only: found_issues_def Let_def append_is_Nil_conv local_duplicates_Nil official_duplicates_Nil
        ledger_agrees_def intent_issues_Nil) blast
next
  case False
  then show ?thesis
    by (auto simp: found_issues_def Let_def local_duplicates_Nil official_duplicates_Nil ledger_agrees_def)
qed


end
