(* ===== verification/LiveGateway.thy ===== *)
theory LiveGateway
  imports LiveAccount
begin

text \<open>
  The live gateway (\<open>bp_engine/execution/live.py\<close>, class \<open>PolymarketLiveExecutionGateway\<close>). A
  submission is one transaction that ends with a durable intent, then one call to the trading
  client, then one transaction that records what came back; a cancellation is a read, a call and
  a record. The world holds the ledger, the predictions and market states the gateway reads, and
  the calls made to the trading client, in order. What lies outside is an environment per tick:
  the clock, the interlock and health callbacks, and what the client answers (\<open>None\<close> where it
  raises). \<open>H\<close> is SHA-256 and \<open>N\<close> the coercion of a decimal to a NUMERIC(38, 18) column.
\<close>

section \<open>Interlock decisions and client results\<close>

record interlock =
  il_eligible :: bool
  il_reasons :: "string list"

definition interlock_post_init :: "interlock \<Rightarrow> interlock res" where
  "interlock_post_init i =
     ebind (efold (\<lambda>reason acc. if strip reason = []
         then Inl (ValueError ''interlock reasons must contain nonblank strings'')
         else Inr (append_new acc (strip reason))) (il_reasons i) []) (\<lambda>reasons.
     ebind (require (\<not> (il_eligible i \<and> reasons \<noteq> []))
       (ValueError ''eligible interlock decision cannot contain blocking reasons'')) (\<lambda>_.
     Inr (i\<lparr>il_reasons := reasons\<rparr>)))"

record order_result =
  or_accepted :: bool
  or_external_order_id :: "string option"
  or_status :: string
  or_code :: string
  or_message :: string

record cancel_result =
  cr_cancelled :: bool
  cr_status :: string
  cr_message :: string

section \<open>The world and its environment\<close>

text \<open>A call to the trading client; a submission is labelled with the intent it is made for.\<close>

datatype network_call = NetSubmit string string dec dec | NetCancel string

record live_world =
  lw_db :: live_db
  lw_predictions :: "live_prediction list"
  lw_states :: "market_state list"
  lw_network :: "network_call list"
  lw_tick :: nat

record live_env =
  en_now :: pytime
  en_interlock :: "int \<Rightarrow> interlock option"
  en_api_health :: "bool option"
  en_client :: bool
  en_submit :: "string \<Rightarrow> dec \<Rightarrow> dec \<Rightarrow> order_result option"
  en_cancel :: "string \<Rightarrow> cancel_result option"

definition safe_interlock :: "live_env \<Rightarrow> int \<Rightarrow> interlock" where
  "safe_interlock env observed = (case en_interlock env observed of Some d \<Rightarrow> d
     | None \<Rightarrow> \<lparr>il_eligible = False, il_reasons = [''live_interlock_error'']\<rparr>)"

definition safe_api_health :: "live_env \<Rightarrow> bool" where
  "safe_api_health env \<longleftrightarrow> en_api_health env = Some True"

section \<open>Submitting: the transaction before the call\<close>

text \<open>What the transaction ends in: an answer, or the intent to submit.\<close>

datatype submission = Answer "int order_ack" | Submit string

definition context_values ::
  "live_prediction \<Rightarrow> request \<Rightarrow> dec option \<Rightarrow> int \<Rightarrow> bool \<Rightarrow> bool \<Rightarrow> account_snapshot \<Rightarrow> (pyval, pytime) live_context" where
  "context_values p r liquidity observed healthy duplicate account =
     \<lparr>lc_prediction_id = lp_prediction_id p, lc_prediction_semantic_sha256 = lp_semantic_sha256 p,
      lc_recorded_at = Aware (lp_recorded_at p) 0, lc_market_end_at = Aware (lp_market_end_at p) 0,
      lc_trade = lp_trade p, lc_executable = lp_executable p,
      lc_probability = PDec (Finite (lp_calibrated_probability p)),
      lc_expected_edge = PDec (Finite (case lp_cost_adjusted_edge p of Some e \<Rightarrow> e | None \<Rightarrow> Dec (-1) 0)),
      lc_selected_ask = map_option (\<lambda>d. PDec (Finite d)) (lp_selected_ask p),
      lc_spread = map_option (\<lambda>d. PDec (Finite d)) (lp_selected_spread p),
      lc_selected_liquidity_usd = map_option (\<lambda>d. PDec (Finite d)) liquidity,
      lc_requested_notional_usd = PDec (Finite (rq_target_notional_usd r)),
      lc_observed_at = Aware observed 0, lc_api_healthy = healthy, lc_duplicate_intent = duplicate,
      lc_account = account\<rparr>"

definition risk_evidence :: "string \<Rightarrow> request \<Rightarrow> dec option \<Rightarrow> bool \<Rightarrow> interlock \<Rightarrow> bool \<Rightarrow> pydict" where
  "risk_evidence request_id r liquidity healthy lock duplicate =
     [(''request_id'', PStr request_id), (''condition_id'', PStr (rq_condition_id r)),
      (''token_id'', PStr (rq_token_id r)), (''selected_side'', PStr (rq_selected_side r)),
      (''requested_notional_usd'', PDec (Finite (rq_target_notional_usd r))),
      (''selected_liquidity_usd'', optional_dec liquidity), (''api_healthy'', PBool healthy),
      (''interlock_eligible'', PBool (il_eligible lock)),
      (''interlock_reasons'', PList (map PStr (il_reasons lock))), (''duplicate_intent'', PBool duplicate)]"

definition intent_values :: "string \<Rightarrow> string \<Rightarrow> string \<Rightarrow> request \<Rightarrow> int \<Rightarrow> (pyval, pytime) intent_input" where
  "intent_values version request_id decision_id r observed =
     \<lparr>ii_prediction_id = rq_prediction_id r, ii_policy_version = version, ii_request_id = request_id,
      ii_risk_decision_id = decision_id, ii_token_id = rq_token_id r, ii_side = rq_action r,
      ii_size = PDec (Finite (rq_requested_shares r)), ii_limit_price = PDec (Finite (rq_limit_price r)),
      ii_pre_submit_at = Aware observed 0, ii_evidence =
        [(''prediction_semantic_sha256'', PStr (rq_prediction_semantic_sha256 r)),
         (''condition_id'', PStr (rq_condition_id r)), (''selected_side'', PStr (rq_selected_side r)),
         (''execution_version'', PStr (rq_execution_version r)),
         (''execution_config_sha256'', PStr (rq_execution_config_sha256 r))]\<rparr>"

text \<open>The risk decision of a request, and its row.\<close>

definition decide ::
  "(string \<Rightarrow> string) \<Rightarrow> dec live_policy \<Rightarrow> live_env \<Rightarrow> live_world \<Rightarrow> request \<Rightarrow> string \<Rightarrow> int \<Rightarrow> live_prediction
    \<Rightarrow> bool \<Rightarrow> (risk_decision \<times> live_db \<times> risk_row) res" where
  "decide H policy env w r request_id observed p duplicate =
     ebind (read_account (lw_db w) observed) (\<lambda>account.
     ebind (selected_liquidity_usd (lw_states w) p r observed (lr_max_prediction_age_seconds policy)) (\<lambda>liquidity.
     let lock = safe_interlock env observed; healthy = safe_api_health env in
     ebind (live_context_post_init (context_values p r liquidity observed healthy duplicate account)) (\<lambda>context.
     ebind (evaluate_live_risk H policy context (il_eligible lock) (il_reasons lock)) (\<lambda>decision.
     ebind (store_risk_decision H (lw_db w) (rq_prediction_id r) (rq_prediction_semantic_sha256 r)
       (lr_policy_version policy) decision (live_account_mapping account)
       (risk_evidence request_id r liquidity healthy lock duplicate) (Aware observed 0)) (\<lambda>(db, created, risk).
     Inr (decision, db, risk))))))"

definition first_reason :: "risk_decision \<Rightarrow> string" where
  "first_reason d = (case rd_reasons d of [] \<Rightarrow> ''live_risk_blocked'' | reason # _ \<Rightarrow> reason)"

definition decide_and_intend ::
  "(string \<Rightarrow> string) \<Rightarrow> (dec \<Rightarrow> dec res) \<Rightarrow> dec live_policy \<Rightarrow> live_env \<Rightarrow> live_world \<Rightarrow> request \<Rightarrow> string \<Rightarrow> int
    \<Rightarrow> live_prediction \<Rightarrow> bool \<Rightarrow> (live_db \<times> submission) res" where
  "decide_and_intend H N policy env w r request_id observed p duplicate =
     ebind (decide H policy env w r request_id observed p duplicate) (\<lambda>(decision, db, risk).
     if \<not> rd_eligible decision
     then ebind (order_ack_of request_id False observed (first_reason decision)) (\<lambda>ack. Inr (db, Answer ack))
     else ebind (store_order_intent H N db
         (intent_values (lr_policy_version policy) request_id (rk_decision_id risk) r observed)) (\<lambda>(db', created, i).
       Inr (db', Submit (li_intent_id i))))"

definition pre_submit ::
  "(string \<Rightarrow> string) \<Rightarrow> (dec \<Rightarrow> dec res) \<Rightarrow> dec live_policy \<Rightarrow> live_env \<Rightarrow> live_world \<Rightarrow> request \<Rightarrow> int
    \<Rightarrow> (live_db \<times> submission) res" where
  "pre_submit H N policy env w r observed =
     ebind (ebind (semantic_sha256 H (PDict (order_request_mapping r))) (derive_id ''live-request'')) (\<lambda>request_id.
     ebind (prediction_by_id (lw_predictions w) (rq_prediction_id r)) (\<lambda>prediction.
     case prediction of
       Some p \<Rightarrow>
         if \<not> source_request_matches prediction r
         then ebind (order_ack_of request_id False observed ''source_prediction_mismatch'') (\<lambda>ack. Inr (lw_db w, Answer ack))
         else
           ebind (intent_for_prediction (lw_db w) (rq_prediction_id r) (lr_policy_version policy)) (\<lambda>existing.
           ebind (case existing of None \<Rightarrow> Inr None | Some i \<Rightarrow> replay_submission_ack (lw_db w) i observed) (\<lambda>replay.
           case replay of
             Some ack \<Rightarrow> Inr (lw_db w, Answer ack)
           | None \<Rightarrow> decide_and_intend H N policy env w r request_id observed p (existing \<noteq> None)))
     | None \<Rightarrow> ebind (order_ack_of request_id False observed ''source_prediction_mismatch'') (\<lambda>ack. Inr (lw_db w, Answer ack))))"

section \<open>Submitting: the call and its record\<close>

definition store_submission_event ::
  "(string \<Rightarrow> string) \<Rightarrow> live_db \<Rightarrow> string \<Rightarrow> string \<Rightarrow> int \<Rightarrow> string option \<Rightarrow> pydict
    \<Rightarrow> (live_db \<times> bool \<times> order_event_row) res" where
  "store_submission_event H db iid event_type observed oid evidence = store_order_event H db
     \<lparr>ei_event_key = iid @ '':'' @ event_type, ei_intent_id = iid, ei_event_type = event_type,
      ei_observed_at = Aware observed 0, ei_external_order_id = oid, ei_external_trade_id = None,
      ei_evidence = evidence\<rparr>"

text \<open>The event that records the outcome of a submission, and the answer given.\<close>

definition submission_outcome ::
  "string \<Rightarrow> int \<Rightarrow> order_result option \<Rightarrow> string \<times> string option \<times> pydict \<times> int order_ack res" where
  "submission_outcome iid observed result = (case result of
       None \<Rightarrow> (''submission_unknown'', None,
         [(''status'', PStr ''submission_unknown''), (''code'', PStr ''client_exception'')],
         order_ack_of iid False observed ''submission_unknown'')
     | Some res \<Rightarrow> (case (or_accepted res, nonempty_text (or_external_order_id res)) of
         (True, Some oid) \<Rightarrow> (''accepted'', Some oid,
           [(''status'', PStr (or_status res)), (''code'', PStr (or_code res)), (''message'', PStr (or_message res))],
           order_ack_of oid True observed ''accepted'')
       | _ \<Rightarrow>
         if \<not> or_accepted res \<and> lower (or_status res) = ''rejected''
         then (''rejected'', or_external_order_id res,
           [(''status'', PStr (or_status res)), (''code'', PStr (or_code res)), (''message'', PStr (or_message res))],
           order_ack_of iid False observed (if or_code res = [] then ''rejected'' else or_code res))
         else (''submission_unknown'', or_external_order_id res,
           [(''status'', PStr (or_status res)), (''code'', PStr (or_code res))],
           order_ack_of iid False observed ''submission_unknown'')))"

text \<open>A record that raises is rolled back, and the call stays made.\<close>

definition record_submission ::
  "(string \<Rightarrow> string) \<Rightarrow> live_world \<Rightarrow> string \<Rightarrow> int \<Rightarrow> order_result option \<Rightarrow> live_world \<times> int order_ack res" where
  "record_submission H w iid observed result =
     (case submission_outcome iid observed result of (event_type, oid, evidence, ack) \<Rightarrow>
      case store_submission_event H (lw_db w) iid event_type observed oid evidence of
        Inl e \<Rightarrow> (w, Inl e)
      | Inr (db, _, _) \<Rightarrow> (w\<lparr>lw_db := db\<rparr>, ack))"

definition call_submit :: "live_env \<Rightarrow> live_world \<Rightarrow> string \<Rightarrow> request \<Rightarrow> live_world \<times> order_result option" where
  "call_submit env w iid r = (if \<not> en_client env then (w, None)
     else (w\<lparr>lw_network := lw_network w @ [NetSubmit iid (rq_token_id r) (rq_limit_price r) (rq_requested_shares r)]\<rparr>,
       en_submit env (rq_token_id r) (rq_limit_price r) (rq_requested_shares r)))"

definition live_submit_order ::
  "(string \<Rightarrow> string) \<Rightarrow> (dec \<Rightarrow> dec res) \<Rightarrow> dec live_policy \<Rightarrow> (nat \<Rightarrow> live_env) \<Rightarrow> live_world \<Rightarrow> request
    \<Rightarrow> live_world \<times> int order_ack res" where
  "live_submit_order H N policy envs w r = (let env = envs (lw_tick w) in
     case aware_utc (ValueError ''now must be timezone-aware'') (en_now env) of
       Inl e \<Rightarrow> (w, Inl e)
     | Inr observed \<Rightarrow> (case pre_submit H N policy env w r observed of
         Inl e \<Rightarrow> (w, Inl e)
       | Inr (db, Answer ack) \<Rightarrow> (w\<lparr>lw_db := db\<rparr>, Inr ack)
       | Inr (db, Submit iid) \<Rightarrow> (case call_submit env (w\<lparr>lw_db := db\<rparr>) iid r of
           (w', result) \<Rightarrow> record_submission H w' iid observed result)))"

section \<open>Cancelling\<close>

definition accepted_event :: "live_db \<Rightarrow> string \<Rightarrow> order_event_row option" where
  "accepted_event db oid = last_option (filter (\<lambda>e. le_external_order_id e = Some oid \<and> le_event_type e = ''accepted'')
     (ld_order_events db))"

definition cancellation_outcome ::
  "string \<Rightarrow> int \<Rightarrow> cancel_result option \<Rightarrow> string \<times> pydict \<times> int cancel_ack res" where
  "cancellation_outcome oid observed result = (case result of
       None \<Rightarrow> (''cancellation_unknown'',
         [(''status'', PStr ''cancellation_unknown''), (''code'', PStr ''client_exception'')],
         cancel_ack_of oid False observed ''cancellation_unknown'')
     | Some res \<Rightarrow>
         if cr_cancelled res
         then (''cancelled'', [(''status'', PStr (cr_status res)), (''message'', PStr (cr_message res))],
           cancel_ack_of oid True observed ''cancelled'')
         else (if cr_status res = ''not_cancelled'' then ''cancel_rejected'' else ''cancellation_unknown'',
           [(''status'', PStr (cr_status res)), (''message'', PStr (cr_message res))],
           cancel_ack_of oid False observed (if cr_status res = [] then ''cancellation_unknown'' else cr_status res)))"

definition record_cancellation ::
  "(string \<Rightarrow> string) \<Rightarrow> live_world \<Rightarrow> string \<Rightarrow> string \<Rightarrow> int \<Rightarrow> cancel_result option \<Rightarrow> live_world \<times> int cancel_ack res" where
  "record_cancellation H w iid oid observed result =
     (case cancellation_outcome oid observed result of (event_type, evidence, ack) \<Rightarrow>
      case store_submission_event H (lw_db w) iid event_type observed (Some oid) evidence of
        Inl e \<Rightarrow> (w, Inl e)
      | Inr (db, _, _) \<Rightarrow> (w\<lparr>lw_db := db\<rparr>, ack))"

definition call_cancel :: "live_env \<Rightarrow> live_world \<Rightarrow> string \<Rightarrow> live_world \<times> cancel_result option" where
  "call_cancel env w oid = (if \<not> en_client env then (w, None)
     else (w\<lparr>lw_network := lw_network w @ [NetCancel oid]\<rparr>, en_cancel env oid))"

definition live_cancel_order ::
  "(string \<Rightarrow> string) \<Rightarrow> (nat \<Rightarrow> live_env) \<Rightarrow> live_world \<Rightarrow> string \<Rightarrow> pytime \<Rightarrow> live_world \<times> int cancel_ack res" where
  "live_cancel_order H envs w oid observed_at =
     (case aware_utc (ValueError ''observed_at must be timezone-aware'') observed_at of
        Inl e \<Rightarrow> (w, Inl e)
      | Inr observed \<Rightarrow> (case accepted_event (lw_db w) oid of
          None \<Rightarrow> (w, cancel_ack_of oid False observed ''unknown_order_id'')
        | Some e \<Rightarrow>
          if events_of (lw_db w) [''cancelled''] (le_intent_id e) \<noteq> []
          then (w, cancel_ack_of oid True observed ''already_cancelled'')
          else (case call_cancel (envs (lw_tick w)) w oid of
            (w', result) \<Rightarrow> record_cancellation H w' (le_intent_id e) oid observed result)))"

end
