(* ===== verification/LiveSafety.thy ===== *)
theory LiveSafety
  imports LiveGateway
begin

text \<open>
  What the live gateway guarantees: nothing reaches the trading client without a durable intent
  and an eligible decision, at most once per prediction and policy, whatever sequence of calls,
  crashes and changes of the environment happens.
\<close>

section \<open>The transaction before a submission\<close>

lemma store_risk_decision_frame:
  "store_risk_decision H db p s v d a e t = Inr (db', c, x) \<Longrightarrow> \<exists>risks. db' = db\<lparr>ld_risks := risks\<rparr>"
  by (auto simp: store_risk_decision_def)

lemma lr_decimal_PDec [simp]: "lr_decimal n (PDec (Finite d)) = Inr d"
  by (simp add: lr_decimal_def to_decimal_def)

lemma context_values_Inr:
  assumes "live_context_post_init (context_values p r liquidity observed healthy duplicate account) = Inr c"
  shows "lc_trade c = lp_trade p" "lc_executable c = lp_executable p" "lc_requested_notional_usd c = rq_target_notional_usd r"
    "lc_observed_at c = observed" "lc_api_healthy c = healthy" "lc_duplicate_intent c = duplicate" "lc_account c = account"
    "lc_recorded_at c = lp_recorded_at p" "lc_market_end_at c = lp_market_end_at p"
  using assms by (auto simp: live_context_post_init_def context_values_def lr_aware_def)

lemma decide_frame:
  assumes "decide H policy env w r request_id observed p duplicate = Inr (d, db, risk)"
  shows "\<exists>risks. db = (lw_db w)\<lparr>ld_risks := risks\<rparr>" and "live_step (lw_db w) db"
  using assms by (auto simp: decide_def Let_def dest: store_risk_decision_frame store_risk_decision_step)

text \<open>What an eligible decision of the gateway rests on.\<close>

definition order_admitted :: "dec live_policy \<Rightarrow> live_env \<Rightarrow> live_world \<Rightarrow> request \<Rightarrow> int \<Rightarrow> live_prediction \<Rightarrow> bool" where
  "order_admitted policy env w r observed p \<longleftrightarrow>
     il_eligible (safe_interlock env observed) \<and> safe_api_health env \<and> lp_trade p \<and> lp_executable p
     \<and> lp_recorded_at p \<le> observed \<and> dval (rq_target_notional_usd r) \<le> dval (lr_max_trade_size_usd policy)
     \<and> (case read_account (lw_db w) observed of Inl _ \<Rightarrow> False | Inr account \<Rightarrow>
         la_unresolved_critical account = 0
         \<and> dval (dadd (la_total_exposure_usd account) (rq_target_notional_usd r)) \<le> dval (lr_max_total_exposure_usd policy)
         \<and> dval (dec_fix (dneg (lr_max_daily_loss_usd policy))) < dval (la_realized_daily_pnl_usd account))"

lemma decide_admitted:
  assumes "decide H policy env w r request_id observed p duplicate = Inr (d, db, risk)" and "rd_eligible d"
  shows "order_admitted policy env w r observed p" and "\<not> duplicate"
proof -
  obtain account liquidity c where account: "read_account (lw_db w) observed = Inr account"
    and c: "live_context_post_init (context_values p r liquidity observed (safe_api_health env) duplicate account) = Inr c"
    and d: "evaluate_live_risk H policy c (il_eligible (safe_interlock env observed)) (il_reasons (safe_interlock env observed)) = Inr d"
    using assms(1) by (auto simp: decide_def Let_def)
  note holds = evaluate_live_risk_holds [OF d, THEN iffD1, OF assms(2)]
  show "\<not> duplicate" using holds by (simp add: context_values_Inr [OF c])
  show "order_admitted policy env w r observed p"
    using holds account
    by (simp add: order_admitted_def context_values_Inr [OF c] total_exposure_ok_def daily_loss_ok_def dcmp)
qed

lemma pre_submit_cases:
  assumes "pre_submit H N policy env w r observed = Inr (db, s)"
  obtains (answered) ack where "s = Answer ack" "\<exists>risks. db = (lw_db w)\<lparr>ld_risks := risks\<rparr>" "live_step (lw_db w) db"
  | (intended) p db1 request_id decision_id created i where
      "s = Submit (li_intent_id i)" "prediction_by_id (lw_predictions w) (rq_prediction_id r) = Inr (Some p)"
      "source_request_matches (Some p) r" "order_admitted policy env w r observed p"
      "intent_for_prediction (lw_db w) (rq_prediction_id r) (lr_policy_version policy) = Inr None"
      "\<exists>risks. db1 = (lw_db w)\<lparr>ld_risks := risks\<rparr>" "live_step (lw_db w) db1"
      "store_order_intent H N db1 (intent_values (lr_policy_version policy) request_id decision_id r observed)
        = Inr (db, created, i)"
proof -
  obtain request_id prediction where
    prediction: "prediction_by_id (lw_predictions w) (rq_prediction_id r) = Inr prediction"
    and rid: "ebind (semantic_sha256 H (PDict (order_request_mapping r))) (derive_id ''live-request'') = Inr request_id"
    using assms by (auto simp: pre_submit_def)
  note run = assms [unfolded pre_submit_def rid prediction ebind_simps]
  have kept: thesis if "db = lw_db w" "s = Answer ack" for ack
    using that by (intro answered) (auto intro: exI [of _ "ld_risks (lw_db w)"])
  show ?thesis
  proof (cases "\<exists>p. prediction = Some p \<and> source_request_matches prediction r")
    case False
    with run kept show ?thesis by (cases prediction) auto
  next
    case True
    then obtain p where p: "prediction = Some p" and matches: "source_request_matches (Some p) r" by auto
    from run p matches obtain existing replay where
      e: "intent_for_prediction (lw_db w) (rq_prediction_id r) (lr_policy_version policy) = Inr existing"
      and run': "(case replay of Some ack \<Rightarrow> Inr (lw_db w, Answer ack)
        | None \<Rightarrow> decide_and_intend H N policy env w r request_id observed p (\<exists>y. existing = Some y)) = Inr (db, s)"
      by auto
    show ?thesis
    proof (cases replay)
      case (Some ack)
      with run' kept show ?thesis by auto
    next
      case None
      with run' obtain d db1 risk where d: "decide H policy env w r request_id observed p (\<exists>y. existing = Some y) = Inr (d, db1, risk)"
        and rest: "(if \<not> rd_eligible d
           then ebind (order_ack_of request_id False observed (first_reason d)) (\<lambda>ack. Inr (db1, Answer ack))
           else ebind (store_order_intent H N db1
             (intent_values (lr_policy_version policy) request_id (rk_decision_id risk) r observed)) (\<lambda>(db', created, i).
               Inr (db', Submit (li_intent_id i)))) = Inr (db, s)"
        by (auto simp: decide_and_intend_def)
      show ?thesis
      proof (cases "rd_eligible d")
        case False
        with rest decide_frame [OF d] show ?thesis by (auto intro: answered)
      next
        case True
        with rest obtain i created where
          "store_order_intent H N db1 (intent_values (lr_policy_version policy) request_id (rk_decision_id risk) r observed)
            = Inr (db, created, i)" "s = Submit (li_intent_id i)" by auto
        with decide_admitted [OF d True] decide_frame [OF d] p e prediction matches show ?thesis
          by (intro intended [where i = i and p = p and request_id = request_id and decision_id = "rk_decision_id risk" and created = created]) auto
      qed
    qed
  qed
qed

text \<open>The intent of a submission is new and says what will be submitted.\<close>

definition intent_says :: "(dec \<Rightarrow> dec res) \<Rightarrow> intent_row \<Rightarrow> request \<Rightarrow> string \<Rightarrow> bool" where
  "intent_says N i r version \<longleftrightarrow> intent_key i = (rq_prediction_id r, version)
     \<and> li_token_id i = strip (rq_token_id r) \<and> N (rq_limit_price r) = Inr (li_limit_price i)
     \<and> N (rq_requested_shares r) = Inr (li_size i)"

lemma intent_row_of_Inr:
  assumes "intent_row_of H (intent_values version request_id decision_id r observed) = Inr row"
  shows "intent_key row = (strip (rq_prediction_id r), strip version)" "li_token_id row = strip (rq_token_id r)"
    "li_size row = rq_requested_shares r" "li_limit_price row = rq_limit_price r" "li_pre_submit_at row = observed"
  using assms by (auto simp: intent_row_of_def intent_values_def intent_key_def rp_text_Inr rp_number_def
      to_decimal_def rp_utc_def)

lemma intent_coerce_says:
  "intent_coerce N row = Inr i \<Longrightarrow> intent_key i = intent_key row \<and> li_token_id i = li_token_id row
    \<and> N (li_size row) = Inr (li_size i) \<and> N (li_limit_price row) = Inr (li_limit_price i)
    \<and> li_pre_submit_at i = li_pre_submit_at row \<and> li_intent_id i = li_intent_id row"
  by (auto simp: intent_coerce_def intent_key_def)

lemma strip_id:
  assumes "s \<noteq> []" and "\<not> is_space (hd s)" and "\<not> is_space (last s)"
  shows "strip s = s"
proof -
  obtain c t where s: "s = c # t" using assms(1) by (cases s) auto
  have "dropWhile is_space s = s" using assms(2) by (simp add: s)
  moreover obtain d u where r: "rev s = d # u" using assms(1) by (cases "rev s") auto
  then have "d = last s" by (metis last_rev list.sel(1) rev_rev_ident hd_rev assms(1) Nil_is_rev_conv)
  then have "dropWhile is_space (rev s) = rev s" using assms(3) by (simp add: r)
  ultimately show ?thesis by (simp add: strip_def)
qed

lemma hex_not_space: "is_hex_lower c \<Longrightarrow> \<not> is_space c"
proof -
  have "\<forall>c \<in> set [CHR '' '', CHR 0x09, CHR 0x0A, CHR 0x0B, CHR 0x0C, CHR 0x0D,
     CHR 0x1C, CHR 0x1D, CHR 0x1E, CHR 0x1F]. \<not> is_hex_lower c" by code_simp
  then show "is_hex_lower c \<Longrightarrow> \<not> is_space c" unfolding is_space_def by blast
qed

lemma intent_id_plain:
  assumes "sha256_like H" and "intent_row_of H input = Inr row"
  shows "strip (li_intent_id row) = li_intent_id row" "length (li_intent_id row) = 44"
proof -
  from assms(2) obtain v where v: "derive_id ''live-intent'' (H v) = Inr (li_intent_id row)"
    by (auto simp: intent_row_of_def semantic_sha256_def)
  have n: "length (H v) = 64" "list_all is_hex_lower (H v)" using assms(1) by (auto simp: sha256_like_def)
  have row: "li_intent_id row = ''live-intent'' @ ''-'' @ take 32 (H v)"
    using v by (auto simp: derive_id_def split: if_splits)
  have "take 32 (H v) \<noteq> []" using n(1) by auto
  then have l: "last (li_intent_id row) \<in> set (take 32 (H v))" by (simp add: row)
  then have "is_hex_lower (last (li_intent_id row))"
    using n(2) in_set_takeD [OF l] by (simp add: list_all_iff)
  then have "\<not> is_space (last (li_intent_id row))" by (rule hex_not_space)
  then show "strip (li_intent_id row) = li_intent_id row" by (intro strip_id) (simp_all add: row is_space_def)
  show "length (li_intent_id row) = 44" using n(1) by (simp add: row)
qed

lemma intended_fresh:
  assumes sha: "sha256_like H"
    and stored: "store_order_intent H N db1 (intent_values version request_id decision_id r observed) = Inr (db, created, i)"
    and db1: "db1 = db0\<lparr>ld_risks := risks\<rparr>"
    and none: "intent_for_prediction db0 (rq_prediction_id r) version = Inr None"
    and strip: "strip (rq_prediction_id r) = rq_prediction_id r" "strip version = version"
  shows "created" "ld_intents db = ld_intents db0 @ [i]" "ld_order_events db = ld_order_events db0"
    "li_intent_id i \<notin> li_intent_id ` set (ld_intents db0)" "intent_says N i r version" "li_pre_submit_at i = observed"
    "strip (li_intent_id i) = li_intent_id i" "length (li_intent_id i) = 44"
proof -
  from stored obtain row t where row: "intent_row_of H (intent_values version request_id decision_id r observed) = Inr row"
    and keep: "existing_or_insert intent_key li_semantic_sha256 (intent_coerce N) intent_free intent_conflict
        (ld_intents db1) row = Inr (t, created, i)" and db: "db = db1\<lparr>ld_intents := t\<rparr>"
    unfolding store_order_intent_Inr by blast
  have "li_prediction_id row = rq_prediction_id r \<and> li_policy_version row = version"
    using intent_row_of_Inr(1) [OF row] strip by (simp add: intent_key_def)
  then have key: "\<forall>x \<in> set (ld_intents db0). intent_key x \<noteq> intent_key row"
    using none by (auto simp: intent_for_prediction_def filter_empty_conv intent_key_def)
  have "created \<and> t = ld_intents db0 @ [i] \<and> intent_free (ld_intents db0) i \<and> intent_coerce N row = Inr i"
    using keep by (cases rule: intents.keep_cases) (use key db1 in auto)
  then show "created" "ld_intents db = ld_intents db0 @ [i]" "ld_order_events db = ld_order_events db0"
    "li_intent_id i \<notin> li_intent_id ` set (ld_intents db0)" "intent_says N i r version" "li_pre_submit_at i = observed"
    "strip (li_intent_id i) = li_intent_id i" "length (li_intent_id i) = 44"
    using db db1 intent_row_of_Inr [OF row] strip intent_coerce_says [of N row i] intent_id_plain [OF sha row]
    by (auto simp: intent_free_def intent_says_def)
qed

section \<open>What a call does to the world\<close>

definition submitted :: "live_world \<Rightarrow> string list" where
  "submitted w = List.map_filter (\<lambda>c. case c of NetSubmit iid _ _ _ \<Rightarrow> Some iid | NetCancel _ \<Rightarrow> None) (lw_network w)"

definition constructed :: "request \<Rightarrow> bool" where
  "constructed r \<longleftrightarrow> (\<exists>input. order_request_post_init input = Inr r)"

lemma constructed_strip: "constructed r \<Longrightarrow> strip (rq_prediction_id r) = rq_prediction_id r"
  by (auto simp: constructed_def order_request_post_init_def dest!: text_field_Inr)

text \<open>
  The invariant of the world: the ledger is well-formed, every event belongs to an intent, and
  every submission was made for its own intent, for what that intent says.
\<close>

definition network_ok :: "(dec \<Rightarrow> dec res) \<Rightarrow> live_world \<Rightarrow> bool" where
  "network_ok N w \<longleftrightarrow> distinct (submitted w) \<and> (\<forall>iid token price size. NetSubmit iid token price size \<in> set (lw_network w) \<longrightarrow>
     (\<exists>i \<in> set (ld_intents (lw_db w)). li_intent_id i = iid \<and> li_token_id i = strip token
        \<and> N price = Inr (li_limit_price i) \<and> N size = Inr (li_size i)))"

definition events_owned :: "live_db \<Rightarrow> bool" where
  "events_owned db \<longleftrightarrow> (\<forall>e \<in> set (ld_order_events db). le_intent_id e \<in> li_intent_id ` set (ld_intents db)
     \<and> le_event_key e = le_intent_id e @ '':'' @ le_event_type e)"

definition ids_plain :: "live_db \<Rightarrow> bool" where
  "ids_plain db \<longleftrightarrow> (\<forall>i \<in> set (ld_intents db). strip (li_intent_id i) = li_intent_id i \<and> length (li_intent_id i) = 44)"

definition world_ok :: "(dec \<Rightarrow> dec res) \<Rightarrow> live_world \<Rightarrow> bool" where
  "world_ok N w \<longleftrightarrow> live_wf (lw_db w) \<and> ids_plain (lw_db w) \<and> events_owned (lw_db w) \<and> network_ok N w"

lemma submitted_snoc [simp]:
  "submitted (w\<lparr>lw_db := db\<rparr>) = submitted w" "submitted (w\<lparr>lw_network := ns @ [NetSubmit iid a b c]\<rparr>)
     = submitted (w\<lparr>lw_network := ns\<rparr>) @ [iid]"
  "submitted (w\<lparr>lw_network := ns @ [NetCancel oid]\<rparr>) = submitted (w\<lparr>lw_network := ns\<rparr>)"
  "submitted (w\<lparr>lw_network := lw_network w\<rparr>) = submitted w"
  by (simp_all add: submitted_def map_filter_def)

lemma submitted_mem: "iid \<in> set (submitted w) \<longleftrightarrow> (\<exists>a b c. NetSubmit iid a b c \<in> set (lw_network w))"
proof -
  have "iid \<in> set (List.map_filter (\<lambda>c. case c of NetSubmit iid _ _ _ \<Rightarrow> Some iid | NetCancel _ \<Rightarrow> None) cs)
      \<longleftrightarrow> (\<exists>a b c. NetSubmit iid a b c \<in> set cs)" for cs
  proof (induction cs)
    case (Cons c cs)
    then show ?case by (cases c) auto
  qed (simp add: map_filter_def)
  then show ?thesis by (simp add: submitted_def)
qed

lemma network_ok_db:
  "network_ok N w \<Longrightarrow> set (ld_intents (lw_db w)) \<subseteq> set (ld_intents db) \<Longrightarrow> network_ok N (w\<lparr>lw_db := db\<rparr>)"
  unfolding network_ok_def by simp blast

lemma strip_ends:
  assumes "strip s = s" and "s \<noteq> []"
  shows "\<not> is_space (hd s)" and "\<not> is_space (last s)"
proof -
  have *: "dropWhile is_space t \<noteq> [] \<Longrightarrow> \<not> is_space (hd (dropWhile is_space t))" for t
    by (rule hd_dropWhile) (auto simp: dropWhile_eq_Nil_conv)
  let ?u = "rev (dropWhile is_space s)"
  have u: "strip s = rev (dropWhile is_space ?u)" by (simp add: strip_def)
  then have ne: "dropWhile is_space ?u \<noteq> []" using assms by (metis rev.simps(1))
  then show "\<not> is_space (last s)" using * [OF ne] u assms(1) by (metis last_rev)
  have "dropWhile is_space s \<noteq> []"
  proof
    assume "dropWhile is_space s = []"
    then show False using ne by (simp only: rev.simps dropWhile.simps)
  qed
  moreover have "length (dropWhile is_space s) = length s"
  proof -
    have "length s = length (dropWhile is_space ?u)" using u assms(1) by (metis length_rev)
    also have "\<dots> \<le> length ?u" by (rule length_dropWhile_le)
    finally show ?thesis using length_dropWhile_le [of is_space s] by simp
  qed
  then have "dropWhile is_space s = s" by (metis append_eq_conv_conj append_self_conv2 length_append add_cancel_left_left length_0_conv takeWhile_dropWhile_id)
  ultimately show "\<not> is_space (hd s)" using * [of s] by simp
qed

lemma strip_join:
  assumes "strip a = a" and "strip b = b" and "a \<noteq> []" and "b \<noteq> []"
  shows "strip (a @ c @ b) = a @ c @ b"
  using strip_ends [OF assms(1,3)] strip_ends [OF assms(2,4)] assms(3,4) by (intro strip_id) auto

text \<open>Recording an event: the row, new unless its key is taken.\<close>

definition event_types :: "string list" where
  "event_types = submission_types @ [''cancelled'', ''cancel_rejected'', ''cancellation_unknown'']"

lemma event_types_plain: "t \<in> set event_types \<Longrightarrow> strip t = t \<and> t \<noteq> []"
proof -
  have "\<forall>t \<in> set event_types. strip t = t \<and> t \<noteq> []" by code_simp
  then show "t \<in> set event_types \<Longrightarrow> strip t = t \<and> t \<noteq> []" by blast
qed

lemma store_submission_event_frame:
  assumes "store_submission_event H db iid event_type observed oid evidence = Inr (db', created, e)"
    and "strip iid = iid" and "event_type \<in> set event_types"
  obtains "live_step db db'" "ld_intents db' = ld_intents db" "ld_order_events db' = ld_order_events db"
      "e \<in> set (ld_order_events db)" "le_event_key e = iid @ '':'' @ event_type"
  | "live_step db db'" "ld_intents db' = ld_intents db" "ld_order_events db' = ld_order_events db @ [e]"
      "le_intent_id e = iid" "le_event_type e = event_type" "le_event_key e = iid @ '':'' @ event_type"
      "le_external_order_id e = map_option strip oid"
proof -
  have step: "live_step db db'" using assms(1) by (auto simp: store_submission_event_def intro: store_order_event_step)
  from assms(1) obtain row t where row: "event_row_of H \<lparr>ei_event_key = iid @ '':'' @ event_type, ei_intent_id = iid,
      ei_event_type = event_type, ei_observed_at = Aware observed 0, ei_external_order_id = oid,
      ei_external_trade_id = None, ei_evidence = evidence\<rparr> = Inr row"
    and keep: "existing_or_insert le_event_key le_semantic_sha256 event_coerce no_other event_conflict
        (ld_order_events db) row = Inr (t, created, e)" and db: "db' = db\<lparr>ld_order_events := t\<rparr>"
    unfolding store_submission_event_def store_order_event_Inr by blast
  have "iid \<noteq> []" using row assms(2) by (auto simp: event_row_of_def rp_text_Inr)
  note plain = event_types_plain [OF assms(3)]
  have key: "strip (iid @ '':'' @ event_type) = iid @ '':'' @ event_type"
    using strip_join [OF assms(2), of event_type "'':''"] plain \<open>iid \<noteq> []\<close> by blast
  have oid: "optional_text ''external_order_id'' oid = Inr x \<Longrightarrow> x = map_option strip oid" for x
    by (cases oid) (auto simp: optional_text_def optional_field_def rp_text_Inr)
  have r: "le_intent_id row = iid" "le_event_type row = event_type" "le_event_key row = iid @ '':'' @ event_type"
    "le_external_order_id row = map_option strip oid"
    using row assms(2) plain key oid by (auto simp: event_row_of_def rp_text_Inr)
  from keep show ?thesis
  proof (cases rule: order_events.keep_cases)
    case existing
    with that(1) step db r show ?thesis by simp
  next
    case inserted
    have "e = row" using inserted(1) by (auto simp: event_coerce_def)
    with inserted that(2) step db r show ?thesis by simp
  qed
qed

lemma store_submission_event_new:
  assumes "store_submission_event H db iid event_type observed oid evidence = Inr (db', created, e)"
    and "strip iid = iid" and "event_type \<in> set event_types" and "length iid = 44" and "events_owned db" and "ids_plain db"
    and "events_of db [event_type] iid = []"
  shows "ld_order_events db' = ld_order_events db @ [e]" "le_intent_id e = iid" "le_event_type e = event_type"
    "le_external_order_id e = map_option strip oid"
proof -
  have False if e: "e \<in> set (ld_order_events db)" and key: "le_event_key e = iid @ '':'' @ event_type"
  proof -
    have "le_event_key e = le_intent_id e @ '':'' @ le_event_type e" "length (le_intent_id e) = 44"
      using assms(5,6) e by (auto simp: events_owned_def ids_plain_def)
    with key assms(4) have "le_intent_id e = iid \<and> le_event_type e = event_type" by simp
    with e assms(7) show False by (auto simp: events_of_def filter_empty_conv)
  qed
  with assms(1-3) show "ld_order_events db' = ld_order_events db @ [e]" "le_intent_id e = iid" "le_event_type e = event_type"
    "le_external_order_id e = map_option strip oid"
    by (auto elim: store_submission_event_frame)
qed

text \<open>
  A step of the gateway: the ledger, the predictions and the calls only grow, intents keep the
  outcome of their submission, and the invariant survives.
\<close>

definition outcome_kept :: "live_world \<Rightarrow> live_world \<Rightarrow> bool" where
  "outcome_kept w w' \<longleftrightarrow> (\<forall>i \<in> set (ld_intents (lw_db w)).
     events_of (lw_db w) submission_types (li_intent_id i) \<noteq> [] \<longrightarrow>
     events_of (lw_db w') submission_types (li_intent_id i) = events_of (lw_db w) submission_types (li_intent_id i))"

definition world_step :: "(dec \<Rightarrow> dec res) \<Rightarrow> live_world \<Rightarrow> live_world \<Rightarrow> bool" where
  "world_step N w w' \<longleftrightarrow> (world_ok N w \<longrightarrow> world_ok N w' \<and> live_extends (lw_db w) (lw_db w')
     \<and> prefix (lw_network w) (lw_network w') \<and> lw_predictions w' = lw_predictions w \<and> outcome_kept w w')"

lemma outcome_kept_trans:
  assumes "outcome_kept u v" and "outcome_kept v w" and "live_extends (lw_db u) (lw_db v)"
  shows "outcome_kept u w"
  using assms set_mono_prefix [of "ld_intents (lw_db u)" "ld_intents (lw_db v)"]
  by (auto simp: outcome_kept_def live_extends_def)

lemma outcome_kept_events:
  "ld_order_events (lw_db w') = ld_order_events (lw_db w) \<Longrightarrow> outcome_kept w w'"
  by (simp add: outcome_kept_def events_of_def)

lemma world_step_refl [simp]: "world_step N w w"
  by (simp add: world_step_def outcome_kept_def)

lemma world_step_trans: "world_step N u v \<Longrightarrow> world_step N v w \<Longrightarrow> world_step N u w"
  unfolding world_step_def
  by (auto intro: live_extends_trans prefix_order.trans outcome_kept_trans)

lemma events_owned_same:
  "events_owned db \<Longrightarrow> ld_order_events db' = ld_order_events db \<Longrightarrow> set (ld_intents db) \<subseteq> set (ld_intents db')
    \<Longrightarrow> events_owned db'"
  unfolding events_owned_def by (metis image_mono subsetD)

lemma frame_step:
  assumes same: "ld_intents db = ld_intents (lw_db w)" "ld_order_events db = ld_order_events (lw_db w)"
    and "live_step (lw_db w) db"
  shows "world_step N w (w\<lparr>lw_db := db\<rparr>)"
proof -
  have "world_ok N w \<Longrightarrow> world_ok N (w\<lparr>lw_db := db\<rparr>)"
    using assms(3) network_ok_db [of N w db] events_owned_same [of "lw_db w" db]
    by (simp add: world_ok_def same ids_plain_def live_step_def)
  then show ?thesis using assms(3) by (simp add: world_step_def live_step_def outcome_kept_events same)
qed

lemma risks_step:
  assumes "db = (lw_db w)\<lparr>ld_risks := risks\<rparr>" and "live_step (lw_db w) db"
  shows "world_step N w (w\<lparr>lw_db := db\<rparr>)"
  using assms by (intro frame_step) simp_all

lemma reports_step:
  "store_reconciliation_run H (lw_db w) t u c v = Inr (db, b, x) \<Longrightarrow> world_step N w (w\<lparr>lw_db := db\<rparr>)"
  "store_readiness_check H (lw_db w) sha t eligible reasons v cid = Inr (db, b, y) \<Longrightarrow> world_step N w (w\<lparr>lw_db := db\<rparr>)"
proof -
  assume run: "store_reconciliation_run H (lw_db w) t u c v = Inr (db, b, x)"
  show "world_step N w (w\<lparr>lw_db := db\<rparr>)"
    by (rule frame_step [OF _ _ store_reconciliation_run_step [OF run]])
      (use run in \<open>auto simp: store_reconciliation_run_def simp del: canonicalize.simps\<close>)
next
  assume run: "store_readiness_check H (lw_db w) sha t eligible reasons v cid = Inr (db, b, y)"
  show "world_step N w (w\<lparr>lw_db := db\<rparr>)"
    by (rule frame_step [OF _ _ store_readiness_check_step [OF run]])
      (use run in \<open>auto simp: store_readiness_check_def Let_def simp del: canonicalize.simps\<close>)
qed

lemma record_step:
  assumes "store_submission_event H (lw_db w) iid event_type observed oid evidence = Inr (db, created, e)"
    and "strip iid = iid" and "event_type \<in> set event_types"
    and "world_ok N w \<Longrightarrow> iid \<in> li_intent_id ` set (ld_intents (lw_db w))"
    and "world_ok N w \<Longrightarrow> event_type \<in> set submission_types \<Longrightarrow> events_of (lw_db w) submission_types iid = []"
  shows "world_step N w (w\<lparr>lw_db := db\<rparr>)"
  using assms(1-3)
proof (cases rule: store_submission_event_frame)
  case 1
  have "world_ok N w \<Longrightarrow> world_ok N (w\<lparr>lw_db := db\<rparr>)"
    using 1(1-3) network_ok_db [of N w db] by (simp add: world_ok_def ids_plain_def live_step_def events_owned_def)
  then show ?thesis using 1(1,3) by (simp add: world_step_def live_step_def outcome_kept_events)
next
  case 2
  have "world_ok N (w\<lparr>lw_db := db\<rparr>) \<and> outcome_kept w (w\<lparr>lw_db := db\<rparr>)" if ok: "world_ok N w"
  proof
    have "events_owned db" using ok assms(4) [OF ok] 2 by (auto simp: world_ok_def events_owned_def)
    then show "world_ok N (w\<lparr>lw_db := db\<rparr>)"
      using ok 2(1,2) network_ok_db [of N w db] by (simp add: world_ok_def ids_plain_def live_step_def)
    have "\<not> (le_intent_id e = li_intent_id i \<and> le_event_type e \<in> set submission_types)"
      if "events_of (lw_db w) submission_types (li_intent_id i) \<noteq> []" for i
      using that assms(5) [OF ok] 2(4,5) by metis
    then show "outcome_kept w (w\<lparr>lw_db := db\<rparr>)" by (auto simp: outcome_kept_def events_of_def 2(3))
  qed
  with 2(1) show ?thesis by (simp add: world_step_def live_step_def)
qed

lemma network_step:
  assumes "world_ok N w \<Longrightarrow> network_ok N (w\<lparr>lw_network := lw_network w @ calls\<rparr>)"
  shows "world_step N w (w\<lparr>lw_network := lw_network w @ calls\<rparr>)"
  using assms by (simp add: world_step_def world_ok_def outcome_kept_events)

section \<open>A submission, point by point\<close>

text \<open>
  The points a submission passes: the world after the transaction that stored the intent, after
  the call, and after the record. A process may stop at each of them.
\<close>

definition after_intent :: "live_world \<Rightarrow> live_db \<Rightarrow> live_world" where
  "after_intent w db = w\<lparr>lw_db := db\<rparr>"

lemma intended_step:
  assumes "sha256_like H" and "constructed r" and "strip (lr_policy_version policy) = lr_policy_version policy"
    and "pre_submit H N policy env w r observed = Inr (db, Submit iid)"
  obtains p i where "iid = li_intent_id i" "prediction_by_id (lw_predictions w) (rq_prediction_id r) = Inr (Some p)"
    "source_request_matches (Some p) r" "order_admitted policy env w r observed p"
    "ld_intents db = ld_intents (lw_db w) @ [i]" "intent_says N i r (lr_policy_version policy)"
    "li_pre_submit_at i = observed" "strip iid = iid" "li_intent_id i \<notin> li_intent_id ` set (ld_intents (lw_db w))"
    "ld_order_events db = ld_order_events (lw_db w)" "world_step N w (after_intent w db)" "length iid = 44"
  using assms(4)
proof (cases rule: pre_submit_cases)
  case (intended p db1 request_id decision_id created i)
  then obtain risks where db1: "db1 = (lw_db w)\<lparr>ld_risks := risks\<rparr>" by blast
  note fresh = intended_fresh [OF assms(1) intended(8) db1 intended(5) constructed_strip [OF assms(2)] assms(3)]
  have step: "live_step (lw_db w) db" using intended(7) store_order_intent_step [OF intended(8)] by (rule live_step_trans)
  have "world_ok N w \<Longrightarrow> world_ok N (w\<lparr>lw_db := db\<rparr>)"
    using step fresh(2,3,7,8) events_owned_same [of "lw_db w" db] network_ok_db [of N w db]
    by (auto simp: world_ok_def ids_plain_def live_step_def)
  then have "world_step N w (w\<lparr>lw_db := db\<rparr>)" using step fresh(3) by (simp add: world_step_def live_step_def outcome_kept_events)
  with that [of i p] intended fresh show ?thesis by (simp add: after_intent_def)
qed simp

lemma intent_unowned:
  assumes "world_ok N w" and "li_intent_id i \<notin> li_intent_id ` set (ld_intents (lw_db w))"
  shows "li_intent_id i \<notin> set (submitted w)" and "events_of (lw_db w) types (li_intent_id i) = []"
  using assms by (auto simp: world_ok_def network_ok_def events_owned_def events_of_def submitted_mem
      filter_empty_conv image_iff) metis+

lemma call_submit_step:
  assumes "call_submit env w iid r = (w', result)" and "i \<in> set (ld_intents (lw_db w))" and "li_intent_id i = iid"
    and "intent_says N i r version" and "world_ok N w \<Longrightarrow> iid \<notin> set (submitted w)"
  shows "world_step N w w'" and "lw_db w' = lw_db w"
    and "lw_network w' \<in> {lw_network w, lw_network w @ [NetSubmit iid (rq_token_id r) (rq_limit_price r) (rq_requested_shares r)]}"
proof -
  have "network_ok N (w\<lparr>lw_network := lw_network w @ [NetSubmit iid (rq_token_id r) (rq_limit_price r) (rq_requested_shares r)]\<rparr>)"
    if "world_ok N w"
    using that assms(2-5) by (auto simp: world_ok_def network_ok_def intent_says_def)
  then show "world_step N w w'"
    using assms(1) network_step by (auto simp: call_submit_def split: if_splits)
  show "lw_db w' = lw_db w"
    "lw_network w' \<in> {lw_network w, lw_network w @ [NetSubmit iid (rq_token_id r) (rq_limit_price r) (rq_requested_shares r)]}"
    using assms(1) by (auto simp: call_submit_def split: if_splits)
qed

lemma record_submission_step:
  assumes "record_submission H w iid observed result = (w', ack)" and "strip iid = iid"
    and "world_ok N w \<Longrightarrow> iid \<in> li_intent_id ` set (ld_intents (lw_db w))"
    and "world_ok N w \<Longrightarrow> events_of (lw_db w) submission_types iid = []"
  shows "world_step N w w'" and "lw_network w' = lw_network w"
proof -
  obtain event_type oid evidence a where o: "submission_outcome iid observed result = (event_type, oid, evidence, a)"
    by (cases "submission_outcome iid observed result") auto
  have t: "event_type \<in> set event_types"
    using o by (auto simp: submission_outcome_def event_types_def submission_types_def split: option.splits bool.splits if_splits)
  show "world_step N w w'" "lw_network w' = lw_network w"
    using assms(1) record_step [of H w iid event_type observed oid evidence _ _ _ N] assms(2-4) t
    by (auto simp: record_submission_def o split: sum.splits)
qed

text \<open>A submission either leaves the client alone or passes all the points.\<close>

lemma live_submit_cases:
  assumes "sha256_like H" and "constructed r" and "strip (lr_policy_version policy) = lr_policy_version policy"
    and "live_submit_order H N policy envs w r = (w', res)" and "world_ok N w"
  obtains (quiet) "lw_network w' = lw_network w" "world_step N w w'" "ld_intents (lw_db w') = ld_intents (lw_db w)"
      "ld_order_events (lw_db w') = ld_order_events (lw_db w)"
  | (called) observed off p i db w1 result where "en_now (envs (lw_tick w)) = Aware observed off"
      "pre_submit H N policy (envs (lw_tick w)) w r observed = Inr (db, Submit (li_intent_id i))"
      "prediction_by_id (lw_predictions w) (rq_prediction_id r) = Inr (Some p)" "source_request_matches (Some p) r"
      "order_admitted policy (envs (lw_tick w)) w r observed p"
      "ld_intents db = ld_intents (lw_db w) @ [i]" "intent_says N i r (lr_policy_version policy)"
      "world_step N w (after_intent w db)"
      "call_submit (envs (lw_tick w)) (after_intent w db) (li_intent_id i) r = (w1, result)"
      "world_step N (after_intent w db) w1"
      "record_submission H w1 (li_intent_id i) observed result = (w', res)"
      "world_step N w1 w'" "lw_network w' = lw_network w1" "lw_db w1 = db"
proof (cases "en_now (envs (lw_tick w))")
  case (Naive t)
  with assms(4) show ?thesis by (intro quiet) (auto simp: live_submit_order_def aware_utc_def)
next
  case (Aware observed off)
  let ?env = "envs (lw_tick w)"
  note run = assms(4) [unfolded live_submit_order_def Let_def Aware aware_utc_def pytime.case sum.case]
  show ?thesis
  proof (cases "pre_submit H N policy ?env w r observed")
    case (Inl e)
    with run show ?thesis by (intro quiet) auto
  next
    case (Inr res1)
    then obtain db s where pre: "pre_submit H N policy ?env w r observed = Inr (db, s)" by (cases res1) auto
    show ?thesis
    proof (cases s)
      case (Answer ack)
      from pre obtain risks where risks: "db = (lw_db w)\<lparr>ld_risks := risks\<rparr>" "live_step (lw_db w) db"
        unfolding Answer by (cases rule: pre_submit_cases) auto
      have "w' = w\<lparr>lw_db := db\<rparr>" using run pre by (simp add: Answer)
      with risks risks_step [OF risks] show ?thesis by (intro quiet) auto
    next
      case (Submit iid)
      note pre = pre [unfolded Submit]
      obtain p i where i: "iid = li_intent_id i" "prediction_by_id (lw_predictions w) (rq_prediction_id r) = Inr (Some p)"
        "source_request_matches (Some p) r" "order_admitted policy ?env w r observed p"
        "ld_intents db = ld_intents (lw_db w) @ [i]" "intent_says N i r (lr_policy_version policy)" "strip iid = iid"
        "li_intent_id i \<notin> li_intent_id ` set (ld_intents (lw_db w))" "ld_order_events db = ld_order_events (lw_db w)"
        "world_step N w (after_intent w db)"
        using intended_step [OF assms(1-3) pre] by metis
      obtain w1 result where call: "call_submit ?env (after_intent w db) iid r = (w1, result)"
        by (cases "call_submit ?env (after_intent w db) iid r") auto
      have recd: "record_submission H w1 iid observed result = (w', res)"
        using run pre call by (simp add: after_intent_def)
      have "i \<in> set (ld_intents (lw_db (after_intent w db)))" "iid \<notin> set (submitted (after_intent w db))"
        using intent_unowned(1) [OF assms(5) i(8)] i(1,5) by (simp_all add: after_intent_def)
      note step1 = call_submit_step [OF call this(1) i(1) [symmetric] i(6) this(2)]
      have "iid \<in> li_intent_id ` set (ld_intents (lw_db w1))" "events_of (lw_db w1) submission_types iid = []"
        using intent_unowned(2) [OF assms(5) i(8)] i(1,5,9) step1(2) by (simp_all add: after_intent_def events_of_def)
      note step2 = record_submission_step [OF recd i(7) this]
      show ?thesis
        using called [OF Aware] pre call recd i step1 step2 by (simp add: after_intent_def)
    qed
  qed
qed

lemma live_submit_step:
  assumes "sha256_like H" and "constructed r" and "strip (lr_policy_version policy) = lr_policy_version policy"
  shows "world_step N w (fst (live_submit_order H N policy envs w r))"
proof -
  obtain w' res where run: "live_submit_order H N policy envs w r = (w', res)" by fastforce
  have "world_step N w w'" if ok: "world_ok N w"
    using assms run ok by (cases rule: live_submit_cases) (auto intro: world_step_trans)
  then show ?thesis by (simp add: run world_step_def)
qed

section \<open>A cancellation\<close>

lemma accepted_event_Some:
  "accepted_event db oid = Some e \<Longrightarrow> e \<in> set (ld_order_events db) \<and> le_external_order_id e = Some oid \<and> le_event_type e = ''accepted''"
  by (auto simp: accepted_event_def last_option_def split: if_splits dest: last_in_set)

lemma cancel_types: "''cancelled'' \<notin> set submission_types" "''cancel_rejected'' \<notin> set submission_types"
  "''cancellation_unknown'' \<notin> set submission_types"
  by code_simp+

lemma cancellation_outcome_type:
  "cancellation_outcome oid observed result = (event_type, evidence, ack) \<Longrightarrow>
    event_type \<notin> set submission_types \<and> event_type \<in> set event_types"
  by (auto simp: cancellation_outcome_def cancel_types event_types_def split: option.splits if_splits)

lemma call_cancel_step:
  assumes "call_cancel env w oid = (w', result)"
  shows "world_step N w w'" and "lw_db w' = lw_db w"
proof -
  have "network_ok N (w\<lparr>lw_network := lw_network w @ [NetCancel oid]\<rparr>)" if "world_ok N w"
    using that by (auto simp: world_ok_def network_ok_def)
  then show "world_step N w w'" "lw_db w' = lw_db w"
    using assms network_step by (auto simp: call_cancel_def split: if_splits)
qed

lemma owned_id:
  assumes "world_ok N w" and "e \<in> set (ld_order_events (lw_db w))"
  shows "le_intent_id e \<in> li_intent_id ` set (ld_intents (lw_db w))" and "strip (le_intent_id e) = le_intent_id e"
  using assms by (auto simp: world_ok_def events_owned_def ids_plain_def)

lemma record_cancellation_step:
  assumes "record_cancellation H w iid oid observed result = (w', ack)" and "e \<in> set (ld_order_events (lw_db w))"
    and "iid = le_intent_id e" and "world_ok N w"
  shows "world_step N w w'" and "lw_network w' = lw_network w"
proof -
  obtain event_type evidence a where o: "cancellation_outcome oid observed result = (event_type, evidence, a)"
    by (cases "cancellation_outcome oid observed result") auto
  note id = owned_id [OF assms(4,2), folded assms(3)]
  show "world_step N w w'" "lw_network w' = lw_network w"
    using assms(1) record_step [of H w iid event_type observed "Some oid" evidence _ _ _ N] id
      cancellation_outcome_type [OF o]
    by (auto simp: record_cancellation_def o split: sum.splits)
qed

lemma live_cancel_step: "world_step N w (fst (live_cancel_order H envs w oid t))"
proof -
  obtain w' res where run: "live_cancel_order H envs w oid t = (w', res)" by fastforce
  have "world_step N w w'" if ok: "world_ok N w"
  proof (cases "\<exists>e. w' = w \<or> accepted_event (lw_db w) oid = Some e")
    case False
    with run show ?thesis by (auto simp: live_cancel_order_def split: sum.splits option.splits)
  next
    case True
    show ?thesis
    proof (cases "w' = w")
      case False
      with True obtain e where e: "accepted_event (lw_db w) oid = Some e" by auto
      then obtain w1 result observed where call: "call_cancel (envs (lw_tick w)) w oid = (w1, result)"
        and recd: "record_cancellation H w1 (le_intent_id e) oid observed result = (w', res)"
        using run False by (auto simp: live_cancel_order_def split: sum.splits if_splits prod.splits)
      note step1 = call_cancel_step [OF call]
      have "world_ok N w1" using step1(1) ok by (simp add: world_step_def)
      moreover have "e \<in> set (ld_order_events (lw_db w1))" using accepted_event_Some [OF e] by (simp add: step1(2))
      ultimately have "world_step N w1 w'" using record_cancellation_step [OF recd] by blast
      with step1(1) show ?thesis by (rule world_step_trans)
    qed simp
  qed
  then show ?thesis by (simp add: run world_step_def)
qed

section \<open>Every run of the gateway\<close>

text \<open>
  What may happen, in any order: a submission or a cancellation runs to its end; the process
  stops after the intent is stored, or after the call and before the record; the environment
  changes; the market moves; a prediction is published; another process records a
  reconciliation run or a readiness check, with any content.
\<close>

inductive live_moves ::
  "(string \<Rightarrow> string) \<Rightarrow> (dec \<Rightarrow> dec res) \<Rightarrow> dec live_policy \<Rightarrow> (nat \<Rightarrow> live_env) \<Rightarrow> live_world \<Rightarrow> live_world \<Rightarrow> bool"
  for H N policy envs where
  submit: "constructed r \<Longrightarrow> live_moves H N policy envs w (fst (live_submit_order H N policy envs w r))"
| stop_before_call: "constructed r \<Longrightarrow> pre_submit H N policy (envs (lw_tick w)) w r observed = Inr (db, Submit iid) \<Longrightarrow>
    live_moves H N policy envs w (after_intent w db)"
| stop_after_call: "constructed r \<Longrightarrow> pre_submit H N policy (envs (lw_tick w)) w r observed = Inr (db, Submit iid) \<Longrightarrow>
    live_moves H N policy envs w (fst (call_submit (envs (lw_tick w)) (after_intent w db) iid r))"
| cancel: "live_moves H N policy envs w (fst (live_cancel_order H envs w oid t))"
| stop_after_cancel: "accepted_event (lw_db w) oid = Some e \<Longrightarrow>
    live_moves H N policy envs w (fst (call_cancel (envs (lw_tick w)) w oid))"
| tick: "live_moves H N policy envs w (w\<lparr>lw_tick := Suc (lw_tick w)\<rparr>)"
| market: "live_moves H N policy envs w (w\<lparr>lw_states := states\<rparr>)"
| publish: "live_moves H N policy envs w (w\<lparr>lw_predictions := lw_predictions w @ [p]\<rparr>)"
| reconciled: "store_reconciliation_run H (lw_db w) t u c v = Inr (db, b, x) \<Longrightarrow> live_moves H N policy envs w (w\<lparr>lw_db := db\<rparr>)"
| checked: "store_readiness_check H (lw_db w) sha t eligible reasons v cid = Inr (db, b, y) \<Longrightarrow>
    live_moves H N policy envs w (w\<lparr>lw_db := db\<rparr>)"

lemma world_ok_frame:
  "world_ok N (w\<lparr>lw_tick := k\<rparr>) = world_ok N w" "world_ok N (w\<lparr>lw_states := s\<rparr>) = world_ok N w"
  "world_ok N (w\<lparr>lw_predictions := ps\<rparr>) = world_ok N w"
  by (simp_all add: world_ok_def network_ok_def submitted_def)

lemma live_moves_ok:
  assumes "live_moves H N policy envs w w'" and "world_ok N w" and "sha256_like H"
    and "strip (lr_policy_version policy) = lr_policy_version policy"
  shows "world_ok N w' \<and> live_extends (lw_db w) (lw_db w') \<and> prefix (lw_network w) (lw_network w')"
  using assms
proof (induction rule: live_moves.induct)
  case (submit r w)
  then show ?case using live_submit_step [of H r policy N w envs] by (simp add: world_step_def)
next
  case (stop_before_call r w observed db iid)
  obtain i where "world_step N w (after_intent w db)"
    using intended_step [OF stop_before_call(4,1,5,2)] by metis
  with stop_before_call(3) show ?case by (simp add: world_step_def)
next
  case (stop_after_call r w observed db iid)
  obtain i where i: "iid = li_intent_id i" "ld_intents db = ld_intents (lw_db w) @ [i]"
      "intent_says N i r (lr_policy_version policy)" "li_intent_id i \<notin> li_intent_id ` set (ld_intents (lw_db w))"
      "world_step N w (after_intent w db)"
    using intended_step [OF stop_after_call(4,1,5,2)] by metis
  obtain w1 result where call: "call_submit (envs (lw_tick w)) (after_intent w db) iid r = (w1, result)" by fastforce
  have "i \<in> set (ld_intents (lw_db (after_intent w db)))" "iid \<notin> set (submitted (after_intent w db))"
    using intent_unowned(1) [OF stop_after_call(3) i(4)] i(1,2) by (simp_all add: after_intent_def)
  note step = call_submit_step(1) [OF call this(1) i(1) [symmetric] i(3) this(2)]
  have "world_step N w w1" using i(5) step by (rule world_step_trans)
  with stop_after_call(3) show ?case by (simp add: call world_step_def)
next
  case (cancel w oid t)
  then show ?case using live_cancel_step [of N w H envs oid t] by (simp add: world_step_def)
next
  case (stop_after_cancel w oid e)
  obtain w1 result where call: "call_cancel (envs (lw_tick w)) w oid = (w1, result)" by fastforce
  show ?case using call_cancel_step(1) [OF call, of N] stop_after_cancel(2) by (simp add: call world_step_def)
next
  case (reconciled w t u c v db b x)
  from reports_step(1) [OF reconciled(1), of N] reconciled(2) show ?case by (simp add: world_step_def)
next
  case (checked w sha t eligible reasons v cid db b y)
  from reports_step(2) [OF checked(1), of N] checked(2) show ?case by (simp add: world_step_def)
qed (simp_all add: world_ok_frame)

lemma live_runs_ok:
  assumes "(live_moves H N policy envs)\<^sup>*\<^sup>* w w'" and "world_ok N w" and "sha256_like H"
    and "strip (lr_policy_version policy) = lr_policy_version policy"
  shows "world_ok N w' \<and> live_extends (lw_db w) (lw_db w') \<and> prefix (lw_network w) (lw_network w')"
  using assms(1)
proof induction
  case base
  with assms(2) show ?case by simp
next
  case (step u v)
  from live_moves_ok [OF step(2) _ assms(3,4)] step(3) show ?case
    by (meson live_extends_trans prefix_order.trans)
qed

section \<open>At most once\<close>

text \<open>The prediction and policy of every submission made.\<close>

definition intent_key_of :: "live_db \<Rightarrow> string \<Rightarrow> (string \<times> string) option" where
  "intent_key_of db iid = map_option intent_key (find (\<lambda>i. li_intent_id i = iid) (ld_intents db))"

definition submission_keys :: "live_world \<Rightarrow> (string \<times> string) option list" where
  "submission_keys w = map (intent_key_of (lw_db w)) (submitted w)"

lemma intent_key_of_Some:
  assumes "live_wf db" and "i \<in> set (ld_intents db)"
  shows "intent_key_of db (li_intent_id i) = Some (intent_key i)"
proof -
  have "find (\<lambda>j. li_intent_id j = li_intent_id i) (ld_intents db) \<noteq> None"
    using assms(2) by (auto simp: find_None_iff)
  then obtain j where "find (\<lambda>j. li_intent_id j = li_intent_id i) (ld_intents db) = Some j" by auto
  then have "j \<in> set (ld_intents db)" "li_intent_id j = li_intent_id i" by (auto simp: find_Some_iff)
  then have "j = i" using assms unique_on_inj [of li_intent_id] by (auto simp: live_wf_def)
  with \<open>find _ _ = Some j\<close> show ?thesis by (simp add: intent_key_of_def)
qed

lemma submission_keys_distinct:
  assumes "world_ok N w"
  shows "distinct (submission_keys w) \<and> None \<notin> set (submission_keys w)"
proof -
  have key: "\<exists>i \<in> set (ld_intents (lw_db w)). li_intent_id i = iid \<and> intent_key_of (lw_db w) iid = Some (intent_key i)"
    if "iid \<in> set (submitted w)" for iid
    using that assms intent_key_of_Some by (force simp: world_ok_def network_ok_def submitted_mem)
  have "inj_on (intent_key_of (lw_db w)) (set (submitted w))"
  proof (rule inj_onI)
    fix a b assume a: "a \<in> set (submitted w)" and b: "b \<in> set (submitted w)"
      and eq: "intent_key_of (lw_db w) a = intent_key_of (lw_db w) b"
    obtain i j where "i \<in> set (ld_intents (lw_db w))" "li_intent_id i = a" "j \<in> set (ld_intents (lw_db w))"
      "li_intent_id j = b" "intent_key i = intent_key j" using key [OF a] key [OF b] eq by auto
    then show "a = b" using assms unique_on_inj [of intent_key] by (auto simp: world_ok_def live_wf_def)
  qed
  then show ?thesis
    using assms key by (auto simp: submission_keys_def distinct_map world_ok_def network_ok_def dest: key)
qed

text \<open>C2: At most one order reaches the venue per prediction and policy: in every run of the live gateway,
  whatever requests and cancellations it serves, wherever the process stops between storing the
  intent, calling the client and recording the outcome, and whatever clock, interlock, health
  check, market and client answer and reconciliation runs record in between, no two submissions are for the same prediction and
  policy, and each was preceded by a durable intent that says the same token, price and size.
\<close>

theorem live_at_most_once:
  assumes "sha256_like H" and "strip (lr_policy_version policy) = lr_policy_version policy"
    and "world_ok N w" and "(live_moves H N policy envs)\<^sup>*\<^sup>* w w'"
  shows "distinct (submission_keys w') \<and> None \<notin> set (submission_keys w')
    \<and> (\<forall>iid token price size. NetSubmit iid token price size \<in> set (lw_network w') \<longrightarrow>
        (\<exists>i \<in> set (ld_intents (lw_db w')). li_intent_id i = iid \<and> li_token_id i = strip token
          \<and> N price = Inr (li_limit_price i) \<and> N size = Inr (li_size i)))"
proof -
  have ok: "world_ok N w'" using live_runs_ok [OF assms(4,3,1,2)] by simp
  then show ?thesis using submission_keys_distinct [OF ok] by (simp add: world_ok_def network_ok_def)
qed

section \<open>Nothing is submitted unless everything holds\<close>

text \<open>C3: A submission is gated: a request reaches the trading client only if it is exactly what its stored
  prediction says, no earlier intent exists for the prediction and policy, the interlock and the
  health check are positive at that instant, the account has no unresolved critical discrepancy,
  and the notional fits the trade limit and, with the exposure already there, the exposure limit;
  the call is made once, with the request's token, price and size, after its intent is stored.
\<close>

theorem live_submission_gated:
  assumes "sha256_like H" and "strip (lr_policy_version policy) = lr_policy_version policy"
    and "constructed r" and "world_ok N w" and "live_submit_order H N policy envs w r = (w', res)"
    and "lw_network w' \<noteq> lw_network w"
  shows "\<exists>observed off p i. en_now (envs (lw_tick w)) = Aware observed off
    \<and> prediction_by_id (lw_predictions w) (rq_prediction_id r) = Inr (Some p) \<and> source_request_matches (Some p) r
    \<and> order_admitted policy (envs (lw_tick w)) w r observed p
    \<and> intent_key i = (rq_prediction_id r, lr_policy_version policy) \<and> intent_key i \<notin> intent_key ` set (ld_intents (lw_db w))
    \<and> ld_intents (lw_db w') = ld_intents (lw_db w) @ [i]
    \<and> lw_network w' = lw_network w @ [NetSubmit (li_intent_id i) (rq_token_id r) (rq_limit_price r) (rq_requested_shares r)]"
  using assms(1,3,2,5,4)
proof (cases rule: live_submit_cases)
  case quiet
  with assms(6) show ?thesis by simp
next
  case (called observed off p i db w1 result)
  have ok: "world_ok N (after_intent w db)" "world_ok N w1"
    using called(8,10) assms(4) by (auto simp: world_step_def)
  have db: "ld_intents (lw_db w') = ld_intents (lw_db w) @ [i]"
  proof -
    have "ld_intents (lw_db w') = ld_intents (lw_db w1)"
      using called(11) by (auto simp: record_submission_def store_submission_event_def store_order_event_Inr
          split: prod.splits sum.splits)
    then show ?thesis using called(6,14) by simp
  qed
  have "unique_on intent_key (ld_intents db)" using ok(1) by (simp add: world_ok_def live_wf_def after_intent_def)
  then have "intent_key i \<notin> intent_key ` set (ld_intents (lw_db w))" by (simp add: called(6))
  moreover have "lw_network w1 \<noteq> lw_network w" using assms(6) called(13) by simp
  then have "lw_network w1 = lw_network w @ [NetSubmit (li_intent_id i) (rq_token_id r) (rq_limit_price r) (rq_requested_shares r)]"
    using called(9) by (auto simp: call_submit_def after_intent_def split: if_splits)
  ultimately show ?thesis using called db by (auto simp: intent_says_def)
qed

section \<open>An unresolved intent blocks everything\<close>

lemma fold_tally_unresolved:
  "ty_unresolved_seen (fold (tally_intent db resolved) is t) \<longleftrightarrow> ty_unresolved_seen t
    \<or> (\<exists>i \<in> set is. li_intent_id i \<notin> set resolved \<and> outcome_of db (li_intent_id i) = None)"
  by (induction "is" arbitrary: t) (auto simp: tally_intent_def Let_def)

lemma live_account_post_init_critical:
  "live_account_post_init (account_values e p l t c) = Inr a \<Longrightarrow> la_unresolved_critical a = c"
  by (auto simp: live_account_post_init_def account_values_def)

lemma read_account_unresolved:
  assumes "read_account db observed = Inr account" and "official_zero_fill_intents db observed = Inr resolved"
    and "i \<in> set (ld_intents db)" and "li_pre_submit_at i \<le> observed" and "li_intent_id i \<notin> set resolved"
    and "outcome_of db (li_intent_id i) = None"
  shows "1 \<le> la_unresolved_critical account"
proof -
  have seen: "ty_unresolved_seen (fold (tally_intent db resolved) (intents_until db observed) tally_start)"
    using assms(3-6) by (auto simp: fold_tally_unresolved intents_until_def)
  show ?thesis
    using assms(1,2) seen
    by (auto simp: read_account_def Let_def split: option.splits dest!: live_account_post_init_critical)
qed


end
