(* ===== verification/LiveRecovery.thy ===== *)
theory LiveRecovery
  imports LiveReconcile LiveSafety
begin

text \<open>
  Reconciliation and the live gateway together: what a run of the readiness service
  (\<open>live_readiness/service.py\<close>) means to the gateway (\<open>execution/live.py\<close>) that reads it.
\<close>

section \<open>The newest run\<close>

lemma sort_key_snoc:
  assumes "\<forall>y \<in> set xs. f y \<le> f x" shows "sort_key f (xs @ [x]) = sort_key f xs @ [x]"
proof (rule properties_for_sort_key)
  show "filter (\<lambda>y. f k = f y) (sort_key f xs @ [x]) = filter (\<lambda>y. f k = f y) (xs @ [x])" for k
    using sort_key_stable [of f "f k" xs] by (simp add: eq_commute [of "f k"])
  show "sorted (map f (sort_key f xs @ [x]))" using assms by (simp add: sorted_append)
qed simp

lemma newest_snoc: "\<forall>y \<in> set xs. f y \<le> f x \<Longrightarrow> newest f (xs @ [x]) = Some x"
  by (simp add: newest_def sort_key_snoc last_option_def)

lemma canonical_keys:
  assumes "canonical_payload (PDict d) = Inr c"
  obtains d' where "c = PDict d'" "map fst d' = map fst d"
proof -
  have "emap (\<lambda>(k, v). ebind (canonicalize v) (\<lambda>w. Inr (k, w))) d = Inr d' \<Longrightarrow> map fst d' = map fst d" for d'
    by (induction d arbitrary: d') auto
  with assms that show ?thesis by (auto simp: canonical_payload_def)
qed

lemma dget_None: "k \<notin> fst ` set d \<Longrightarrow> dget d k = PNone"
  by (simp add: dget_def flip: map_of_eq_None_iff)

lemma reconciliation_run_recorded:
  assumes "store_reconciliation_run H db (Aware t off) u c evidence = Inr (db', created, x)"
    and "ld_reconciliations db' \<noteq> ld_reconciliations db"
  obtains d where "ld_reconciliations db' = ld_reconciliations db @ [x]" "lx_observed_at x = t"
    "lx_evidence x = PDict d" "map fst d = map fst evidence"
proof -
  from assms(1) obtain ev rid digest e where c: "canonical_payload (PDict evidence) = Inr ev"
    and k: "existing_or_insert lx_reconciliation_id lx_semantic_sha256 reconciliation_coerce no_other e
      (ld_reconciliations db) \<lparr>lx_reconciliation_id = rid, lx_observed_at = t, lx_unresolved_count = u,
        lx_critical_count = c, lx_evidence = ev, lx_semantic_sha256 = digest, lx_created_at = t\<rparr>
      = Inr (ld_reconciliations db', created, x)"
    by (auto simp: store_reconciliation_run_def rp_utc_def simp del: canonicalize.simps)
  from k show ?thesis
  proof (cases rule: reconciliations.keep_cases)
    case existing
    with assms(2) show ?thesis by simp
  next
    case inserted
    then have "lx_observed_at x = t" "lx_evidence x = ev" by (auto simp: reconciliation_coerce_def)
    moreover obtain d where "ev = PDict d" "map fst d = map fst evidence" using c by (rule canonical_keys)
    ultimately show ?thesis using inserted(5) that by simp
  qed
qed

section \<open>A reconciliation run alone never reopens the gateway\<close>

lemma read_account_unproved:
  assumes "read_account db observed = Inr account" and "newest lx_observed_at (reconciliations_until db observed) = Some x"
    and "lx_evidence x = PDict d" and "{''account_snapshot'', ''reconciliation_kind''} \<inter> fst ` set d = {}"
    and "intents_until db observed \<noteq> []"
  shows "1 \<le> la_unresolved_critical account"
proof -
  have keys: "dget d ''account_snapshot'' = PNone" "dget d ''reconciliation_kind'' = PNone"
    using assms(4) by (auto intro: dget_None)
  then have "dict_or_empty (lx_evidence x) = Inr evidence \<Longrightarrow> dget evidence ''account_snapshot'' = PNone" for evidence
    by (auto simp: dict_or_empty_def assms(3) dget_def split: if_splits)
  moreover have "dict_or_empty (lx_evidence x) = Inr evidence \<Longrightarrow> pre_submission_close evidence = Inr False" for evidence
    using keys by (auto simp: dict_or_empty_def assms(3) pre_submission_close_def dget_def split: if_splits)
  ultimately show ?thesis
    using assms(1,2,5)
    by (auto simp: read_account_def Let_def dest!: live_account_post_init_critical split: if_splits)
qed


text \<open>A run changes nothing the gateway's invariant speaks of.\<close>

lemma reconcile_step:
  assumes "reconcile_snapshot H stale (lw_db w) orders t = Inr (db, res)"
  shows "world_step N w (w\<lparr>lw_db := db\<rparr>)"
  using assms by (rule reconcile_snapshot_Inr) (rule reports_step(1))

section \<open>A closed intent is never reconciled\<close>

text \<open>C37: an intent that was closed before its submission, and has no other event, counts as settled for
  the gateway, but every reconciliation with the venue, whatever orders the venue shows, reports
  it as a critical discrepancy, so that readiness stays blocked for good.
\<close>

theorem closed_intent_never_reconciles:
  assumes "live_wf db" and "i \<in> set (ld_intents db)" and "intent_events db (li_intent_id i) \<noteq> []"
    and "\<forall>e \<in> set (intent_events db (li_intent_id i)). le_event_type e = ''closed_before_submission'' \<and> le_external_order_id e = None"
    and "reconcile_snapshot H stale db orders (Aware observed off) = Inr (db', res)"
  shows "outcome_of db (li_intent_id i) = Some ''closed_before_submission'' \<and> 1 \<le> rr_critical_count res"
proof
  let ?closed = "intent_events db (li_intent_id i)"
  have "events_of db terminal_types (li_intent_id i) = ?closed"
    unfolding events_of_def intent_events_def
    by (rule filter_cong [OF refl]) (use assms(4) in \<open>auto simp: intent_events_def terminal_types_def\<close>)
  then show "outcome_of db (li_intent_id i) = Some ''closed_before_submission''"
    using assms(3,4) by (auto simp: outcome_of_def last_option_def)
  have "external_ids db (li_intent_id i) = []"
    using assms(4) by (auto simp: external_ids_def map_filter_def nonempty_text_def filter_empty_conv)
  moreover have "\<not> intent_rejected db (li_intent_id i)" using assms(4) by (auto simp: intent_rejected_def)
  ultimately have "\<not> ledger_agrees db orders observed stale" using assms(2) by (auto simp: ledger_agrees_def)
  then have found: "found_issues db orders observed stale \<noteq> []"
    using assms(1) by (simp add: found_issues_Nil live_wf_def)
  from assms(5) obtain issues where "reconciliation_issues db orders observed stale = Inr issues"
    "rr_critical_count res = critical_of issues" by (rule reconcile_snapshot_Inr) simp
  with reconciliation_issues_critical [of db orders observed stale issues] found
  show "1 \<le> rr_critical_count res" by (cases issues) auto
qed

end
