(* ===== verification/LiveRetry.thy ===== *)
theory LiveRetry
  imports LiveSafety
begin

text \<open>
  Retrying a submission: the live gateway implements the contract of \<^theory_text>\<open>PaperGateway\<close>'s
  boundary. An accepted order's request, submitted again, finds its order and calls no one.
\<close>

section \<open>An accepted submission is on record\<close>

text \<open>The request's intent exists and its submission was last recorded as accepted under \<open>oid\<close>.\<close>

definition settled_as :: "dec live_policy \<Rightarrow> live_world \<Rightarrow> request \<Rightarrow> string \<Rightarrow> bool" where
  "settled_as policy w r oid \<longleftrightarrow> (\<exists>p i e x.
     prediction_by_id (lw_predictions w) (rq_prediction_id r) = Inr (Some p) \<and> source_request_matches (Some p) r
     \<and> i \<in> set (ld_intents (lw_db w)) \<and> intent_key i = (rq_prediction_id r, lr_policy_version policy)
     \<and> last_option (events_of (lw_db w) submission_types (li_intent_id i)) = Some e
     \<and> le_event_type e = ''accepted'' \<and> nonempty_text (le_external_order_id e) = Some x \<and> strip x = oid)"

lemma order_ack_of_Inr:
  "order_ack_of oid b t reason = Inr ack \<longleftrightarrow> strip oid \<noteq> [] \<and> strip reason \<noteq> []
    \<and> ack = \<lparr>ack_order_id = strip oid, ack_accepted = b, ack_observed_at = t, ack_reason = strip reason\<rparr>"
  by (auto simp: order_ack_of_def order_ack_post_init_def text_field_def utc_time_def aware_utc_def Let_def)

lemma replay_accepted:
  assumes "replay_submission_ack db i t = Inr (Some ack)" and "ack_accepted ack"
  obtains e x where "last_option (events_of db submission_types (li_intent_id i)) = Some e" "le_event_type e = ''accepted''"
    "nonempty_text (le_external_order_id e) = Some x" "strip x = ack_order_id ack" "ack_order_id ack \<noteq> []"
  using assms that
  by (auto simp: replay_submission_ack_def order_ack_of_Inr Let_def split: option.splits bool.splits if_splits)

lemma pre_submit_accepted:
  assumes "pre_submit H N policy env w r t = Inr (db, Answer ack)" and "ack_accepted ack"
  obtains p i where "db = lw_db w" "prediction_by_id (lw_predictions w) (rq_prediction_id r) = Inr (Some p)"
    "source_request_matches (Some p) r"
    "intent_for_prediction (lw_db w) (rq_prediction_id r) (lr_policy_version policy) = Inr (Some i)"
    "replay_submission_ack (lw_db w) i t = Inr (Some ack)"
proof -
  obtain request_id prediction where
    prediction: "prediction_by_id (lw_predictions w) (rq_prediction_id r) = Inr prediction"
    and rid: "ebind (semantic_sha256 H (PDict (order_request_mapping r))) (derive_id ''live-request'') = Inr request_id"
    using assms(1) by (auto simp: pre_submit_def)
  note run = assms(1) [unfolded pre_submit_def rid prediction ebind_simps]
  have no: "order_ack_of a False b c = Inr ack \<Longrightarrow> thesis" for a b c
    using assms(2) by (simp add: order_ack_of_Inr)
  show ?thesis
  proof (cases "\<exists>p. prediction = Some p \<and> source_request_matches prediction r")
    case False
    with run no show ?thesis by (cases prediction) auto
  next
    case True
    then obtain p where p: "prediction = Some p" and matches: "source_request_matches (Some p) r" by auto
    from run p matches obtain existing replay where
      e: "intent_for_prediction (lw_db w) (rq_prediction_id r) (lr_policy_version policy) = Inr existing"
      and replay: "(case existing of None \<Rightarrow> Inr None | Some i \<Rightarrow> replay_submission_ack (lw_db w) i t) = Inr replay"
      and run': "(case replay of Some ack \<Rightarrow> Inr (lw_db w, Answer ack)
        | None \<Rightarrow> decide_and_intend H N policy env w r request_id t p (\<exists>y. existing = Some y)) = Inr (db, Answer ack)"
      by auto
    show ?thesis
    proof (cases replay)
      case None
      with run' no show ?thesis by (auto simp: decide_and_intend_def split: if_splits)
    next
      case (Some a)
      with replay obtain i where "existing = Some i" "replay_submission_ack (lw_db w) i t = Inr (Some a)"
        by (cases existing) auto
      with run' Some that prediction p matches e show ?thesis by auto
    qed
  qed
qed

lemma intent_for_prediction_Some:
  assumes "intent_for_prediction db pid version = Inr (Some i)"
  shows "i \<in> set (ld_intents db)" "intent_key i = (pid, version)"
proof -
  have "filter (\<lambda>i. li_prediction_id i = pid \<and> li_policy_version i = version) (ld_intents db) = [i]"
    using assms by (simp add: intent_for_prediction_def)
  then have "i \<in> set (filter (\<lambda>i. li_prediction_id i = pid \<and> li_policy_version i = version) (ld_intents db))" by simp
  then show "i \<in> set (ld_intents db)" "intent_key i = (pid, version)" by (auto simp: intent_key_def)
qed

lemma intent_for_prediction_unique:
  assumes "live_wf db" and "i \<in> set (ld_intents db)" and "intent_key i = (pid, version)"
  shows "intent_for_prediction db pid version = Inr (Some i)"
proof -
  have "li_prediction_id i = pid" "li_policy_version i = version" using assms(3) by (simp_all add: intent_key_def)
  then have "(\<lambda>x. li_prediction_id x = pid \<and> li_policy_version x = version) = (\<lambda>x. intent_key x = intent_key i)"
    by (auto simp: intent_key_def)
  then show ?thesis using unique_on_lookup [OF live_wf_intents [OF assms(1)] assms(2)]
    by (simp add: intent_for_prediction_def)
qed

lemma record_accepted:
  assumes "record_submission H w iid t result = (w', Inr ack)" and "ack_accepted ack"
    and "strip iid = iid" and "length iid = 44" and "world_ok N w" and "events_of (lw_db w) submission_types iid = []"
  obtains e x where "last_option (events_of (lw_db w') submission_types iid) = Some e" "le_event_type e = ''accepted''"
    "nonempty_text (le_external_order_id e) = Some x" "strip x = ack_order_id ack" "ack_order_id ack \<noteq> []"
proof -
  obtain oid evidence where o: "submission_outcome iid t result = (''accepted'', Some oid, evidence, Inr ack)"
    "ack_order_id ack = strip oid" "strip oid \<noteq> []"
    using assms(1,2)
    by (cases result) (auto simp: record_submission_def submission_outcome_def order_ack_of_Inr
        split: option.splits bool.splits if_splits sum.splits)
  obtain db created e where s: "store_submission_event H (lw_db w) iid ''accepted'' t (Some oid) evidence = Inr (db, created, e)"
    and w': "w' = w\<lparr>lw_db := db\<rparr>"
    using assms(1) o by (auto simp: record_submission_def split: sum.splits)
  have types: "''accepted'' \<in> set event_types" "''accepted'' \<in> set submission_types" by code_simp+
  have none: "events_of (lw_db w) [''accepted''] iid = []"
    using assms(6) types(2) by (auto simp: events_of_def filter_empty_conv)
  have owned: "events_owned (lw_db w)" "ids_plain (lw_db w)" using assms(5) by (simp_all add: world_ok_def)
  note new = store_submission_event_new [OF s assms(3) types(1) assms(4) owned none]
  have "events_of (lw_db w') submission_types iid = [e]"
    using assms(6) types(2) new by (simp add: events_of_def w')
  then show ?thesis using that [of e "strip oid"] new o by (simp add: last_option_def nonempty_text_def)
qed

lemma accepted_settled:
  assumes "sha256_like H" and "constructed r" and "strip (lr_policy_version policy) = lr_policy_version policy"
    and "live_submit_order H N policy envs w r = (w', Inr ack)" and "world_ok N w" and "ack_accepted ack"
  shows "settled_as policy w' r (ack_order_id ack) \<and> ack_order_id ack \<noteq> []"
proof (cases "en_now (envs (lw_tick w))")
  case (Naive t)
  with assms(4) show ?thesis by (simp add: live_submit_order_def aware_utc_def)
next
  case (Aware t off)
  let ?env = "envs (lw_tick w)"
  note run = assms(4) [unfolded live_submit_order_def Let_def Aware aware_utc_def pytime.case sum.case]
  obtain db s where pre: "pre_submit H N policy ?env w r t = Inr (db, s)" using run by (auto split: sum.splits)
  show ?thesis
  proof (cases s)
    case (Answer a)
    then have a: "a = ack" "w' = w\<lparr>lw_db := db\<rparr>" using run pre by auto
    obtain p i where i: "db = lw_db w" "prediction_by_id (lw_predictions w) (rq_prediction_id r) = Inr (Some p)"
      "source_request_matches (Some p) r"
      "intent_for_prediction (lw_db w) (rq_prediction_id r) (lr_policy_version policy) = Inr (Some i)"
      "replay_submission_ack (lw_db w) i t = Inr (Some ack)"
      using pre_submit_accepted [OF pre [unfolded Answer a(1)] assms(6)] by blast
    obtain e x where "last_option (events_of (lw_db w) submission_types (li_intent_id i)) = Some e"
      "le_event_type e = ''accepted''" "nonempty_text (le_external_order_id e) = Some x" "strip x = ack_order_id ack"
      "ack_order_id ack \<noteq> []"
      using replay_accepted [OF i(5) assms(6)] by blast
    then show ?thesis using i(1-3) intent_for_prediction_Some [OF i(4)] by (auto simp: settled_as_def a)
  next
    case (Submit iid)
    note pre = pre [unfolded Submit]
    obtain p i where i: "iid = li_intent_id i" "prediction_by_id (lw_predictions w) (rq_prediction_id r) = Inr (Some p)"
      "source_request_matches (Some p) r" "ld_intents db = ld_intents (lw_db w) @ [i]"
      "intent_says N i r (lr_policy_version policy)" "strip iid = iid" "length iid = 44"
      "li_intent_id i \<notin> li_intent_id ` set (ld_intents (lw_db w))" "ld_order_events db = ld_order_events (lw_db w)"
      "world_step N w (after_intent w db)"
      using intended_step [OF assms(1-3) pre] by metis
    obtain w1 result where call: "call_submit ?env (after_intent w db) iid r = (w1, result)" by fastforce
    have recd: "record_submission H w1 iid t result = (w', Inr ack)"
      using run pre call by (simp add: after_intent_def)
    have "i \<in> set (ld_intents (lw_db (after_intent w db)))" "iid \<notin> set (submitted (after_intent w db))"
      using intent_unowned(1) [OF assms(5) i(8)] i(1,4) by (simp_all add: after_intent_def)
    note step = call_submit_step [OF call this(1) i(1) [symmetric] i(5) this(2)]
    have ok: "world_ok N w1" using i(10) step(1) assms(5) by (simp add: world_step_def)
    have none: "events_of (lw_db w1) submission_types iid = []"
      using intent_unowned(2) [OF assms(5) i(8)] i(1,9) step(2) by (simp add: after_intent_def events_of_def)
    obtain e x where e: "last_option (events_of (lw_db w') submission_types iid) = Some e"
      "le_event_type e = ''accepted''" "nonempty_text (le_external_order_id e) = Some x" "strip x = ack_order_id ack"
      "ack_order_id ack \<noteq> []"
      using record_accepted [OF recd assms(6) i(6,7) ok none] by blast
    have "iid \<in> li_intent_id ` set (ld_intents (lw_db w1))" using i(1,4) step(2) by (simp add: after_intent_def)
    then have "world_step N w1 w'" using record_submission_step(1) [OF recd i(6)] none by blast
    then have "set (ld_intents (lw_db w1)) \<subseteq> set (ld_intents (lw_db w'))" "lw_predictions w' = lw_predictions w1"
      using ok by (auto simp: world_step_def live_extends_def dest: set_mono_prefix)
    moreover have "lw_predictions w1 = lw_predictions w" using call by (auto simp: call_submit_def after_intent_def split: if_splits)
    ultimately show ?thesis using i e step(2) by (auto simp: settled_as_def intent_says_def after_intent_def)
  qed
qed

section \<open>Submitting again\<close>

lemma settled_step:
  assumes "settled_as policy w r oid" and "world_ok N w" and "world_step N w w'"
  shows "settled_as policy w' r oid"
proof -
  from assms(1) obtain p i e x where s: "prediction_by_id (lw_predictions w) (rq_prediction_id r) = Inr (Some p)"
    "source_request_matches (Some p) r" "i \<in> set (ld_intents (lw_db w))"
    "intent_key i = (rq_prediction_id r, lr_policy_version policy)"
    "last_option (events_of (lw_db w) submission_types (li_intent_id i)) = Some e" "le_event_type e = ''accepted''"
    "nonempty_text (le_external_order_id e) = Some x" "strip x = oid"
    by (auto simp: settled_as_def)
  have "events_of (lw_db w) submission_types (li_intent_id i) \<noteq> []" using s(5) by (auto simp: last_option_def)
  then have "events_of (lw_db w') submission_types (li_intent_id i) = events_of (lw_db w) submission_types (li_intent_id i)"
    using assms(2,3) s(3) by (auto simp: world_step_def outcome_kept_def)
  moreover have "i \<in> set (ld_intents (lw_db w'))" "lw_predictions w' = lw_predictions w"
    using assms(2,3) s(3) by (auto simp: world_step_def live_extends_def dest: set_mono_prefix)
  ultimately show ?thesis using s by (auto simp: settled_as_def)
qed

lemma settled_replay:
  assumes "settled_as policy w r oid" and "oid \<noteq> []" and "live_wf (lw_db w)"
    and "en_now (envs (lw_tick w)) = Aware t off"
    and "ebind (semantic_sha256 H (PDict (order_request_mapping r))) (derive_id ''live-request'') = Inr request_id"
  shows "live_submit_order H N policy envs w r
    = (w, Inr \<lparr>ack_order_id = oid, ack_accepted = True, ack_observed_at = t, ack_reason = ''existing''\<rparr>)"
proof -
  from assms(1) obtain p i e x where s: "prediction_by_id (lw_predictions w) (rq_prediction_id r) = Inr (Some p)"
    "source_request_matches (Some p) r" "i \<in> set (ld_intents (lw_db w))"
    "intent_key i = (rq_prediction_id r, lr_policy_version policy)"
    "last_option (events_of (lw_db w) submission_types (li_intent_id i)) = Some e" "le_event_type e = ''accepted''"
    "nonempty_text (le_external_order_id e) = Some x" "strip x = oid"
    by (auto simp: settled_as_def)
  have "strip ''existing'' = ''existing''" by code_simp
  then have "replay_submission_ack (lw_db w) i t = Inr (Some \<lparr>ack_order_id = oid, ack_accepted = True,
      ack_observed_at = t, ack_reason = ''existing''\<rparr>)"
    using s assms(2) by (simp add: replay_submission_ack_def order_ack_of_Inr)
  then have "pre_submit H N policy (envs (lw_tick w)) w r t = Inr (lw_db w, Answer \<lparr>ack_order_id = oid, ack_accepted = True,
      ack_observed_at = t, ack_reason = ''existing''\<rparr>)"
    unfolding pre_submit_def assms(5) ebind_simps
    using s(1,2) intent_for_prediction_unique [OF assms(3) s(3,4)] by simp
  then show ?thesis by (simp add: live_submit_order_def Let_def assms(4) aware_utc_def)
qed

text \<open>The client's view: it constructs a request, which may raise, and submits it.\<close>

definition live_submit ::
  "(string \<Rightarrow> string) \<Rightarrow> (dec \<Rightarrow> dec res) \<Rightarrow> dec live_policy \<Rightarrow> (nat \<Rightarrow> live_env) \<Rightarrow> live_world
    \<Rightarrow> (decimal, pytime) order_request \<Rightarrow> live_world \<times> int order_ack res" where
  "live_submit H N policy envs w input = (case order_request_post_init input of
       Inl e \<Rightarrow> (w, Inl e) | Inr r \<Rightarrow> live_submit_order H N policy envs w r)"

definition repeated_ack :: "(nat \<Rightarrow> live_env) \<Rightarrow> live_world \<Rightarrow> int order_ack \<Rightarrow> int order_ack" where
  "repeated_ack envs w ack = ack\<lparr>ack_observed_at := instant (en_now (envs (lw_tick w))), ack_reason := ''existing''\<rparr>"

definition clock_aware :: "(nat \<Rightarrow> live_env) \<Rightarrow> bool" where
  "clock_aware envs \<longleftrightarrow> (\<forall>k. \<exists>t off. en_now (envs k) = Aware t off)"

definition deployed :: "(string \<Rightarrow> string) \<Rightarrow> dec live_policy \<Rightarrow> bool" where
  "deployed H policy \<longleftrightarrow> sha256_like H \<and> strip (lr_policy_version policy) = lr_policy_version policy"

definition live_step_of :: "(string \<Rightarrow> string) \<Rightarrow> (dec \<Rightarrow> dec res) \<Rightarrow> dec live_policy \<Rightarrow> live_world \<Rightarrow> live_world \<Rightarrow> bool" where
  "live_step_of H N policy w w' \<longleftrightarrow> (deployed H policy \<longrightarrow> world_step N w w')"

definition live_inv_of ::
  "(string \<Rightarrow> string) \<Rightarrow> (dec \<Rightarrow> dec res) \<Rightarrow> dec live_policy \<Rightarrow> (nat \<Rightarrow> live_env) \<Rightarrow> live_world \<Rightarrow> bool" where
  "live_inv_of H N policy envs w \<longleftrightarrow> deployed H policy \<and> clock_aware envs \<and> world_ok N w"

lemma submit_request_id:
  assumes "live_submit_order H N policy envs w r = (w', Inr ack)"
  shows "\<exists>request_id. ebind (semantic_sha256 H (PDict (order_request_mapping r))) (derive_id ''live-request'') = Inr request_id"
proof -
  obtain t x where "pre_submit H N policy (envs (lw_tick w)) w r t = Inr x"
    using assms by (auto simp: live_submit_order_def Let_def split: sum.splits)
  then show ?thesis unfolding pre_submit_def ebind_Inr_iff by blast
qed

lemma live_resubmit:
  assumes inv: "live_inv_of H N policy envs w" and run: "live_submit H N policy envs w input = (w', Inr ack)"
    and accepted: "ack_accepted ack" and step: "live_step_of H N policy w' w''"
  shows "live_submit H N policy envs w'' input = (w'', Inr (repeated_ack envs w'' ack))"
proof -
  have d: "sha256_like H" "strip (lr_policy_version policy) = lr_policy_version policy" "world_ok N w"
    using inv by (simp_all add: live_inv_of_def deployed_def)
  obtain r where r: "order_request_post_init input = Inr r" and run': "live_submit_order H N policy envs w r = (w', Inr ack)"
    using run by (auto simp: live_submit_def split: sum.splits)
  have c: "constructed r" using r by (auto simp: constructed_def)
  note settled = accepted_settled [OF d(1) c d(2) run' d(3) accepted]
  have ok: "world_ok N w'" using live_submit_step [OF d(1) c d(2), of N w envs] d(3) run' by (simp add: world_step_def)
  have step': "world_step N w' w''" using step d by (simp add: live_step_of_def deployed_def)
  have ok': "live_wf (lw_db w'')" using ok step' by (simp add: world_step_def world_ok_def)
  obtain t off where now: "en_now (envs (lw_tick w'')) = Aware t off" using inv unfolding live_inv_of_def clock_aware_def by blast
  obtain request_id where
    rid: "ebind (semantic_sha256 H (PDict (order_request_mapping r))) (derive_id ''live-request'') = Inr request_id"
    using submit_request_id [OF run'] by blast
  have "settled_as policy w'' r (ack_order_id ack)" using settled_step [OF _ ok step'] settled by blast
  from settled_replay [where envs = envs, OF this conjunct2 [OF settled] ok' now rid] have
    "live_submit_order H N policy envs w'' r = (w'', Inr \<lparr>ack_order_id = ack_order_id ack, ack_accepted = True,
      ack_observed_at = t, ack_reason = ''existing''\<rparr>)" .
  with r accepted show ?thesis by (simp add: live_submit_def repeated_ack_def now instant_def)
qed

lemma live_client_step:
  assumes "deployed H policy"
  shows "world_step N w (fst (live_submit H N policy envs w input))"
proof (cases "order_request_post_init input")
  case (Inr r)
  then have "constructed r" by (auto simp: constructed_def)
  with assms show ?thesis using live_submit_step [of H r policy] by (simp add: live_submit_def Inr deployed_def)
qed (simp add: live_submit_def)

interpretation live_gateway: idempotent_gateway "live_submit H N policy envs" "live_cancel_order H envs"
  "live_step_of H N policy" "live_inv_of H N policy envs" "repeated_ack envs" for H N policy envs
proof unfold_locales
  fix s s' s'' :: live_world and r :: "(decimal, pytime) order_request"
  show "live_step_of H N policy s s" by (simp add: live_step_of_def)
  show "live_step_of H N policy s s' \<Longrightarrow> live_step_of H N policy s' s'' \<Longrightarrow> live_step_of H N policy s s''"
    by (auto simp: live_step_of_def intro: world_step_trans)
  show "live_step_of H N policy s (fst (live_submit H N policy envs s r))"
    using live_client_step by (simp add: live_step_of_def)
  show "live_step_of H N policy s (fst (live_cancel_order H envs s oid t))" for oid t
    using live_cancel_step by (simp add: live_step_of_def)
  show "live_step_of H N policy s s' \<Longrightarrow> live_inv_of H N policy envs s \<Longrightarrow> live_inv_of H N policy envs s'"
    by (simp add: live_step_of_def live_inv_of_def world_step_def)
qed (rule live_resubmit)


end
