(* ===== verification/LiveCancel.thy ===== *)
theory LiveCancel
  imports LiveRetry
begin

text \<open>
  Cancelling a live order: what reaches the venue, that a cancellation is final, and what happens
  when the venue refuses one twice.
\<close>

section \<open>Cancellations\<close>

lemma live_cancel_cases:
  assumes "live_cancel_order H envs w oid t = (w', res)"
  obtains (quiet) "w' = w"
  | (called) observed off e w1 result where "t = Aware observed off" "accepted_event (lw_db w) oid = Some e"
      "events_of (lw_db w) [''cancelled''] (le_intent_id e) = []"
      "call_cancel (envs (lw_tick w)) w oid = (w1, result)"
      "record_cancellation H w1 (le_intent_id e) oid observed result = (w', res)"
proof (cases "w' = w")
  case False
  then obtain observed off where t: "t = Aware observed off"
    using assms by (auto simp: live_cancel_order_def aware_utc_def split: pytime.splits)
  obtain e where e: "accepted_event (lw_db w) oid = Some e"
    using assms False t by (auto simp: live_cancel_order_def aware_utc_def split: option.splits)
  obtain w1 result where call: "call_cancel (envs (lw_tick w)) w oid = (w1, result)" by fastforce
  show ?thesis
    using assms False t e call called [OF t e _ call]
    by (auto simp: live_cancel_order_def aware_utc_def split: if_splits)
qed (rule quiet)

lemma record_cancellation_db:
  "record_cancellation H w iid oid observed result = (w', res) \<Longrightarrow> lw_network w' = lw_network w \<and> lw_tick w' = lw_tick w"
  by (auto simp: record_cancellation_def split: prod.splits sum.splits)

text \<open>A cancellation reaches the venue only for an order it accepted whose intent has no recorded
  cancellation, and exactly once per request.
\<close>

theorem live_cancel_gated:
  assumes "live_cancel_order H envs w oid t = (w', res)" and "lw_network w' \<noteq> lw_network w"
  shows "\<exists>e \<in> set (ld_order_events (lw_db w)). le_event_type e = ''accepted'' \<and> le_external_order_id e = Some oid
    \<and> events_of (lw_db w) [''cancelled''] (le_intent_id e) = [] \<and> lw_network w' = lw_network w @ [NetCancel oid]"
  using assms(1)
proof (cases rule: live_cancel_cases)
  case quiet
  with assms(2) show ?thesis by simp
next
  case (called observed off e w1 result)
  have "lw_network w' = lw_network w1" using record_cancellation_db [OF called(5)] by simp
  moreover have "lw_network w1 \<in> {lw_network w, lw_network w @ [NetCancel oid]}"
    using called(4) by (auto simp: call_cancel_def split: if_splits)
  ultimately show ?thesis using assms(2) called(3) accepted_event_Some [OF called(2)] by auto
qed

lemma cancelled_recorded:
  assumes "record_cancellation H w iid oid observed result = (w', Inr ack)" and "cak_cancelled ack"
    and "e \<in> set (ld_order_events (lw_db w))" and "iid = le_intent_id e" and "world_ok N w"
  shows "events_of (lw_db w') [''cancelled''] iid \<noteq> []" and "accepted_event (lw_db w') oid = accepted_event (lw_db w) oid"
proof -
  have unacked: "cancel_ack_of oid False observed r = Inr ack \<Longrightarrow> False" for r
    using assms(2) by (auto simp: cancel_ack_of_def cancel_ack_post_init_def)
  then obtain evidence where o: "cancellation_outcome oid observed result = (''cancelled'', evidence, Inr ack)"
    using assms(1) by (auto simp: record_cancellation_def cancellation_outcome_def split: option.splits if_splits sum.splits)
  obtain db created x where s: "store_submission_event H (lw_db w) iid ''cancelled'' observed (Some oid) evidence = Inr (db, created, x)"
    and w': "w' = w\<lparr>lw_db := db\<rparr>"
    using assms(1) by (auto simp: record_cancellation_def o split: sum.splits)
  note id = owned_id [OF assms(5,3), folded assms(4)]
  have t: "''cancelled'' \<in> set event_types" "''accepted'' \<noteq> ''cancelled''" by code_simp+
  have keyed: "y \<in> set (ld_order_events (lw_db w)) \<Longrightarrow> le_event_key y = le_intent_id y @ '':'' @ le_event_type y
      \<and> length (le_intent_id y) = 44" for y
    using assms(5) by (auto simp: world_ok_def events_owned_def ids_plain_def)
  have len: "length iid = 44" using keyed [OF assms(3)] assms(4) by simp
  from s id(2) t(1) have "events_of db [''cancelled''] iid \<noteq> [] \<and> accepted_event db oid = accepted_event (lw_db w) oid"
  proof (cases rule: store_submission_event_frame)
    case 1
    have "iid @ ('':'' @ ''cancelled'') = le_intent_id x @ ('':'' @ le_event_type x)" using keyed [OF 1(4)] 1(5) by metis
    moreover have "length iid = length (le_intent_id x)" using keyed [OF 1(4)] len by simp
    ultimately have "le_intent_id x = iid \<and> le_event_type x = ''cancelled''" using append_eq_append_conv [of iid "le_intent_id x"] by auto
    with 1 show ?thesis by (auto simp: events_of_def accepted_event_def filter_empty_conv)
  next
    case 2
    with t(2) show ?thesis by (simp add: events_of_def accepted_event_def)
  qed
  then show "events_of (lw_db w') [''cancelled''] iid \<noteq> []" "accepted_event (lw_db w') oid = accepted_event (lw_db w) oid"
    by (simp_all add: w')
qed

text \<open>A cancellation is final: once the gateway has answered that an order is cancelled, cancelling it
  again at any instant answers that it already is, changes nothing and calls no one.
\<close>

theorem live_cancel_final:
  assumes "world_ok N w" and "live_cancel_order H envs w oid t = (w', Inr ack)" and "cak_cancelled ack"
  shows "live_cancel_order H envs w' oid (Aware again off) = (w', cancel_ack_of oid True again ''already_cancelled'')"
proof -
  have "\<exists>e. accepted_event (lw_db w') oid = Some e \<and> events_of (lw_db w') [''cancelled''] (le_intent_id e) \<noteq> []"
    using assms(2)
  proof (cases rule: live_cancel_cases)
    case quiet
    have unacked: "cancel_ack_of oid False o' r = Inr ack \<Longrightarrow> False" for o' r
      using assms(3) by (auto simp: cancel_ack_of_def cancel_ack_post_init_def)
    show ?thesis
    proof (rule ccontr)
      assume contra: "\<not> ?thesis"
      then obtain e observed where e: "accepted_event (lw_db w) oid = Some e"
        and none: "events_of (lw_db w) [''cancelled''] (le_intent_id e) = []" and t: "aware_utc (ValueError ''observed_at must be timezone-aware'') t = Inr observed"
        using assms(2) unacked quiet by (auto simp: live_cancel_order_def split: sum.splits option.splits if_splits)
      obtain w1 result where call: "call_cancel (envs (lw_tick w)) w oid = (w1, result)" by fastforce
      have recd: "record_cancellation H w1 (le_intent_id e) oid observed result = (w', Inr ack)"
        using assms(2) t e none call by (simp add: live_cancel_order_def)
      have "world_ok N w1" "e \<in> set (ld_order_events (lw_db w1))"
        using call_cancel_step [OF call] assms(1) accepted_event_Some [OF e] by (auto simp: world_step_def)
      from cancelled_recorded [OF recd assms(3) this(2) refl this(1)] call_cancel_step(2) [OF call] e contra
      show False by auto
    qed
  next
    case (called observed off' e w1 result)
    have "world_ok N w1" "e \<in> set (ld_order_events (lw_db w1))"
      using call_cancel_step [OF called(4)] assms(1) accepted_event_Some [OF called(2)] by (auto simp: world_step_def)
    from cancelled_recorded [OF called(5) assms(3) this(2) refl this(1)] call_cancel_step(2) [OF called(4)] called(2)
    show ?thesis by auto
  qed
  then show ?thesis by (auto simp: live_cancel_order_def aware_utc_def)
qed

section \<open>Concrete cancellations\<close>

definition ex_accepted_event :: order_event_row where
  "ex_accepted_event = \<lparr>le_event_key = li_intent_id ex_intent_row @ '':accepted'', le_intent_id = li_intent_id ex_intent_row,
     le_event_type = ''accepted'', le_external_order_id = Some ''x1'', le_external_trade_id = None, le_observed_at = 0,
     le_evidence = PDict [(''status'', PStr ''live'')], le_semantic_sha256 = replicate 64 CHR ''b'', le_created_at = 0\<rparr>"

definition ex_open_world :: live_world where
  "ex_open_world = \<lparr>lw_db = ex_live_db\<lparr>ld_intents := [ex_intent_row], ld_order_events := [ex_accepted_event]\<rparr>,
     lw_predictions = [], lw_states = [], lw_network = [], lw_tick = 0\<rparr>"

definition ex_cancel_env :: "cancel_result option \<Rightarrow> live_env" where
  "ex_cancel_env reply = \<lparr>en_now = Aware 0 0, en_interlock = (\<lambda>_. None), en_api_health = None, en_client = True,
     en_submit = (\<lambda>_ _ _. None), en_cancel = (\<lambda>_. reply)\<rparr>"

definition ex_refusal :: cancel_result where
  "ex_refusal = \<lparr>cr_cancelled = False, cr_status = ''not_cancelled'', cr_message = ''try later''\<rparr>"

definition ex_cancelled :: "live_world \<times> int cancel_ack res" where
  "ex_cancelled = live_cancel_order ex_parity (\<lambda>_. ex_cancel_env (Some \<lparr>cr_cancelled = True, cr_status = ''cancelled'', cr_message = ''''\<rparr>))
     ex_open_world ''x1'' (Aware 3000000 0)"

definition ex_refused :: "live_world \<times> int cancel_ack res" where
  "ex_refused = live_cancel_order ex_parity (\<lambda>_. ex_cancel_env (Some ex_refusal)) ex_open_world ''x1'' (Aware 3000000 0)"

definition ex_refused_again :: "live_world \<times> int cancel_ack res" where
  "ex_refused_again = live_cancel_order ex_parity (\<lambda>_. ex_cancel_env (Some ex_refusal)) (fst ex_refused) ''x1'' (Aware 3500000 0)"

lemma ex_open_world_ok: "world_ok ex_N ex_open_world"
proof -
  have "strip (li_intent_id ex_intent_row) = li_intent_id ex_intent_row" "length (li_intent_id ex_intent_row) = 44"
    "li_side ex_intent_row = ''BUY''" "length (li_semantic_sha256 ex_intent_row) = 64"
    by code_simp+
  moreover have "0 < dval (li_size ex_intent_row)" "0 < dval (li_limit_price ex_intent_row)" "dval (li_limit_price ex_intent_row) \<le> 1"
    by (simp_all add: ex_intent_row_def dval_def power_int_def)
  ultimately show ?thesis
    by (simp add: world_ok_def live_wf_def ids_plain_def events_owned_def network_ok_def submitted_def ex_open_world_def
        ex_live_db_def unique_on_def map_filter_def intent_ok_def ex_accepted_event_def)
qed

theorem live_cancel_gated_witness:
  "lw_network (fst ex_refused) = [NetCancel ''x1'']"
proof -
  have n: "lw_network (fst ex_refused) \<noteq> lw_network ex_open_world" by code_simp
  have "live_cancel_order ex_parity (\<lambda>_. ex_cancel_env (Some ex_refusal)) ex_open_world ''x1'' (Aware 3000000 0)
    = (fst ex_refused, snd ex_refused)" by (simp add: ex_refused_def)
  from live_cancel_gated [OF this n] show ?thesis by (auto simp: ex_open_world_def)
qed

theorem live_cancel_final_witness:
  "live_cancel_order ex_parity (\<lambda>_. ex_cancel_env (Some \<lparr>cr_cancelled = True, cr_status = ''cancelled'', cr_message = ''''\<rparr>))
      (fst ex_cancelled) ''x1'' (Aware 4000000 0)
    = (fst ex_cancelled, cancel_ack_of ''x1'' True 4000000 ''already_cancelled'')"
proof -
  have a: "snd ex_cancelled = Inr \<lparr>cak_order_id = ''x1'', cak_cancelled = True, cak_observed_at = 3000000, cak_reason = ''cancelled''\<rparr>"
    by code_simp
  have "live_cancel_order ex_parity (\<lambda>_. ex_cancel_env (Some \<lparr>cr_cancelled = True, cr_status = ''cancelled'', cr_message = ''''\<rparr>))
      ex_open_world ''x1'' (Aware 3000000 0) = (fst ex_cancelled, Inr \<lparr>cak_order_id = ''x1'', cak_cancelled = True,
        cak_observed_at = 3000000, cak_reason = ''cancelled''\<rparr>)"
    using a by (metis ex_cancelled_def prod.collapse)
  from live_cancel_final [OF ex_open_world_ok this] show ?thesis by simp
qed

text \<open>A refused cancellation cannot be tried again cleanly: the second refusal, at another instant,
  reaches the venue but has the event key of the first with another content, so recording it raises
  and nothing of the second attempt is kept.
\<close>

theorem refused_cancel_twice_raises:
  "snd ex_refused = Inr \<lparr>cak_order_id = ''x1'', cak_cancelled = False, cak_observed_at = 3000000, cak_reason = ''not_cancelled''\<rparr>
    \<and> snd ex_refused_again = Inl event_conflict
    \<and> ld_order_events (lw_db (fst ex_refused_again)) = ld_order_events (lw_db (fst ex_refused))
    \<and> lw_network (fst ex_refused_again) = [NetCancel ''x1'', NetCancel ''x1'']"
  by code_simp

end
