(* ===== verification/LiveRun.thy ===== *)
theory LiveRun
  imports LiveCancel
begin

text \<open>
  The live gateway at work on concrete values: an order that is admitted, submitted and accepted,
  and a crash after its intent.
\<close>

section \<open>A concrete world\<close>

definition ex_reconciliation :: reconciliation_row where
  "ex_reconciliation = \<lparr>lx_reconciliation_id = ''live-reconciliation-1'', lx_observed_at = 500000,
     lx_unresolved_count = 0, lx_critical_count = 0,
     lx_evidence = PDict [(''account_snapshot'', PDict [(''total_exposure_usd'', PStr ''0''),
       (''realized_daily_pnl_usd'', PStr ''0''), (''consecutive_losses'', PInt 0)])],
     lx_semantic_sha256 = replicate 64 CHR ''e'', lx_created_at = 500000\<rparr>"

definition ex_state :: market_state where
  "ex_state = \<lparr>ms_source = ''polymarket'', ms_stream = ''market'', ms_instrument = ''c'', ms_asset_id = Some ''tok'',
     ms_bucket_at = 1500000, ms_last_event_at = 1500000,
     ms_state = PDict [(''best_ask'', PStr ''0.53''), (''ask_depth'', PStr ''200'')]\<rparr>"

definition ex_world :: live_world where
  "ex_world = \<lparr>lw_db = ex_live_db\<lparr>ld_reconciliations := [ex_reconciliation]\<rparr>, lw_predictions = [ex_live_prediction],
     lw_states = [ex_state], lw_network = [], lw_tick = 0\<rparr>"

definition ex_env :: live_env where
  "ex_env = \<lparr>en_now = Aware 2000000 0, en_interlock = (\<lambda>_. Some \<lparr>il_eligible = True, il_reasons = []\<rparr>),
     en_api_health = Some True, en_client = True,
     en_submit = (\<lambda>_ _ _. Some \<lparr>or_accepted = True, or_external_order_id = Some ''x1'', or_status = ''live'',
       or_code = ''accepted'', or_message = ''''\<rparr>),
     en_cancel = (\<lambda>_. Some \<lparr>cr_cancelled = False, cr_status = ''not_cancelled'', cr_message = ''try later''\<rparr>)\<rparr>"

definition ex_submitted :: "live_world \<times> int order_ack res" where
  "ex_submitted = live_submit_order ex_H ex_N ex_policy (\<lambda>_. ex_env) ex_world ex_request"

definition ex_pre_submit :: "(live_db \<times> submission) res" where
  "ex_pre_submit = pre_submit ex_H ex_N ex_policy ex_env ex_world ex_request 2000000"

text \<open>The digest \<open>ex_H\<close> is constant: the evaluation below leaves the JSON text it would hash alone.\<close>

declare json_dumps.simps [code del]

definition ex_input :: "(decimal, pytime) order_request" where
  "ex_input = \<lparr>rq_prediction_id = ''p1'', rq_prediction_semantic_sha256 = replicate 64 CHR ''b'',
     rq_condition_id = ''c'', rq_token_id = ''tok'', rq_selected_side = ''up'', rq_action = ''BUY'',
     rq_requested_shares = Finite (Dec 9133471 (- 6)), rq_target_notional_usd = Finite (Dec 500 (- 2)),
     rq_submitted_at = Aware 1000000 0, rq_arrival_at = Aware 1250000 0, rq_expires_at = Aware 3250000 0,
     rq_limit_price = Finite (Dec 53 (- 2)), rq_execution_version = PAPER_EXECUTION_VERSION,
     rq_execution_config_sha256 = replicate 64 CHR ''c''\<rparr>"

lemma ex_input_request: "order_request_post_init ex_input = Inr ex_request"
  by code_simp

lemma ex_constructed: "constructed ex_request"
  using ex_input_request by (auto simp: constructed_def)

lemma ex_H_sha: "sha256_like ex_H"
proof -
  have "is_hex_lower CHR ''c''" by code_simp
  then show ?thesis by (simp add: sha256_like_def ex_H_def list_all_iff)
qed

lemma ex_policy_version: "strip (lr_policy_version ex_policy) = lr_policy_version ex_policy"
  by code_simp

lemma ex_world_ok: "world_ok ex_N ex_world"
  by (simp add: world_ok_def live_wf_def ids_plain_def events_owned_def network_ok_def submitted_def ex_world_def
      ex_live_db_def reconciliation_ok_def ex_reconciliation_def unique_on_def map_filter_def)

lemma ex_clock: "clock_aware (\<lambda>_. ex_env)"
  by (simp add: clock_aware_def ex_env_def)

section \<open>An order goes through\<close>

lemma ex_submitted_network:
  "lw_network (fst ex_submitted) = [NetSubmit (''live-intent-'' @ replicate 32 CHR ''c'') ''tok'' (Dec 53 (- 2)) (Dec 9133471 (- 6))]"
  by code_simp

lemma ex_submitted_ack:
  "snd ex_submitted = Inr \<lparr>ack_order_id = ''x1'', ack_accepted = True, ack_observed_at = 2000000, ack_reason = ''accepted''\<rparr>"
  by code_simp

lemma ex_submitted_keys: "submission_keys (fst ex_submitted) = [Some (''p1'', LIVE_POLICY_VERSION)]"
  by code_simp

lemma ex_submitted_run: "live_submit_order ex_H ex_N ex_policy (\<lambda>_. ex_env) ex_world ex_request = (fst ex_submitted, snd ex_submitted)"
  by (simp add: ex_submitted_def)

theorem live_at_most_once_witness:
  "distinct (submission_keys (fst ex_submitted)) \<and> submission_keys (fst ex_submitted) = [Some (''p1'', LIVE_POLICY_VERSION)]"
proof -
  have "(live_moves ex_H ex_N ex_policy (\<lambda>_. ex_env))\<^sup>*\<^sup>* ex_world (fst ex_submitted)"
    using live_moves.submit [OF ex_constructed, of ex_H ex_N ex_policy "\<lambda>_. ex_env" ex_world]
    by (auto simp: ex_submitted_def)
  from live_at_most_once [OF ex_H_sha ex_policy_version ex_world_ok this] show ?thesis
    by (simp add: ex_submitted_keys)
qed

theorem live_submission_gated_witness:
  "order_admitted ex_policy ex_env ex_world ex_request 2000000 ex_live_prediction"
proof -
  have "lw_network (fst ex_submitted) \<noteq> lw_network ex_world" by (simp add: ex_submitted_network ex_world_def)
  from live_submission_gated [OF ex_H_sha ex_policy_version ex_constructed ex_world_ok ex_submitted_run this]
  obtain observed off p where p: "en_now ex_env = Aware observed off"
    "prediction_by_id (lw_predictions ex_world) (rq_prediction_id ex_request) = Inr (Some p)"
    "order_admitted ex_policy ex_env ex_world ex_request observed p" by auto
  have "prediction_by_id (lw_predictions ex_world) (rq_prediction_id ex_request) = Inr (Some ex_live_prediction)"
    by code_simp
  with p show ?thesis by (simp add: ex_env_def)
qed


section \<open>A crash after the intent\<close>

definition ex_stopped :: live_world where
  "ex_stopped = after_intent ex_world (fst (projr ex_pre_submit))"

lemma ex_stopped_ok: "world_ok ex_N ex_stopped"
proof -
  have "\<exists>iid. pre_submit ex_H ex_N ex_policy ex_env ex_world ex_request 2000000 = Inr (fst (projr ex_pre_submit), Submit iid)"
  proof -
    have "\<not> isl ex_pre_submit" "snd (projr ex_pre_submit) = Submit (''live-intent-'' @ replicate 32 CHR ''c'')"
      by code_simp+
    then show ?thesis by (metis not_isl_projr prod.collapse ex_pre_submit_def)
  qed
  then obtain iid where "pre_submit ex_H ex_N ex_policy ex_env ex_world ex_request 2000000
      = Inr (fst (projr ex_pre_submit), Submit iid)" by blast
  from live_moves.stop_before_call [OF ex_constructed, of ex_H ex_N ex_policy "\<lambda>_. ex_env" ex_world, OF this]
  show ?thesis
    using live_moves_ok ex_world_ok ex_H_sha ex_policy_version unfolding ex_stopped_def by blast
qed


end
