(* ===== verification/LiveReadyRun.thy ===== *)
theory LiveReadyRun
  imports LiveRecovery LiveRun
begin

text \<open>
  Reconciliation runs evaluated: one intent that the venue accepted and shows as open, and one that
  was closed before its submission.
\<close>

definition ex_shown :: snapshot where
  "ex_shown = \<lparr>oo_external_order_id = ''x1'', oo_token_id = ''t1'', oo_side = ''BUY'', oo_status = ''live'',
     oo_original_size = Dec 50 (- 1), oo_filled_size = Dec 0 0, oo_limit_price = Dec 4 (- 1),
     oo_average_fill_price = None, oo_observed_at = 900000\<rparr>"

definition ex_reconciled :: "(live_db \<times> int reconciliation_result) res" where
  "ex_reconciled = reconcile_snapshot ex_H (Dec 300 (- 1)) (lw_db ex_open_world) [ex_shown] (Aware 1000000 0)"

lemma ex_reconciled_run: "ex_reconciled = Inr (fst (projr ex_reconciled), snd (projr ex_reconciled))"
proof -
  have "\<not> isl ex_reconciled" by code_simp
  then show ?thesis by (simp add: not_isl_projr)
qed

lemma ex_open_ledger_wf: "live_wf (lw_db ex_open_world)"
  using ex_open_world_ok by (simp add: world_ok_def)


definition ex_after_run :: live_world where
  "ex_after_run = ex_open_world\<lparr>lw_db := fst (projr ex_reconciled)\<rparr>"


definition ex_closed_event :: order_event_row where
  "ex_closed_event = \<lparr>le_event_key = li_intent_id ex_intent_row @ '':closed_before_submission'',
     le_intent_id = li_intent_id ex_intent_row, le_event_type = ''closed_before_submission'',
     le_external_order_id = None, le_external_trade_id = None, le_observed_at = 0,
     le_evidence = PDict [(''submission_attempt_consumed'', PBool False)], le_semantic_sha256 = replicate 64 CHR ''b'', le_created_at = 0\<rparr>"

definition ex_closed_db :: live_db where
  "ex_closed_db = (lw_db ex_open_world)\<lparr>ld_order_events := [ex_closed_event]\<rparr>"

definition ex_closed_run :: "(live_db \<times> int reconciliation_result) res" where
  "ex_closed_run = reconcile_snapshot ex_H (Dec 300 (- 1)) ex_closed_db [] (Aware 1000000 0)"

theorem closed_intent_never_reconciles_witness:
  "1 \<le> rr_critical_count (snd (projr ex_closed_run))"
proof (rule closed_intent_never_reconciles [THEN conjunct2])
  show "live_wf ex_closed_db"
    using ex_open_ledger_wf by (simp add: live_wf_def ex_closed_db_def unique_on_def)
  show "ex_intent_row \<in> set (ld_intents ex_closed_db)" by (simp add: ex_closed_db_def ex_open_world_def)
  show "intent_events ex_closed_db (li_intent_id ex_intent_row) \<noteq> []"
    "\<forall>e \<in> set (intent_events ex_closed_db (li_intent_id ex_intent_row)).
      le_event_type e = ''closed_before_submission'' \<and> le_external_order_id e = None"
    by (simp_all add: intent_events_def ex_closed_db_def ex_closed_event_def)
  have "\<not> isl ex_closed_run" by code_simp
  then show "reconcile_snapshot ex_H (Dec 300 (- 1)) ex_closed_db [] (Aware 1000000 0)
    = Inr (fst (projr ex_closed_run), snd (projr ex_closed_run))"
    by (simp add: not_isl_projr flip: ex_closed_run_def)
qed

end
