(* ===== verification/LiveCanary.thy ===== *)
theory LiveCanary
  imports LiveGateway LiveSafety
begin

text \<open>
  The canary (\<open>bp_engine/execution/canary.py\<close>): single live orders prepared from the frozen paper
  orders of the third strategy, executed elsewhere, and recorded or closed here. Each function is
  one transaction over the live ledger; the paper orders, the predictions and the market states
  are read only. A result's texts are renderings of the fields kept in it here.
\<close>

section \<open>The policy\<close>

definition CANARY_POLICY_VERSION :: string where
  "CANARY_POLICY_VERSION = ''v3-live-canary-v1''"

definition CANARY_TARGET_NOTIONAL_USD :: dec where
  "CANARY_TARGET_NOTIONAL_USD = Dec 5 0"

definition CANARY_MAX_TRADE_SIZE_USD :: dec where
  "CANARY_MAX_TRADE_SIZE_USD = Dec 10 0"

definition CANARY_MIN_PREPARE_ARM_WINDOW_SECONDS :: dec where
  "CANARY_MIN_PREPARE_ARM_WINDOW_SECONDS = Dec 30 0"

definition canary_policy :: "dec live_policy" where
  "canary_policy = \<lparr>lr_max_trade_size_usd = CANARY_MAX_TRADE_SIZE_USD, lr_max_total_exposure_usd = Dec 10 0,
     lr_max_daily_loss_usd = Dec 10 0, lr_max_consecutive_losses = 1, lr_min_edge = Dec 75 (- 3),
     lr_min_probability = Dec 0 0, lr_min_liquidity_usd = Dec 5 0, lr_max_spread = Dec 10 (- 2),
     lr_max_prediction_age_seconds = Dec 30 0, lr_min_time_to_expiry_seconds = Dec 15 0,
     lr_cooldown_seconds = Dec 86400 0, lr_policy_version = CANARY_POLICY_VERSION\<rparr>"

definition canary_attempt_types :: "string list" where
  "canary_attempt_types = [''accepted'', ''rejected'', ''submission_unknown'']"

definition canary_closed_type :: string where
  "canary_closed_type = ''closed_before_submission''"

definition canary_terminal_types :: "string list" where
  "canary_terminal_types = canary_attempt_types @ [canary_closed_type]"

definition canary_retryable :: "string list" where
  "canary_retryable = [''liquidity_missing'', ''liquidity_below_minimum'', ''api_unhealthy'']"

definition V3_PAPER_PREDICTION_VERSION :: string where
  "V3_PAPER_PREDICTION_VERSION = ''v3-frozen-paper-v1''"

definition V3_PAPER_EXECUTION_VERSION :: string where
  "V3_PAPER_EXECUTION_VERSION = ''paper-execution-v3-frozen-v1''"

definition cn_utc :: "string \<Rightarrow> pytime \<Rightarrow> int res" where
  "cn_utc name t = aware_utc (ValueError (name @ '' must be timezone-aware'')) t"

section \<open>What the ledger says of the canary\<close>

definition canary_intents :: "live_db \<Rightarrow> intent_row list" where
  "canary_intents db = filter (\<lambda>i. li_policy_version i = CANARY_POLICY_VERSION) (ld_intents db)"

definition event_count :: "live_db \<Rightarrow> string list \<Rightarrow> int" where
  "event_count db types = int (length (concat (map (\<lambda>e. filter (\<lambda>i. le_intent_id e = li_intent_id i) (canary_intents db))
     (filter (\<lambda>e. le_event_type e \<in> set types) (ld_order_events db)))))"

definition retryable_risk_reasons :: "pyval \<Rightarrow> bool" where
  "retryable_risk_reasons reasons = (case reasons of
       PList xs \<Rightarrow> (let normalized = filter (\<lambda>s. s \<noteq> []) (map (\<lambda>x. strip (py_str x)) xs) in
         normalized \<noteq> [] \<and> list_all (\<lambda>s. s \<in> set canary_retryable) normalized)
     | _ \<Rightarrow> False)"

definition evaluated_prediction_ids :: "live_db \<Rightarrow> string list" where
  "evaluated_prediction_ids db = map rk_prediction_id (filter (\<lambda>r. rk_policy_version r = CANARY_POLICY_VERSION
     \<and> (rk_eligible r \<or> \<not> retryable_risk_reasons (rk_reasons r))) (ld_risks db))"

definition ensure_initial_reconciliation ::
  "(string \<Rightarrow> string) \<Rightarrow> live_db \<Rightarrow> int \<Rightarrow> int \<Rightarrow> dec \<Rightarrow> live_db res" where
  "ensure_initial_reconciliation H db observed open_orders collateral =
     (if open_orders \<noteq> 0 then Inl (RuntimeError ''official_open_orders_present'')
      else if dlt collateral CANARY_TARGET_NOTIONAL_USD then Inl (RuntimeError ''insufficient_official_collateral'')
      else if ld_intents db \<noteq> [] \<or> ld_reconciliations db \<noteq> [] then Inr db
      else ebind (store_reconciliation_run H db (Aware observed 0) 0 0
        [(''source'', PStr ''phase15_v3_live_canary_initial_verified_account_baseline''),
         (''official_open_order_count'', PInt open_orders), (''collateral_balance_usd'', PStr (dec_str collateral)),
         (''account_snapshot'', PDict [(''total_exposure_usd'', PStr ''0''), (''realized_daily_pnl_usd'', PStr ''0''),
            (''consecutive_losses'', PInt 0)])]) (\<lambda>(db', created, x). Inr db'))"

section \<open>Preparing an order\<close>

record canary_world =
  cw_db :: live_db
  cw_orders :: "paper_order_row list"
  cw_predictions :: "live_prediction list"
  cw_states :: "market_state list"

definition canary_prediction :: "live_prediction list \<Rightarrow> string \<Rightarrow> live_prediction option res" where
  "canary_prediction predictions pid = one_or_none (filter (\<lambda>p. lp_prediction_id p = pid
     \<and> lp_prediction_version p = V3_PAPER_PREDICTION_VERSION \<and> lp_trade p \<and> lp_executable p) predictions)"

fun first_candidate :: "live_prediction list \<Rightarrow> string list \<Rightarrow> paper_order_row list \<Rightarrow> (paper_order_row \<times> live_prediction) option res" where
  "first_candidate predictions evaluated [] = Inr None"
| "first_candidate predictions evaluated (row # rows) =
     (if po_prediction_id row \<in> set evaluated then first_candidate predictions evaluated rows
      else ebind (canary_prediction predictions (po_prediction_id row)) (\<lambda>found. case found of
          None \<Rightarrow> first_candidate predictions evaluated rows
        | Some p \<Rightarrow> Inr (Some (row, p))))"

definition canary_candidate :: "canary_world \<Rightarrow> live_db \<Rightarrow> int \<Rightarrow> (paper_order_row \<times> live_prediction) option res" where
  "canary_candidate w db activated = first_candidate (cw_predictions w) (evaluated_prediction_ids db)
     (sort_key po_created_at (filter (\<lambda>o'. po_execution_version o' = V3_PAPER_EXECUTION_VERSION
        \<and> activated \<le> po_created_at o') (cw_orders w)))"

record canary_call =
  ca_activated_at :: pytime
  ca_observed_at :: pytime
  ca_interlock :: interlock
  ca_api_healthy :: bool
  ca_open_orders :: int
  ca_collateral :: dec
  ca_attempt_limit :: int
  ca_accepted_limit :: int

record prepared =
  pp_intent_id :: string
  pp_request_id :: string
  pp_prediction :: live_prediction
  pp_order :: paper_order_row
  pp_observed_at :: int
  pp_request :: request

datatype canary_result =
    Stopped string int int
  | Blocked string
  | Waiting
  | Skipped string "string list" bool string string
  | TooLate dec string string
  | Prepared prepared

definition arm_window :: "live_prediction \<Rightarrow> int \<Rightarrow> dec" where
  "arm_window p observed = seconds_dec (lp_market_end_at p - observed)"

definition canary_evidence :: "canary_call \<Rightarrow> string \<Rightarrow> paper_order_row \<Rightarrow> request \<Rightarrow> dec option \<Rightarrow> dec \<Rightarrow> pydict" where
  "canary_evidence c request_id order r liquidity window =
     [(''phase'', PStr ''phase15_v3_live_canary_v1''), (''request_id'', PStr request_id),
      (''paper_order_id'', PStr (po_paper_order_id order)), (''condition_id'', PStr (rq_condition_id r)),
      (''token_id'', PStr (rq_token_id r)), (''selected_side'', PStr (rq_selected_side r)),
      (''requested_notional_usd'', PDec (Finite (rq_target_notional_usd r))),
      (''selected_liquidity_usd'', optional_dec liquidity), (''api_healthy'', PBool (ca_api_healthy c)),
      (''official_open_order_count'', PInt (ca_open_orders c)),
      (''collateral_balance_usd'', PDec (Finite (ca_collateral c))), (''staging_interlock'', PBool True),
      (''interlock_eligible'', PBool (il_eligible (ca_interlock c))),
      (''interlock_reasons'', PList (map PStr (il_reasons (ca_interlock c)))),
      (''prepare_arm_window_seconds'', PDec (Finite window)),
      (''prepare_arm_window_min_seconds'', PDec (Finite CANARY_MIN_PREPARE_ARM_WINDOW_SECONDS))]"

definition canary_intent_values :: "string \<Rightarrow> string \<Rightarrow> request \<Rightarrow> int \<Rightarrow> string \<Rightarrow> (pyval, pytime) intent_input" where
  "canary_intent_values request_id decision_id r observed oid =
     \<lparr>ii_prediction_id = rq_prediction_id r, ii_policy_version = CANARY_POLICY_VERSION, ii_request_id = request_id,
      ii_risk_decision_id = decision_id, ii_token_id = rq_token_id r, ii_side = rq_action r,
      ii_size = PDec (Finite (rq_requested_shares r)), ii_limit_price = PDec (Finite (rq_limit_price r)),
      ii_pre_submit_at = Aware observed 0, ii_evidence =
        [(''phase'', PStr ''phase15_v3_live_canary_v1''),
         (''prediction_semantic_sha256'', PStr (rq_prediction_semantic_sha256 r)),
         (''condition_id'', PStr (rq_condition_id r)), (''selected_side'', PStr (rq_selected_side r)),
         (''execution_version'', PStr (rq_execution_version r)),
         (''execution_config_sha256'', PStr (rq_execution_config_sha256 r)), (''paper_order_id'', PStr oid)]\<rparr>"

text \<open>The order of a candidate, with the checks that it is still what was frozen.\<close>

definition canary_request :: "paper_order_row \<Rightarrow> live_prediction \<Rightarrow> request res" where
  "canary_request order p =
     ebind (draft_from_rows order p) (\<lambda>draft. let r = dr_request draft in
     ebind (require (deq (rq_target_notional_usd r) CANARY_TARGET_NOTIONAL_USD) (RuntimeError ''frozen paper order target changed'')) (\<lambda>_.
     ebind (require (\<not> dlt CANARY_MAX_TRADE_SIZE_USD (rq_target_notional_usd r))
       (RuntimeError ''frozen paper order exceeds authorized canary ceiling'')) (\<lambda>_.
     ebind (require (source_request_matches (Some p) r)
       (RuntimeError ''frozen paper order no longer matches source prediction'')) (\<lambda>_. Inr r))))"

text \<open>The risk decision and its row.\<close>

definition canary_decide ::
  "(string \<Rightarrow> string) \<Rightarrow> canary_call \<Rightarrow> canary_world \<Rightarrow> live_db \<Rightarrow> paper_order_row \<Rightarrow> live_prediction \<Rightarrow> request \<Rightarrow> int
    \<Rightarrow> (risk_decision \<times> string \<times> live_db \<times> risk_row) res" where
  "canary_decide H c w db order p r observed =
     ebind (read_account db observed) (\<lambda>account.
     ebind (selected_liquidity_usd (cw_states w) p r observed (lr_max_prediction_age_seconds canary_policy)) (\<lambda>liquidity.
     ebind (live_context_post_init (context_values p r liquidity observed (ca_api_healthy c) False account)) (\<lambda>context.
     ebind (evaluate_live_risk H canary_policy context (il_eligible (ca_interlock c)) (il_reasons (ca_interlock c))) (\<lambda>decision.
     ebind (ebind (semantic_sha256 H (PDict (order_request_mapping r))) (derive_id ''live-request'')) (\<lambda>request_id.
     ebind (store_risk_decision H db (rq_prediction_id r) (rq_prediction_semantic_sha256 r)
       CANARY_POLICY_VERSION decision (live_account_mapping account)
       (canary_evidence c request_id order r liquidity (arm_window p observed)) (Aware observed 0)) (\<lambda>(db', created, risk).
     Inr (decision, request_id, db', risk)))))))"

definition prepare_candidate ::
  "(string \<Rightarrow> string) \<Rightarrow> (dec \<Rightarrow> dec res) \<Rightarrow> canary_call \<Rightarrow> canary_world \<Rightarrow> live_db \<Rightarrow> paper_order_row \<Rightarrow> live_prediction \<Rightarrow> int
    \<Rightarrow> (live_db \<times> canary_result) res" where
  "prepare_candidate H N c w db order p observed =
     ebind (canary_request order p) (\<lambda>r.
     ebind (canary_decide H c w db order p r observed) (\<lambda>(decision, request_id, db', risk).
     if \<not> rd_eligible decision
     then Inr (db', Skipped (first_reason decision) (rd_reasons decision)
       (retryable_risk_reasons (PList (map PStr (rd_reasons decision)))) (rq_prediction_id r) (po_paper_order_id order))
     else if dlt (arm_window p observed) CANARY_MIN_PREPARE_ARM_WINDOW_SECONDS
     then Inr (db', TooLate (arm_window p observed) (rq_prediction_id r) (po_paper_order_id order))
     else ebind (store_order_intent H N db'
         (canary_intent_values request_id (rk_decision_id risk) r observed (po_paper_order_id order))) (\<lambda>(db'', created, i).
       Inr (db'', Prepared \<lparr>pp_intent_id = li_intent_id i, pp_request_id = request_id, pp_prediction = p,
         pp_order = order, pp_observed_at = observed, pp_request = r\<rparr>))))"

text \<open>The newest intent of the canary, if it has no end yet.\<close>

definition pending_intent :: "live_db \<Rightarrow> intent_row option" where
  "pending_intent db = (case last_option (canary_intents db) of None \<Rightarrow> None
     | Some i \<Rightarrow> if events_of db canary_terminal_types (li_intent_id i) = [] then Some i else None)"

definition prepare_next_canary ::
  "(string \<Rightarrow> string) \<Rightarrow> (dec \<Rightarrow> dec res) \<Rightarrow> canary_call \<Rightarrow> canary_world \<Rightarrow> (live_db \<times> canary_result) res" where
  "prepare_next_canary H N c w =
     ebind (cn_utc ''activated_at'' (ca_activated_at c)) (\<lambda>activated.
     ebind (cn_utc ''observed_at'' (ca_observed_at c)) (\<lambda>observed.
     ebind (require (ca_attempt_limit c \<in> {1, 2}) (ValueError ''authorized submission attempt limit must be 1 or 2'')) (\<lambda>_.
     ebind (require (ca_accepted_limit c \<in> {1, 2}) (ValueError ''authorized accepted order limit must be 1 or 2'')) (\<lambda>_.
     ebind (ensure_initial_reconciliation H (cw_db w) observed (ca_open_orders c) (ca_collateral c)) (\<lambda>db.
     let attempts = event_count db canary_attempt_types; accepted = event_count db [''accepted''] in
     if ca_attempt_limit c \<le> attempts
     then Inr (db, Stopped ''canary_submission_attempt_limit_reached'' attempts (ca_attempt_limit c))
     else if ca_accepted_limit c \<le> accepted
     then Inr (db, Stopped ''canary_accepted_order_limit_reached'' accepted (ca_accepted_limit c))
     else (case pending_intent db of
         Some i \<Rightarrow> Inr (db, Blocked (li_intent_id i))
       | None \<Rightarrow> ebind (canary_candidate w db activated) (\<lambda>candidate. case candidate of
             None \<Rightarrow> Inr (db, Waiting)
           | Some (order, p) \<Rightarrow> prepare_candidate H N c w db order p observed)))))))"

section \<open>Closing an intent that was not submitted\<close>

text \<open>
  The last clean account snapshot the ledger holds. The three conversions are inside a handler of
  \<open>KeyError\<close>, \<open>TypeError\<close> and \<open>ValueError\<close>; a text that is no decimal raises
  \<open>InvalidOperation\<close>, which is none of them.
\<close>

definition snapshot_numbers :: "pydict \<Rightarrow> (decimal \<times> decimal \<times> int) res" where
  "snapshot_numbers account =
     ebind (dindex account ''total_exposure_usd'') (\<lambda>v.
     ebind (case read_decimal (py_str v) of None \<Rightarrow> Inl InvalidOperation | Some d \<Rightarrow> Inr d) (\<lambda>exposure.
     ebind (dindex account ''realized_daily_pnl_usd'') (\<lambda>v.
     ebind (case read_decimal (py_str v) of None \<Rightarrow> Inl InvalidOperation | Some d \<Rightarrow> Inr d) (\<lambda>pnl.
     ebind (dindex account ''consecutive_losses'') (\<lambda>v.
     ebind (py_int v) (\<lambda>losses. Inr (exposure, pnl, losses)))))))"

definition caught_by_snapshot :: "exn \<Rightarrow> bool" where
  "caught_by_snapshot e = (case e of KeyError _ \<Rightarrow> True | TypeError _ \<Rightarrow> True | ValueError _ \<Rightarrow> True | _ \<Rightarrow> False)"

text \<open>A comparison of a decimal with a number: a signal for a value that is not a number.\<close>

definition decimal_less :: "decimal \<Rightarrow> dec \<Rightarrow> bool res" where
  "decimal_less v d = (case v of Finite x \<Rightarrow> Inr (dlt x d) | Infinite neg \<Rightarrow> Inr neg | NotANumber \<Rightarrow> Inl InvalidOperation)"

fun clean_snapshot :: "reconciliation_row list \<Rightarrow> (string \<times> pydict) option res" where
  "clean_snapshot [] = Inr None"
| "clean_snapshot (x # rows) =
     (if lx_unresolved_count x \<noteq> 0 \<or> lx_critical_count x \<noteq> 0 then clean_snapshot rows
      else ebind (dict_or_empty (lx_evidence x)) (\<lambda>evidence. case dict_of (dget evidence ''account_snapshot'') of
          None \<Rightarrow> clean_snapshot rows
        | Some account \<Rightarrow> (case snapshot_numbers account of
            Inl e \<Rightarrow> if caught_by_snapshot e then clean_snapshot rows else Inl e
          | Inr (exposure, pnl, losses) \<Rightarrow>
              ebind (decimal_less exposure d0) (\<lambda>negative.
              if negative \<or> losses < 0 then clean_snapshot rows
              else Inr (Some (lx_reconciliation_id x,
                [(''total_exposure_usd'', PStr (decimal_str exposure)), (''realized_daily_pnl_usd'', PStr (decimal_str pnl)),
                 (''consecutive_losses'', PInt losses)]))))))"

definition latest_clean_account_snapshot :: "live_db \<Rightarrow> int \<Rightarrow> (string \<times> pydict) option res" where
  "latest_clean_account_snapshot db observed = (case rev (sort_key lx_observed_at (reconciliations_until db observed)) of
       [] \<Rightarrow> Inr None
     | x # rows \<Rightarrow> if lx_unresolved_count x \<noteq> 0 \<or> lx_critical_count x \<noteq> 0
         then Inl (RuntimeError ''prior_reconciliation_not_clean'') else clean_snapshot (x # rows))"

text \<open>What the executor must report before an intent is closed: it cannot submit, and has not.\<close>

definition executor_collateral :: "pydict \<Rightarrow> decimal res" where
  "executor_collateral account =
     ebind (let n = dget account ''open_order_count'' in py_int (if truthy n then n else PInt 0)) (\<lambda>open_orders.
     ebind (require (open_orders = 0) (RuntimeError ''official_open_orders_present'')) (\<lambda>_.
     ebind (let b = dget account ''collateral_balance_usd'' in
       case read_decimal (py_str (if truthy b then b else PStr ''0'')) of None \<Rightarrow> Inl InvalidOperation | Some d \<Rightarrow> Inr d) (\<lambda>collateral.
     ebind (decimal_less collateral CANARY_TARGET_NOTIONAL_USD) (\<lambda>short.
     ebind (require (\<not> short) (RuntimeError ''insufficient_official_collateral'')) (\<lambda>_. Inr collateral)))))"

definition executor_idle :: "pydict \<Rightarrow> decimal res" where
  "executor_idle health =
     ebind (require (str_or_empty (dget health ''status'') = ''ok'') (RuntimeError ''executor_health_not_ok'')) (\<lambda>_.
     case dict_of (dget health ''geoblock'') of None \<Rightarrow> Inl (RuntimeError ''executor_geoblock_missing'')
     | Some geoblock \<Rightarrow>
       ebind (require (is_false (dget geoblock ''blocked'') \<and> str_or_empty (dget geoblock ''country'') = ''ZA'')
         (RuntimeError ''executor_geography_not_authorized'')) (\<lambda>_.
       case dict_of (dget health ''account'') of None \<Rightarrow> Inl (RuntimeError ''executor_account_missing'')
       | Some account \<Rightarrow>
         ebind (executor_collateral account) (\<lambda>collateral.
         ebind (require (is_true (dget account ''clean_for_canary'')) (RuntimeError ''executor_account_not_clean'')) (\<lambda>_.
         ebind (require (is_true (dget health ''kill_switch_engaged'')) (RuntimeError ''kill_switch_not_engaged'')) (\<lambda>_.
         ebind (require (is_false (dget health ''activation_valid'')) (RuntimeError ''activation_still_valid'')) (\<lambda>_.
         ebind (require (is_false (dget health ''submission_ready'')) (RuntimeError ''submission_still_ready'')) (\<lambda>_.
         ebind (require (is_false (dget health ''live_order_submitted'')) (RuntimeError ''live_order_submission_detected'')) (\<lambda>_.
         Inr collateral))))))))"

definition canary_intent :: "live_db \<Rightarrow> string \<Rightarrow> intent_row option res" where
  "canary_intent db iid = one_or_none (filter (\<lambda>i. li_intent_id i = iid) (canary_intents db))"

definition close_event :: "string \<Rightarrow> int \<Rightarrow> string \<Rightarrow> decimal \<Rightarrow> pytime event_input" where
  "close_event iid observed reason collateral =
     \<lparr>ei_event_key = iid @ '':'' @ canary_closed_type, ei_intent_id = iid, ei_event_type = canary_closed_type,
      ei_observed_at = Aware observed 0, ei_external_order_id = None, ei_external_trade_id = None, ei_evidence =
        [(''phase'', PStr ''phase15_v3_live_canary_v1''), (''reason'', PStr reason),
         (''submission_attempt_consumed'', PBool False), (''kill_switch_engaged'', PBool True),
         (''activation_valid'', PBool False), (''submission_ready'', PBool False),
         (''live_order_submitted'', PBool False), (''official_open_order_count'', PInt 0),
         (''collateral_balance_usd'', PDec collateral)]\<rparr>"

definition close_evidence :: "string \<Rightarrow> string \<Rightarrow> decimal \<Rightarrow> (string \<times> pydict) option \<Rightarrow> pydict" where
  "close_evidence iid reason collateral carried =
     [(''phase'', PStr ''phase15_v3_live_canary_v1''), (''intent_id'', PStr iid),
      (''reconciliation_kind'', PStr ''pre_submission_intent_close''), (''reason'', PStr reason),
      (''submission_attempt_consumed'', PBool False), (''official_open_order_count'', PInt 0),
      (''collateral_balance_usd'', PDec collateral)]
     @ (case carried of None \<Rightarrow> [] | Some (rid, account) \<Rightarrow>
          [(''account_snapshot_carried_from_reconciliation_id'', PStr rid), (''account_snapshot'', PDict account)])"

datatype close_result = AlreadyReconciled | Reconciled string

definition close_canary_intent ::
  "(string \<Rightarrow> string) \<Rightarrow> live_db \<Rightarrow> string \<Rightarrow> pytime \<Rightarrow> string \<Rightarrow> pydict \<Rightarrow> (live_db \<times> close_result) res" where
  "close_canary_intent H db iid observed_at reason health =
     ebind (cn_utc ''observed_at'' observed_at) (\<lambda>observed.
     ebind (require (strip reason \<noteq> []) (ValueError ''reason must not be blank'')) (\<lambda>_.
     ebind (executor_idle health) (\<lambda>collateral.
     ebind (canary_intent db iid) (\<lambda>found. case found of
       None \<Rightarrow> Inl (RuntimeError ''unknown canary intent'')
     | Some i \<Rightarrow>
         if events_of db canary_attempt_types iid \<noteq> [] then Inl (RuntimeError ''canary_submission_attempt_already_recorded'')
         else if events_of db [canary_closed_type] iid \<noteq> [] then Inr (db, AlreadyReconciled)
         else
           ebind (latest_clean_account_snapshot db observed) (\<lambda>carried.
           ebind (store_order_event H db (close_event iid observed (strip reason) collateral)) (\<lambda>(db', created, e).
           ebind (store_reconciliation_run H db' (Aware observed 0) 0 0
             (close_evidence iid (strip reason) collateral carried)) (\<lambda>(db'', created', x).
           Inr (db'', Reconciled (lx_reconciliation_id x)))))))))"

section \<open>Recording a submission\<close>

definition submission_type :: "bool \<Rightarrow> string option \<Rightarrow> string \<Rightarrow> string" where
  "submission_type accepted oid status =
     (if accepted \<and> oid \<noteq> None then ''accepted''
      else if lower status = ''rejected'' then ''rejected'' else ''submission_unknown'')"

definition canary_event :: "string \<Rightarrow> string \<Rightarrow> int \<Rightarrow> string option \<Rightarrow> pydict \<Rightarrow> pytime event_input" where
  "canary_event iid kind observed oid evidence =
     \<lparr>ei_event_key = iid @ '':'' @ kind, ei_intent_id = iid, ei_event_type = kind, ei_observed_at = Aware observed 0,
      ei_external_order_id = oid, ei_external_trade_id = None, ei_evidence = evidence\<rparr>"

definition record_cancellation_of ::
  "(string \<Rightarrow> string) \<Rightarrow> live_db \<Rightarrow> string \<Rightarrow> int \<Rightarrow> string \<Rightarrow> pydict \<Rightarrow> live_db res" where
  "record_cancellation_of H db iid observed oid cancellation =
     (let status = str_or_empty (dget cancellation ''status'');
          kind = (if is_true (dget cancellation ''cancelled'') then ''cancelled''
            else if status = ''not_cancelled'' then ''cancel_rejected'' else ''cancellation_unknown'')
      in ebind (store_order_event H db (canary_event iid kind observed (Some oid)
           [(''phase'', PStr ''phase15_v3_live_canary_v1''), (''status'', PStr status),
            (''message'', PStr (str_or_empty (dget cancellation ''message''))), (''ttl_seconds'', PInt 2)]))
           (\<lambda>(db', created, e). Inr db'))"

definition record_canary_submission ::
  "(string \<Rightarrow> string) \<Rightarrow> live_db \<Rightarrow> string \<Rightarrow> pytime \<Rightarrow> pydict \<Rightarrow> (live_db \<times> string \<times> string option \<times> bool) res" where
  "record_canary_submission H db iid observed_at result =
     ebind (cn_utc ''observed_at'' observed_at) (\<lambda>observed.
     let accepted = is_true (dget result ''accepted''); status = str_or_empty (dget result ''status'');
         oid = nonempty_text (Some (str_or_empty (dget result ''external_order_id'')));
         kind = submission_type accepted oid status
     in ebind (canary_intent db iid) (\<lambda>found. case found of
       None \<Rightarrow> Inl (RuntimeError ''unknown canary intent'')
     | Some i \<Rightarrow>
         ebind (store_order_event H db (canary_event iid kind observed oid
           [(''phase'', PStr ''phase15_v3_live_canary_v1''), (''status'', PStr status),
            (''code'', PStr (str_or_empty (dget result ''code''))), (''message'', PStr (str_or_empty (dget result ''message''))),
            (''remote_geoblock'', dget result ''geoblock'')])) (\<lambda>(db', created, e).
         ebind (case (accepted, oid, dict_of (dget result ''cancellation'')) of
             (True, Some x, Some cancellation) \<Rightarrow> record_cancellation_of H db' iid observed x cancellation
           | _ \<Rightarrow> Inr db') (\<lambda>db''.
         Inr (db'', kind, oid, accepted)))))"

end
