(* ===== verification/LiveCanarySafety.thy ===== *)
theory LiveCanarySafety
  imports LiveCanary
begin

text \<open>
  What the canary (\<open>execution/canary.py\<close>) guarantees: a prepared order passed every gate, and in
  every run the number of orders it can have sent stays within the authorised limit.
\<close>

section \<open>Preparing, case by case\<close>

lemma ensure_initial_frame:
  assumes "ensure_initial_reconciliation H db observed n collateral = Inr db'"
  shows "live_step db db'" "ld_intents db' = ld_intents db" "ld_order_events db' = ld_order_events db"
    "ld_risks db' = ld_risks db" "n = 0" "5 \<le> dval collateral"
proof -
  have *: "live_step db db' \<and> ld_intents db' = ld_intents db \<and> ld_order_events db' = ld_order_events db
      \<and> ld_risks db' = ld_risks db" if "store_reconciliation_run H db t u c e = Inr (db', b, x)" for t u c e b x
    using store_reconciliation_run_step [OF that] that by (auto simp: store_reconciliation_run_def simp del: canonicalize.simps)
  show "live_step db db'" "ld_intents db' = ld_intents db" "ld_order_events db' = ld_order_events db"
    "ld_risks db' = ld_risks db" "n = 0" "5 \<le> dval collateral"
    using assms by (auto simp: ensure_initial_reconciliation_def dcmp CANARY_TARGET_NOTIONAL_USD_def dval_def
        split: if_splits dest: *)
qed

lemma first_candidate_Some:
  "first_candidate predictions evaluated rows = Inr (Some (row, p)) \<Longrightarrow> row \<in> set rows
    \<and> po_prediction_id row \<notin> set evaluated \<and> canary_prediction predictions (po_prediction_id row) = Inr (Some p)"
  by (induction rows) (auto split: if_splits option.splits)

lemma canary_prediction_Some:
  assumes "canary_prediction predictions pid = Inr (Some p)"
  shows "p \<in> set predictions" "lp_prediction_id p = pid" "lp_prediction_version p = V3_PAPER_PREDICTION_VERSION"
    "lp_trade p" "lp_executable p"
proof -
  have "p \<in> set (filter (\<lambda>p. lp_prediction_id p = pid \<and> lp_prediction_version p = V3_PAPER_PREDICTION_VERSION
      \<and> lp_trade p \<and> lp_executable p) predictions)"
    using assms by (auto simp: canary_prediction_def)
  then show "p \<in> set predictions" "lp_prediction_id p = pid" "lp_prediction_version p = V3_PAPER_PREDICTION_VERSION"
    "lp_trade p" "lp_executable p" by auto
qed

lemma canary_decide_frame:
  assumes "canary_decide H c w db order p r observed = Inr (d, rid, db', risk)"
  shows "live_step db db'" "ld_intents db' = ld_intents db" "ld_order_events db' = ld_order_events db"
  using assms by (auto simp: canary_decide_def dest: store_risk_decision_frame store_risk_decision_step)

text \<open>An eligible decision of the canary rests on the account, the interlock and the health check.\<close>

lemma canary_decide_admitted:
  assumes "canary_decide H c w db order p r observed = Inr (d, rid, db', risk)" and "rd_eligible d"
  obtains account where "read_account db observed = Inr account" "la_unresolved_critical account = 0"
    "dval (dadd (la_total_exposure_usd account) (rq_target_notional_usd r)) \<le> 10"
    "il_eligible (ca_interlock c)" "ca_api_healthy c" "lp_recorded_at p \<le> observed"
proof -
  obtain account liquidity x where account: "read_account db observed = Inr account"
    and x: "live_context_post_init (context_values p r liquidity observed (ca_api_healthy c) False account) = Inr x"
    and d: "evaluate_live_risk H canary_policy x (il_eligible (ca_interlock c)) (il_reasons (ca_interlock c)) = Inr d"
    using assms(1) by (auto simp: canary_decide_def)
  note holds = evaluate_live_risk_holds [OF d, THEN iffD1, OF assms(2)]
  have ten: "dval (lr_max_total_exposure_usd canary_policy) = 10" by (simp add: canary_policy_def dval_def)
  have *: "la_unresolved_critical account = 0" "il_eligible (ca_interlock c)" "ca_api_healthy c" "lp_recorded_at p \<le> observed"
    "dval (dadd (la_total_exposure_usd account) (rq_target_notional_usd r)) \<le> 10"
    using holds ten by (auto simp: context_values_Inr [OF x] total_exposure_ok_def dcmp)
  show ?thesis by (rule that [OF account *(1,5,2,3,4)])
qed

lemma prepare_candidate_cases:
  assumes "prepare_candidate H N c w db order p observed = Inr (db'', out)"
  obtains (refused) "live_step db db''" "ld_intents db'' = ld_intents db" "ld_order_events db'' = ld_order_events db"
      "\<And>x. out \<noteq> Prepared x"
  | (ready) r d rid db' risk created i where "canary_request order p = Inr r"
      "canary_decide H c w db order p r observed = Inr (d, rid, db', risk)" "rd_eligible d"
      "\<not> dlt (arm_window p observed) CANARY_MIN_PREPARE_ARM_WINDOW_SECONDS"
      "store_order_intent H N db' (canary_intent_values rid (rk_decision_id risk) r observed (po_paper_order_id order))
        = Inr (db'', created, i)"
      "out = Prepared \<lparr>pp_intent_id = li_intent_id i, pp_request_id = rid, pp_prediction = p, pp_order = order,
         pp_observed_at = observed, pp_request = r\<rparr>"
proof -
  from assms obtain r d rid db' risk where r: "canary_request order p = Inr r"
    and d: "canary_decide H c w db order p r observed = Inr (d, rid, db', risk)"
    by (auto simp: prepare_candidate_def)
  show ?thesis
  proof (cases "rd_eligible d \<and> \<not> dlt (arm_window p observed) CANARY_MIN_PREPARE_ARM_WINDOW_SECONDS")
    case True
    with assms r d show ?thesis by (auto simp: prepare_candidate_def intro: ready)
  next
    case False
    with assms r d canary_decide_frame [OF d] show ?thesis
      by (auto simp: prepare_candidate_def intro: refused split: if_splits)
  qed
qed

lemma prepare_cases:
  assumes "prepare_next_canary H N c w = Inr (db'', out)"
  obtains (kept) "live_step (cw_db w) db''" "ld_intents db'' = ld_intents (cw_db w)"
      "ld_order_events db'' = ld_order_events (cw_db w)" "\<And>x. out \<noteq> Prepared x"
  | (tried) activated off observed off' db order p where
      "ca_activated_at c = Aware activated off" "ca_observed_at c = Aware observed off'"
      "ensure_initial_reconciliation H (cw_db w) observed (ca_open_orders c) (ca_collateral c) = Inr db"
      "event_count (cw_db w) canary_attempt_types < ca_attempt_limit c" "event_count (cw_db w) [''accepted''] < ca_accepted_limit c"
      "pending_intent (cw_db w) = None" "canary_candidate w db activated = Inr (Some (order, p))"
      "prepare_candidate H N c w db order p observed = Inr (db'', out)"
proof -
  from assms obtain activated off observed off' db where t: "ca_activated_at c = Aware activated off"
      "ca_observed_at c = Aware observed off'"
    and db: "ensure_initial_reconciliation H (cw_db w) observed (ca_open_orders c) (ca_collateral c) = Inr db"
    and rest: "(let attempts = event_count db canary_attempt_types; accepted = event_count db [''accepted''] in
     if ca_attempt_limit c \<le> attempts
     then Inr (db, Stopped ''canary_submission_attempt_limit_reached'' attempts (ca_attempt_limit c))
     else if ca_accepted_limit c \<le> accepted
     then Inr (db, Stopped ''canary_accepted_order_limit_reached'' accepted (ca_accepted_limit c))
     else (case pending_intent db of
         Some i \<Rightarrow> Inr (db, Blocked (li_intent_id i))
       | None \<Rightarrow> ebind (canary_candidate w db activated) (\<lambda>candidate. case candidate of
             None \<Rightarrow> Inr (db, Waiting)
           | Some (order, p) \<Rightarrow> prepare_candidate H N c w db order p observed))) = Inr (db'', out)"
    unfolding prepare_next_canary_def cn_utc_def by (auto simp del: insert_iff)
  note frame = ensure_initial_frame [OF db]
  have ev: "events_of db = events_of (cw_db w)" by (simp add: events_of_def frame fun_eq_iff)
  have same: "event_count db = event_count (cw_db w)" "pending_intent db = pending_intent (cw_db w)"
    by (simp_all add: event_count_def canary_intents_def pending_intent_def ev frame fun_eq_iff split: option.splits)
  show ?thesis
  proof (cases "\<exists>order p. canary_candidate w db activated = Inr (Some (order, p)) \<and> pending_intent db = None
      \<and> event_count db canary_attempt_types < ca_attempt_limit c \<and> event_count db [''accepted''] < ca_accepted_limit c")
    case True
    then obtain order p where "canary_candidate w db activated = Inr (Some (order, p))" "pending_intent db = None"
      "event_count db canary_attempt_types < ca_attempt_limit c" "event_count db [''accepted''] < ca_accepted_limit c" by blast
    with rest t db same show ?thesis by (intro tried) (simp_all add: Let_def)
  next
    case False
    with rest frame show ?thesis
      by (intro kept) (auto simp: Let_def split: if_splits option.splits)
  qed
qed

section \<open>A prepared order passed every gate\<close>

lemma canary_request_Inr:
  assumes "canary_request order p = Inr r"
  shows "\<exists>d. draft_from_rows order p = Inr d \<and> dr_request d = r" "dval (rq_target_notional_usd r) = 5"
    "source_request_matches (Some p) r"
  using assms by (auto simp: canary_request_def Let_def CANARY_TARGET_NOTIONAL_USD_def dval_def dcmp)

lemma canary_candidate_Some:
  assumes "canary_candidate w db activated = Inr (Some (order, p))"
  shows "order \<in> set (cw_orders w)" "po_execution_version order = V3_PAPER_EXECUTION_VERSION"
    "activated \<le> po_created_at order" "lp_prediction_id p = po_prediction_id order"
    "po_prediction_id order \<notin> set (evaluated_prediction_ids db)" "p \<in> set (cw_predictions w)"
    "lp_prediction_version p = V3_PAPER_PREDICTION_VERSION" "lp_trade p" "lp_executable p"
  using first_candidate_Some [OF assms [unfolded canary_candidate_def]]
  by (auto dest: canary_prediction_Some)

text \<open>What the canary promises of an order it prepares.\<close>

definition canary_gates :: "canary_call \<Rightarrow> canary_world \<Rightarrow> prepared \<Rightarrow> live_db \<Rightarrow> bool" where
  "canary_gates c w x db \<longleftrightarrow> ca_open_orders c = 0 \<and> 5 \<le> dval (ca_collateral c)
     \<and> event_count (cw_db w) canary_attempt_types < ca_attempt_limit c
     \<and> event_count (cw_db w) [''accepted''] < ca_accepted_limit c \<and> pending_intent (cw_db w) = None
     \<and> il_eligible (ca_interlock c) \<and> ca_api_healthy c
     \<and> pp_order x \<in> set (cw_orders w) \<and> po_execution_version (pp_order x) = V3_PAPER_EXECUTION_VERSION
     \<and> (\<exists>t off. ca_activated_at c = Aware t off \<and> t \<le> po_created_at (pp_order x))
     \<and> pp_prediction x \<in> set (cw_predictions w) \<and> lp_prediction_version (pp_prediction x) = V3_PAPER_PREDICTION_VERSION
     \<and> lp_prediction_id (pp_prediction x) = po_prediction_id (pp_order x)
     \<and> lp_trade (pp_prediction x) \<and> lp_executable (pp_prediction x)
     \<and> lp_recorded_at (pp_prediction x) \<le> pp_observed_at x
     \<and> lp_prediction_id (pp_prediction x) \<notin> set (evaluated_prediction_ids (cw_db w))
     \<and> source_request_matches (Some (pp_prediction x)) (pp_request x)
     \<and> dval (rq_target_notional_usd (pp_request x)) = 5
     \<and> \<not> dlt (arm_window (pp_prediction x) (pp_observed_at x)) CANARY_MIN_PREPARE_ARM_WINDOW_SECONDS
     \<and> (\<exists>i \<in> set (ld_intents db). li_intent_id i = pp_intent_id x)"


section \<open>How many orders a run can send\<close>

text \<open>
  The steps of the canary and of everything else that writes to the ledger: what is not the
  canary only appends, and no intent of the canary's policy. The limits the operator authorises
  are at most \<open>L\<close>.
\<close>

inductive canary_moves :: "(string \<Rightarrow> string) \<Rightarrow> (dec \<Rightarrow> dec res) \<Rightarrow> int \<Rightarrow> live_db \<Rightarrow> live_db \<Rightarrow> bool"
  for H N L where
  start: "canary_moves H N L db db"
| prepared: "canary_moves H N L db (cw_db w) \<Longrightarrow> ca_attempt_limit c \<le> L \<Longrightarrow>
    prepare_next_canary H N c w = Inr (db', out) \<Longrightarrow> canary_moves H N L db db'"
| closed: "canary_moves H N L db mid \<Longrightarrow> close_canary_intent H mid iid t reason health = Inr (db', what) \<Longrightarrow>
    canary_moves H N L db db'"
| recorded: "canary_moves H N L db mid \<Longrightarrow> record_canary_submission H mid iid t result = Inr (db', what) \<Longrightarrow>
    canary_moves H N L db db'"
| elsewhere: "canary_moves H N L db mid \<Longrightarrow> live_step mid db' \<Longrightarrow> canary_intents db' = canary_intents mid \<Longrightarrow>
    canary_moves H N L db db'"

text \<open>The intents that were not closed before their submission.\<close>

definition may_be_sent :: "live_db \<Rightarrow> intent_row list" where
  "may_be_sent db = filter (\<lambda>i. events_of db [canary_closed_type] (li_intent_id i) = []) (canary_intents db)"

definition canary_settled :: "live_db \<Rightarrow> bool" where
  "canary_settled db \<longleftrightarrow> (\<forall>i \<in> set (butlast (canary_intents db)). events_of db canary_terminal_types (li_intent_id i) \<noteq> [])"

lemma events_of_mono:
  assumes "live_step db db'" and "events_of db types iid \<noteq> []"
  shows "events_of db' types iid \<noteq> []"
proof -
  have "set (ld_order_events db) \<subseteq> set (ld_order_events db')"
    using assms(1) by (auto simp: live_step_def live_extends_def dest: set_mono_prefix)
  with assms(2) show ?thesis by (auto simp: events_of_def filter_empty_conv)
qed

lemma filter_count_mono: "(\<And>x. x \<in> set xs \<Longrightarrow> P x \<Longrightarrow> Q x) \<Longrightarrow> length (filter P xs) \<le> length (filter Q xs)"
  by (induction xs) auto

lemma canary_same_intents:
  assumes "live_step db db'" and "canary_intents db' = canary_intents db" and "canary_settled db"
    and "int (length (may_be_sent db)) \<le> L"
  shows "canary_settled db' \<and> int (length (may_be_sent db')) \<le> L"
proof -
  have "length (may_be_sent db') \<le> length (may_be_sent db)"
    unfolding may_be_sent_def assms(2) using events_of_mono [OF assms(1)] by (blast intro: filter_count_mono)
  with assms show ?thesis by (auto simp: canary_settled_def dest: events_of_mono [OF assms(1)])
qed

text \<open>An intent with an attempt counts at least once.\<close>

lemma attempts_cover:
  "length (filter (\<lambda>i. \<exists>e \<in> set events. le_intent_id e = li_intent_id i) intents)
    \<le> length (concat (map (\<lambda>e. filter (\<lambda>i. le_intent_id e = li_intent_id i) intents) events))"
proof (induction events)
  case (Cons e events)
  have "length (filter (\<lambda>i. \<exists>e \<in> set (e # events). le_intent_id e = li_intent_id i) intents)
    \<le> length (filter (\<lambda>i. le_intent_id e = li_intent_id i) intents)
      + length (filter (\<lambda>i. \<exists>e \<in> set events. le_intent_id e = li_intent_id i) intents)"
    by (induction intents) auto
  with Cons.IH show ?case by simp
qed simp

lemma canary_all_terminal:
  assumes "canary_settled db" and "pending_intent db = None" and "i \<in> set (canary_intents db)"
  shows "events_of db canary_terminal_types (li_intent_id i) \<noteq> []"
proof -
  have ne: "canary_intents db \<noteq> []" using assms(3) by auto
  then have "set (canary_intents db) = insert (last (canary_intents db)) (set (butlast (canary_intents db)))"
    by (metis append_butlast_last_id insert_is_Un list.simps(15) set_append sup_commute empty_set)
  then show ?thesis using assms ne
    by (auto simp: canary_settled_def pending_intent_def last_option_def split: if_splits)
qed

lemma sent_attempted:
  assumes "canary_settled db" and "pending_intent db = None"
  shows "int (length (may_be_sent db)) \<le> event_count db canary_attempt_types"
proof -
  let ?es = "filter (\<lambda>e. le_event_type e \<in> set canary_attempt_types) (ld_order_events db)"
  have "length (may_be_sent db) \<le> length (filter (\<lambda>i. \<exists>e \<in> set ?es. le_intent_id e = li_intent_id i) (canary_intents db))"
    unfolding may_be_sent_def
  proof (rule filter_count_mono)
    fix i assume "i \<in> set (canary_intents db)" and "events_of db [canary_closed_type] (li_intent_id i) = []"
    with canary_all_terminal [OF assms] show "\<exists>e \<in> set ?es. le_intent_id e = li_intent_id i"
      by (fastforce simp: events_of_def canary_terminal_types_def filter_empty_conv)
  qed
  also have "\<dots> \<le> length (concat (map (\<lambda>e. filter (\<lambda>i. le_intent_id e = li_intent_id i) (canary_intents db)) ?es))"
    by (rule attempts_cover)
  finally show ?thesis by (simp add: event_count_def)
qed

text \<open>A new intent, when none is pending.\<close>

lemma canary_new_intent:
  assumes "canary_intents db' = canary_intents db @ [x]" and "live_step db db'" and "canary_settled db"
    and "pending_intent db = None"
  shows "canary_settled db'" and "length (may_be_sent db') \<le> Suc (length (may_be_sent db))"
proof -
  show "canary_settled db'"
    using canary_all_terminal [OF assms(3,4)] events_of_mono [OF assms(2)]
    by (simp add: canary_settled_def assms(1))
  have "length (filter (\<lambda>i. events_of db' [canary_closed_type] (li_intent_id i) = []) (canary_intents db))
      \<le> length (may_be_sent db)"
    unfolding may_be_sent_def using events_of_mono [OF assms(2)] by (blast intro: filter_count_mono)
  then show "length (may_be_sent db') \<le> Suc (length (may_be_sent db))"
    by (simp add: may_be_sent_def assms(1))
qed

text \<open>What the operations do to the canary's intents.\<close>

lemma store_intent_canary:
  assumes "store_order_intent H N db i = Inr (db', created, x)"
  shows "canary_intents db' = canary_intents db \<or> canary_intents db' = canary_intents db @ [x]"
  using assms unfolding store_order_intent_Inr
  by (auto simp: canary_intents_def elim!: intents.keep_cases)

lemma store_event_canary:
  assumes "store_order_event H db i = Inr (db', created, e)"
  shows "live_step db db' \<and> canary_intents db' = canary_intents db"
  using assms store_order_event_step [OF assms] by (auto simp: store_order_event_Inr canary_intents_def)

lemma store_run_canary:
  assumes "store_reconciliation_run H db t u c e = Inr (db', b, x)"
  shows "live_step db db' \<and> canary_intents db' = canary_intents db"
  using store_reconciliation_run_step [OF assms] assms
  by (auto simp: store_reconciliation_run_def canary_intents_def)

lemma close_canary_step:
  assumes "close_canary_intent H db iid t reason health = Inr (db', what)"
  shows "live_step db db' \<and> canary_intents db' = canary_intents db"
  using assms
  by (auto simp: close_canary_intent_def cn_utc_def split: if_splits option.splits
      dest!: store_event_canary store_run_canary intro: live_step_trans)

lemma record_canary_step:
  assumes "record_canary_submission H db iid t result = Inr (db', what)"
  shows "live_step db db' \<and> canary_intents db' = canary_intents db"
proof -
  have *: "live_step mid fin \<and> canary_intents fin = canary_intents mid"
    if "record_cancellation_of H mid iid observed oid cancellation = Inr fin" for mid fin observed oid cancellation
    using that by (auto simp: record_cancellation_of_def Let_def dest: store_event_canary)
  show ?thesis
    using assms
    by (cases "is_true (dget result ''accepted'')"; cases "nonempty_text (Some (str_or_empty (dget result ''external_order_id'')))";
        cases "dict_of (dget result ''cancellation'')")
      (auto simp: record_canary_submission_def Let_def cn_utc_def split: option.splits
        dest!: store_event_canary * intro: live_step_trans)
qed

lemma prepare_canary_step:
  assumes "prepare_next_canary H N c w = Inr (db', out)"
  shows "(live_step (cw_db w) db' \<and> canary_intents db' = canary_intents (cw_db w))
    \<or> (live_step (cw_db w) db' \<and> (\<exists>x. canary_intents db' = canary_intents (cw_db w) @ [x])
      \<and> pending_intent (cw_db w) = None \<and> event_count (cw_db w) canary_attempt_types < ca_attempt_limit c)"
  using assms
proof (cases rule: prepare_cases)
  case kept
  then show ?thesis by (simp add: canary_intents_def)
next
  case (tried activated off observed off' db order p)
  note frame = ensure_initial_frame [OF tried(3)]
  have same: "canary_intents db = canary_intents (cw_db w)" by (simp add: canary_intents_def frame)
  from tried(8) show ?thesis
  proof (cases rule: prepare_candidate_cases)
    case refused
    with frame(1) same show ?thesis by (auto simp: canary_intents_def intro: live_step_trans)
  next
    case (ready r d rid db1 risk created i)
    note decided = canary_decide_frame [OF ready(2)]
    have "live_step (cw_db w) db'"
      using frame(1) decided(1) store_order_intent_step [OF ready(5)] by (blast intro: live_step_trans)
    moreover have "canary_intents db1 = canary_intents (cw_db w)" using decided(2) same by (simp add: canary_intents_def)
    ultimately show ?thesis using store_intent_canary [OF ready(5)] tried(4,6) by auto
  qed
qed


section \<open>Closing an intent\<close>

lemma executor_idle_Inr:
  assumes "executor_idle health = Inr collateral"
  shows "is_true (dget health ''kill_switch_engaged'')" "is_false (dget health ''activation_valid'')"
    "is_false (dget health ''submission_ready'')" "is_false (dget health ''live_order_submitted'')"
  using assms by (auto simp: executor_idle_def split: option.splits)

text \<open>an intent is closed as never submitted only while the executor cannot submit it (its kill
  switch engaged, its activation invalid, nothing submitted) and only when the ledger has no
  attempt of it; the closing event and a clean reconciliation are then in the ledger.
\<close>

theorem canary_close_guarded:
  assumes "close_canary_intent H db iid t reason health = Inr (db', Reconciled rid)"
  shows "is_true (dget health ''kill_switch_engaged'') \<and> is_false (dget health ''activation_valid'')
    \<and> is_false (dget health ''submission_ready'') \<and> is_false (dget health ''live_order_submitted'')
    \<and> events_of db canary_attempt_types iid = [] \<and> (\<exists>i \<in> set (canary_intents db). li_intent_id i = iid)
    \<and> (\<exists>e \<in> set (ld_order_events db'). le_event_key e = strip (iid @ '':'' @ canary_closed_type))
    \<and> (\<exists>x \<in> set (ld_reconciliations db'). lx_reconciliation_id x = rid)"
proof -
  from assms obtain observed collateral i carried db1 a e b x where
    idle: "executor_idle health = Inr collateral" and i: "canary_intent db iid = Inr (Some i)"
    and none: "events_of db canary_attempt_types iid = []"
    and event: "store_order_event H db (close_event iid observed (strip reason) collateral) = Inr (db1, a, e)"
    and run: "store_reconciliation_run H db1 (Aware observed 0) 0 0
      (close_evidence iid (strip reason) collateral carried) = Inr (db', b, x)"
    and rid: "rid = lx_reconciliation_id x"
    by (auto simp: close_canary_intent_def cn_utc_def split: if_splits option.splits)
  have "[i] = filter (\<lambda>i. li_intent_id i = iid) (canary_intents db)" using i by (simp add: canary_intent_def)
  then have "i \<in> set (filter (\<lambda>i. li_intent_id i = iid) (canary_intents db))" by (metis list.set_intros(1))
  then have intent: "\<exists>i \<in> set (canary_intents db). li_intent_id i = iid" by auto
  have closed: "e \<in> set (ld_order_events db1) \<and> le_event_key e = strip (iid @ '':'' @ canary_closed_type)"
  proof -
    from event obtain r u where r: "event_row_of H (close_event iid observed (strip reason) collateral) = Inr r"
      and keep: "existing_or_insert le_event_key le_semantic_sha256 event_coerce no_other event_conflict
        (ld_order_events db) r = Inr (u, a, e)" and db1: "db1 = db\<lparr>ld_order_events := u\<rparr>"
      unfolding store_order_event_Inr by blast
    show ?thesis using order_events.keep_record [OF keep] event_row_of_key [OF r] db1 by (simp add: close_event_def)
  qed
  have "e \<in> set (ld_order_events db')"
    using closed store_reconciliation_run_step [OF run] by (auto simp: live_step_def live_extends_def dest: set_mono_prefix)
  moreover have "x \<in> set (ld_reconciliations db')"
    using run by (auto simp: store_reconciliation_run_def dest: reconciliations.keep_record)
  ultimately show ?thesis using executor_idle_Inr [OF idle] none intent closed rid by blast
qed

text \<open>closing carries the account of the last clean reconciliation over; where the newest one holds an
  exposure whose text is no decimal, the conversion raises a signal that the handler around it
  does not name, so no intent can be closed, whatever the executor reports.
\<close>

theorem unreadable_snapshot_blocks_close:
  assumes "executor_idle health = Inr collateral" and "strip reason \<noteq> []"
    and "canary_intent db iid = Inr (Some i)" and "events_of db canary_terminal_types iid = []"
    and "rev (sort_key lx_observed_at (reconciliations_until db t)) = x # rows"
    and "lx_unresolved_count x = 0" and "lx_critical_count x = 0"
    and "lx_evidence x = PDict evidence" and "dict_of (dget evidence ''account_snapshot'') = Some account"
    and "dindex account ''total_exposure_usd'' = Inr v" and "read_decimal (py_str v) = None"
  shows "close_canary_intent H db iid (Aware t off) reason health = Inl InvalidOperation"
proof -
  have "evidence \<noteq> []" using assms(9) by (auto simp: dget_def dict_of_def)
  then have "latest_clean_account_snapshot db t = Inl InvalidOperation"
    using assms(6-11)
    by (simp add: latest_clean_account_snapshot_def assms(5) snapshot_numbers_def caught_by_snapshot_def dict_or_empty_def)
  moreover have "events_of db canary_attempt_types iid = []" "events_of db [canary_closed_type] iid = []"
    using assms(4) by (auto simp: events_of_def canary_terminal_types_def filter_empty_conv)
  ultimately show ?thesis using assms(1-3) by (simp add: close_canary_intent_def cn_utc_def aware_utc_def)
qed

end
