(* ===== verification/LiveCanaryRun.thy ===== *)
theory LiveCanaryRun
  imports LiveRun LiveCanarySafety
begin

text \<open>
  The canary at work on concrete values: an order that is prepared, an intent that is closed, and a
  ledger whose account snapshot cannot be read.
\<close>

definition ex_canary_prediction :: live_prediction where
  "ex_canary_prediction = ex_live_prediction\<lparr>lp_prediction_version := V3_PAPER_PREDICTION_VERSION\<rparr>"

definition ex_canary_order :: paper_order_row where
  "ex_canary_order = ex_order_row\<lparr>po_execution_version := V3_PAPER_EXECUTION_VERSION\<rparr>"

definition ex_canary_world :: canary_world where
  "ex_canary_world = \<lparr>cw_db = ex_live_db, cw_orders = [ex_canary_order], cw_predictions = [ex_canary_prediction],
     cw_states = [ex_state]\<rparr>"

definition ex_canary_call :: canary_call where
  "ex_canary_call = \<lparr>ca_activated_at = Aware 0 0, ca_observed_at = Aware 2000000 0,
     ca_interlock = \<lparr>il_eligible = True, il_reasons = []\<rparr>, ca_api_healthy = True, ca_open_orders = 0,
     ca_collateral = Dec 1250 (- 2), ca_attempt_limit = 1, ca_accepted_limit = 1\<rparr>"

definition ex_prepared :: "(live_db \<times> canary_result) res" where
  "ex_prepared = prepare_next_canary ex_H ex_N ex_canary_call ex_canary_world"

definition ex_prepared_db :: live_db where
  "ex_prepared_db = fst (projr ex_prepared)"

definition the_prepared :: "canary_result \<Rightarrow> prepared" where
  "the_prepared r = (case r of Prepared x \<Rightarrow> x | _ \<Rightarrow> undefined)"

definition is_prepared :: "canary_result \<Rightarrow> bool" where
  "is_prepared r = (case r of Prepared x \<Rightarrow> True | _ \<Rightarrow> False)"

lemma ex_prepared_run: "prepare_next_canary ex_H ex_N ex_canary_call ex_canary_world
  = Inr (ex_prepared_db, Prepared (the_prepared (snd (projr ex_prepared))))"
proof -
  have run: "\<not> isl ex_prepared" and "is_prepared (snd (projr ex_prepared))" by code_simp+
  then obtain x where x: "snd (projr ex_prepared) = Prepared x"
    by (auto simp: is_prepared_def split: canary_result.splits)
  have "ex_prepared = Inr (ex_prepared_db, Prepared x)"
    using not_isl_projr [OF run] x by (metis ex_prepared_db_def prod.collapse)
  with x show ?thesis by (simp add: the_prepared_def flip: ex_prepared_def)
qed



section \<open>Closing\<close>

definition ex_idle_health :: pydict where
  "ex_idle_health = [(''status'', PStr ''ok''), (''geoblock'', PDict [(''blocked'', PBool False), (''country'', PStr ''ZA'')]),
     (''account'', PDict [(''open_order_count'', PInt 0), (''collateral_balance_usd'', PStr ''12.50''),
        (''clean_for_canary'', PBool True)]),
     (''kill_switch_engaged'', PBool True), (''activation_valid'', PBool False),
     (''submission_ready'', PBool False), (''live_order_submitted'', PBool False)]"

definition ex_canary_id :: string where
  "ex_canary_id = ''live-intent-'' @ replicate 32 CHR ''c''"

definition ex_closed :: "(live_db \<times> close_result) res" where
  "ex_closed = close_canary_intent ex_H ex_prepared_db ex_canary_id (Aware 3000000 0) ''stale'' ex_idle_health"

definition the_reconciled :: "close_result \<Rightarrow> string" where
  "the_reconciled r = (case r of Reconciled rid \<Rightarrow> rid | AlreadyReconciled \<Rightarrow> [])"

definition ex_closed_db' :: live_db where
  "ex_closed_db' = fst (projr ex_closed)"

lemma ex_closed_run: "close_canary_intent ex_H ex_prepared_db ex_canary_id (Aware 3000000 0) ''stale'' ex_idle_health
  = Inr (ex_closed_db', Reconciled (the_reconciled (snd (projr ex_closed))))"
proof -
  have run: "\<not> isl ex_closed" and "the_reconciled (snd (projr ex_closed)) \<noteq> []" by code_simp+
  then obtain rid where "snd (projr ex_closed) = Reconciled rid"
    by (auto simp: the_reconciled_def split: close_result.splits)
  moreover from this have "ex_closed = Inr (ex_closed_db', Reconciled rid)"
    using not_isl_projr [OF run] by (metis ex_closed_db'_def prod.collapse)
  ultimately show ?thesis by (simp add: the_reconciled_def flip: ex_closed_def)
qed

theorem canary_close_guarded_witness:
  "events_of ex_prepared_db canary_attempt_types ex_canary_id = []"
  using canary_close_guarded [OF ex_closed_run] by blast

definition ex_unreadable_run :: reconciliation_row where
  "ex_unreadable_run = ex_reconciliation\<lparr>lx_evidence := PDict [(''account_snapshot'',
     PDict [(''total_exposure_usd'', PStr ''n/a''), (''realized_daily_pnl_usd'', PStr ''0''), (''consecutive_losses'', PInt 0)])]\<rparr>"

definition ex_unreadable_db :: live_db where
  "ex_unreadable_db = ex_live_db\<lparr>ld_intents := [ex_intent_row\<lparr>li_policy_version := CANARY_POLICY_VERSION\<rparr>],
     ld_reconciliations := [ex_unreadable_run]\<rparr>"

theorem unreadable_snapshot_blocks_close_witness:
  "close_canary_intent ex_H ex_unreadable_db (li_intent_id ex_intent_row) (Aware 3000000 0) ''stale'' ex_idle_health = Inl InvalidOperation"
proof (rule unreadable_snapshot_blocks_close)
  show "executor_idle ex_idle_health = Inr (Finite (Dec 1250 (- 2)))" by code_simp
  show "strip ''stale'' \<noteq> []" by code_simp
  show "canary_intent ex_unreadable_db (li_intent_id ex_intent_row) = Inr (Some (ex_intent_row\<lparr>li_policy_version := CANARY_POLICY_VERSION\<rparr>))"
    by (simp add: canary_intent_def canary_intents_def ex_unreadable_db_def ex_intent_row_def)
  show "events_of ex_unreadable_db canary_terminal_types (li_intent_id ex_intent_row) = []"
    by (simp add: events_of_def ex_unreadable_db_def ex_live_db_def)
  show "rev (sort_key lx_observed_at (reconciliations_until ex_unreadable_db 3000000)) = ex_unreadable_run # []"
    by (simp add: reconciliations_until_def ex_unreadable_db_def ex_unreadable_run_def ex_reconciliation_def)
  show "lx_unresolved_count ex_unreadable_run = 0" "lx_critical_count ex_unreadable_run = 0"
    by (simp_all add: ex_unreadable_run_def ex_reconciliation_def)
  show "lx_evidence ex_unreadable_run = PDict [(''account_snapshot'',
     PDict [(''total_exposure_usd'', PStr ''n/a''), (''realized_daily_pnl_usd'', PStr ''0''), (''consecutive_losses'', PInt 0)])]"
    by (simp add: ex_unreadable_run_def)
  show "dict_of (dget [(''account_snapshot'', PDict [(''total_exposure_usd'', PStr ''n/a''),
      (''realized_daily_pnl_usd'', PStr ''0''), (''consecutive_losses'', PInt 0)])] ''account_snapshot'')
    = Some [(''total_exposure_usd'', PStr ''n/a''), (''realized_daily_pnl_usd'', PStr ''0''), (''consecutive_losses'', PInt 0)]"
    "dindex [(''total_exposure_usd'', PStr ''n/a''), (''realized_daily_pnl_usd'', PStr ''0''), (''consecutive_losses'', PInt 0)]
      ''total_exposure_usd'' = Inr (PStr ''n/a'')"
    "read_decimal (py_str (PStr ''n/a'')) = None"
    by code_simp+
qed

end
