(* ===== verification/FastValues.thy ===== *)
theory FastValues
  imports LiveAccount
begin

text \<open>
  What the fast live path (\<open>bp_engine/execution/fast_live.py\<close>, \<open>fast_live_executor.py\<close>) and the
  approvals (\<open>telegram_approval.py\<close>) share: JSON objects read with \<open>get\<close>, numbers of a document
  compared with literals, the ASCII JSON text that is hashed and signed, and instants read from
  texts. The environment \<open>crypto\<close> holds SHA-256 (the hexadecimal digest of a text), HMAC-SHA-256
  (of a key and a text), \<open>datetime.fromisoformat\<close>, \<open>None\<close> where it raises \<open>ValueError\<close>, and the
  instant of a wall clock of the system's zone, which \<open>astimezone\<close> takes for a naive datetime.
\<close>

record crypto =
  cy_sha256 :: "string \<Rightarrow> string"
  cy_hmac :: "string \<Rightarrow> string \<Rightarrow> string"
  cy_parse :: "string \<Rightarrow> pytime option"
  cy_local :: "int \<Rightarrow> int"

text \<open>A loop of checks passes when every check does.\<close>

lemma efold_checks: "efold f xs () = Inr u \<longleftrightarrow> (\<forall>x \<in> set xs. f x () = Inr ())"
  by (induction xs) auto

section \<open>Reading a document\<close>

definition dget_or :: "pydict \<Rightarrow> string \<Rightarrow> pyval \<Rightarrow> pyval" where
  "dget_or d k v0 = (case map_of d k of None \<Rightarrow> v0 | Some v \<Rightarrow> v)"

text \<open>A truth value is an integer, and a float is the number its \<open>repr\<close> denotes.\<close>

definition number_of :: "pyval \<Rightarrow> dec option" where
  "number_of v = (case v of PBool b \<Rightarrow> Some (if b then d1 else d0) | PInt i \<Rightarrow> Some (Dec i 0)
     | PFloat t \<Rightarrow> (case read_decimal t of Some (Finite d) \<Rightarrow> Some d | _ \<Rightarrow> None)
     | PDec (Finite d) \<Rightarrow> Some d | _ \<Rightarrow> None)"

definition equals_int :: "pyval \<Rightarrow> int \<Rightarrow> bool" where
  "equals_int v n = (case number_of v of Some d \<Rightarrow> deq d (Dec n 0) | None \<Rightarrow> False)"

definition equals_bool :: "pyval \<Rightarrow> bool \<Rightarrow> bool" where
  "equals_bool v b = equals_int v (if b then 1 else 0)"

definition equals_text :: "pyval \<Rightarrow> string \<Rightarrow> bool" where
  "equals_text v s = (v = PStr s)"

definition all_hex :: "nat \<Rightarrow> string \<Rightarrow> bool" where
  "all_hex n s = (length s = n \<and> list_all is_hex_lower s)"

text \<open>
  A number of a document: \<open>Decimal(str(value))\<close>, finite, with the component's own exception.
\<close>

definition document_decimal :: "(string \<Rightarrow> exn) \<Rightarrow> string \<Rightarrow> pyval \<Rightarrow> dec res" where
  "document_decimal err name v = (case to_decimal v of
       None \<Rightarrow> Inl (err (name @ '' must be numeric''))
     | Some x \<Rightarrow> (case x of Finite d \<Rightarrow> Inr d | _ \<Rightarrow> Inl (err (name @ '' must be finite''))))"

text \<open>An instant of a document: \<open>fromisoformat(str(value or ''))\<close>, which must be aware.\<close>

definition document_time :: "crypto \<Rightarrow> exn \<Rightarrow> pyval \<Rightarrow> int res" where
  "document_time cy naive v = (case cy_parse cy (str_or_empty v) of
       None \<Rightarrow> Inl (ValueError ''Invalid isoformat string'')
     | Some t \<Rightarrow> aware_utc naive t)"

lemma document_time_Inr:
  "document_time cy naive v = Inr us \<longleftrightarrow> (\<exists>off. cy_parse cy (str_or_empty v) = Some (Aware us off))"
  by (auto simp: document_time_def split: option.splits)

definition astimezone :: "crypto \<Rightarrow> pytime \<Rightarrow> int" where
  "astimezone cy t = (case t of Naive us \<Rightarrow> cy_local cy us | Aware us _ \<Rightarrow> us)"

text \<open>\<open>fromisoformat(str(value)).astimezone(UTC)\<close>.\<close>

definition document_instant :: "crypto \<Rightarrow> string \<Rightarrow> int res" where
  "document_instant cy s = (case cy_parse cy s of
       None \<Rightarrow> Inl (ValueError ''Invalid isoformat string'') | Some t \<Rightarrow> Inr (astimezone cy t))"

text \<open>\<open>len\<close> of a text: its bytes that begin a code point.\<close>

definition text_length :: "string \<Rightarrow> nat" where
  "text_length s = length (filter (\<lambda>c. of_char c div 64 \<noteq> (2 :: nat)) s)"

section \<open>ASCII JSON\<close>

text \<open>The code points of UTF-8 bytes.\<close>

definition low6 :: "nat list \<Rightarrow> nat \<Rightarrow> nat" where
  "low6 bs k = (if k < length bs then bs ! k mod 64 else 0)"

function code_points :: "nat list \<Rightarrow> nat list" where
  "code_points [] = []"
| "code_points (a # bs) =
     (if a < 0x80 then a # code_points bs
      else if a < 0xE0 then ((a mod 0x20) * 0x40 + low6 bs 0) # code_points (drop 1 bs)
      else if a < 0xF0 then ((a mod 0x10) * 0x1000 + low6 bs 0 * 0x40 + low6 bs 1) # code_points (drop 2 bs)
      else ((a mod 0x08) * 0x40000 + low6 bs 0 * 0x1000 + low6 bs 1 * 0x40 + low6 bs 2) # code_points (drop 3 bs))"
  by pat_completeness auto
termination by (relation "measure length") auto

definition u_escape :: "nat \<Rightarrow> string" where
  "u_escape n = [CHR 0x5C, CHR ''u'', hex_digit (n div 0x1000 mod 16), hex_digit (n div 0x100 mod 16),
     hex_digit (n div 16 mod 16), hex_digit (n mod 16)]"

definition ascii_point :: "nat \<Rightarrow> string" where
  "ascii_point n =
     (if n = 0x22 \<or> n = 0x5C then [CHR 0x5C, char_of n]
      else if n = 10 then [CHR 0x5C, CHR ''n''] else if n = 13 then [CHR 0x5C, CHR ''r'']
      else if n = 9 then [CHR 0x5C, CHR ''t''] else if n = 8 then [CHR 0x5C, CHR ''b'']
      else if n = 12 then [CHR 0x5C, CHR ''f'']
      else if 0x20 \<le> n \<and> n < 0x7F then [char_of n]
      else if n < 0x10000 then u_escape n
      else u_escape (0xD800 + (n - 0x10000) div 0x400) @ u_escape (0xDC00 + (n - 0x10000) mod 0x400))"

definition ascii_str :: "string \<Rightarrow> string" where
  "ascii_str s = [CHR 0x22] @ concat (map ascii_point (code_points (map of_char s))) @ [CHR 0x22]"

definition ascii_float :: "bool \<Rightarrow> string \<Rightarrow> string res" where
  "ascii_float strict t = (case read_decimal t of
       Some (Finite _) \<Rightarrow> Inr t
     | other \<Rightarrow> if strict then Inl (ValueError ''Out of range float values are not JSON compliant'')
         else Inr (case other of Some (Infinite neg) \<Rightarrow> if neg then ''-Infinity'' else ''Infinity'' | _ \<Rightarrow> ''NaN''))"

text \<open>
  \<open>json.dumps\<close> with sorted keys, the separators \<open>,\<close> and \<open>:\<close> and \<open>ensure_ascii\<close>; \<open>strict\<close> is
  \<open>allow_nan=False\<close>. A decimal or a datetime has no JSON text.
\<close>

fun json_ascii :: "bool \<Rightarrow> pyval \<Rightarrow> string res" where
  "json_ascii strict PNone = Inr ''null''"
| "json_ascii strict (PBool b) = Inr (if b then ''true'' else ''false'')"
| "json_ascii strict (PInt i) = Inr (show_int i)"
| "json_ascii strict (PFloat t) = ascii_float strict t"
| "json_ascii strict (PStr s) = Inr (ascii_str s)"
| "json_ascii strict (PDec v) = Inl (TypeError ''Object of type Decimal is not JSON serializable'')"
| "json_ascii strict (PTime t) = Inl (TypeError ''Object of type datetime is not JSON serializable'')"
| "json_ascii strict (PList xs) = ebind (emap (json_ascii strict) xs) (\<lambda>ts. Inr (''['' @ comma_join '','' ts @ '']''))"
| "json_ascii strict (PDict d) =
     ebind (emap snd (sort_key fst (map (\<lambda>(k, v). (k, ebind (json_ascii strict v)
       (\<lambda>t. Inr (ascii_str k @ '':'' @ t)))) d))) (\<lambda>ts. Inr (''{'' @ comma_join '','' ts @ ''}''))"

definition document_sha256 :: "bool \<Rightarrow> crypto \<Rightarrow> pydict \<Rightarrow> string res" where
  "document_sha256 strict cy d = ebind (json_ascii strict (PDict d)) (\<lambda>t. Inr (cy_sha256 cy t))"

text \<open>The documented output of HMAC-SHA-256.\<close>

definition hmac_like :: "crypto \<Rightarrow> bool" where
  "hmac_like cy \<longleftrightarrow> (\<forall>k s. all_hex 64 (cy_hmac cy k s))"

end
