(* ===== verification/TelegramApproval.thy ===== *)
theory TelegramApproval
  imports FastValues
begin

text \<open>
  The human approval of one live order (\<open>bp_engine/execution/telegram_approval.py\<close>): what a
  prepared order must be to be shown, the pending approval with its nonce and its deadline, the
  callback that answers it, the record of the answer, and its last check before submission. The
  prompt texts are not modelled.
\<close>

section \<open>A prepared order\<close>

definition MIN_APPROVAL_WINDOW_SECONDS :: int where
  "MIN_APPROVAL_WINDOW_SECONDS = 20"

definition SUBMIT_SAFETY_FLOOR_SECONDS :: int where
  "SUBMIT_SAFETY_FLOOR_SECONDS = 10"

definition MAX_APPROVAL_LIFETIME_SECONDS :: int where
  "MAX_APPROVAL_LIFETIME_SECONDS = 45"

definition approval_policy_version :: string where
  "approval_policy_version = ''v3-live-canary-v1''"

definition approval_target :: dec where
  "approval_target = Dec 5 0"

definition ap_require :: "bool \<Rightarrow> string \<Rightarrow> unit res" where
  "ap_require b msg = require b (ApprovalError msg)"

lemma ap_require_Inr [simp]: "ap_require b msg = Inr u \<longleftrightarrow> b"
  by (simp add: ap_require_def)

definition ap_utc :: "pytime \<Rightarrow> int res" where
  "ap_utc t = aware_utc (ApprovalError ''datetime must be timezone-aware'') t"

definition ap_mapping :: "pyval \<Rightarrow> string \<Rightarrow> pydict res" where
  "ap_mapping v msg = (case dict_of v of Some d \<Rightarrow> Inr d | None \<Rightarrow> Inl (ApprovalError msg))"

definition ap_request_sha256 :: "crypto \<Rightarrow> pydict \<Rightarrow> string res" where
  "ap_request_sha256 cy prepared =
     ebind (ap_mapping (dget prepared ''request'') ''prepared request missing'') (document_sha256 False cy)"

record approvable =
  ap_intent_id :: string
  ap_prediction_id :: string
  ap_paper_order_id :: string
  ap_market_end_at :: int
  ap_selected_side :: string
  ap_limit_price :: dec
  ap_requested_shares :: dec
  ap_target_notional_usd :: dec
  ap_request :: string

definition ap_market_end :: "crypto \<Rightarrow> pydict \<Rightarrow> int res" where
  "ap_market_end cy prepared = (case cy_parse cy (str_or_empty (dget prepared ''market_end_at'')) of
       None \<Rightarrow> Inl (ApprovalError ''market_end_at invalid'')
     | Some t \<Rightarrow> ap_utc t)"

text \<open>The policy and the target of the request.\<close>

definition ap_terms :: "pydict \<Rightarrow> pydict \<Rightarrow> dec res" where
  "ap_terms policy request =
     ebind (ap_require (equals_text (dget policy ''policy_version'') approval_policy_version) ''policy version mismatch'') (\<lambda>_.
     ebind (py_int (dget_or policy ''max_submission_attempts'' (PInt 0))) (\<lambda>attempts.
     ebind (ap_require (attempts = 1) ''submission attempt policy mismatch'') (\<lambda>_.
     ebind (document_decimal ApprovalError ''target_notional_usd'' (dget request ''target_notional_usd'')) (\<lambda>target.
     ebind (ap_require (deq target approval_target) ''target notional changed'') (\<lambda>_. Inr target)))))"

definition ap_price_terms :: "pydict \<Rightarrow> pydict \<Rightarrow> (string \<times> dec \<times> dec) res" where
  "ap_price_terms prepared request =
     (let side = (let r = dget request ''selected_side'' in
        str_or_empty (if truthy r then r else dget prepared ''selected_side'')) in
     ebind (document_decimal ApprovalError ''limit_price'' (dget request ''limit_price'')) (\<lambda>price.
     ebind (document_decimal ApprovalError ''requested_shares'' (dget request ''requested_shares'')) (\<lambda>shares.
     ebind (ap_require (side \<in> {''up'', ''down''}) ''selected side invalid'') (\<lambda>_.
     ebind (ap_require (dlt d0 price \<and> dle price d1) ''limit price invalid'') (\<lambda>_.
     ebind (ap_require (\<not> dle shares d0) ''requested shares invalid'') (\<lambda>_.
     Inr (side, price, shares)))))))"

definition ap_validate :: "crypto \<Rightarrow> pydict \<Rightarrow> pytime \<Rightarrow> int \<Rightarrow> approvable res" where
  "ap_validate cy prepared observed_at minimum =
     ebind (ap_utc observed_at) (\<lambda>observed.
     ebind (ap_require (equals_text (dget prepared ''status'') ''prepared'') ''prepared status invalid'') (\<lambda>_.
     ebind (ap_require (equals_text (dget prepared ''action'') ''submit'') ''prepared action invalid'') (\<lambda>_.
     ebind (ap_mapping (dget prepared ''policy'') ''prepared policy/request missing'') (\<lambda>policy.
     ebind (ap_mapping (dget prepared ''request'') ''prepared policy/request missing'') (\<lambda>request.
     ebind (ap_terms policy request) (\<lambda>target.
     let intent = str_or_empty (dget prepared ''intent_id''); prediction = str_or_empty (dget prepared ''prediction_id'');
         order = str_or_empty (dget prepared ''paper_order_id'') in
     ebind (ap_require (intent \<noteq> [] \<and> prediction \<noteq> [] \<and> order \<noteq> []) ''prepared identity missing'') (\<lambda>_.
     ebind (ap_market_end cy prepared) (\<lambda>market_end.
     ebind (ap_require (\<not> market_end - observed < minimum * 1000000) ''prepared intent too close to market end'') (\<lambda>_.
     ebind (ap_price_terms prepared request) (\<lambda>(side, price, shares).
     ebind (ap_request_sha256 cy prepared) (\<lambda>sha.
     Inr \<lparr>ap_intent_id = intent, ap_prediction_id = prediction, ap_paper_order_id = order,
       ap_market_end_at = market_end, ap_selected_side = side, ap_limit_price = price,
       ap_requested_shares = shares, ap_target_notional_usd = target, ap_request = sha\<rparr>)))))))))))"

section \<open>The pending approval\<close>

text \<open>\<open>token\<close> is \<open>secrets.token_urlsafe(12)\<close>.\<close>

definition new_pending ::
  "crypto \<Rightarrow> string \<Rightarrow> pydict \<Rightarrow> int \<Rightarrow> int \<Rightarrow> pytime \<Rightarrow> string option \<Rightarrow> pydict res" where
  "new_pending cy token prepared user chat created_at nonce =
     ebind (ap_validate cy prepared created_at MIN_APPROVAL_WINDOW_SECONDS) (\<lambda>v.
     ebind (ap_utc created_at) (\<lambda>created.
     ebind (document_instant cy (iso_utc (ap_market_end_at v))) (\<lambda>market_end.
     let expires = min (created + MAX_APPROVAL_LIFETIME_SECONDS * 1000000)
           (market_end - SUBMIT_SAFETY_FLOOR_SECONDS * 1000000);
         chosen = (case nonce of None \<Rightarrow> token | Some n \<Rightarrow> n) in
     ebind (ap_require (\<not> expires \<le> created) ''approval window already closed'') (\<lambda>_.
     ebind (ap_require (chosen \<noteq> [] \<and> CHR '':'' \<notin> set chosen \<and> length chosen \<le> 40) ''approval nonce invalid'') (\<lambda>_.
     Inr [(''schema_version'', PInt 1), (''status'', PStr ''pending''), (''intent_id'', PStr (ap_intent_id v)),
       (''prediction_id'', PStr (ap_prediction_id v)), (''paper_order_id'', PStr (ap_paper_order_id v)),
       (''request_sha256'', PStr (ap_request v)), (''telegram_user_id'', PInt user), (''telegram_chat_id'', PInt chat),
       (''nonce'', PStr chosen), (''created_at'', PStr (iso_utc created)), (''expires_at'', PStr (iso_utc expires))])))))"

section \<open>The answer\<close>

definition callback_data :: "string \<Rightarrow> string \<Rightarrow> string res" where
  "callback_data action nonce =
     (let normalized = lower action; value = normalized @ '':'' @ nonce in
     ebind (ap_require (normalized \<in> {''approve'', ''skip''}) ''callback action invalid'') (\<lambda>_.
     ebind (ap_require (length value \<le> 64) ''callback data exceeds Telegram limit'') (\<lambda>_. Inr value)))"

definition pending_text :: "pydict \<Rightarrow> string \<Rightarrow> string res" where
  "pending_text pending k = ebind (dindex pending k) (\<lambda>v. Inr (py_str v))"

definition pending_int :: "pydict \<Rightarrow> string \<Rightarrow> int res" where
  "pending_int pending k = ebind (dindex pending k) py_int"

text \<open>Whoever answers must be the user, in the private chat, that the approval was sent to.\<close>

definition callback_identity :: "pydict \<Rightarrow> pydict \<Rightarrow> unit res" where
  "callback_identity callback pending =
     ebind (ap_mapping (dget callback ''from'') ''callback identity missing'') (\<lambda>user.
     ebind (ap_mapping (dget callback ''message'') ''callback identity missing'') (\<lambda>message.
     ebind (ap_mapping (dget message ''chat'') ''callback chat missing'') (\<lambda>chat.
     ebind (ap_require (str_or_empty (dget chat ''type'') = ''private'') ''approval must come from private chat'') (\<lambda>_.
     ebind (py_int (dget_or user ''id'' (PInt 0))) (\<lambda>who.
     ebind (pending_int pending ''telegram_user_id'') (\<lambda>expected.
     ebind (ap_require (who = expected) ''telegram user mismatch'') (\<lambda>_.
     ebind (py_int (dget_or chat ''id'' (PInt 0))) (\<lambda>place.
     ebind (pending_int pending ''telegram_chat_id'') (\<lambda>expected'.
     ap_require (place = expected') ''telegram chat mismatch'')))))))))"

definition validate_callback :: "crypto \<Rightarrow> pydict \<Rightarrow> pydict \<Rightarrow> pytime \<Rightarrow> string res" where
  "validate_callback cy update pending observed_at =
     ebind (ap_utc observed_at) (\<lambda>observed.
     ebind (ap_require (equals_text (dget pending ''status'') ''pending'') ''approval is not pending'') (\<lambda>_.
     ebind (ebind (pending_text pending ''expires_at'') (document_instant cy)) (\<lambda>expires.
     ebind (ap_require (\<not> expires \<le> observed) ''approval expired'') (\<lambda>_.
     ebind (ap_mapping (dget update ''callback_query'') ''callback query missing'') (\<lambda>callback.
     ebind (callback_identity callback pending) (\<lambda>_.
     let data = str_or_empty (dget callback ''data'') in
     ebind (ebind (pending_text pending ''nonce'') (callback_data ''approve'')) (\<lambda>approve.
     ebind (ebind (pending_text pending ''nonce'') (callback_data ''skip'')) (\<lambda>skip.
     if data = approve then Inr ''approve'' else if data = skip then Inr ''skip''
     else Inl (ApprovalError ''callback nonce/action mismatch'')))))))))"

definition approval_record :: "crypto \<Rightarrow> string \<Rightarrow> pydict \<Rightarrow> string \<Rightarrow> pytime \<Rightarrow> pydict res" where
  "approval_record cy action pending query_id approved_at =
     ebind (ap_require (lower action \<in> {''approve'', ''skip''}) ''approval action invalid'') (\<lambda>_.
     ebind (ap_utc approved_at) (\<lambda>approved.
     ebind (ebind (pending_text pending ''expires_at'') (document_instant cy)) (\<lambda>expires.
     ebind (ap_require (\<not> expires \<le> approved) ''approval expired'') (\<lambda>_.
     ebind (emap (\<lambda>k. ebind (pending_text pending k) (\<lambda>t. Inr (k, PStr t)))
       [''intent_id'', ''prediction_id'', ''paper_order_id'', ''request_sha256'']) (\<lambda>identity.
     ebind (emap (\<lambda>k. ebind (pending_int pending k) (\<lambda>i. Inr (k, PInt i))) [''telegram_user_id'', ''telegram_chat_id'']) (\<lambda>who.
     ebind (pending_text pending ''expires_at'') (\<lambda>deadline.
     Inr ([(''schema_version'', PInt 1),
        (''status'', PStr (if lower action = ''approve'' then ''approved'' else ''skipped''))] @ identity @ who
       @ [(''callback_query_id'', PStr query_id), (''approved_at'', PStr (iso_utc approved)),
          (''expires_at'', PStr deadline)]))))))))"

section \<open>The check before submission\<close>

record handoff = approvable +
  ho_approved_at :: int
  ho_expires_at :: int
  ho_callback_query_id :: string
  ho_telegram_user_id :: int
  ho_telegram_chat_id :: int

definition approval_time :: "crypto \<Rightarrow> pydict \<Rightarrow> string \<Rightarrow> int res" where
  "approval_time cy approval k = (case map_of approval k of
       None \<Rightarrow> Inl (ApprovalError ''approval timestamps invalid'')
     | Some v \<Rightarrow> (case cy_parse cy (py_str v) of
         None \<Rightarrow> Inl (ApprovalError ''approval timestamps invalid'')
       | Some t \<Rightarrow> ap_utc t))"

definition validate_approved_handoff :: "crypto \<Rightarrow> pydict \<Rightarrow> pydict \<Rightarrow> pytime \<Rightarrow> handoff res" where
  "validate_approved_handoff cy prepared approval observed_at =
     ebind (ap_utc observed_at) (\<lambda>observed.
     ebind (ap_require (equals_text (dget approval ''status'') ''approved'') ''approval is not approved'') (\<lambda>_.
     ebind (ap_validate cy prepared observed_at SUBMIT_SAFETY_FLOOR_SECONDS) (\<lambda>v.
     ebind (efold (\<lambda>(k, expected) _. ap_require (str_or_empty (dget approval k) = expected) (''approved '' @ k @ '' mismatch''))
       [(''intent_id'', ap_intent_id v), (''prediction_id'', ap_prediction_id v), (''paper_order_id'', ap_paper_order_id v)] ()) (\<lambda>_.
     ebind (ap_require (str_or_empty (dget approval ''request_sha256'') = ap_request v) ''approved request changed'') (\<lambda>_.
     ebind (approval_time cy approval ''approved_at'') (\<lambda>approved.
     ebind (approval_time cy approval ''expires_at'') (\<lambda>expires.
     ebind (ap_require (\<not> expires \<le> approved) ''approval timestamp invalid'') (\<lambda>_.
     ebind (ap_require (approved \<le> observed) ''approval timestamp is in the future'') (\<lambda>_.
     ebind (ap_require (\<not> expires \<le> observed) ''approval expired'') (\<lambda>_.
     ebind (py_int (dget_or approval ''telegram_user_id'' (PInt 0))) (\<lambda>user.
     ebind (py_int (dget_or approval ''telegram_chat_id'' (PInt 0))) (\<lambda>chat.
     Inr (approvable.extend v \<lparr>ho_approved_at = approved, ho_expires_at = expires,
       ho_callback_query_id = str_or_empty (dget approval ''callback_query_id''),
       ho_telegram_user_id = user, ho_telegram_chat_id = chat\<rparr>)))))))))))))"

end
