(* ===== verification/FastLive.thy ===== *)
theory FastLive
  imports TelegramApproval
begin

text \<open>
  The signed messages of the fast live path (\<open>bp_engine/execution/fast_live.py\<close>): what a session is
  authorised to do, what a prepared order must be, and the envelopes, approvals, warm-ups and
  results exchanged between the hosts, each with an HMAC over its canonical JSON and a window of
  validity. Instants of a validated document are kept as instants, their texts are renderings.
\<close>

section \<open>Constants\<close>

definition FAST_LIVE_PURPOSE :: string where "FAST_LIVE_PURPOSE = ''phase15-v3-fast-live-v1''"
definition FAST_LIVE_WARMUP_PURPOSE :: string where "FAST_LIVE_WARMUP_PURPOSE = ''phase15-v3-fast-live-warmup-v1''"
definition FAST_LIVE_RESULT_PURPOSE :: string where "FAST_LIVE_RESULT_PURPOSE = ''phase15-v3-fast-live-result-v1''"
definition FAST_LIVE_PREPARE_PURPOSE :: string where "FAST_LIVE_PREPARE_PURPOSE = ''phase15-v3-fast-live-prepare-v1''"
definition FAST_LIVE_APPROVAL_PURPOSE :: string where "FAST_LIVE_APPROVAL_PURPOSE = ''phase15-v3-fast-live-approval-v1''"

definition manual_modes :: "string list" where
  "manual_modes = [''manual-telegram-continuous-v1'', ''manual-telegram-continuous-v2'']"

definition auto_modes :: "string list" where
  "auto_modes = [''auto-telegram-continuous-v1'', ''auto-telegram-continuous-v2'']"

definition v1_modes :: "string list" where
  "v1_modes = [''manual-telegram-continuous-v1'', ''auto-telegram-continuous-v1'']"

definition v2_modes :: "string list" where
  "v2_modes = [''manual-telegram-continuous-v2'', ''auto-telegram-continuous-v2'']"

definition continuous_modes :: "string list" where
  "continuous_modes = v1_modes @ v2_modes"

definition auto_approval_contract :: string where
  "auto_approval_contract = ''5676efcb60840f4533a7f43b3c6a7efab9e97541''"

definition FAST_LIVE_PREPARE_MAX_AGE_SECONDS :: dec where "FAST_LIVE_PREPARE_MAX_AGE_SECONDS = Dec 45 0"
definition FAST_LIVE_RESULT_MAX_AGE_SECONDS :: dec where "FAST_LIVE_RESULT_MAX_AGE_SECONDS = Dec 300 0"
definition FAST_LIVE_MAX_TRANSIT_SECONDS :: dec where "FAST_LIVE_MAX_TRANSIT_SECONDS = Dec 2 0"
definition FAST_LIVE_MIN_MARKET_END_SECONDS :: dec where "FAST_LIVE_MIN_MARKET_END_SECONDS = Dec 10 0"
definition FAST_LIVE_POLICY_VERSION :: string where "FAST_LIVE_POLICY_VERSION = ''v3-live-canary-v1''"
definition FAST_LIVE_PREDICTION_VERSION :: string where "FAST_LIVE_PREDICTION_VERSION = ''v3-frozen-paper-v1''"
definition FAST_LIVE_EXECUTION_VERSION :: string where "FAST_LIVE_EXECUTION_VERSION = ''paper-execution-v3-frozen-v1''"
definition FAST_LIVE_TARGET_NOTIONAL_USD :: dec where "FAST_LIVE_TARGET_NOTIONAL_USD = Dec 5 0"
definition FAST_LIVE_MAX_TRADE_SIZE_USD :: dec where "FAST_LIVE_MAX_TRADE_SIZE_USD = Dec 10 0"
definition FAST_LIVE_MAX_TOTAL_EXPOSURE_USD :: dec where "FAST_LIVE_MAX_TOTAL_EXPOSURE_USD = Dec 10 0"
definition FAST_LIVE_MAX_DAILY_LOSS_USD :: dec where "FAST_LIVE_MAX_DAILY_LOSS_USD = Dec 10 0"
definition FAST_LIVE_MAX_CONSECUTIVE_LOSSES :: int where "FAST_LIVE_MAX_CONSECUTIVE_LOSSES = 1"
definition FAST_LIVE_CONTINUOUS_V2_MAX_CONSECUTIVE_LOSSES :: int where
  "FAST_LIVE_CONTINUOUS_V2_MAX_CONSECUTIVE_LOSSES = 0"
definition FAST_LIVE_SOURCE_KEY :: string where "FAST_LIVE_SOURCE_KEY = ''fast_live_preauthorization''"

definition seconds_us :: "dec \<Rightarrow> int" where
  "seconds_us d = dtrunc d * 1000000"

definition fl_require :: "bool \<Rightarrow> string \<Rightarrow> unit res" where
  "fl_require b msg = require b (FastLiveError msg)"

lemma fl_require_Inr [simp]: "fl_require b msg = Inr u \<longleftrightarrow> b"
  by (simp add: fl_require_def)

definition fl_naive :: exn where
  "fl_naive = FastLiveError ''timestamp must be timezone-aware''"

definition fl_utc :: "pytime \<Rightarrow> int res" where
  "fl_utc t = aware_utc fl_naive t"

definition fl_time :: "crypto \<Rightarrow> pyval \<Rightarrow> int res" where
  "fl_time cy v = document_time cy fl_naive v"

definition fl_decimal :: "string \<Rightarrow> pyval \<Rightarrow> dec res" where
  "fl_decimal name v = document_decimal FastLiveError name v"

definition fl_mapping :: "pyval \<Rightarrow> string \<Rightarrow> pydict res" where
  "fl_mapping v msg = (case dict_of v of Some d \<Rightarrow> Inr d | None \<Rightarrow> Inl (FastLiveError msg))"

lemma fl_mapping_Inr [simp]: "fl_mapping v msg = Inr d \<longleftrightarrow> dict_of v = Some d"
  by (auto simp: fl_mapping_def split: option.splits)

definition payload_sha256 :: "crypto \<Rightarrow> pydict \<Rightarrow> string res" where
  "payload_sha256 cy d = document_sha256 True cy d"

definition fl_request_sha256 :: "crypto \<Rightarrow> pydict \<Rightarrow> string res" where
  "fl_request_sha256 cy prepared =
     ebind (fl_mapping (dget prepared ''request'') ''prepared request missing'') (payload_sha256 cy)"

section \<open>The authorisation of a session\<close>

definition source_authorization :: "pydict \<Rightarrow> (pydict \<times> pydict) res" where
  "source_authorization state =
     ebind (fl_mapping (dget state ''phase_15_v3_live_canary'') ''phase 15 live source truth missing'') (\<lambda>phase.
     ebind (fl_mapping (dget phase FAST_LIVE_SOURCE_KEY) ''fast live source-truth authorization missing'') (\<lambda>authorization.
     Inr (phase, authorization)))"

text \<open>A comparison with the literal \<open>0.075\<close>: a float by its \<open>repr\<close>, a decimal by the float's exact value.\<close>

definition equals_min_edge :: "pyval \<Rightarrow> bool" where
  "equals_min_edge v = (case v of
       PFloat t \<Rightarrow> (case read_decimal t of Some (Finite d) \<Rightarrow> deq d (Dec 75 (- 3)) | _ \<Rightarrow> False)
     | PDec (Finite d) \<Rightarrow> deq d (Dec 7499999999999999722444243843710864894092082977294921875 (- 56))
     | _ \<Rightarrow> False)"

definition expected_losses :: "bool \<Rightarrow> string \<Rightarrow> int res" where
  "expected_losses session mode =
     (if \<not> session \<or> mode \<in> set v1_modes then Inr FAST_LIVE_MAX_CONSECUTIVE_LOSSES
      else if mode \<in> set v2_modes then Inr FAST_LIVE_CONTINUOUS_V2_MAX_CONSECUTIVE_LOSSES
      else Inl (FastLiveError ''fast live continuous authorization mode invalid''))"

text \<open>The fields the source truth must have, with the test of each.\<close>

definition required_truth :: "bool \<Rightarrow> bool \<Rightarrow> int \<Rightarrow> (string \<times> (pyval \<Rightarrow> bool)) list" where
  "required_truth approval session losses =
     [(''status'', \<lambda>v. equals_text v (if session then ''AUTHORIZED_CONTINUOUS_SESSION'' else ''AUTHORIZED_NOT_CONSUMED'')),
      (''authorized'', \<lambda>v. equals_bool v True), (''target_notional_usd'', \<lambda>v. equals_int v 5),
      (''max_trade_size_usd'', \<lambda>v. equals_int v 10), (''max_total_exposure_usd'', \<lambda>v. equals_int v 10),
      (''max_daily_loss_usd'', \<lambda>v. equals_int v 10), (''max_consecutive_losses'', \<lambda>v. equals_int v losses),
      (''min_edge'', equals_min_edge), (''requires_telegram_approval'', \<lambda>v. equals_bool v approval),
      (''prediction_version'', \<lambda>v. equals_text v FAST_LIVE_PREDICTION_VERSION),
      (''execution_version'', \<lambda>v. equals_text v FAST_LIVE_EXECUTION_VERSION),
      (''executor_country'', \<lambda>v. equals_text v ''ZA'')]
     @ (if session then [(''max_network_submission_attempts_per_intent'', \<lambda>v. equals_int v 1)]
        else [(''consumed'', \<lambda>v. equals_bool v False), (''max_network_submission_attempts'', \<lambda>v. equals_int v 1)])"

definition check_truth :: "pydict \<Rightarrow> (string \<times> (pyval \<Rightarrow> bool)) list \<Rightarrow> unit res" where
  "check_truth authorization checks = efold (\<lambda>(name, ok) _.
     fl_require (ok (dget authorization name)) (''fast live source truth mismatch: '' @ name)) checks ()"

definition auto_active :: "pydict \<Rightarrow> bool" where
  "auto_active phase = (case dict_of (dget phase ''operator_telegram_auto_approver'') of None \<Rightarrow> False
     | Some auto \<Rightarrow> is_true (dget auto ''live_auto_approve_authorized'') \<and> prefix ''ACTIVE_'' (str_or_empty (dget auto ''status'')))"

definition check_auto_approver :: "pydict \<Rightarrow> pydict \<Rightarrow> unit res" where
  "check_auto_approver phase authorization =
     ebind (fl_require (auto_active phase) ''fast live auto Telegram approval requires auto-approver active'') (\<lambda>_.
     ebind (fl_mapping (dget phase ''operator_telegram_auto_approver'') ''unreachable'') (\<lambda>auto.
     ebind (fl_require (equals_text (dget auto ''approval_contract_git_blob_sha'') auto_approval_contract)
       ''fast live auto Telegram approval contract mismatch'') (\<lambda>_.
     ebind (fl_require (is_true (dget auto ''continuous_candidate_prompt_authorized''))
       ''fast live continuous candidate auto-approval not authorized'') (\<lambda>_.
     ebind (fl_require (is_true (dget auto ''continuous_fast_live_auto_approval_authorized''))
       ''fast live continuous auto-approval not authorized'') (\<lambda>_.
     fl_require (equals_text (dget authorization ''auto_approval_contract_git_blob_sha'') auto_approval_contract)
       ''fast live source auto-approval contract mismatch'')))))"

text \<open>Who may approve: a person, unless the mode is automatic and its contract is in force.\<close>

definition check_approver :: "bool \<Rightarrow> string \<Rightarrow> pydict \<Rightarrow> pydict \<Rightarrow> unit res" where
  "check_approver session mode phase authorization =
     (let manual = ''fast live manual Telegram approval requires auto-approver disabled'' in
      if session then
        ebind (fl_require (mode \<in> set continuous_modes) ''fast live continuous authorization mode invalid'') (\<lambda>_.
        ebind (fl_require (\<not> (mode \<in> set manual_modes \<and> auto_active phase)) manual) (\<lambda>_.
        if mode \<in> set auto_modes then check_auto_approver phase authorization else Inr ()))
      else fl_require (\<not> auto_active phase) manual)"

definition verify_source_authorization ::
  "crypto \<Rightarrow> pydict \<Rightarrow> string \<Rightarrow> pytime \<Rightarrow> bool \<Rightarrow> bool \<Rightarrow> bool \<Rightarrow> pydict res" where
  "verify_source_authorization cy state expected_main observed_at approval session exact =
     ebind (fl_utc observed_at) (\<lambda>observed.
     ebind (fl_require (all_hex 40 expected_main) ''expected main commit invalid'') (\<lambda>_.
     ebind (fl_require (\<not> (session \<and> \<not> approval)) ''continuous fast live requires Telegram approval'') (\<lambda>_.
     ebind (source_authorization state) (\<lambda>(phase, authorization).
     let mode = str_or_empty (dget authorization ''authorization_mode'') in
     ebind (expected_losses session mode) (\<lambda>losses.
     ebind (check_truth authorization (required_truth approval session losses)) (\<lambda>_.
     ebind (if approval then check_approver session mode phase authorization else Inr ()) (\<lambda>_.
     let aid = str_or_empty (dget authorization ''authorization_id'');
         main = str_or_empty (dget authorization ''authorized_at_main'') in
     ebind (fl_require (aid \<noteq> [] \<and> \<not> 128 < text_length aid) ''fast live authorization id invalid'') (\<lambda>_.
     ebind (fl_require (all_hex 40 main) ''fast live authorization base commit invalid'') (\<lambda>_.
     ebind (fl_require (\<not> (exact \<and> main \<noteq> expected_main)) ''fast live authorization base commit mismatch'') (\<lambda>_.
     ebind (fl_decimal ''max_transit_seconds'' (dget authorization ''max_transit_seconds'')) (\<lambda>transit.
     ebind (fl_require (deq transit FAST_LIVE_MAX_TRANSIT_SECONDS) ''fast live transit limit changed'') (\<lambda>_.
     ebind (fl_time cy (dget authorization ''expires_at'')) (\<lambda>expires.
     ebind (fl_require (\<not> expires \<le> observed) ''fast live source-truth authorization expired'') (\<lambda>_.
     Inr authorization))))))))))))))"

section \<open>Private files\<close>

text \<open>
  What \<open>lstat\<close> says of a path and what its text parses to: \<open>fs_document\<close> is \<open>None\<close> where reading
  or parsing fails.
\<close>

record file_state =
  fs_symlink :: bool
  fs_regular :: bool
  fs_mode :: int
  fs_size :: int
  fs_document :: "pyval option"

definition load_private_json :: "file_state option \<Rightarrow> string \<Rightarrow> pydict res" where
  "load_private_json file label = (case file of
       None \<Rightarrow> Inl (FastLiveError (label @ '' is not readable''))
     | Some f \<Rightarrow>
       ebind (fl_require (\<not> (fs_symlink f \<or> \<not> fs_regular f)) (label @ '' must be a regular non-symlink file'')) (\<lambda>_.
       ebind (fl_require (fs_mode f \<in> {384, 416}) (label @ '' mode must be 0600 or 0640'')) (\<lambda>_.
       ebind (fl_require (\<not> (fs_size f \<le> 0 \<or> 256 * 1024 < fs_size f)) (label @ '' size invalid'')) (\<lambda>_.
       case fs_document f of None \<Rightarrow> Inl (FastLiveError (label @ '' JSON invalid''))
       | Some v \<Rightarrow> fl_mapping v (label @ '' must contain an object'')))))"

definition hex_value :: "char \<Rightarrow> nat" where
  "hex_value c = (let n = of_char (lower_char c) in if n < 58 then n - 48 else n - 87)"

definition ascii_space :: "char \<Rightarrow> bool" where
  "ascii_space c = (let n = of_char c :: nat in n = 32 \<or> 9 \<le> n \<and> n \<le> 13)"

text \<open>\<open>bytes.fromhex\<close>: pairs of hexadecimal digits, white space between them.\<close>

fun from_hex :: "string \<Rightarrow> string option" where
  "from_hex [] = Some []"
| "from_hex [c] = (if ascii_space c then Some [] else None)"
| "from_hex (a # b # s) = (if ascii_space a then from_hex (b # s)
     else if is_hex a \<and> is_hex b then map_option ((#) (char_of (16 * hex_value a + hex_value b))) (from_hex s)
     else None)"

definition load_transport_key :: "file_state option \<Rightarrow> string res" where
  "load_transport_key file =
     ebind (load_private_json file ''fast live transport key wrapper'') (\<lambda>payload.
     case from_hex (str_or_empty (dget payload ''key_hex'')) of
       None \<Rightarrow> Inl (FastLiveError ''fast live transport key invalid'')
     | Some key \<Rightarrow> ebind (fl_require (length key = 32) ''fast live transport key must be 32 bytes'') (\<lambda>_. Inr key))"

section \<open>The authorisation of a host\<close>

definition runtime_session :: "pydict \<Rightarrow> pydict \<Rightarrow> unit res" where
  "runtime_session runtime source =
     (let mode = str_or_empty (dget source ''authorization_mode'') in
     ebind (fl_require (equals_text (dget runtime ''authorization_mode'') mode) ''runtime continuous authorization mode mismatch'') (\<lambda>_.
     ebind (fl_require (mode \<in> set continuous_modes) ''runtime continuous authorization mode invalid'') (\<lambda>_.
     ebind (fl_require (equals_int (dget runtime ''max_network_submission_attempts_per_intent'') 1)
       ''runtime per-intent attempt limit changed'') (\<lambda>_.
     ebind (py_int (dget_or runtime ''max_consecutive_losses'' (PInt (- 1)))) (\<lambda>losses.
     ebind (ebind (dindex source ''max_consecutive_losses'') py_int) (\<lambda>expected.
     fl_require (losses = expected) ''runtime consecutive-loss contract mismatch''))))))"

definition runtime_identity :: "crypto \<Rightarrow> pydict \<Rightarrow> pydict \<Rightarrow> pydict \<Rightarrow> string \<Rightarrow> unit res" where
  "runtime_identity cy runtime source state expected_main =
     ebind (fl_require (equals_int (dget runtime ''schema_version'') 1) ''runtime authorization schema invalid'') (\<lambda>_.
     ebind (fl_require (equals_text (dget runtime ''purpose'') FAST_LIVE_PURPOSE) ''runtime authorization purpose invalid'') (\<lambda>_.
     ebind (fl_require (is_true (dget runtime ''authorized'')) ''runtime authorization not authorized'') (\<lambda>_.
     ebind (fl_require (str_or_empty (dget runtime ''authorization_id'') = py_str (dget source ''authorization_id''))
       ''runtime authorization id mismatch'') (\<lambda>_.
     ebind (fl_require (str_or_empty (dget runtime ''release_main'') = expected_main) ''runtime authorization release mismatch'') (\<lambda>_.
     ebind (payload_sha256 cy state) (\<lambda>sha.
     fl_require (str_or_empty (dget runtime ''project_state_sha256'') = sha) ''runtime authorization source-truth hash mismatch''))))))"

definition verify_runtime_authorization ::
  "crypto \<Rightarrow> pydict \<Rightarrow> pydict \<Rightarrow> string \<Rightarrow> pytime \<Rightarrow> bool \<Rightarrow> bool \<Rightarrow> pydict res" where
  "verify_runtime_authorization cy runtime state expected_main observed_at approval session =
     ebind (fl_utc observed_at) (\<lambda>observed.
     ebind (verify_source_authorization cy state expected_main observed_at approval session True) (\<lambda>source.
     ebind (runtime_identity cy runtime source state expected_main) (\<lambda>_.
     ebind (fl_require (truthy (dget_or runtime ''continuous_session'' (PBool False)) = session)
       ''runtime continuous session mode mismatch'') (\<lambda>_.
     ebind (if session then runtime_session runtime source
       else fl_require (equals_int (dget runtime ''max_network_submission_attempts'') 1)
         ''runtime authorization attempt limit changed'') (\<lambda>_.
     ebind (fl_require (truthy (dget_or runtime ''requires_telegram_approval'' (PBool False)) = approval)
       ''runtime Telegram approval mode mismatch'') (\<lambda>_.
     ebind (fl_decimal ''target_notional_usd'' (dget runtime ''target_notional_usd'')) (\<lambda>target.
     ebind (fl_require (deq target FAST_LIVE_TARGET_NOTIONAL_USD) ''runtime authorization target changed'') (\<lambda>_.
     ebind (fl_time cy (dget runtime ''issued_at'')) (\<lambda>issued.
     ebind (fl_time cy (dget runtime ''expires_at'')) (\<lambda>expires.
     ebind (fl_time cy (dget source ''expires_at'')) (\<lambda>source_expires.
     ebind (fl_require (\<not> (observed < issued \<or> expires \<le> observed \<or> source_expires < expires))
       ''runtime authorization outside allowed window'') (\<lambda>_.
     Inr runtime))))))))))))"

text \<open>The loss limit a prepared order must state, given the mode of the host.\<close>

definition losses_int :: "pyval \<Rightarrow> int res" where
  "losses_int v = (case py_int v of Inr i \<Rightarrow> Inr i
     | Inl _ \<Rightarrow> Inl (FastLiveError ''runtime consecutive-loss contract invalid''))"

definition prepared_max_losses :: "pydict \<Rightarrow> int res" where
  "prepared_max_losses runtime =
     (let mode = str_or_empty (dget runtime ''authorization_mode''); raw = dget runtime ''max_consecutive_losses'';
          continuous_mode = (mode \<in> set continuous_modes);
          expected = (if mode \<in> set v2_modes then FAST_LIVE_CONTINUOUS_V2_MAX_CONSECUTIVE_LOSSES
            else FAST_LIVE_MAX_CONSECUTIVE_LOSSES) in
      if raw = PNone then
        if continuous_mode then Inl (FastLiveError ''runtime consecutive-loss contract missing'') else Inr expected
      else ebind (losses_int raw) (\<lambda>observed.
        ebind (fl_require (observed = expected) ''runtime consecutive-loss contract mismatch'') (\<lambda>_. Inr observed)))"

section \<open>A prepared order\<close>

record validated =
  vp_intent_id :: string
  vp_request_id :: string
  vp_risk_decision_id :: string
  vp_prediction_id :: string
  vp_paper_order_id :: string
  vp_market_end_at :: int
  vp_prepared_at :: int
  vp_request_sha256 :: string
  vp_prepared_sha256 :: string
  vp_request :: pydict

definition check_policy :: "pydict \<Rightarrow> int \<Rightarrow> unit res" where
  "check_policy policy losses =
     ebind (fl_require (equals_text (dget policy ''policy_version'') FAST_LIVE_POLICY_VERSION) ''prepared policy version changed'') (\<lambda>_.
     ebind (efold (\<lambda>(name, expected) _. ebind (fl_decimal name (dget policy name)) (\<lambda>v.
         fl_require (deq v expected) (''prepared policy changed: '' @ name)))
       [(''max_trade_size_usd'', FAST_LIVE_MAX_TRADE_SIZE_USD), (''max_total_exposure_usd'', FAST_LIVE_MAX_TOTAL_EXPOSURE_USD),
        (''max_daily_loss_usd'', FAST_LIVE_MAX_DAILY_LOSS_USD)] ()) (\<lambda>_.
     ebind (py_int (dget_or policy ''max_consecutive_losses'' (PInt (- 1)))) (\<lambda>found.
     ebind (fl_require (found = losses) ''prepared consecutive-loss limit changed'') (\<lambda>_.
     ebind (py_int (dget_or policy ''max_submission_attempts'' (PInt 0))) (\<lambda>attempts.
     fl_require (attempts = 1) ''prepared attempt limit changed'')))))"

definition check_request :: "pydict \<Rightarrow> unit res" where
  "check_request request =
     ebind (fl_require (equals_text (dget request ''execution_version'') FAST_LIVE_EXECUTION_VERSION) ''prepared execution version changed'') (\<lambda>_.
     ebind (fl_require (str_or_empty (dget request ''action'') = ''BUY'') ''prepared action must be BUY'') (\<lambda>_.
     ebind (fl_require (lower (str_or_empty (dget request ''selected_side'')) \<in> {''up'', ''down''}) ''prepared selected side invalid'') (\<lambda>_.
     ebind (fl_decimal ''target_notional_usd'' (dget request ''target_notional_usd'')) (\<lambda>target.
     ebind (fl_decimal ''limit_price'' (dget request ''limit_price'')) (\<lambda>price.
     ebind (fl_decimal ''requested_shares'' (dget request ''requested_shares'')) (\<lambda>shares.
     ebind (fl_require (deq target FAST_LIVE_TARGET_NOTIONAL_USD) ''prepared target changed'') (\<lambda>_.
     ebind (fl_require (dlt d0 price \<and> dle price d1) ''prepared limit price invalid'') (\<lambda>_.
     fl_require (\<not> (dle shares d0 \<or> dlt FAST_LIVE_MAX_TRADE_SIZE_USD (dmul price shares))) ''prepared size exceeds live limit''))))))))"

definition check_names :: "pydict \<Rightarrow> unit res" where
  "check_names prepared = efold (\<lambda>name _. fl_require (str_or_empty (dget prepared name) \<noteq> []) (''prepared '' @ name @ '' missing''))
     [''intent_id'', ''prediction_id'', ''paper_order_id'', ''request_id'', ''risk_decision_id''] ()"

definition validate_prepared :: "crypto \<Rightarrow> pydict \<Rightarrow> pytime \<Rightarrow> int \<Rightarrow> validated res" where
  "validate_prepared cy prepared observed_at losses =
     ebind (fl_utc observed_at) (\<lambda>observed.
     ebind (fl_require (equals_text (dget prepared ''status'') ''prepared'') ''candidate is not prepared'') (\<lambda>_.
     ebind (fl_mapping (dget prepared ''request'') ''prepared request missing'') (\<lambda>request.
     ebind (fl_mapping (dget prepared ''policy'') ''prepared policy missing'') (\<lambda>policy.
     ebind (fl_mapping (dget prepared ''timing'') ''prepared timing missing'') (\<lambda>timing.
     ebind (check_policy policy losses) (\<lambda>_.
     ebind (check_request request) (\<lambda>_.
     ebind (check_names prepared) (\<lambda>_.
     ebind (fl_time cy (dget prepared ''market_end_at'')) (\<lambda>market_end.
     ebind (fl_require (\<not> dlt (seconds_dec (market_end - observed)) FAST_LIVE_MIN_MARKET_END_SECONDS) ''candidate too close to market end'') (\<lambda>_.
     ebind (fl_time cy (dget timing ''prepared_observed_at'')) (\<lambda>prepared_at.
     ebind (fl_require (prepared_at \<le> observed) ''prepared timestamp is in the future'') (\<lambda>_.
     ebind (fl_request_sha256 cy prepared) (\<lambda>request_sha.
     ebind (payload_sha256 cy prepared) (\<lambda>prepared_sha.
     Inr \<lparr>vp_intent_id = py_str (dget prepared ''intent_id''), vp_request_id = py_str (dget prepared ''request_id''),
       vp_risk_decision_id = py_str (dget prepared ''risk_decision_id''), vp_prediction_id = py_str (dget prepared ''prediction_id''),
       vp_paper_order_id = py_str (dget prepared ''paper_order_id''), vp_market_end_at = market_end,
       vp_prepared_at = prepared_at, vp_request_sha256 = request_sha, vp_prepared_sha256 = prepared_sha,
       vp_request = request\<rparr>))))))))))))))"

definition validate_for_runtime :: "crypto \<Rightarrow> pydict \<Rightarrow> pydict \<Rightarrow> pytime \<Rightarrow> validated res" where
  "validate_for_runtime cy prepared runtime observed_at =
     ebind (prepared_max_losses runtime) (validate_prepared cy prepared observed_at)"

section \<open>Signed messages\<close>

definition mac_of :: "crypto \<Rightarrow> string \<Rightarrow> pydict \<Rightarrow> string res" where
  "mac_of cy key body =
     ebind (fl_require (length key = 32) ''fast live transport key must be 32 bytes'') (\<lambda>_.
     ebind (json_ascii True (PDict body)) (\<lambda>t. Inr (cy_hmac cy key t)))"

definition seal :: "crypto \<Rightarrow> string \<Rightarrow> pydict \<Rightarrow> pydict res" where
  "seal cy key body = ebind (mac_of cy key body) (\<lambda>m. Inr (body @ [(''hmac_sha256'', PStr m)]))"

text \<open>
  The checks every receiver makes before it reads a message: its signature, its schema (the test
  and its text), the key and the authorisation it names, and its window.
\<close>

definition open_signed :: "crypto \<Rightarrow> string \<Rightarrow> string \<Rightarrow> pydict \<Rightarrow> unit res" where
  "open_signed cy label key payload =
     (let supplied = str_or_empty (dget payload ''hmac_sha256'') in
     ebind (fl_require (all_hex 64 supplied) (label @ '' hmac invalid'')) (\<lambda>_.
     ebind (mac_of cy key (filter (\<lambda>(k, v). k \<noteq> ''hmac_sha256'') payload)) (\<lambda>m.
     fl_require (supplied = m) (label @ '' hmac mismatch''))))"

definition schema_ok :: "string \<Rightarrow> pydict \<Rightarrow> bool" where
  "schema_ok purpose payload = (equals_int (dget payload ''schema_version'') 1 \<and> equals_text (dget payload ''purpose'') purpose)"

definition open_named :: "string \<Rightarrow> string \<Rightarrow> string \<Rightarrow> pydict \<Rightarrow> unit res" where
  "open_named label key_id authorization_id payload =
     ebind (fl_require (str_or_empty (dget payload ''key_id'') = key_id) (label @ '' key id mismatch'')) (\<lambda>_.
     fl_require (str_or_empty (dget payload ''authorization_id'') = authorization_id) (label @ '' authorization mismatch''))"

definition open_window :: "crypto \<Rightarrow> string \<Rightarrow> pydict \<Rightarrow> int \<Rightarrow> (int \<times> int) res" where
  "open_window cy label payload observed =
     ebind (fl_time cy (dget payload ''created_at'')) (\<lambda>created.
     ebind (fl_time cy (dget payload ''expires_at'')) (\<lambda>expires.
     ebind (fl_require (\<not> (observed < created \<or> expires \<le> observed)) (label @ '' expired or future'')) (\<lambda>_.
     Inr (created, expires))))"

section \<open>Envelopes and prepare messages\<close>

text \<open>
  Both carry a prepared order with the same fields; they differ in their purpose, their life and
  their texts.
\<close>

record carrier =
  cr_purpose :: string
  cr_label :: string
  cr_max_age :: dec
  cr_closed_text :: string
  cr_old_text :: string
  cr_missing_text :: string

definition envelope_carrier :: carrier where
  "envelope_carrier = \<lparr>cr_purpose = FAST_LIVE_PURPOSE, cr_label = ''fast live envelope'',
     cr_max_age = FAST_LIVE_MAX_TRANSIT_SECONDS, cr_closed_text = ''fast live envelope has no valid execution window'',
     cr_old_text = ''fast live envelope exceeded transit budget'', cr_missing_text = ''fast live prepared payload missing''\<rparr>"

definition prepare_carrier :: carrier where
  "prepare_carrier = \<lparr>cr_purpose = FAST_LIVE_PREPARE_PURPOSE, cr_label = ''fast live prepare'',
     cr_max_age = FAST_LIVE_PREPARE_MAX_AGE_SECONDS, cr_closed_text = ''fast live prepare window closed'',
     cr_old_text = ''fast live prepare exceeded age limit'', cr_missing_text = ''fast live prepare payload missing''\<rparr>"

definition binding_names :: "validated \<Rightarrow> (string \<times> string) list" where
  "binding_names v = [(''intent_id'', vp_intent_id v), (''request_id'', vp_request_id v),
     (''risk_decision_id'', vp_risk_decision_id v), (''prediction_id'', vp_prediction_id v),
     (''paper_order_id'', vp_paper_order_id v), (''request_sha256'', vp_request_sha256 v),
     (''prepared_sha256'', vp_prepared_sha256 v)]"

definition carrier_body :: "carrier \<Rightarrow> string \<Rightarrow> string \<Rightarrow> validated \<Rightarrow> pydict \<Rightarrow> int \<Rightarrow> int \<Rightarrow> pydict" where
  "carrier_body k key_id authorization_id v prepared created expires =
     [(''schema_version'', PInt 1), (''purpose'', PStr (cr_purpose k)), (''key_id'', PStr key_id),
      (''authorization_id'', PStr authorization_id)]
     @ map (\<lambda>(n, t). (n, PStr t)) (binding_names v)
     @ [(''prepared'', PDict prepared), (''created_at'', PStr (iso_utc created)), (''expires_at'', PStr (iso_utc expires))]"

definition carrier_expiry :: "carrier \<Rightarrow> int \<Rightarrow> int \<Rightarrow> int \<Rightarrow> int" where
  "carrier_expiry k created market_end auth_expires =
     min (min (created + seconds_us (cr_max_age k)) (market_end - seconds_us FAST_LIVE_MIN_MARKET_END_SECONDS)) auth_expires"

definition create_carrier :: "carrier \<Rightarrow> crypto \<Rightarrow> pydict \<Rightarrow> pydict \<Rightarrow> string \<Rightarrow> string \<Rightarrow> pytime \<Rightarrow> pydict res" where
  "create_carrier k cy prepared runtime key key_id created_at =
     ebind (fl_utc created_at) (\<lambda>created.
     ebind (validate_for_runtime cy prepared runtime created_at) (\<lambda>v.
     ebind (fl_require (key_id \<noteq> [] \<and> \<not> 64 < text_length key_id) ''fast live key id invalid'') (\<lambda>_.
     ebind (fl_time cy (dget runtime ''expires_at'')) (\<lambda>auth_expires.
     ebind (fl_time cy (PStr (iso_utc (vp_market_end_at v)))) (\<lambda>market_end.
     let expires = carrier_expiry k created market_end auth_expires in
     ebind (fl_require (\<not> expires \<le> created) (cr_closed_text k)) (\<lambda>_.
     seal cy key (carrier_body k key_id (str_or_empty (dget runtime ''authorization_id'')) v prepared created expires)))))))"

record verified = validated +
  vd_authorization_id :: string
  vd_created_at :: int
  vd_expires_at :: int

definition check_binding :: "string \<Rightarrow> pydict \<Rightarrow> (string \<times> string) list \<Rightarrow> unit res" where
  "check_binding label payload names = efold (\<lambda>(name, expected) _.
     fl_require (str_or_empty (dget payload name) = expected) (label @ '' binding mismatch: '' @ name)) names ()"

definition verify_carrier :: "carrier \<Rightarrow> crypto \<Rightarrow> pydict \<Rightarrow> pydict \<Rightarrow> string \<Rightarrow> string \<Rightarrow> pytime \<Rightarrow> verified res" where
  "verify_carrier k cy payload runtime key key_id observed_at =
     ebind (fl_utc observed_at) (\<lambda>observed.
     ebind (open_signed cy (cr_label k) key payload) (\<lambda>_.
     ebind (fl_require (schema_ok (cr_purpose k) payload) (cr_label k @ '' schema invalid'')) (\<lambda>_.
     ebind (open_named (cr_label k) key_id (str_or_empty (dget runtime ''authorization_id'')) payload) (\<lambda>_.
     ebind (open_window cy (cr_label k) payload observed) (\<lambda>(created, expires).
     ebind (fl_require (\<not> dlt (cr_max_age k) (seconds_dec (observed - created))) (cr_old_text k)) (\<lambda>_.
     ebind (fl_mapping (dget payload ''prepared'') (cr_missing_text k)) (\<lambda>prepared.
     ebind (validate_for_runtime cy prepared runtime observed_at) (\<lambda>v.
     ebind (check_binding (cr_label k) payload (binding_names v)) (\<lambda>_.
     ebind (dindex payload ''authorization_id'') (\<lambda>aid.
     Inr (validated.extend v \<lparr>vd_authorization_id = py_str aid, vd_created_at = created, vd_expires_at = expires\<rparr>)))))))))))"

definition create_envelope :: "crypto \<Rightarrow> pydict \<Rightarrow> pydict \<Rightarrow> string \<Rightarrow> string \<Rightarrow> pytime \<Rightarrow> pydict res" where
  "create_envelope = create_carrier envelope_carrier"

definition verify_envelope :: "crypto \<Rightarrow> pydict \<Rightarrow> pydict \<Rightarrow> string \<Rightarrow> string \<Rightarrow> pytime \<Rightarrow> verified res" where
  "verify_envelope = verify_carrier envelope_carrier"

definition create_prepare_message :: "crypto \<Rightarrow> pydict \<Rightarrow> pydict \<Rightarrow> string \<Rightarrow> string \<Rightarrow> pytime \<Rightarrow> pydict res" where
  "create_prepare_message = create_carrier prepare_carrier"

definition verify_prepare_message :: "crypto \<Rightarrow> pydict \<Rightarrow> pydict \<Rightarrow> string \<Rightarrow> string \<Rightarrow> pytime \<Rightarrow> verified res" where
  "verify_prepare_message = verify_carrier prepare_carrier"

section \<open>Approvals\<close>

definition same_candidate :: "validated \<Rightarrow> validated \<Rightarrow> unit res" where
  "same_candidate a v = efold (\<lambda>(name, left, right) _. fl_require (left = right) (''fast live approved candidate mismatch: '' @ name))
     [(''prediction_id'', vp_prediction_id a, vp_prediction_id v), (''paper_order_id'', vp_paper_order_id a, vp_paper_order_id v),
      (''request_sha256'', vp_request_sha256 a, vp_request_sha256 v)] ()"

definition approval_binding :: "handoff \<Rightarrow> validated \<Rightarrow> pydict" where
  "approval_binding h v =
     [(''status'', PStr ''approved''), (''intent_id'', PStr (ap_intent_id h)), (''prediction_id'', PStr (vp_prediction_id v)),
      (''paper_order_id'', PStr (vp_paper_order_id v)), (''request_sha256'', PStr (vp_request_sha256 v)),
      (''approved_at'', PStr (iso_utc (ho_approved_at h))), (''expires_at'', PStr (iso_utc (ho_expires_at h))),
      (''callback_query_id'', PStr (ho_callback_query_id h))]"

definition approval_body ::
  "string \<Rightarrow> string \<Rightarrow> handoff \<Rightarrow> validated \<Rightarrow> validated \<Rightarrow> pydict \<Rightarrow> string \<Rightarrow> int \<Rightarrow> int \<Rightarrow> pydict" where
  "approval_body key_id authorization_id h v a prepared binding_sha created expires =
     [(''schema_version'', PInt 1), (''purpose'', PStr FAST_LIVE_APPROVAL_PURPOSE), (''key_id'', PStr key_id),
      (''authorization_id'', PStr authorization_id), (''intent_id'', PStr (vp_intent_id v)),
      (''request_sha256'', PStr (vp_request_sha256 v)), (''prepared_sha256'', PStr (vp_prepared_sha256 v)),
      (''prepare_sha256'', PStr (vp_prepared_sha256 a)), (''approval_candidate_id'', PStr (ap_intent_id h)),
      (''prepared'', PDict prepared), (''approval_sha256'', PStr binding_sha), (''approval'', PDict (approval_binding h v)),
      (''created_at'', PStr (iso_utc created)), (''expires_at'', PStr (iso_utc expires))]"

definition handoff_for :: "crypto \<Rightarrow> pydict \<Rightarrow> pydict \<Rightarrow> pytime \<Rightarrow> handoff res" where
  "handoff_for cy prepared approval created_at = (case validate_approved_handoff cy prepared approval created_at of
       Inl (ApprovalError _) \<Rightarrow> Inl (FastLiveError ''fast live Telegram approval invalid'')
     | other \<Rightarrow> other)"

definition create_approval_message ::
  "crypto \<Rightarrow> pydict \<Rightarrow> pydict \<Rightarrow> pydict \<Rightarrow> string \<Rightarrow> string \<Rightarrow> pytime \<Rightarrow> pydict option \<Rightarrow> pydict res" where
  "create_approval_message cy prepared approval runtime key key_id created_at approval_prepared =
     (let approved_source = (case approval_prepared of None \<Rightarrow> prepared | Some p \<Rightarrow> p) in
     ebind (fl_utc created_at) (\<lambda>created.
     ebind (handoff_for cy approved_source approval created_at) (\<lambda>h.
     ebind (validate_for_runtime cy prepared runtime created_at) (\<lambda>v.
     ebind (validate_for_runtime cy approved_source runtime created_at) (\<lambda>a.
     ebind (same_candidate a v) (\<lambda>_.
     ebind (fl_time cy (dget runtime ''expires_at'')) (\<lambda>auth_expires.
     ebind (fl_time cy (PStr (iso_utc (ho_expires_at h)))) (\<lambda>approval_expires.
     ebind (fl_time cy (PStr (iso_utc (vp_market_end_at v)))) (\<lambda>market_end.
     let expires = min (min (min (created + seconds_us FAST_LIVE_MAX_TRANSIT_SECONDS) approval_expires)
           (market_end - seconds_us FAST_LIVE_MIN_MARKET_END_SECONDS)) auth_expires in
     ebind (fl_require (\<not> expires \<le> created) ''fast live approval window closed'') (\<lambda>_.
     ebind (payload_sha256 cy (approval_binding h v)) (\<lambda>binding_sha.
     seal cy key (approval_body key_id (str_or_empty (dget runtime ''authorization_id'')) h v a prepared
       binding_sha created expires))))))))))))"

record approved =
  av_authorization_id :: string
  av_prepared_sha256 :: string
  av_prepare_sha256 :: string
  av_candidate_id :: string
  av_approval_sha256 :: string
  av_validated :: validated
  av_approved_at :: int
  av_approval_expires_at :: int
  av_created_at :: int
  av_expires_at :: int

definition check_prepared_names :: "pydict \<Rightarrow> validated \<Rightarrow> unit res" where
  "check_prepared_names payload v =
     efold (\<lambda>(name, expected, text) _. fl_require (str_or_empty (dget payload name) = expected) (''fast live approval prepared '' @ text @ '' mismatch''))
       [(''prepared_sha256'', vp_prepared_sha256 v, ''hash''), (''intent_id'', vp_intent_id v, ''intent''),
        (''request_sha256'', vp_request_sha256 v, ''request'')] ()"

definition approved_binding :: "crypto \<Rightarrow> pydict \<Rightarrow> (pydict \<times> string \<times> string \<times> string) res" where
  "approved_binding cy payload =
     (let prepare_sha = str_or_empty (dget payload ''prepare_sha256''); sha = str_or_empty (dget payload ''approval_sha256'');
          candidate = str_or_empty (dget payload ''approval_candidate_id'') in
     ebind (fl_require (all_hex 64 prepare_sha) ''fast live prepare binding hash invalid'') (\<lambda>_.
     ebind (fl_mapping (dget payload ''approval'') ''fast live approval payload invalid'') (\<lambda>approval.
     ebind (fl_require (equals_text (dget approval ''status'') ''approved'') ''fast live approval payload invalid'') (\<lambda>_.
     ebind (payload_sha256 cy approval) (\<lambda>found.
     ebind (fl_require (sha = found) ''fast live approval binding hash mismatch'') (\<lambda>_.
     ebind (fl_require (candidate \<noteq> [] \<and> candidate = str_or_empty (dget approval ''intent_id'')) ''fast live approval candidate mismatch'') (\<lambda>_.
     Inr (approval, prepare_sha, sha, candidate))))))))"

definition approval_instants :: "crypto \<Rightarrow> pydict \<Rightarrow> validated \<Rightarrow> int \<Rightarrow> (int \<times> int) res" where
  "approval_instants cy approval v observed =
     ebind (efold (\<lambda>(name, expected) _. fl_require (str_or_empty (dget approval name) = expected) (''fast live approval binding mismatch: '' @ name))
       [(''prediction_id'', vp_prediction_id v), (''paper_order_id'', vp_paper_order_id v), (''request_sha256'', vp_request_sha256 v)] ()) (\<lambda>_.
     ebind (fl_time cy (dget approval ''approved_at'')) (\<lambda>approved_at.
     ebind (fl_time cy (dget approval ''expires_at'')) (\<lambda>expires.
     ebind (fl_require (\<not> (observed < approved_at \<or> expires \<le> observed)) ''fast live human approval expired or future'') (\<lambda>_.
     Inr (approved_at, expires)))))"

definition verify_approval_message :: "crypto \<Rightarrow> pydict \<Rightarrow> pydict \<Rightarrow> string \<Rightarrow> string \<Rightarrow> pytime \<Rightarrow> approved res" where
  "verify_approval_message cy payload runtime key key_id observed_at =
     (let label = ''fast live approval'' in
     ebind (fl_utc observed_at) (\<lambda>observed.
     ebind (open_signed cy label key payload) (\<lambda>_.
     ebind (fl_require (schema_ok FAST_LIVE_APPROVAL_PURPOSE payload) ''fast live approval schema invalid'') (\<lambda>_.
     ebind (open_named label key_id (str_or_empty (dget runtime ''authorization_id'')) payload) (\<lambda>_.
     ebind (open_window cy label payload observed) (\<lambda>(created, expires).
     ebind (fl_mapping (dget payload ''prepared'') ''fast live approval prepared payload missing'') (\<lambda>prepared.
     ebind (validate_for_runtime cy prepared runtime observed_at) (\<lambda>v.
     ebind (check_prepared_names payload v) (\<lambda>_.
     ebind (approved_binding cy payload) (\<lambda>(approval, prepare_sha, sha, candidate).
     ebind (approval_instants cy approval v observed) (\<lambda>(approved_at, approval_expires).
     ebind (dindex payload ''authorization_id'') (\<lambda>aid.
     Inr \<lparr>av_authorization_id = py_str aid, av_prepared_sha256 = py_str (dget payload ''prepared_sha256''),
       av_prepare_sha256 = prepare_sha, av_candidate_id = candidate, av_approval_sha256 = sha, av_validated = v,
       av_approved_at = approved_at, av_approval_expires_at = approval_expires, av_created_at = created,
       av_expires_at = expires\<rparr>))))))))))))"

section \<open>Warm-ups\<close>

definition create_warmup_message ::
  "crypto \<Rightarrow> string \<Rightarrow> string \<Rightarrow> string \<Rightarrow> pydict \<Rightarrow> string \<Rightarrow> string \<Rightarrow> pytime \<Rightarrow> pydict res" where
  "create_warmup_message cy condition_id up down runtime key key_id created_at =
     (let condition = strip condition_id; a = strip up; b = strip down in
     ebind (fl_utc created_at) (\<lambda>created.
     ebind (fl_require (condition \<noteq> [] \<and> a \<noteq> [] \<and> b \<noteq> [] \<and> a \<noteq> b) ''fast live warmup market identity invalid'') (\<lambda>_.
     ebind (fl_time cy (dget runtime ''expires_at'')) (\<lambda>auth_expires.
     let expires = min (created + 30 * 1000000) auth_expires in
     ebind (fl_require (\<not> expires \<le> created) ''fast live warmup window closed'') (\<lambda>_.
     seal cy key [(''schema_version'', PInt 1), (''purpose'', PStr FAST_LIVE_WARMUP_PURPOSE), (''key_id'', PStr key_id),
       (''authorization_id'', PStr (str_or_empty (dget runtime ''authorization_id''))), (''condition_id'', PStr condition),
       (''token_ids'', PList [PStr a, PStr b]), (''created_at'', PStr (iso_utc created)),
       (''expires_at'', PStr (iso_utc expires))])))))"

definition warmup_tokens :: "pyval \<Rightarrow> (string \<times> string) res" where
  "warmup_tokens v = (case v of
       PList [x, y] \<Rightarrow> (let a = strip (py_str x); b = strip (py_str y) in
         ebind (fl_require (a \<noteq> [] \<and> b \<noteq> [] \<and> a \<noteq> b) ''fast live warmup token ids invalid'') (\<lambda>_. Inr (a, b)))
     | _ \<Rightarrow> Inl (FastLiveError ''fast live warmup identity invalid''))"

definition verify_warmup_message ::
  "crypto \<Rightarrow> pydict \<Rightarrow> pydict \<Rightarrow> string \<Rightarrow> string \<Rightarrow> pytime \<Rightarrow> (string \<times> (string \<times> string) \<times> int \<times> int) res" where
  "verify_warmup_message cy payload runtime key key_id observed_at =
     (let label = ''fast live warmup'' in
     ebind (fl_utc observed_at) (\<lambda>observed.
     ebind (open_signed cy label key payload) (\<lambda>_.
     ebind (fl_require (equals_int (dget payload ''schema_version'') 1) ''fast live warmup schema invalid'') (\<lambda>_.
     ebind (fl_require (equals_text (dget payload ''purpose'') FAST_LIVE_WARMUP_PURPOSE) ''fast live warmup purpose invalid'') (\<lambda>_.
     ebind (open_named label key_id (str_or_empty (dget runtime ''authorization_id'')) payload) (\<lambda>_.
     ebind (open_window cy label payload observed) (\<lambda>(created, expires).
     let condition = strip (str_or_empty (dget payload ''condition_id'')) in
     ebind (fl_require (condition \<noteq> []) ''fast live warmup identity invalid'') (\<lambda>_.
     ebind (warmup_tokens (dget payload ''token_ids'')) (\<lambda>tokens.
     Inr (condition, tokens, created, expires))))))))))"

section \<open>Depth\<close>

record depth =
  dp_marketable :: bool
  dp_full :: bool
  dp_best_ask :: "dec option"
  dp_depth :: dec
  dp_requested :: dec
  dp_limit :: dec

definition add_ask :: "dec \<Rightarrow> pyval \<times> pyval \<Rightarrow> dec option \<times> dec \<Rightarrow> (dec option \<times> dec) res" where
  "add_ask limit = (\<lambda>(raw_price, raw_size) (best, total).
     ebind (fl_decimal ''ask_price'' raw_price) (\<lambda>price.
     ebind (fl_decimal ''ask_size'' raw_size) (\<lambda>size.
     ebind (fl_require (dlt d0 price \<and> dle price d1 \<and> \<not> dle size d0) ''order book ask invalid'') (\<lambda>_.
     Inr (case best of None \<Rightarrow> Some price | Some b \<Rightarrow> if dlt price b then Some price else best,
          if dle price limit then dadd total size else total)))))"

definition marketable_depth :: "(pyval \<times> pyval) list \<Rightarrow> pyval \<Rightarrow> pyval \<Rightarrow> depth res" where
  "marketable_depth asks limit_price requested_shares =
     ebind (fl_decimal ''limit_price'' limit_price) (\<lambda>limit.
     ebind (fl_decimal ''requested_shares'' requested_shares) (\<lambda>requested.
     ebind (fl_require (\<not> dle requested d0 \<and> dlt d0 limit \<and> dle limit d1) ''marketability request invalid'') (\<lambda>_.
     ebind (efold (add_ask limit) asks (None, Dec 0 0)) (\<lambda>(best, total).
     Inr \<lparr>dp_marketable = (case best of None \<Rightarrow> False | Some b \<Rightarrow> dle b limit \<and> dlt d0 total),
       dp_full = dle requested total, dp_best_ask = best, dp_depth = total, dp_requested = requested, dp_limit = limit\<rparr>))))"

section \<open>Results\<close>

definition create_result_message :: "crypto \<Rightarrow> pydict \<Rightarrow> string \<Rightarrow> string \<Rightarrow> string \<Rightarrow> pytime \<Rightarrow> pydict res" where
  "create_result_message cy result key key_id authorization_id created_at =
     (let intent = str_or_empty (dget result ''intent_id''); sha = str_or_empty (dget result ''request_sha256'');
          status = str_or_empty (dget result ''status'') in
     ebind (fl_utc created_at) (\<lambda>created.
     ebind (fl_require (intent \<noteq> [] \<and> all_hex 64 sha \<and> status \<noteq> []) ''fast live result binding invalid'') (\<lambda>_.
     seal cy key [(''schema_version'', PInt 1), (''purpose'', PStr FAST_LIVE_RESULT_PURPOSE), (''key_id'', PStr key_id),
       (''authorization_id'', PStr authorization_id), (''intent_id'', PStr intent), (''request_sha256'', PStr sha),
       (''status'', PStr status),
       (''network_submission_attempt_consumed'', PBool (is_true (dget result ''network_submission_attempt_consumed''))),
       (''real_order_submitted'', PBool (is_true (dget result ''real_order_submitted''))),
       (''external_order_id'', PStr (str_or_empty (dget result ''external_order_id''))), (''result'', PDict result),
       (''created_at'', PStr (iso_utc created)),
       (''expires_at'', PStr (iso_utc (created + seconds_us FAST_LIVE_RESULT_MAX_AGE_SECONDS)))])))"

definition verify_result_message :: "crypto \<Rightarrow> pydict \<Rightarrow> string \<Rightarrow> string \<Rightarrow> string \<Rightarrow> pytime \<Rightarrow> pydict res" where
  "verify_result_message cy message key key_id authorization_id observed_at =
     (let label = ''fast live result'' in
     ebind (fl_utc observed_at) (\<lambda>observed.
     ebind (open_signed cy label key message) (\<lambda>_.
     ebind (fl_require (schema_ok FAST_LIVE_RESULT_PURPOSE message) ''fast live result schema invalid'') (\<lambda>_.
     ebind (open_named label key_id authorization_id message) (\<lambda>_.
     ebind (open_window cy label message observed) (\<lambda>(created, expires).
     ebind (fl_mapping (dget message ''result'') ''fast live result payload missing'') (\<lambda>result.
     ebind (efold (\<lambda>name _. fl_require (str_or_empty (dget message name) = str_or_empty (dget result name))
         (''fast live result binding mismatch: '' @ name)) [''intent_id'', ''request_sha256'', ''status''] ()) (\<lambda>_.
     ebind (fl_require (is_true (dget message ''network_submission_attempt_consumed'')
         = is_true (dget result ''network_submission_attempt_consumed'')) ''fast live result attempt flag mismatch'') (\<lambda>_.
     ebind (fl_require (is_true (dget message ''real_order_submitted'') = is_true (dget result ''real_order_submitted''))
       ''fast live result order flag mismatch'') (\<lambda>_.
     Inr result))))))))))"

end
