(* ===== verification/FastExecutor.thy ===== *)
theory FastExecutor
  imports FastLive "HOL-Library.AList"
begin

text \<open>
  The executor of the fast live path (\<open>bp_engine/execution/fast_live_executor.py\<close>): one order is
  sent for a verified intent, behind an attempt file that is created exclusively before the venue
  is called, and is cancelled after its time to live. The state directory, one slot per intent in
  a continuous session, and the log of calls that leave the process are the world; what the
  executor looks at (kill switch, safety snapshot, quotes, the venue's replies, clocks) is the
  environment of the call. Latencies and the instants of their measurement are left out of the
  stored documents.
\<close>

section \<open>The environment\<close>

record safety =
  sf_observed_at :: int
  sf_blocked :: bool
  sf_country :: string
  sf_open_orders :: int
  sf_collateral :: dec

definition safety_post_init :: "pytime \<Rightarrow> bool \<Rightarrow> string \<Rightarrow> int \<Rightarrow> dec \<Rightarrow> safety res" where
  "safety_post_init observed_at blocked country open_orders collateral =
     ebind (aware_utc (ValueError ''safety snapshot timestamp must be timezone-aware'') observed_at) (\<lambda>observed.
     Inr \<lparr>sf_observed_at = observed, sf_blocked = blocked, sf_country = country, sf_open_orders = open_orders,
       sf_collateral = collateral\<rparr>)"

record maker_fill =
  mf_order_id :: string
  mf_matched :: pyval
  mf_price :: pyval

record venue_trade =
  tr_id :: string
  tr_taker_order_id :: string
  tr_size :: pyval
  tr_price :: pyval
  tr_status :: string
  tr_makers :: "maker_fill list"

record venue_sample =
  vs_open_orders :: "string list"
  vs_trades :: "venue_trade list"

datatype post_reply = PostRaised | PostRejected string string | PostUnknown | PostAccepted string string

datatype cancel_reply = CancelRaised | CancelUnknown | CancelAnswer "string list" "(string \<times> string) list"

text \<open>
  \<open>xe_kill\<close> and \<open>xe_safety\<close> answer the looks of one call in their order, \<open>xe_kill\<close> with \<open>None\<close> where
  the file system raises, \<open>xe_safety\<close> with the clock and the cached snapshot; \<open>xe_cached\<close> is the
  streamed book, \<open>xe_book\<close> the fetched one, \<open>None\<close> where fetching raises; \<open>xe_sample\<close> the venue's
  lists of open orders and trades, or the name of the exception that listing raises.
\<close>

record 's fx_env =
  xe_kill :: "nat \<Rightarrow> bool option"
  xe_safety :: "nat \<Rightarrow> int \<times> safety option"
  xe_sign :: "string \<Rightarrow> dec \<Rightarrow> dec \<Rightarrow> 's res"
  xe_cached :: "(string \<times> string) list option"
  xe_book :: "(pyval \<times> pyval) list option"
  xe_now :: int
  xe_post :: "'s \<Rightarrow> post_reply"
  xe_cancel :: "string \<Rightarrow> cancel_reply"
  xe_sample :: "nat \<Rightarrow> string + venue_sample"

record fx_config =
  fc_max_safety_age :: dec
  fc_probe_attempts :: nat
  fc_continuous :: bool

definition fx_config_ok :: "nat \<Rightarrow> bool \<Rightarrow> dec \<Rightarrow> fx_config res" where
  "fx_config_ok attempts session max_age =
     ebind (require (\<not> (attempts < 1 \<or> 5 < attempts)) (ValueError ''official_probe_attempts must be within 1..5'')) (\<lambda>_.
     Inr \<lparr>fc_max_safety_age = max_age, fc_probe_attempts = attempts, fc_continuous = session\<rparr>)"

section \<open>The world\<close>

text \<open>A file holds a document, or \<open>None\<close> where its text is no JSON object.\<close>

record slot_files =
  sl_attempt :: "pydict option option"
  sl_result :: "pydict option option"

datatype 's action = Engaged string | Posted string 's | Cancelled string

record 's fx_world =
  fw_slots :: "(string \<times> slot_files) list"
  fw_log :: "'s action list"

definition files_of :: "'s fx_world \<Rightarrow> string \<Rightarrow> slot_files" where
  "files_of w slot = (case map_of (fw_slots w) slot of None \<Rightarrow> \<lparr>sl_attempt = None, sl_result = None\<rparr> | Some f \<Rightarrow> f)"

definition write_result :: "string \<Rightarrow> pydict \<Rightarrow> 's fx_world \<Rightarrow> 's fx_world" where
  "write_result slot d w = w\<lparr>fw_slots := AList.update slot ((files_of w slot)\<lparr>sl_result := Some (Some d)\<rparr>) (fw_slots w)\<rparr>"

text \<open>Creating the attempt file fails where it exists.\<close>

definition write_attempt :: "string \<Rightarrow> pydict \<Rightarrow> 's fx_world \<Rightarrow> 's fx_world res" where
  "write_attempt slot d w = (if sl_attempt (files_of w slot) \<noteq> None then Inl (RuntimeError ''FileExistsError'')
     else Inr (w\<lparr>fw_slots := AList.update slot ((files_of w slot)\<lparr>sl_attempt := Some (Some d)\<rparr>) (fw_slots w)\<rparr>))"

definition log_action :: "'s action \<Rightarrow> 's fx_world \<Rightarrow> 's fx_world" where
  "log_action a w = w\<lparr>fw_log := fw_log w @ [a]\<rparr>"

definition read_file :: "pydict option \<Rightarrow> pydict res" where
  "read_file f = (case f of None \<Rightarrow> Inl (FastLiveError ''fast live state JSON invalid'') | Some d \<Rightarrow> Inr d)"

definition dput :: "string \<Rightarrow> pyval \<Rightarrow> pydict \<Rightarrow> pydict" where
  "dput k v d = AList.update k v d"

section \<open>What is executed\<close>

record grant =
  gr_authorization_id :: string
  gr_intent_id :: string
  gr_prediction_id :: string
  gr_paper_order_id :: string
  gr_request_sha256 :: string
  gr_request :: pyval
  gr_expires_at :: int

definition grant_of :: "verified \<Rightarrow> grant" where
  "grant_of v = \<lparr>gr_authorization_id = vd_authorization_id v, gr_intent_id = vp_intent_id v,
     gr_prediction_id = vp_prediction_id v, gr_paper_order_id = vp_paper_order_id v,
     gr_request_sha256 = vp_request_sha256 v, gr_request = PDict (vp_request v), gr_expires_at = vd_expires_at v\<rparr>"

definition slot_of :: "fx_config \<Rightarrow> crypto \<Rightarrow> string \<Rightarrow> string \<Rightarrow> string res" where
  "slot_of cfg cy intent_id request_sha =
     (if \<not> fc_continuous cfg then Inr []
      else (let intent = strip intent_id; sha = strip request_sha in
        ebind (fl_require (intent \<noteq> [] \<and> sha \<noteq> []) ''fast live attempt identity missing'') (\<lambda>_.
        Inr (cy_sha256 cy (intent @ [CHR 0x00] @ sha)))))"

section \<open>Looking before acting\<close>

definition fx_killed :: "'s fx_env \<Rightarrow> nat \<Rightarrow> bool" where
  "fx_killed env i = (case xe_kill env i of None \<Rightarrow> True | Some b \<Rightarrow> b)"

definition retry :: "string \<Rightarrow> 'a res" where
  "retry msg = Inl (FastLiveRetryableError msg)"

definition require_fresh_safety :: "fx_config \<Rightarrow> 's fx_env \<Rightarrow> nat \<Rightarrow> safety res" where
  "require_fresh_safety cfg env i = (case xe_safety env i of
       (now, None) \<Rightarrow> retry ''fast live safety snapshot missing''
     | (now, Some s) \<Rightarrow>
       (let age = seconds_dec (now - sf_observed_at s) in
        if dlt age d0 \<or> dlt (fc_max_safety_age cfg) age then retry ''fast live safety snapshot stale''
        else
          ebind (fl_require (\<not> sf_blocked s) ''fast live geoblock blocked'') (\<lambda>_.
          ebind (fl_require (sf_country s = ''ZA'') ''fast live executor country mismatch'') (\<lambda>_.
          ebind (fl_require (sf_open_orders s = 0) ''fast live official open orders present'') (\<lambda>_.
          ebind (fl_require (\<not> dlt (sf_collateral s) FAST_LIVE_TARGET_NOTIONAL_USD) ''fast live insufficient collateral'') (\<lambda>_.
          Inr s))))))"

record terms =
  te_token_id :: string
  te_limit :: dec
  te_shares :: dec
  te_target :: dec

definition order_terms :: "grant \<Rightarrow> terms res" where
  "order_terms g =
     ebind (fl_mapping (gr_request g) ''fast live request missing'') (\<lambda>request.
     let token = str_or_empty (dget request ''token_id'') in
     ebind (fl_decimal ''limit_price'' (dget request ''limit_price'')) (\<lambda>price.
     ebind (fl_decimal ''requested_shares'' (dget request ''requested_shares'')) (\<lambda>shares.
     ebind (fl_decimal ''target_notional_usd'' (dget request ''target_notional_usd'')) (\<lambda>target.
     ebind (fl_require (token \<noteq> []) ''fast live token id missing'') (\<lambda>_.
     ebind (fl_require (str_or_empty (dget request ''action'') = ''BUY'') ''fast live action must be BUY'') (\<lambda>_.
     ebind (fl_require (deq target FAST_LIVE_TARGET_NOTIONAL_USD) ''fast live target changed'') (\<lambda>_.
     Inr \<lparr>te_token_id = token, te_limit = price, te_shares = shares, te_target = target\<rparr>)))))))"

record 's presigned =
  ps_intent_id :: string
  ps_request_sha256 :: string
  ps_terms :: terms
  ps_signed :: 's

definition prepare_order :: "fx_config \<Rightarrow> crypto \<Rightarrow> 's fx_env \<Rightarrow> 's fx_world \<Rightarrow> grant \<Rightarrow> 's presigned res" where
  "prepare_order cfg cy env w g =
     ebind (slot_of cfg cy (gr_intent_id g) (gr_request_sha256 g)) (\<lambda>slot.
     ebind (fl_require (sl_attempt (files_of w slot) = None) ''fast live attempt already exists'') (\<lambda>_.
     ebind (require_fresh_safety cfg env 0) (\<lambda>_.
     ebind (order_terms g) (\<lambda>t.
     ebind (xe_sign env (te_token_id t) (te_limit t) (te_shares t)) (\<lambda>signed.
     Inr \<lparr>ps_intent_id = gr_intent_id g, ps_request_sha256 = gr_request_sha256 g, ps_terms = t, ps_signed = signed\<rparr>)))))"

text \<open>The signed order: a prepared one, if it is for the same request and terms, or a new one.\<close>

definition signed_order :: "'s fx_env \<Rightarrow> grant \<Rightarrow> terms \<Rightarrow> 's presigned option \<Rightarrow> 's res" where
  "signed_order env g t ready = (case ready of
       None \<Rightarrow> xe_sign env (te_token_id t) (te_limit t) (te_shares t)
     | Some p \<Rightarrow>
         ebind (fl_require (ps_request_sha256 p = gr_request_sha256 g) ''prepared order request hash mismatch'') (\<lambda>_.
         let u = ps_terms p in
         ebind (fl_require (te_token_id u = te_token_id t \<and> deq (te_limit u) (te_limit t) \<and> deq (te_shares u) (te_shares t)
           \<and> deq (te_target u) (te_target t)) ''prepared order request changed'') (\<lambda>_.
         Inr (ps_signed p))))"

definition quoted_levels :: "'s fx_env \<Rightarrow> (pyval \<times> pyval) list res" where
  "quoted_levels env = (case xe_cached env of
       Some levels \<Rightarrow> Inr (map (\<lambda>(p, s). (PStr p, PStr s)) levels)
     | None \<Rightarrow> (case xe_book env of None \<Rightarrow> retry ''fast live fresh order book unavailable'' | Some asks \<Rightarrow> Inr asks))"

definition depth_mapping :: "depth \<Rightarrow> pydict" where
  "depth_mapping d = [(''marketable'', PBool (dp_marketable d)), (''full_size_marketable'', PBool (dp_full d)),
     (''best_ask'', case dp_best_ask d of None \<Rightarrow> PNone | Some p \<Rightarrow> PStr (dec_plain p)),
     (''marketable_depth'', PStr (dec_plain (dp_depth d))), (''requested_shares'', PStr (dec_plain (dp_requested d))),
     (''limit_price'', PStr (dec_plain (dp_limit d)))]"

definition identity_of :: "grant \<Rightarrow> pydict" where
  "identity_of g = [(''intent_id'', PStr (gr_intent_id g)), (''prediction_id'', PStr (gr_prediction_id g)),
     (''paper_order_id'', PStr (gr_paper_order_id g)), (''request_sha256'', PStr (gr_request_sha256 g))]"

definition refused_result :: "grant \<Rightarrow> depth \<Rightarrow> pydict" where
  "refused_result g d = [(''status'', PStr ''fresh_book_rejected'')] @ identity_of g
     @ [(''marketability'', PDict (depth_mapping d)), (''network_submission_attempt_consumed'', PBool False),
        (''real_order_submitted'', PBool False)]"

datatype 's gate = Refused pydict | Cleared 's terms depth safety

definition fx_gate :: "fx_config \<Rightarrow> 's fx_env \<Rightarrow> grant \<Rightarrow> 's presigned option \<Rightarrow> 's gate res" where
  "fx_gate cfg env g ready =
     ebind (fl_require (\<not> fx_killed env 0) ''fast live kill switch engaged'') (\<lambda>_.
     ebind (require_fresh_safety cfg env 0) (\<lambda>safety.
     ebind (order_terms g) (\<lambda>t.
     ebind (signed_order env g t ready) (\<lambda>signed.
     ebind (require_fresh_safety cfg env 1) (\<lambda>_.
     ebind (fl_require (\<not> fx_killed env 1) ''fast live kill switch engaged before quote'') (\<lambda>_.
     ebind (quoted_levels env) (\<lambda>levels.
     ebind (marketable_depth levels (PDec (Finite (te_limit t))) (PDec (Finite (te_shares t)))) (\<lambda>d.
     if \<not> dp_marketable d then Inr (Refused (refused_result g d))
     else
       ebind (require_fresh_safety cfg env 2) (\<lambda>_.
       ebind (fl_require (\<not> fx_killed env 2) ''fast live kill switch engaged before attempt'') (\<lambda>_.
       Inr (Cleared signed t d safety)))))))))))"

section \<open>What the venue says of an order\<close>

record fill_row =
  fi_trade_id :: string
  fi_shares :: string
  fi_price :: string
  fi_status :: string

definition trade_status_text :: "string \<Rightarrow> string" where
  "trade_status_text raw = (let t = upper raw in if prefix ''TRADE_STATUS_'' t then drop (length ''TRADE_STATUS_'') t else t)"

definition trade_hit :: "string \<Rightarrow> pyval \<Rightarrow> string \<Rightarrow> pyval \<Rightarrow> (dec \<times> dec) res" where
  "trade_hit shares_name shares price_name price =
     ebind (fl_decimal shares_name shares) (\<lambda>s. ebind (fl_decimal price_name price) (\<lambda>p. Inr (s, p)))"

definition maker_hit :: "string \<Rightarrow> maker_fill \<Rightarrow> (dec \<times> dec) option \<Rightarrow> (dec \<times> dec) option res" where
  "maker_hit oid m hit =
     (if mf_order_id m \<noteq> oid then Inr hit
      else if hit \<noteq> None then Inl (FastLiveError ''order appears more than once in a single official trade'')
      else ebind (trade_hit ''maker matched amount'' (mf_matched m) ''maker price'' (mf_price m)) (\<lambda>h. Inr (Some h)))"

definition match_trade :: "string \<Rightarrow> venue_trade \<Rightarrow> fill_row option res" where
  "match_trade oid t =
     ebind (if tr_taker_order_id t = oid
       then ebind (trade_hit ''trade size'' (tr_size t) ''trade price'' (tr_price t)) (\<lambda>h. Inr (Some h)) else Inr None) (\<lambda>taker.
     ebind (efold (maker_hit oid) (tr_makers t) taker) (\<lambda>hit.
     Inr (map_option (\<lambda>(s, p). \<lparr>fi_trade_id = tr_id t, fi_shares = dec_plain s, fi_price = dec_plain p,
       fi_status = trade_status_text (tr_status t)\<rparr>) hit)))"

record order_sample =
  os_still_open :: bool
  os_open_count :: int
  os_fills :: "fill_row list"

definition order_sample_of :: "string \<Rightarrow> venue_sample \<Rightarrow> order_sample res" where
  "order_sample_of oid s =
     ebind (emap (match_trade oid) (vs_trades s)) (\<lambda>rows.
     Inr \<lparr>os_still_open = (oid \<in> set (vs_open_orders s)), os_open_count = int (length (vs_open_orders s)),
       os_fills = sort_key fi_trade_id (List.map_filter id rows)\<rparr>)"

definition fill_number :: "string \<Rightarrow> dec" where
  "fill_number s = (case read_decimal s of Some (Finite d) \<Rightarrow> d | _ \<Rightarrow> d0)"

definition confirmed_fills :: "order_sample \<Rightarrow> fill_row list" where
  "confirmed_fills s = filter (\<lambda>r. fi_status r = ''CONFIRMED'') (os_fills s)"

definition other_fills :: "order_sample \<Rightarrow> fill_row list" where
  "other_fills s = filter (\<lambda>r. fi_status r \<noteq> ''CONFIRMED'') (os_fills s)"

definition confirmed_shares :: "order_sample \<Rightarrow> dec" where
  "confirmed_shares s = foldl (\<lambda>a r. dadd a (fill_number (fi_shares r))) d0 (confirmed_fills s)"

definition confirmed_notional :: "order_sample \<Rightarrow> dec" where
  "confirmed_notional s = foldl (\<lambda>a r. dadd a (dmul (fill_number (fi_shares r)) (fill_number (fi_price r)))) d0 (confirmed_fills s)"

definition fill_state :: "order_sample \<Rightarrow> string" where
  "fill_state s = (if os_still_open s then ''order_still_open'' else if other_fills s \<noteq> [] then ''fill_observed_not_final''
     else if confirmed_fills s \<noteq> [] then ''confirmed_fill'' else ''zero_fill_observed'')"

definition fill_mapping :: "fill_row \<Rightarrow> pyval" where
  "fill_mapping r = PDict [(''trade_id'', PStr (fi_trade_id r)), (''shares'', PStr (fi_shares r)),
     (''price'', PStr (fi_price r)), (''status'', PStr (fi_status r))]"

definition reconciliation_complete :: "order_sample \<Rightarrow> order_sample \<Rightarrow> bool" where
  "reconciliation_complete first second = (first = second \<and> \<not> os_still_open second \<and> other_fills second = [] \<and> os_open_count second = 0)"

definition official_mapping :: "order_sample \<Rightarrow> order_sample \<Rightarrow> pydict" where
  "official_mapping first second =
     [(''snapshot_stable'', PBool (first = second)), (''order_still_open'', PBool (os_still_open second)),
      (''open_order_count'', PInt (os_open_count second)), (''matching_trade_count'', PInt (int (length (os_fills second)))),
      (''matching_trades'', PList (map fill_mapping (os_fills second))),
      (''confirmed_filled_shares'', PStr (dec_plain (confirmed_shares second))),
      (''confirmed_filled_notional_usd'', PStr (dec_plain (confirmed_notional second))),
      (''fill_state'', PStr (fill_state second)),
      (''official_reconciliation_complete'', PBool (reconciliation_complete first second))]"

text \<open>One probe takes two samples; an exception of the venue's client stands as \<open>RuntimeError\<close> of its name.\<close>

definition probe_sample :: "string \<Rightarrow> string + venue_sample \<Rightarrow> order_sample res" where
  "probe_sample oid s = (case s of Inl name \<Rightarrow> Inl (RuntimeError name) | Inr v \<Rightarrow> order_sample_of oid v)"

definition probe_official_order_state :: "string \<Rightarrow> dec \<Rightarrow> string + venue_sample \<Rightarrow> string + venue_sample \<Rightarrow> (order_sample \<times> order_sample) res" where
  "probe_official_order_state oid requested a b =
     ebind (probe_sample oid a) (\<lambda>first.
     ebind (probe_sample oid b) (\<lambda>second.
     ebind (fl_require (\<not> dlt requested (confirmed_shares second)) ''confirmed fill exceeds requested shares'') (\<lambda>_.
     Inr (first, second))))"

definition exception_name :: "exn \<Rightarrow> string" where
  "exception_name e = (case e of RuntimeError name \<Rightarrow> name | _ \<Rightarrow> ''FastLiveError'')"

text \<open>Probes until one is complete or the attempts are used up; \<open>k\<close> counts the probes made.\<close>

fun probe_loop :: "nat \<Rightarrow> nat \<Rightarrow> 's fx_env \<Rightarrow> string \<Rightarrow> dec \<Rightarrow> pydict \<Rightarrow> pydict" where
  "probe_loop 0 k env oid requested official = official"
| "probe_loop (Suc n) k env oid requested official =
     (case probe_official_order_state oid requested (xe_sample env (2 * k)) (xe_sample env (2 * k + 1)) of
        Inl e \<Rightarrow> probe_loop n (Suc k) env oid requested
          [(''official_reconciliation_complete'', PBool False), (''fill_state'', PStr ''official_probe_failed''),
           (''error'', PStr (exception_name e)), (''probe_attempts'', PInt (int (Suc k)))]
      | Inr (first, second) \<Rightarrow> (let found = official_mapping first second @ [(''probe_attempts'', PInt (int (Suc k)))] in
          if reconciliation_complete first second then found else probe_loop n (Suc k) env oid requested found))"

definition cancellation_mapping :: "'s fx_env \<Rightarrow> string \<Rightarrow> pydict" where
  "cancellation_mapping env oid = (let (gone, why) = (case xe_cancel env oid of
       CancelRaised \<Rightarrow> (False, ''cancellation failed'')
     | CancelUnknown \<Rightarrow> (False, ''unexpected cancellation response'')
     | CancelAnswer canceled refused \<Rightarrow> (oid \<in> set canceled, (case map_of refused oid of None \<Rightarrow> [] | Some t \<Rightarrow> t)))
     in [(''cancelled'', PBool gone), (''not_cancelled'', PStr why)])"

definition cancel_and_probe :: "fx_config \<Rightarrow> 's fx_env \<Rightarrow> string \<Rightarrow> dec \<Rightarrow> pydict \<times> pydict" where
  "cancel_and_probe cfg env oid requested =
     (cancellation_mapping env oid,
      probe_loop (fc_probe_attempts cfg) 0 env oid requested
        [(''official_reconciliation_complete'', PBool False), (''fill_state'', PStr ''official_probe_not_run'')])"

section \<open>An attempt\<close>

text \<open>An attempt in flight, after each of its effects.\<close>

record 's attempt =
  at_slot :: string
  at_grant :: grant
  at_signed :: 's
  at_terms :: terms
  at_depth :: depth
  at_document :: pydict
  at_safety_at :: int

datatype 's flight =
    Marked "'s attempt"
  | Armed "'s attempt"
  | Answered "'s attempt" post_reply
  | Resting "'s attempt" string pydict
  | Probed "'s attempt" pydict

definition attempt_document :: "grant \<Rightarrow> int \<Rightarrow> pydict" where
  "attempt_document g now = [(''schema_version'', PInt 1), (''status'', PStr ''network_submission_attempt_starting''),
     (''authorization_id'', PStr (gr_authorization_id g))] @ identity_of g @ [(''started_at'', PStr (iso_utc now))]"

definition mark :: "'s fx_env \<Rightarrow> 's fx_world \<Rightarrow> string \<Rightarrow> grant \<Rightarrow> 's \<Rightarrow> terms \<Rightarrow> depth \<Rightarrow> safety \<Rightarrow> ('s fx_world \<times> 's attempt) res" where
  "mark env w slot g signed t d s =
     (let document = attempt_document g (xe_now env) in
     ebind (write_attempt slot document w) (\<lambda>w'.
     Inr (w', \<lparr>at_slot = slot, at_grant = g, at_signed = signed, at_terms = t, at_depth = d, at_document = document,
       at_safety_at = sf_observed_at s\<rparr>)))"

text \<open>A one-shot attempt engages the kill switch before it calls the venue.\<close>

definition arm :: "fx_config \<Rightarrow> 's fx_world \<Rightarrow> 's attempt \<Rightarrow> 's fx_world" where
  "arm cfg w a = (if fc_continuous cfg then w else log_action (Engaged ''fast-live-one-shot-attempt-consumed'') w)"

definition post :: "'s fx_env \<Rightarrow> 's fx_world \<Rightarrow> 's attempt \<Rightarrow> 's fx_world \<times> post_reply" where
  "post env w a = (log_action (Posted (at_slot a) (at_signed a)) w, xe_post env (at_signed a))"

definition dputs :: "(string \<times> pyval) list \<Rightarrow> pydict \<Rightarrow> pydict" where
  "dputs kvs d = fold (\<lambda>(k, v). dput k v) kvs d"

definition outcome_of_post :: "string \<Rightarrow> (string \<times> pyval) list" where
  "outcome_of_post status = [(''status'', PStr status), (''accepted'', PBool False), (''external_order_id'', PNone),
     (''network_submission_attempt_consumed'', PBool True), (''real_order_submitted'', PBool True)]"

definition trace_of :: "'s attempt \<Rightarrow> (string \<times> pyval) list" where
  "trace_of a = [(''marketability'', PDict (depth_mapping (at_depth a))), (''safety_observed_at'', PStr (iso_utc (at_safety_at a)))]"

definition accepted_document :: "'s attempt \<Rightarrow> string \<Rightarrow> string \<Rightarrow> pydict" where
  "accepted_document a oid status = dputs ([(''status'', PStr ''accepted''), (''accepted'', PBool True),
     (''external_order_id'', PStr oid), (''initial_order_status'', PStr status),
     (''network_submission_attempt_consumed'', PBool True), (''real_order_submitted'', PBool True),
     (''cancellation_pending'', PBool True)] @ trace_of a) (at_document a)"

text \<open>The reply recorded: the end of the attempt, or an accepted order that rests.\<close>

definition record_reply :: "'s fx_world \<Rightarrow> 's attempt \<Rightarrow> post_reply \<Rightarrow> 's fx_world \<times> (pydict + 's flight)" where
  "record_reply w a reply =
     (let ended = (\<lambda>d. (write_result (at_slot a) d w, Inl d)) in
      case reply of
        PostRaised \<Rightarrow> ended (dputs (outcome_of_post ''submission_unknown'' @ [(''submission_outcome_known'', PBool False)] @ trace_of a) (at_document a))
      | PostRejected code msg \<Rightarrow> ended (dputs (outcome_of_post ''rejected'' @ [(''code'', PStr code), (''message'', PStr msg)]) (at_document a))
      | PostUnknown \<Rightarrow> ended (dputs (outcome_of_post ''submission_unknown'') (at_document a))
      | PostAccepted oid status \<Rightarrow> (let d = accepted_document a oid status in
          (write_result (at_slot a) d w, Inr (Resting a oid d))))"

definition probe_rested :: "fx_config \<Rightarrow> 's fx_env \<Rightarrow> 's fx_world \<Rightarrow> 's attempt \<Rightarrow> string \<Rightarrow> pydict \<Rightarrow> 's fx_world \<times> pydict" where
  "probe_rested cfg env w a oid d =
     (let (cancellation, official) = cancel_and_probe cfg env oid (te_shares (at_terms a)) in
      (log_action (Cancelled oid) w, dputs [(''cancellation_pending'', PBool False), (''cancellation'', PDict cancellation),
         (''official_reconciliation'', PDict official)] d))"

definition fly :: "fx_config \<Rightarrow> 's fx_env \<Rightarrow> 's fx_world \<Rightarrow> 's attempt \<Rightarrow> 's fx_world \<times> pydict" where
  "fly cfg env w a =
     (let w1 = arm cfg w a; (w2, reply) = post env w1 a; (w3, onward) = record_reply w2 a reply in
      case onward of
        Inl d \<Rightarrow> (w3, d)
      | Inr (Resting _ oid d) \<Rightarrow> (let (w4, final) = probe_rested cfg env w3 a oid d in (write_result (at_slot a) final w4, final))
      | Inr _ \<Rightarrow> (w3, []))"

section \<open>Execution\<close>

definition unknown_from_marker :: "pydict \<Rightarrow> pydict" where
  "unknown_from_marker attempt = dputs (outcome_of_post ''submission_unknown'' @ [(''recovered_from_attempt_marker'', PBool True)]) attempt"

definition pending_cancel :: "pydict \<Rightarrow> bool" where
  "pending_cancel d = (equals_text (dget d ''status'') ''accepted'' \<and> is_true (dget d ''cancellation_pending'')
     \<and> str_or_empty (dget d ''external_order_id'') \<noteq> [])"

definition requested_of :: "pydict \<Rightarrow> string \<Rightarrow> string \<Rightarrow> dec res" where
  "requested_of d missing name =
     ebind (fl_mapping (dget d ''marketability'') missing) (\<lambda>m. fl_decimal name (dget m ''requested_shares''))"

definition finish_pending :: "fx_config \<Rightarrow> 's fx_env \<Rightarrow> string \<Rightarrow> dec \<Rightarrow> pydict \<Rightarrow> pydict" where
  "finish_pending cfg env oid requested d =
     (let (cancellation, official) = cancel_and_probe cfg env oid requested in
      dputs [(''cancellation'', PDict cancellation), (''cancellation_pending'', PBool False),
        (''official_reconciliation'', PDict official)] d)"

text \<open>An intent whose attempt exists is answered from its files.\<close>

definition replay :: "fx_config \<Rightarrow> 's fx_env \<Rightarrow> 's fx_world \<Rightarrow> string \<Rightarrow> pydict option \<Rightarrow> 's fx_world \<times> pydict res" where
  "replay cfg env w slot attempt = (case sl_result (files_of w slot) of
       None \<Rightarrow> (w, ebind (read_file attempt) (\<lambda>a. Inr (unknown_from_marker a)))
     | Some file \<Rightarrow> (case read_file file of
         Inl e \<Rightarrow> (w, Inl e)
       | Inr d \<Rightarrow>
         if pending_cancel d then
           (case requested_of d ''accepted replay missing marketability'' ''replayed requested shares'' of
              Inl e \<Rightarrow> (w, Inl e)
            | Inr requested \<Rightarrow> (let oid = str_or_empty (dget d ''external_order_id'');
                  d' = finish_pending cfg env oid requested d in
                (write_result slot d' (log_action (Cancelled oid) w), Inr (dput ''replayed_result'' (PBool True) d'))))
         else (w, Inr (dput ''replayed_result'' (PBool True) d))))"

definition execute :: "fx_config \<Rightarrow> crypto \<Rightarrow> 's fx_env \<Rightarrow> 's fx_world \<Rightarrow> grant \<Rightarrow> 's presigned option \<Rightarrow> 's fx_world \<times> pydict res" where
  "execute cfg cy env w g ready = (case slot_of cfg cy (gr_intent_id g) (gr_request_sha256 g) of
       Inl e \<Rightarrow> (w, Inl e)
     | Inr slot \<Rightarrow> (case sl_attempt (files_of w slot) of
         Some attempt \<Rightarrow> replay cfg env w slot attempt
       | None \<Rightarrow> (case fx_gate cfg env g ready of
           Inl e \<Rightarrow> (w, Inl e)
         | Inr (Refused d) \<Rightarrow> (w, Inr d)
         | Inr (Cleared signed t d s) \<Rightarrow> (case mark env w slot g signed t d s of
             Inl e \<Rightarrow> (w, Inl e)
           | Inr (w', a) \<Rightarrow> (let (w'', result) = fly cfg env w' a in (w'', Inr result))))))"

section \<open>Recovery\<close>

definition slots_of :: "fx_config \<Rightarrow> 's fx_world \<Rightarrow> string list" where
  "slots_of cfg w = (if fc_continuous cfg then sort (map fst (fw_slots w)) else [[]])"

text \<open>One slot: nothing to recover, a result still to publish, or a cancellation to finish.\<close>

definition recover_slot :: "fx_config \<Rightarrow> 's fx_env \<Rightarrow> string \<Rightarrow> 's fx_world \<Rightarrow> ('s fx_world \<times> pydict option) res" where
  "recover_slot cfg env slot w = (case (sl_attempt (files_of w slot), sl_result (files_of w slot)) of
       (Some _, Some file) \<Rightarrow>
         ebind (read_file file) (\<lambda>d.
         if \<not> is_true (dget d ''cancellation_pending'')
         then Inr (w, if is_true (dget d ''recovery_result_publish_pending'') then Some d else None)
         else
           ebind (fl_require (equals_text (dget d ''status'') ''accepted'' \<and> is_true (dget d ''network_submission_attempt_consumed'')
             \<and> is_true (dget d ''real_order_submitted'')) ''pending cancellation result state invalid'') (\<lambda>_.
           let oid = str_or_empty (dget d ''external_order_id'') in
           ebind (fl_require (oid \<noteq> [] \<and> dict_of (dget d ''marketability'') \<noteq> None) ''pending cancellation binding missing'') (\<lambda>_.
           ebind (requested_of d ''pending cancellation binding missing'' ''pending cancellation requested shares'') (\<lambda>requested.
           let d' = dputs [(''recovered_pending_cancellation'', PBool True), (''recovered_at'', PStr (iso_utc (xe_now env))),
               (''recovery_result_publish_pending'', PBool True)] (finish_pending cfg env oid requested d) in
           Inr (write_result slot d' (log_action (Cancelled oid) w), Some d')))))
     | _ \<Rightarrow> Inr (w, None))"

text \<open>The world is kept where a slot raises: what was recovered before stays recovered.\<close>

fun recover_slots :: "fx_config \<Rightarrow> (string \<Rightarrow> 's fx_env) \<Rightarrow> string list \<Rightarrow> 's fx_world \<Rightarrow> 's fx_world \<times> pydict list res" where
  "recover_slots cfg envs [] w = (w, Inr [])"
| "recover_slots cfg envs (slot # slots) w = (case recover_slot cfg (envs slot) slot w of
       Inl e \<Rightarrow> (w, Inl e)
     | Inr (w', found) \<Rightarrow> (case recover_slots cfg envs slots w' of
         (w'', Inl e) \<Rightarrow> (w'', Inl e)
       | (w'', Inr ds) \<Rightarrow> (w'', Inr (case found of None \<Rightarrow> ds | Some d \<Rightarrow> d # ds))))"

definition recover_pending_cancellations :: "fx_config \<Rightarrow> (string \<Rightarrow> 's fx_env) \<Rightarrow> 's fx_world \<Rightarrow> 's fx_world \<times> pydict list res" where
  "recover_pending_cancellations cfg envs w = recover_slots cfg envs (slots_of cfg w) w"

definition mark_recovery_result_published :: "fx_config \<Rightarrow> crypto \<Rightarrow> int \<Rightarrow> 's fx_world \<Rightarrow> pydict \<Rightarrow> 's fx_world res" where
  "mark_recovery_result_published cfg cy now w result =
     (let intent = str_or_empty (dget result ''intent_id''); sha = str_or_empty (dget result ''request_sha256'') in
     ebind (fl_require (intent \<noteq> [] \<and> sha \<noteq> []) ''recovery result publish identity missing'') (\<lambda>_.
     ebind (slot_of cfg cy intent sha) (\<lambda>slot.
     ebind (read_file (case sl_result (files_of w slot) of None \<Rightarrow> None | Some file \<Rightarrow> file)) (\<lambda>d.
     ebind (fl_require (str_or_empty (dget d ''intent_id'') = intent \<and> str_or_empty (dget d ''request_sha256'') = sha
       \<and> is_true (dget d ''recovery_result_publish_pending'')) ''recovery result publish state mismatch'') (\<lambda>_.
     Inr (write_result slot (dputs [(''recovery_result_publish_pending'', PBool False),
       (''recovery_result_published_at'', PStr (iso_utc now))] d) w))))))"

section \<open>The bounded retry\<close>

text \<open>
  Executions are repeated while they fail with a transient condition, until the envelope is about
  to expire. The environment of every round and the clock read after it are given; \<open>None\<close> is a loop
  that never ends.
\<close>

definition exhausted_result :: "grant \<Rightarrow> string \<Rightarrow> nat \<Rightarrow> pydict" where
  "exhausted_result g reason retries = [(''status'', PStr ''pre_attempt_retry_exhausted'')] @ identity_of g
     @ [(''reason'', PStr reason), (''pre_attempt_retry_count'', PInt (int retries)),
        (''network_submission_attempt_consumed'', PBool False), (''real_order_submitted'', PBool False),
        (''external_order_id'', PNone)]"

definition attempt_exists :: "fx_config \<Rightarrow> crypto \<Rightarrow> 's fx_world \<Rightarrow> grant \<Rightarrow> bool res" where
  "attempt_exists cfg cy w g = ebind (slot_of cfg cy (gr_intent_id g) (gr_request_sha256 g)) (\<lambda>slot.
     Inr (sl_attempt (files_of w slot) \<noteq> None))"

text \<open>One round: its result, or \<open>None\<close> where it is repeated. \<open>pause\<close> is the retry interval in microseconds.\<close>

definition retryable :: "exn \<Rightarrow> string option" where
  "retryable e = (case e of FastLiveRetryableError msg \<Rightarrow> Some msg | _ \<Rightarrow> None)"

definition execute_round ::
  "fx_config \<Rightarrow> crypto \<Rightarrow> 's fx_env \<Rightarrow> int \<Rightarrow> int \<Rightarrow> grant \<Rightarrow> 's presigned option \<Rightarrow> nat \<Rightarrow> 's fx_world
    \<Rightarrow> 's fx_world \<times> pydict res option" where
  "execute_round cfg cy env now pause g ready k w = (case execute cfg cy env w g ready of
       (w', Inr d) \<Rightarrow> (w', Some (Inr (dput ''pre_attempt_retry_count'' (PInt (int k)) d)))
     | (w', Inl e) \<Rightarrow> (w', case retryable e of
         None \<Rightarrow> Some (Inl e)
       | Some msg \<Rightarrow> (case attempt_exists cfg cy w' g of
           Inl e' \<Rightarrow> Some (Inl e')
         | Inr exists \<Rightarrow> if exists then Some (Inl e)
             else if gr_expires_at g - now \<le> max 10000 pause then Some (Inr (exhausted_result g msg (Suc k)))
             else None)))"

partial_function (option) execute_rounds ::
  "fx_config \<Rightarrow> crypto \<Rightarrow> (nat \<Rightarrow> 's fx_env) \<Rightarrow> (nat \<Rightarrow> int) \<Rightarrow> int \<Rightarrow> grant \<Rightarrow> 's presigned option \<Rightarrow> nat \<Rightarrow> 's fx_world
    \<Rightarrow> ('s fx_world \<times> pydict res) option" where
  "execute_rounds cfg cy envs clock pause g ready k w =
     (case execute_round cfg cy (envs k) (clock k) pause g ready k w of
        (w', Some r) \<Rightarrow> Some (w', r)
      | (w', None) \<Rightarrow> execute_rounds cfg cy envs clock pause g ready (Suc k) w')"

definition execute_with_bounded_pre_attempt_retry ::
  "fx_config \<Rightarrow> crypto \<Rightarrow> (nat \<Rightarrow> 's fx_env) \<Rightarrow> (nat \<Rightarrow> int) \<Rightarrow> int \<Rightarrow> grant \<Rightarrow> 's presigned option \<Rightarrow> 's fx_world
    \<Rightarrow> ('s fx_world \<times> pydict res) option" where
  "execute_with_bounded_pre_attempt_retry cfg cy envs clock pause g ready w = execute_rounds cfg cy envs clock pause g ready 0 w"

end
