(* ===== verification/FastLiveSafety.thy ===== *)
theory FastLiveSafety
  imports FastLive
begin

text \<open>
  What the messages of the fast live path guarantee: a sealed order opens for its receiver during
  its whole window and says what was sealed; whatever opens is signed, current and within the live
  limits; an approval that opens is a person's approval of exactly the order it carries; and the
  depth of a book is what it shows at or below the limit.
\<close>

section \<open>Depth\<close>

lemma dec_fix_pos: "0 < dval d \<Longrightarrow> 0 < dval (dec_fix d)"
proof (rule ccontr)
  assume d: "0 < dval d" and "\<not> 0 < dval (dec_fix d)"
  then have "dval d \<le> \<bar>dval (dec_fix d) - dval d\<bar>" by simp
  moreover have "\<bar>dval (dec_fix d) - dval d\<bar> * 2 \<le> \<bar>dval (dec_fix d) - dval d\<bar> * (2 * 10 ^ (prec - 1))"
    by (rule mult_left_mono) (simp_all add: one_le_power)
  ultimately show False using dec_fix_error [of d] d by simp
qed

lemma dadd_pos: "0 \<le> dval a \<Longrightarrow> 0 < dval b \<Longrightarrow> 0 < dval (dadd a b)"
  unfolding dadd_def by (rule dec_fix_pos) simp

text \<open>A level that a book may show, and the levels read.\<close>

definition ask_of :: "pyval \<times> pyval \<Rightarrow> dec \<times> dec \<Rightarrow> bool" where
  "ask_of raw q \<longleftrightarrow> fl_decimal ''ask_price'' (fst raw) = Inr (fst q) \<and> fl_decimal ''ask_size'' (snd raw) = Inr (snd q)
     \<and> 0 < dval (fst q) \<and> dval (fst q) \<le> 1 \<and> 0 < dval (snd q)"

definition depth_at :: "dec \<Rightarrow> (dec \<times> dec) list \<Rightarrow> dec \<Rightarrow> dec" where
  "depth_at limit qs start = foldl (\<lambda>a q. dadd a (snd q)) start (filter (\<lambda>q. dval (fst q) \<le> dval limit) qs)"

lemma add_ask_fold:
  assumes "efold (add_ask limit) asks (best, acc) = Inr (best', acc')" and "0 \<le> dval acc"
  shows "\<exists>qs. list_all2 ask_of asks qs \<and> acc' = depth_at limit qs acc
    \<and> (best' = None \<longleftrightarrow> best = None \<and> qs = [])
    \<and> (\<forall>b. best' = Some b \<longrightarrow> (\<forall>c. best = Some c \<longrightarrow> dval b \<le> dval c) \<and> (\<forall>q \<in> set qs. dval b \<le> dval (fst q))
        \<and> (best = Some b \<or> b \<in> fst ` set qs))
    \<and> ((\<exists>q \<in> set qs. dval (fst q) \<le> dval limit) \<longrightarrow> 0 < dval acc')
    \<and> 0 \<le> dval acc' \<and> (0 < dval acc \<longrightarrow> 0 < dval acc')"
  using assms
proof (induction asks arbitrary: best acc)
  case Nil
  then show ?case by (auto simp: depth_at_def)
next
  case (Cons raw asks)
  then obtain price shares where q: "ask_of raw (price, shares)"
    and rest: "efold (add_ask limit) asks (case best of None \<Rightarrow> Some price | Some b \<Rightarrow> if dlt price b then Some price else best,
        if dle price limit then dadd acc shares else acc) = Inr (best', acc')"
    by (cases raw) (auto simp: add_ask_def ask_of_def dcmp)
  let ?acc = "if dle price limit then dadd acc shares else acc"
  have pos: "0 < dval shares" using q by (simp add: ask_of_def)
  then have acc: "0 \<le> dval ?acc" "dval price \<le> dval limit \<Longrightarrow> 0 < dval ?acc" "0 < dval acc \<Longrightarrow> 0 < dval ?acc"
    using Cons.prems(2) dadd_pos [of acc shares] by (auto simp: dcmp less_imp_le)
  from Cons.IH [OF rest acc(1)] obtain qs where qs: "list_all2 ask_of asks qs" "acc' = depth_at limit qs ?acc"
    and b: "best' \<noteq> None" "\<And>b. best' = Some b \<Longrightarrow>
        (\<forall>c. (case best of None \<Rightarrow> Some price | Some b \<Rightarrow> if dlt price b then Some price else best) = Some c \<longrightarrow> dval b \<le> dval c)
        \<and> (\<forall>q \<in> set qs. dval b \<le> dval (fst q))
        \<and> ((case best of None \<Rightarrow> Some price | Some b \<Rightarrow> if dlt price b then Some price else best) = Some b \<or> b \<in> fst ` set qs)"
    and t: "(\<exists>q \<in> set qs. dval (fst q) \<le> dval limit) \<longrightarrow> 0 < dval acc'" "0 \<le> dval acc'" "0 < dval ?acc \<longrightarrow> 0 < dval acc'"
    by (auto split: option.splits if_splits)
  have best: "(\<forall>c. best = Some c \<longrightarrow> dval b \<le> dval c) \<and> dval b \<le> dval price \<and> (\<forall>q \<in> set qs. dval b \<le> dval (fst q))
      \<and> (best = Some b \<or> b = price \<or> b \<in> fst ` set qs)" if "best' = Some b" for b
    using b(2) [OF that] by (auto simp: dcmp split: option.splits if_splits)
  have "acc' = depth_at limit ((price, shares) # qs) acc" using qs(2) by (simp add: depth_at_def dcmp)
  moreover have "list_all2 ask_of (raw # asks) ((price, shares) # qs)" using q qs(1) by simp
  ultimately show ?case using best b(1) t acc(2,3) by (intro exI [of _ "(price, shares) # qs"]) auto
qed

text \<open>the depth of a quoted book is read level by level, each with a price in (0, 1] and a positive
  size: it is marketable exactly when some level is at or below the limit, its depth is the sum of
  the sizes there, and its best ask is its lowest price.
\<close>

theorem marketable_depth_spec:
  assumes "marketable_depth asks limit_price requested_shares = Inr d"
  shows "\<exists>qs. list_all2 ask_of asks qs \<and> dp_depth d = depth_at (dp_limit d) qs (Dec 0 0)
    \<and> (dp_marketable d \<longleftrightarrow> (\<exists>q \<in> set qs. dval (fst q) \<le> dval (dp_limit d)))
    \<and> (dp_full d \<longleftrightarrow> dval (dp_requested d) \<le> dval (dp_depth d))
    \<and> (case dp_best_ask d of None \<Rightarrow> qs = [] | Some b \<Rightarrow> b \<in> fst ` set qs \<and> (\<forall>q \<in> set qs. dval b \<le> dval (fst q)))
    \<and> 0 < dval (dp_limit d) \<and> dval (dp_limit d) \<le> 1 \<and> 0 < dval (dp_requested d)"
proof -
  from assms obtain limit requested best acc where
    r: "0 < dval limit" "dval limit \<le> 1" "0 < dval requested"
    and f: "efold (add_ask limit) asks (None, Dec 0 0) = Inr (best, acc)"
    and d: "d = \<lparr>dp_marketable = (case best of None \<Rightarrow> False | Some b \<Rightarrow> dle b limit \<and> dlt d0 acc),
       dp_full = dle requested acc, dp_best_ask = best, dp_depth = acc, dp_requested = requested, dp_limit = limit\<rparr>"
    by (auto simp: marketable_depth_def dcmp not_le)
  from add_ask_fold [OF f] obtain qs where qs: "list_all2 ask_of asks qs" "acc = depth_at limit qs (Dec 0 0)"
    and b: "best = None \<longleftrightarrow> qs = []" "\<And>b. best = Some b \<Longrightarrow> (\<forall>q \<in> set qs. dval b \<le> dval (fst q)) \<and> b \<in> fst ` set qs"
    and t: "(\<exists>q \<in> set qs. dval (fst q) \<le> dval limit) \<longrightarrow> 0 < dval acc"
    by auto
  have "(case best of None \<Rightarrow> False | Some b \<Rightarrow> dle b limit \<and> dlt d0 acc) \<longleftrightarrow> (\<exists>q \<in> set qs. dval (fst q) \<le> dval limit)"
    using b t by (cases best) (auto simp: dcmp dest: order_trans)
  then show ?thesis using r qs b by (intro exI [of _ qs]) (auto simp: d dcmp split: option.splits)
qed

section \<open>Sealing and opening\<close>

lemma seal_Inr:
  assumes "seal cy key body = Inr message" and "hmac_like cy" and "''hmac_sha256'' \<notin> fst ` set body"
  shows "open_signed cy label key message = Inr ()"
    and "k \<noteq> ''hmac_sha256'' \<Longrightarrow> dget message k = dget body k"
    and "k \<noteq> ''hmac_sha256'' \<Longrightarrow> dindex message k = dindex body k"
proof -
  from assms(1) obtain m where m: "mac_of cy key body = Inr m" "message = body @ [(''hmac_sha256'', PStr m)]"
    by (auto simp: seal_def)
  from assms(3) have none: "map_of body ''hmac_sha256'' = None" by (simp add: map_of_eq_None_iff)
  show get: "k \<noteq> ''hmac_sha256'' \<Longrightarrow> dget message k = dget body k" for k
    by (simp add: m(2) dget_def map_add_def split: option.splits)
  show "k \<noteq> ''hmac_sha256'' \<Longrightarrow> dindex message k = dindex body k"
    by (simp add: m(2) dindex_def map_add_def split: option.splits)
  have "filter (\<lambda>(k, v). k \<noteq> ''hmac_sha256'') body = body"
    using assms(3) by (intro filter_True) force
  then have "filter (\<lambda>(k, v). k \<noteq> ''hmac_sha256'') message = body" by (simp add: m(2))
  moreover have "dget message ''hmac_sha256'' = PStr m" using none by (simp add: m(2) dget_def map_add_def)
  moreover have "all_hex 64 m" using assms(2) m(1) by (auto simp: hmac_like_def mac_of_def)
  ultimately show "open_signed cy label key message = Inr ()" using m(1) by (simp add: open_signed_def)
qed

lemma validate_prepared_later:
  assumes "validate_prepared cy prepared (Aware a off) losses = Inr v" and "a \<le> b" and "b + 10000000 \<le> vp_market_end_at v"
  shows "validate_prepared cy prepared (Aware b off') losses = Inr v"
proof -
  have *: "\<not> dlt (seconds_dec (x - b)) FAST_LIVE_MIN_MARKET_END_SECONDS" if "b + 10000000 \<le> x" for x
  proof -
    have "(of_int (10000000 :: int) :: rat) \<le> of_int (x - b)" using that by (intro of_int_le_iff [THEN iffD2]) simp
    then show ?thesis by (simp add: dcmp dval_seconds_dec FAST_LIVE_MIN_MARKET_END_SECONDS_def dval_int)
  qed
  show ?thesis using assms * by (auto simp: validate_prepared_def fl_utc_def aware_utc_def)
qed

lemma validate_for_runtime_later:
  assumes "validate_for_runtime cy prepared runtime (Aware a off) = Inr v" and "a \<le> b" and "b + 10000000 \<le> vp_market_end_at v"
  shows "validate_for_runtime cy prepared runtime (Aware b off') = Inr v"
  using assms by (auto simp: validate_for_runtime_def intro: validate_prepared_later)

lemma seconds_us_whole [simp]: "seconds_us (Dec n 0) = n * 1000000"
  by (simp add: seconds_us_def dtrunc_def)

lemma within_age:
  assumes "observed < created + n * 1000000"
  shows "\<not> dlt (Dec n 0) (seconds_dec (observed - created))"
proof -
  have "(of_int (observed - created) :: rat) \<le> of_int (n * 1000000)" using assms by (intro of_int_le_iff [THEN iffD2]) simp
  then show ?thesis by (simp add: dcmp dval_seconds_dec dval_int)
qed

section \<open>An envelope opens while it is valid\<close>

lemma fl_time_text: "cy_parse cy s = Some (Aware us off) \<Longrightarrow> fl_time cy (PStr s) = Inr us"
  by (simp add: fl_time_def document_time_def aware_utc_def)

lemma check_binding_Inr:
  "check_binding label payload names = Inr u \<longleftrightarrow> (\<forall>(n, t) \<in> set names. str_or_empty (dget payload n) = t)"
  by (simp add: check_binding_def efold_checks split_def)

text \<open>The instants a sealed order renders are read back as they were.\<close>

definition reads_back :: "crypto \<Rightarrow> int set \<Rightarrow> bool" where
  "reads_back cy ts \<longleftrightarrow> (\<forall>t \<in> ts. cy_parse cy (iso_utc t) = Some (Aware t 0))"

lemma carrier_opens:
  assumes "hmac_like cy" and "cr_max_age k = Dec n 0"
    and "create_carrier k cy prepared runtime key key_id (Aware created off) = Inr message"
    and "fl_time cy (dget prepared ''market_end_at'') = Inr market_end" and "fl_time cy (dget runtime ''expires_at'') = Inr auth"
    and "reads_back cy {created, market_end, carrier_expiry k created market_end auth}"
    and "created \<le> observed" and "observed < carrier_expiry k created market_end auth"
  obtains v where "validate_for_runtime cy prepared runtime (Aware created off) = Inr v"
    and "verify_carrier k cy message runtime key key_id (Aware observed off') = Inr (validated.extend v
      \<lparr>vd_authorization_id = str_or_empty (dget runtime ''authorization_id''), vd_created_at = created,
       vd_expires_at = carrier_expiry k created market_end auth\<rparr>)"
proof -
  let ?exp = "carrier_expiry k created market_end auth" and ?aid = "str_or_empty (dget runtime ''authorization_id'')"
  from assms(3,5) obtain v m where v: "validate_for_runtime cy prepared runtime (Aware created off) = Inr v"
    and m: "fl_time cy (PStr (iso_utc (vp_market_end_at v))) = Inr m"
    and s: "seal cy key (carrier_body k key_id ?aid v prepared created (carrier_expiry k created m auth)) = Inr message"
    by (auto simp: create_carrier_def fl_utc_def Let_def)
  have m_end: "vp_market_end_at v = market_end"
    using v assms(4) by (auto simp: validate_for_runtime_def validate_prepared_def)
  then have "m = market_end" using m assms(6) fl_time_text [of cy "iso_utc market_end"] by (auto simp: reads_back_def)
  note s = s [unfolded this]
  let ?body = "carrier_body k key_id ?aid v prepared created ?exp"
  have names: "''hmac_sha256'' \<notin> fst ` set ?body" by (simp add: carrier_body_def binding_names_def)
  note get = seal_Inr(2) [OF s assms(1) names]
  have body: "dget ?body ''schema_version'' = PInt 1" "dget ?body ''purpose'' = PStr (cr_purpose k)"
    "dget ?body ''key_id'' = PStr key_id" "dget ?body ''authorization_id'' = PStr ?aid"
    "dget ?body ''prepared'' = PDict prepared" "dget ?body ''created_at'' = PStr (iso_utc created)"
    "dget ?body ''expires_at'' = PStr (iso_utc ?exp)" "dindex ?body ''authorization_id'' = Inr (PStr ?aid)"
    by (simp_all add: carrier_body_def binding_names_def dget_def dindex_def)
  have bound: "(name, t) \<in> set (binding_names v) \<Longrightarrow> dget message name = PStr t" for name t
    using get by (auto simp: binding_names_def) (simp_all add: carrier_body_def binding_names_def dget_def)
  have check_bound: "check_binding (cr_label k) message (binding_names v) = Inr ()"
    using bound by (auto simp: check_binding_Inr)
  have times: "open_window cy (cr_label k) message observed = Inr (created, ?exp)"
    using assms(6-8) get by (simp add: open_window_def body reads_back_def fl_time_text)
  have "observed + 10000000 \<le> market_end" "observed < created + n * 1000000"
    using assms(2,8) by (simp_all add: carrier_expiry_def FAST_LIVE_MIN_MARKET_END_SECONDS_def)
  then have later: "validate_for_runtime cy prepared runtime (Aware observed off') = Inr v"
    and age: "\<not> dlt (cr_max_age k) (seconds_dec (observed - created))"
    using validate_for_runtime_later [OF v assms(7)] m_end within_age by (simp_all add: assms(2))
  have "verify_carrier k cy message runtime key key_id (Aware observed off') = Inr (validated.extend v
      \<lparr>vd_authorization_id = ?aid, vd_created_at = created, vd_expires_at = ?exp\<rparr>)"
    using get seal_Inr(1) [OF s assms(1) names] seal_Inr(3) [OF s assms(1) names] times later age
      check_bound
    by (simp add: verify_carrier_def fl_utc_def aware_utc_def open_named_def schema_ok_def body fl_mapping_def dict_of_def
        equals_int_def equals_text_def number_of_def dcmp dval_int fl_require_def)
  with v show ?thesis by (rule that)
qed

text \<open>C24: an envelope opens for the receiver that holds the key and the authorisation it was sealed for, at
  every instant from its creation to its expiry, and opens as the order that was sealed; its
  expiry is two seconds after its creation, ten before the end of the market, or that of the
  authorisation, whichever is first.
\<close>

theorem envelope_round_trip:
  assumes "hmac_like cy"
    and "create_envelope cy prepared runtime key key_id (Aware created off) = Inr message"
    and "fl_time cy (dget prepared ''market_end_at'') = Inr market_end" and "fl_time cy (dget runtime ''expires_at'') = Inr auth"
    and "reads_back cy {created, market_end, min (min (created + 2000000) (market_end - 10000000)) auth}"
    and "created \<le> observed" and "observed < min (min (created + 2000000) (market_end - 10000000)) auth"
  shows "\<exists>v. validate_for_runtime cy prepared runtime (Aware created off) = Inr v
    \<and> verify_envelope cy message runtime key key_id (Aware observed off') = Inr (validated.extend v
      \<lparr>vd_authorization_id = str_or_empty (dget runtime ''authorization_id''), vd_created_at = created,
       vd_expires_at = min (min (created + 2000000) (market_end - 10000000)) auth\<rparr>)"
proof -
  have age: "cr_max_age envelope_carrier = Dec 2 0" by (simp add: envelope_carrier_def FAST_LIVE_MAX_TRANSIT_SECONDS_def)
  then have exp: "carrier_expiry envelope_carrier created market_end auth = min (min (created + 2000000) (market_end - 10000000)) auth"
    by (simp add: carrier_expiry_def FAST_LIVE_MIN_MARKET_END_SECONDS_def)
  show ?thesis
    using carrier_opens [OF assms(1) age assms(2) [unfolded create_envelope_def] assms(3,4), unfolded exp, OF assms(5-7), of off']
    unfolding verify_envelope_def by blast
qed

section \<open>What opens is sound\<close>

text \<open>An order within the live limits: five dollars, a price in (0, 1], at most ten dollars in all.\<close>

definition live_limits :: "pydict \<Rightarrow> bool" where
  "live_limits request \<longleftrightarrow> (\<exists>target price shares. fl_decimal ''target_notional_usd'' (dget request ''target_notional_usd'') = Inr target
     \<and> fl_decimal ''limit_price'' (dget request ''limit_price'') = Inr price
     \<and> fl_decimal ''requested_shares'' (dget request ''requested_shares'') = Inr shares
     \<and> dval target = 5 \<and> 0 < dval price \<and> dval price \<le> 1 \<and> 0 < dval shares \<and> dval (dmul price shares) \<le> 10
     \<and> str_or_empty (dget request ''action'') = ''BUY'')"

definition hash_of :: "crypto \<Rightarrow> pydict \<Rightarrow> string \<Rightarrow> bool" where
  "hash_of cy d sha \<longleftrightarrow> (\<exists>t. json_ascii True (PDict d) = Inr t \<and> sha = cy_sha256 cy t)"

definition signed_by :: "crypto \<Rightarrow> string \<Rightarrow> pydict \<Rightarrow> bool" where
  "signed_by cy key payload \<longleftrightarrow> (\<exists>t. json_ascii True (PDict (filter (\<lambda>(k, v). k \<noteq> ''hmac_sha256'') payload)) = Inr t
     \<and> str_or_empty (dget payload ''hmac_sha256'') = cy_hmac cy key t) \<and> length key = 32"

lemma payload_sha256_Inr: "payload_sha256 cy d = Inr sha \<longleftrightarrow> hash_of cy d sha"
  by (auto simp: payload_sha256_def document_sha256_def hash_of_def)

lemma open_signed_by: "open_signed cy label key payload = Inr u \<Longrightarrow> signed_by cy key payload"
  by (auto simp: open_signed_def mac_of_def signed_by_def Let_def simp del: json_ascii.simps)

lemma open_window_Inr: "open_window cy label payload observed = Inr (created, expires) \<Longrightarrow> created \<le> observed \<and> observed < expires"
  by (auto simp: open_window_def)

lemma check_request_limits: "check_request request = Inr u \<Longrightarrow> live_limits request"
  by (auto simp: check_request_def live_limits_def dcmp dval_int FAST_LIVE_TARGET_NOTIONAL_USD_def FAST_LIVE_MAX_TRADE_SIZE_USD_def
      not_less not_le)

lemma seconds_at_least:
  assumes "\<not> dlt (seconds_dec (m - observed)) FAST_LIVE_MIN_MARKET_END_SECONDS"
  shows "observed + 10000000 \<le> m"
proof -
  have "(of_int 10000000 :: rat) \<le> of_int (m - observed)"
    using assms by (simp add: dcmp dval_seconds_dec FAST_LIVE_MIN_MARKET_END_SECONDS_def dval_int)
  then show ?thesis by (simp only: of_int_le_iff)
qed

lemma validated_sound:
  assumes "validate_for_runtime cy prepared runtime (Aware observed off) = Inr v"
  shows "live_limits (vp_request v)" "hash_of cy (vp_request v) (vp_request_sha256 v)" "hash_of cy prepared (vp_prepared_sha256 v)"
    "observed + 10000000 \<le> vp_market_end_at v" "vp_prepared_at v \<le> observed" "dict_of (dget prepared ''request'') = Some (vp_request v)"
proof -
  from assms obtain losses where "validate_prepared cy prepared (Aware observed off) losses = Inr v"
    by (auto simp: validate_for_runtime_def)
  then show "live_limits (vp_request v)" "hash_of cy (vp_request v) (vp_request_sha256 v)" "hash_of cy prepared (vp_prepared_sha256 v)"
    "observed + 10000000 \<le> vp_market_end_at v" "vp_prepared_at v \<le> observed" "dict_of (dget prepared ''request'') = Some (vp_request v)"
    by (auto simp: validate_prepared_def fl_utc_def payload_sha256_Inr fl_request_sha256_def
        dest: check_request_limits seconds_at_least)
qed

lemma transit_within:
  assumes "\<not> dlt (Dec n 0) (seconds_dec (observed - created))"
  shows "observed - created \<le> n * 1000000"
proof -
  have "(of_int (observed - created) :: rat) \<le> of_int (n * 1000000)"
    using assms by (simp add: dcmp dval_seconds_dec dval_int)
  then show ?thesis by (simp only: of_int_le_iff)
qed

text \<open>What an envelope that opens was checked for.\<close>

lemma envelope_opened:
  assumes "verify_envelope cy payload runtime key key_id (Aware observed off) = Inr v"
  shows "signed_by cy key payload"
    and "vd_created_at v \<le> observed" and "observed < vd_expires_at v" and "observed - vd_created_at v \<le> 2000000"
    and "str_or_empty (dget payload ''authorization_id'') = str_or_empty (dget runtime ''authorization_id'')"
    and "\<exists>prepared u. validate_for_runtime cy prepared runtime (Aware observed off) = Inr u \<and> validated.truncate v = u
      \<and> check_binding ''fast live envelope'' payload (binding_names u) = Inr ()"
proof -
  from assms obtain created expires prepared u aid where
    o: "open_signed cy ''fast live envelope'' key payload = Inr ()"
    and n: "str_or_empty (dget payload ''authorization_id'') = str_or_empty (dget runtime ''authorization_id'')"
    and w: "open_window cy ''fast live envelope'' payload observed = Inr (created, expires)"
    and a: "\<not> dlt (Dec 2 0) (seconds_dec (observed - created))"
    and u: "validate_for_runtime cy prepared runtime (Aware observed off) = Inr u"
    and b: "check_binding ''fast live envelope'' payload (binding_names u) = Inr ()"
    and v: "v = validated.extend u \<lparr>vd_authorization_id = py_str aid, vd_created_at = created, vd_expires_at = expires\<rparr>"
    by (auto simp: verify_envelope_def verify_carrier_def envelope_carrier_def fl_utc_def open_named_def FAST_LIVE_MAX_TRANSIT_SECONDS_def)
  show "signed_by cy key payload" by (rule open_signed_by [OF o])
  show "vd_created_at v \<le> observed" "observed < vd_expires_at v" "observed - vd_created_at v \<le> 2000000"
    using open_window_Inr [OF w] transit_within [OF a] by (simp_all add: v validated.defs)
  show "str_or_empty (dget payload ''authorization_id'') = str_or_empty (dget runtime ''authorization_id'')" by (rule n)
  have "validated.truncate v = u" by (cases u) (simp add: v validated.defs)
  then show "\<exists>prepared u. validate_for_runtime cy prepared runtime (Aware observed off) = Inr u \<and> validated.truncate v = u
      \<and> check_binding ''fast live envelope'' payload (binding_names u) = Inr ()" using u b by blast
qed

text \<open>an envelope that opens was signed with the receiver's key over exactly what it says, names the
  receiver's authorisation, is at most two seconds old and not expired, and carries an order within
  the live limits, of the hash it states, at least ten seconds before the end of its market.
\<close>

theorem envelope_sound:
  assumes "verify_envelope cy payload runtime key key_id (Aware observed off) = Inr v"
  shows "signed_by cy key payload
    \<and> str_or_empty (dget payload ''authorization_id'') = str_or_empty (dget runtime ''authorization_id'')
    \<and> vd_created_at v \<le> observed \<and> observed < vd_expires_at v \<and> observed - vd_created_at v \<le> 2000000
    \<and> observed + 10000000 \<le> vp_market_end_at v \<and> live_limits (vp_request v)
    \<and> hash_of cy (vp_request v) (vp_request_sha256 v)
    \<and> str_or_empty (dget payload ''request_sha256'') = vp_request_sha256 v"
proof -
  note opened = envelope_opened [OF assms]
  from opened(6) obtain prepared u where u: "validate_for_runtime cy prepared runtime (Aware observed off) = Inr u"
    and v: "validated.truncate v = u" and b: "check_binding ''fast live envelope'' payload (binding_names u) = Inr ()" by blast
  have same: "vp_market_end_at u = vp_market_end_at v" "vp_request u = vp_request v" "vp_request_sha256 u = vp_request_sha256 v"
    by (simp_all add: v [symmetric] validated.defs)
  have "str_or_empty (dget payload ''request_sha256'') = vp_request_sha256 u"
    using b by (simp add: check_binding_Inr binding_names_def)
  then show ?thesis using opened(1-5) validated_sound [OF u] by (simp add: same)
qed


section \<open>What a session may do\<close>

text \<open>C40: a source truth that authorises a session with human approval is unexpired and authorised, for five
  dollars a trade, ten in all and ten of daily loss, and outside a session not yet consumed; an
  automatic approver is active exactly in the automatic modes of a continuous session.
\<close>

theorem source_authorization_sound:
  assumes "verify_source_authorization cy state main (Aware observed off) True session exact = Inr authorization"
  shows "\<exists>phase. dict_of (dget state ''phase_15_v3_live_canary'') = Some phase
    \<and> dict_of (dget phase FAST_LIVE_SOURCE_KEY) = Some authorization
    \<and> (auto_active phase \<longleftrightarrow> session \<and> str_or_empty (dget authorization ''authorization_mode'') \<in> set auto_modes)
    \<and> equals_bool (dget authorization ''authorized'') True \<and> equals_int (dget authorization ''target_notional_usd'') 5
    \<and> equals_int (dget authorization ''max_total_exposure_usd'') 10 \<and> equals_int (dget authorization ''max_daily_loss_usd'') 10
    \<and> (\<not> session \<longrightarrow> equals_bool (dget authorization ''consumed'') False)
    \<and> (\<exists>expires. fl_time cy (dget authorization ''expires_at'') = Inr expires \<and> observed < expires)"
proof -
  let ?mode = "str_or_empty (dget authorization ''authorization_mode'')"
  from assms obtain phase losses expires where
    p: "dict_of (dget state ''phase_15_v3_live_canary'') = Some phase" "dict_of (dget phase FAST_LIVE_SOURCE_KEY) = Some authorization"
    and c: "check_truth authorization (required_truth True session losses) = Inr ()"
    and r: "check_approver session ?mode phase authorization = Inr ()"
    and e: "fl_time cy (dget authorization ''expires_at'') = Inr expires" "observed < expires"
    by (auto simp: verify_source_authorization_def source_authorization_def fl_utc_def Let_def)
  have modes: "m \<in> set continuous_modes \<Longrightarrow> m \<in> set manual_modes \<longleftrightarrow> m \<notin> set auto_modes" for m
    by (auto simp: continuous_modes_def v1_modes_def v2_modes_def manual_modes_def auto_modes_def)
  have "auto_active phase \<longleftrightarrow> session \<and> ?mode \<in> set auto_modes"
    using r modes [of ?mode] by (auto simp: check_approver_def check_auto_approver_def Let_def split: if_splits)
  moreover have "equals_bool (dget authorization ''authorized'') True" "equals_int (dget authorization ''target_notional_usd'') 5"
    "equals_int (dget authorization ''max_total_exposure_usd'') 10" "equals_int (dget authorization ''max_daily_loss_usd'') 10"
    "\<not> session \<longrightarrow> equals_bool (dget authorization ''consumed'') False"
    using c by (auto simp: check_truth_def efold_checks required_truth_def)
  ultimately show ?thesis using p e by blast
qed

end
