(* ===== verification/FastExecutorSafety.thy ===== *)
theory FastExecutorSafety
  imports FastExecutor FastLiveSafety
begin

text \<open>
  What the executor of the fast live path guarantees: whatever runs interleave and wherever the
  process stops, no order is sent twice; an order is sent only past every gate; a result is
  replayed, not repeated; and the bounded retry ends.
\<close>

section \<open>Files\<close>

lemma files_of_write [simp]:
  "files_of (write_result slot d w) k = (if k = slot then (files_of w slot)\<lparr>sl_result := Some (Some d)\<rparr> else files_of w k)"
  by (simp add: files_of_def write_result_def AList.update_conv')

lemma files_of_log [simp]: "files_of (log_action a w) k = files_of w k"
  by (simp add: files_of_def log_action_def)

lemma fw_log_simps [simp]: "fw_log (log_action a w) = fw_log w @ [a]" "fw_log (write_result slot d w) = fw_log w"
  by (simp_all add: log_action_def write_result_def)

lemma write_attempt_Inr:
  "write_attempt slot d w = Inr w' \<longleftrightarrow> sl_attempt (files_of w slot) = None
    \<and> w' = w\<lparr>fw_slots := AList.update slot ((files_of w slot)\<lparr>sl_attempt := Some (Some d)\<rparr>) (fw_slots w)\<rparr>"
  by (auto simp: write_attempt_def)

lemma files_of_attempt:
  assumes "write_attempt slot d w = Inr w'"
  shows "files_of w' k = (if k = slot then (files_of w slot)\<lparr>sl_attempt := Some (Some d)\<rparr> else files_of w k)"
    and "fw_log w' = fw_log w" and "sl_attempt (files_of w slot) = None"
  using assms by (auto simp: write_attempt_Inr files_of_def AList.update_conv')

lemma mark_Inr:
  "mark env w slot g signed t d s = Inr (w', a) \<longleftrightarrow> write_attempt slot (attempt_document g (xe_now env)) w = Inr w'
    \<and> a = \<lparr>at_slot = slot, at_grant = g, at_signed = signed, at_terms = t, at_depth = d,
        at_document = attempt_document g (xe_now env), at_safety_at = sf_observed_at s\<rparr>"
  by (auto simp: mark_def Let_def)

section \<open>Runs\<close>

text \<open>
  Executions in flight, interleaved: each effect of an attempt is a step of its own, a stop of the
  process forgets what is in flight, and creating an attempt file may stop before its text is
  written.
\<close>

definition torn :: "string \<Rightarrow> 's fx_world \<Rightarrow> 's fx_world" where
  "torn slot w = w\<lparr>fw_slots := AList.update slot ((files_of w slot)\<lparr>sl_attempt := Some None\<rparr>) (fw_slots w)\<rparr>"

lemma files_of_torn [simp]:
  "files_of (torn slot w) k = (if k = slot then (files_of w slot)\<lparr>sl_attempt := Some None\<rparr> else files_of w k)"
  "fw_log (torn slot w) = fw_log w"
  by (simp_all add: files_of_def torn_def AList.update_conv')

type_synonym 's fx_state = "'s fx_world \<times> 's flight list"

inductive fx_moves :: "fx_config \<Rightarrow> crypto \<Rightarrow> 's fx_state \<Rightarrow> 's fx_state \<Rightarrow> bool" for cfg cy where
  begin_attempt: "slot_of cfg cy (gr_intent_id g) (gr_request_sha256 g) = Inr slot \<Longrightarrow>
    fx_gate cfg env g ready = Inr (Cleared signed t d s) \<Longrightarrow> mark env w slot g signed t d s = Inr (w', a) \<Longrightarrow>
    fx_moves cfg cy (w, xs @ ys) (w', xs @ Marked a # ys)"
| begin_torn: "slot_of cfg cy intent sha = Inr slot \<Longrightarrow> sl_attempt (files_of w slot) = None \<Longrightarrow>
    fx_moves cfg cy (w, fs) (torn slot w, fs)"
| armed: "fx_moves cfg cy (w, xs @ Marked a # ys) (arm cfg w a, xs @ Armed a # ys)"
| posted: "post env w a = (w', reply) \<Longrightarrow> fx_moves cfg cy (w, xs @ Armed a # ys) (w', xs @ Answered a reply # ys)"
| ended: "record_reply w a reply = (w', Inl d) \<Longrightarrow> fx_moves cfg cy (w, xs @ Answered a reply # ys) (w', xs @ ys)"
| rested: "record_reply w a reply = (w', Inr f) \<Longrightarrow> fx_moves cfg cy (w, xs @ Answered a reply # ys) (w', xs @ f # ys)"
| probed: "probe_rested cfg env w a oid d = (w', d') \<Longrightarrow>
    fx_moves cfg cy (w, xs @ Resting a oid d # ys) (w', xs @ Probed a d' # ys)"
| stored: "fx_moves cfg cy (w, xs @ Probed a d # ys) (write_result (at_slot a) d w, xs @ ys)"
| stopped: "fx_moves cfg cy (w, fs) (w, [])"
| replayed: "sl_attempt (files_of w slot) = Some attempt \<Longrightarrow> replay cfg env w slot attempt = (w', r) \<Longrightarrow>
    fx_moves cfg cy (w, fs) (w', fs)"
| cancelled: "fx_moves cfg cy (w, fs) (log_action (Cancelled oid) w, fs)"
| recovered: "recover_slot cfg env slot w = Inr (w', found) \<Longrightarrow> fx_moves cfg cy (w, fs) (w', fs)"
| published: "mark_recovery_result_published cfg cy now w result = Inr w' \<Longrightarrow> fx_moves cfg cy (w, fs) (w', fs)"

definition is_post :: "string \<Rightarrow> 's action \<Rightarrow> bool" where
  "is_post slot a = (case a of Posted k _ \<Rightarrow> k = slot | _ \<Rightarrow> False)"

definition posts :: "string \<Rightarrow> 's fx_world \<Rightarrow> nat" where
  "posts slot w = length (filter (is_post slot) (fw_log w))"

definition about_to_post :: "string \<Rightarrow> 's flight \<Rightarrow> bool" where
  "about_to_post slot f = (case f of Marked a \<Rightarrow> at_slot a = slot | Armed a \<Rightarrow> at_slot a = slot | _ \<Rightarrow> False)"

text \<open>The orders of a slot, sent or about to be.\<close>

definition load :: "string \<Rightarrow> 's fx_state \<Rightarrow> nat" where
  "load slot p = posts slot (fst p) + length (filter (about_to_post slot) (snd p))"

definition has_attempt :: "string \<Rightarrow> 's fx_state \<Rightarrow> bool" where
  "has_attempt slot p \<longleftrightarrow> sl_attempt (files_of (fst p) slot) \<noteq> None"

lemma posts_simps [simp]:
  "posts slot (log_action a w) = posts slot w + (if is_post slot a then 1 else 0)"
  "posts slot (write_result k d w) = posts slot w" "posts slot (torn k w) = posts slot w"
  by (simp_all add: posts_def)

lemma is_post_simps [simp]:
  "\<not> is_post slot (Engaged r)" "\<not> is_post slot (Cancelled oid)" "is_post slot (Posted k s) \<longleftrightarrow> k = slot"
  by (auto simp: is_post_def)

lemma about_simps [simp]:
  "about_to_post slot (Marked a) \<longleftrightarrow> at_slot a = slot" "about_to_post slot (Armed a) \<longleftrightarrow> at_slot a = slot"
  "\<not> about_to_post slot (Answered a r)" "\<not> about_to_post slot (Resting a oid d)" "\<not> about_to_post slot (Probed a d)"
  by (auto simp: about_to_post_def)

text \<open>Steps that neither send nor touch an attempt file.\<close>

definition calm :: "'s fx_world \<Rightarrow> 's fx_world \<Rightarrow> bool" where
  "calm w w' \<longleftrightarrow> (\<forall>slot. posts slot w' = posts slot w \<and> sl_attempt (files_of w' slot) = sl_attempt (files_of w slot))"

lemma calm_write [simp]: "calm w (write_result slot d w)" and calm_log [simp]: "calm w (log_action (Cancelled oid) w)"
  and calm_write_log [simp]: "calm w (write_result slot d (log_action (Cancelled oid) w))" and calm_refl [simp]: "calm w w"
  by (simp_all add: calm_def)

lemma replay_calm: "replay cfg env w slot attempt = (w', r) \<Longrightarrow> calm w w'"
  by (auto simp: replay_def Let_def split: option.splits sum.splits if_splits)

lemma recover_calm: "recover_slot cfg env slot w = Inr (w', found) \<Longrightarrow> calm w w'"
  by (auto simp: recover_slot_def Let_def split: option.splits if_splits)

lemma published_calm: "mark_recovery_result_published cfg cy now w result = Inr w' \<Longrightarrow> calm w w'"
  by (auto simp: mark_recovery_result_published_def Let_def)

lemma record_calm: "record_reply w a reply = (w', x) \<Longrightarrow> calm w w'"
  by (auto simp: record_reply_def Let_def split: post_reply.splits)

lemma probe_calm: "probe_rested cfg env w a oid d = (w', d') \<Longrightarrow> calm w w'"
  by (auto simp: probe_rested_def Let_def split: prod.splits)

lemma arm_calm: "calm w (arm cfg w a)"
  by (simp add: arm_def calm_def)

lemma record_flight: "record_reply w a reply = (w', Inr f) \<Longrightarrow> \<not> about_to_post slot f"
  by (auto simp: record_reply_def Let_def split: post_reply.splits)

lemma load_calm:
  assumes "calm w w'" and "length (filter (about_to_post slot) fs') \<le> length (filter (about_to_post slot) fs)"
  shows "load slot (w', fs') \<le> load slot (w, fs) \<and> (has_attempt slot (w, fs) \<longrightarrow> has_attempt slot (w', fs'))"
  using assms(2) spec [OF assms(1) [unfolded calm_def], of slot] by (simp add: load_def has_attempt_def)

text \<open>A slot takes an order on only by creating its attempt file, and keeps the file.\<close>

lemma fx_moves_load:
  assumes "fx_moves cfg cy p q"
  shows "load slot q \<le> load slot p \<and> (has_attempt slot p \<longrightarrow> has_attempt slot q)
    \<or> \<not> has_attempt slot p \<and> has_attempt slot q \<and> load slot q \<le> Suc (load slot p) \<and> (\<not> fc_continuous cfg \<longrightarrow> slot = [])"
  using assms
proof (induction rule: fx_moves.induct)
  case (begin_attempt g k env ready signed t d s w w' a xs ys)
  then have a: "write_attempt k (attempt_document g (xe_now env)) w = Inr w'" "at_slot a = k" by (auto simp: mark_Inr)
  note files = files_of_attempt [OF a(1)]
  have "posts slot w' = posts slot w" by (simp add: posts_def files(2))
  then show ?case using begin_attempt.hyps(1) files(3)
    by (auto simp: load_def has_attempt_def files(1) a(2) slot_of_def)
next
  case (begin_torn intent sha k w fs)
  then show ?case by (auto simp: load_def has_attempt_def)
next
  case (armed w xs a ys)
  show ?case by (intro disjI1 load_calm arm_calm) simp
next
  case (posted env w a w' reply xs ys)
  then show ?case by (auto simp: post_def load_def has_attempt_def)
next
  case (ended w a reply w' d xs ys)
  show ?case by (intro disjI1 load_calm record_calm [OF ended.hyps]) simp
next
  case (rested w a reply w' f xs ys)
  show ?case using record_flight [OF rested.hyps, of slot]
    by (intro disjI1 load_calm record_calm [OF rested.hyps]) simp
next
  case (probed env w a oid d w' d' xs ys)
  show ?case by (intro disjI1 load_calm probe_calm [OF probed.hyps]) simp
next
  case (stored w xs a d ys)
  show ?case by (intro disjI1 load_calm) simp_all
next
  case (stopped w fs)
  show ?case by (intro disjI1 load_calm) simp_all
next
  case (replayed w k attempt env w' r fs)
  show ?case by (intro disjI1 load_calm replay_calm [OF replayed.hyps(2)]) simp
next
  case (cancelled w fs oid)
  show ?case by (intro disjI1 load_calm) simp_all
next
  case (recovered env k w w' found fs)
  show ?case by (intro disjI1 load_calm recover_calm [OF recovered.hyps]) simp
next
  case (published now w result w' fs)
  show ?case by (intro disjI1 load_calm published_calm [OF published.hyps]) simp
qed

lemma fx_run_load:
  assumes "(fx_moves cfg cy)\<^sup>*\<^sup>* p q" and "load slot p = 0"
  shows "load slot q \<le> 1 \<and> (load slot q \<noteq> 0 \<longrightarrow> has_attempt slot q \<and> (\<not> fc_continuous cfg \<longrightarrow> slot = []))"
  using assms(1)
proof (induction rule: rtranclp_induct)
  case base
  then show ?case using assms(2) by simp
next
  case (step q r)
  then show ?case using fx_moves_load [OF step.hyps(2), of slot] by linarith
qed

definition all_posts :: "'s fx_world \<Rightarrow> 's action list" where
  "all_posts w = filter (\<lambda>a. \<exists>slot s. a = Posted slot s) (fw_log w)"

lemma all_posts_of:
  assumes "\<And>slot. slot \<noteq> [] \<Longrightarrow> posts slot w = 0"
  shows "length (all_posts w) = posts [] w"
proof -
  have "all_posts w = filter (is_post []) (fw_log w)"
    unfolding all_posts_def
  proof (rule filter_cong [OF refl])
    fix a assume a: "a \<in> set (fw_log w)"
    have "is_post k a \<Longrightarrow> k = []" for k using assms [of k] a by (auto simp: posts_def filter_empty_conv)
    then show "(\<exists>slot s. a = Posted slot s) = is_post [] a" by (cases a) auto
  qed
  then show ?thesis by (simp add: posts_def)
qed

text \<open>C4: in every run of the executor, whatever executions, retries, replays and recoveries interleave
  and wherever the process stops, at most one order is sent for an intent's slot, its attempt file
  exists by then, and outside a continuous session at most one order is sent at all.
\<close>

theorem fast_post_at_most_once:
  assumes "(fx_moves cfg cy)\<^sup>*\<^sup>* (w, []) (w', fs)" and "fw_log w = []"
  shows "posts slot w' \<le> 1 \<and> (posts slot w' = 1 \<longrightarrow> sl_attempt (files_of w' slot) \<noteq> None)
    \<and> (\<not> fc_continuous cfg \<longrightarrow> length (all_posts w') \<le> 1)"
proof -
  have fresh: "load k (w, []) = 0" for k by (simp add: load_def posts_def assms(2))
  note run = fx_run_load [OF assms(1) fresh]
  have one: "posts k w' \<le> 1" for k using run [of k] by (simp add: load_def)
  have "length (all_posts w') \<le> 1" if "\<not> fc_continuous cfg"
    using run that one by (subst all_posts_of) (auto simp: load_def)
  then show ?thesis using run [of slot] by (auto simp: load_def has_attempt_def)
qed

section \<open>An execution is a run\<close>

lemma record_cases:
  obtains d w' where "record_reply w a reply = (w', Inl d)" | oid d w' where "record_reply w a reply = (w', Inr (Resting a oid d))"
  by (cases reply) (auto simp: record_reply_def Let_def)

lemma fly_is_run:
  assumes "fly cfg env w a = (w', d)"
  shows "(fx_moves cfg cy)\<^sup>*\<^sup>* (w, xs @ Marked a # ys) (w', xs @ ys)"
proof -
  obtain w2 reply where p: "post env (arm cfg w a) a = (w2, reply)" by (rule prod.exhaust)
  have start: "(fx_moves cfg cy)\<^sup>*\<^sup>* (w, xs @ Marked a # ys) (w2, xs @ Answered a reply # ys)"
    by (meson fx_moves.armed fx_moves.posted [OF p] converse_rtranclp_into_rtranclp r_into_rtranclp)
  show ?thesis
  proof (rule record_cases [of w2 a reply])
    fix e w3 assume r: "record_reply w2 a reply = (w3, Inl e)"
    have "w' = w3" using assms by (simp add: fly_def Let_def p r)
    then show ?thesis by (metis start fx_moves.ended [OF r] rtranclp.rtrancl_into_rtrancl)
  next
    fix oid e w3 assume r: "record_reply w2 a reply = (w3, Inr (Resting a oid e))"
    obtain w4 final where q: "probe_rested cfg env w3 a oid e = (w4, final)" by (rule prod.exhaust)
    have w': "w' = write_result (at_slot a) final w4" using assms by (auto simp: fly_def Let_def p r q)
    have "fx_moves cfg cy (w2, xs @ Answered a reply # ys) (w3, xs @ Resting a oid e # ys)" by (rule fx_moves.rested [OF r])
    moreover have "fx_moves cfg cy (w3, xs @ Resting a oid e # ys) (w4, xs @ Probed a final # ys)" by (rule fx_moves.probed [OF q])
    moreover have "fx_moves cfg cy (w4, xs @ Probed a final # ys) (w', xs @ ys)" unfolding w' by (rule fx_moves.stored)
    ultimately show ?thesis by (meson start rtranclp.rtrancl_into_rtrancl)
  qed
qed

text \<open>C26: an execution, as the code composes it, is a run of the step relation beside whatever else is
  in flight: its attempt is created, armed, posted, recorded, probed and stored, or its files replayed.
\<close>

theorem execute_is_run:
  assumes "execute cfg cy env w g ready = (w', r)"
  shows "(fx_moves cfg cy)\<^sup>*\<^sup>* (w, fs) (w', fs)"
proof (cases "slot_of cfg cy (gr_intent_id g) (gr_request_sha256 g)")
  case (Inl e)
  then show ?thesis using assms by (simp add: execute_def)
next
  case (Inr slot)
  show ?thesis
  proof (cases "sl_attempt (files_of w slot)")
    case (Some attempt)
    then have "replay cfg env w slot attempt = (w', r)" using assms Inr by (simp add: execute_def)
    then show ?thesis by (intro r_into_rtranclp fx_moves.replayed [OF Some])
  next
    case None
    show ?thesis
    proof (cases "\<exists>signed t d s. fx_gate cfg env g ready = Inr (Cleared signed t d s)")
      case False
      then have "w' = w" using assms Inr None by (auto simp: execute_def split: sum.splits gate.splits)
      then show ?thesis by simp
    next
      case True
      then obtain signed t d s where gate: "fx_gate cfg env g ready = Inr (Cleared signed t d s)" by blast
      obtain w1 a where m: "mark env w slot g signed t d s = Inr (w1, a)"
        using None by (auto simp: mark_Inr write_attempt_Inr)
      obtain result where f: "fly cfg env w1 a = (w', result)"
        using assms Inr None by (auto simp: execute_def gate m split: prod.splits)
      have "fx_moves cfg cy (w, fs) (w1, Marked a # fs)"
        using fx_moves.begin_attempt [OF Inr gate m, of "[]" fs] by simp
      then show ?thesis using fly_is_run [OF f, of cy "[]" fs] by (metis append_Nil converse_rtranclp_into_rtranclp)
    qed
  qed
qed

section \<open>Past every gate\<close>

text \<open>What an execution adds to the log of calls where it sends its order.\<close>

definition sent_log :: "fx_config \<Rightarrow> string \<Rightarrow> 's \<Rightarrow> post_reply \<Rightarrow> 's action list" where
  "sent_log cfg slot signed reply = (if fc_continuous cfg then [] else [Engaged ''fast-live-one-shot-attempt-consumed''])
     @ Posted slot signed # (case reply of PostAccepted oid status \<Rightarrow> [Cancelled oid] | _ \<Rightarrow> [])"

definition fresh_safety :: "fx_config \<Rightarrow> 's fx_env \<Rightarrow> nat \<Rightarrow> bool" where
  "fresh_safety cfg env i \<longleftrightarrow> (\<exists>now s. xe_safety env i = (now, Some s) \<and> sf_observed_at s \<le> now
     \<and> dval (seconds_dec (now - sf_observed_at s)) \<le> dval (fc_max_safety_age cfg)
     \<and> \<not> sf_blocked s \<and> sf_country s = ''ZA'' \<and> sf_open_orders s = 0 \<and> 5 \<le> dval (sf_collateral s))"

lemma require_fresh_safety_Inr: "require_fresh_safety cfg env i = Inr s \<Longrightarrow> fresh_safety cfg env i"
  by (cases "xe_safety env i")
    (auto simp: require_fresh_safety_def fresh_safety_def retry_def Let_def dcmp dval_int dval_seconds_dec not_less
      FAST_LIVE_TARGET_NOTIONAL_USD_def zero_le_divide_iff split: option.splits if_splits)

lemma gate_Cleared:
  assumes "fx_gate cfg env g ready = Inr (Cleared signed t d s)"
  shows "\<forall>i < 3. \<not> fx_killed env i \<and> fresh_safety cfg env i" and "order_terms g = Inr t" and "signed_order env g t ready = Inr signed"
    and "\<exists>levels. quoted_levels env = Inr levels \<and> marketable_depth levels (PDec (Finite (te_limit t))) (PDec (Finite (te_shares t))) = Inr d"
    and "dp_marketable d"
proof -
  have three: "i = 0 \<or> i = 1 \<or> i = 2" if "i < 3" for i :: nat using that by arith
  show "\<forall>i < 3. \<not> fx_killed env i \<and> fresh_safety cfg env i"
    using assms by (auto simp: fx_gate_def split: if_splits dest!: three dest: require_fresh_safety_Inr)
qed (use assms in \<open>auto simp: fx_gate_def split: if_splits\<close>)

lemma fly_log: "fly cfg env w a = (w', d) \<Longrightarrow> fw_log w' = fw_log w @ sent_log cfg (at_slot a) (at_signed a) (xe_post env (at_signed a))"
  by (auto simp: fly_def arm_def post_def record_reply_def probe_rested_def sent_log_def Let_def
      split: post_reply.splits prod.splits if_splits)

lemma replay_log: "replay cfg env w slot attempt = (w', r) \<Longrightarrow> \<exists>xs. fw_log w' = fw_log w @ map Cancelled xs"
  by (auto simp: replay_def Let_def split: option.splits sum.splits if_splits intro: exI [of _ "[]"] exI [of _ "[oid]" for oid])

text \<open>An execution that sends: the attempt it flew.\<close>

lemma execute_sends:
  assumes "execute cfg cy env w g ready = (w', r)" and "fw_log w' = fw_log w @ calls" and "Posted slot signed \<in> set calls"
  shows "\<exists>t d s w1 a final. slot_of cfg cy (gr_intent_id g) (gr_request_sha256 g) = Inr slot \<and> sl_attempt (files_of w slot) = None
    \<and> fx_gate cfg env g ready = Inr (Cleared signed t d s) \<and> mark env w slot g signed t d s = Inr (w1, a)
    \<and> fly cfg env w1 a = (w', final) \<and> r = Inr final \<and> calls = sent_log cfg slot signed (xe_post env signed)"
proof -
  have sent: "calls \<noteq> map Cancelled xs" for xs using assms(3) by auto
  then have moved: "w' \<noteq> w" using assms(2) by (metis append_self_conv list.simps(8))
  obtain k where k: "slot_of cfg cy (gr_intent_id g) (gr_request_sha256 g) = Inr k"
    using assms(1) moved by (auto simp: execute_def split: sum.splits)
  have none: "sl_attempt (files_of w k) = None"
  proof (rule ccontr)
    assume "sl_attempt (files_of w k) \<noteq> None"
    then obtain attempt where "replay cfg env w k attempt = (w', r)" using assms(1) k by (auto simp: execute_def)
    then show False using replay_log sent assms(2) by (metis same_append_eq)
  qed
  obtain signed' t d s where gate: "fx_gate cfg env g ready = Inr (Cleared signed' t d s)"
    using assms(1) moved k none by (auto simp: execute_def split: sum.splits gate.splits)
  obtain w1 a where m: "mark env w k g signed' t d s = Inr (w1, a)" using none by (auto simp: mark_Inr write_attempt_Inr)
  obtain final where f: "fly cfg env w1 a = (w', final)" "r = Inr final"
    using assms(1) k none by (auto simp: execute_def gate m split: prod.splits)
  have a: "at_slot a = k" "at_signed a = signed'" "fw_log w1 = fw_log w" using m files_of_attempt(2) by (auto simp: mark_Inr)
  have c: "calls = sent_log cfg k signed' (xe_post env signed')" using fly_log [OF f(1)] assms(2) a by simp
  then have "slot = k" "signed = signed'" using assms(3) by (auto simp: sent_log_def split: if_splits post_reply.splits)
  then show ?thesis using k none gate m f c by blast
qed

text \<open>C12: an execution sends an order only where its intent has no attempt file, past three looks at the
  kill switch, three fresh safety snapshots (current, not blocked, from ZA, no open order, five
  dollars of collateral) and a quoted book with depth at its limit; the order it sends is the one
  signed for its terms, once, with the kill switch engaged before unless the session is continuous,
  and a cancellation after exactly where the venue accepted it.
\<close>

theorem execute_post_gated:
  assumes "execute cfg cy env w g ready = (w', r)" and "fw_log w' = fw_log w @ calls" and "Posted slot signed \<in> set calls"
  shows "slot_of cfg cy (gr_intent_id g) (gr_request_sha256 g) = Inr slot \<and> sl_attempt (files_of w slot) = None
    \<and> (\<forall>i < 3. xe_kill env i = Some False \<and> fresh_safety cfg env i)
    \<and> (\<exists>t levels d. order_terms g = Inr t \<and> signed_order env g t ready = Inr signed \<and> quoted_levels env = Inr levels
        \<and> marketable_depth levels (PDec (Finite (te_limit t))) (PDec (Finite (te_shares t))) = Inr d \<and> dp_marketable d)
    \<and> calls = sent_log cfg slot signed (xe_post env signed)"
proof -
  have kill: "\<not> fx_killed env i \<longleftrightarrow> xe_kill env i = Some False" for i by (auto simp: fx_killed_def split: option.splits)
  from execute_sends [OF assms] obtain t d s where x: "slot_of cfg cy (gr_intent_id g) (gr_request_sha256 g) = Inr slot"
    "sl_attempt (files_of w slot) = None" "calls = sent_log cfg slot signed (xe_post env signed)"
    and gate: "fx_gate cfg env g ready = Inr (Cleared signed t d s)" by blast
  show ?thesis using x gate_Cleared [OF gate, unfolded kill] by blast
qed


section \<open>Replays\<close>

lemma dget_dput [simp]: "dget (dput k v d) j = (if j = k then v else dget d j)"
  by (simp add: dget_def dput_def AList.update_conv')

lemma dputs_simps [simp]: "dputs [] d = d" "dputs ((k, v) # kvs) d = dputs kvs (dput k v d)"
  by (simp_all add: dputs_def)

lemma record_ended:
  assumes "record_reply w a reply = (w', Inl d)"
  shows "w' = write_result (at_slot a) d w \<and> \<not> pending_cancel d"
  using assms by (auto simp: record_reply_def outcome_of_post_def trace_of_def pending_cancel_def equals_text_def Let_def
      split: post_reply.splits)

lemma probe_rested_ended: "probe_rested cfg env w a oid d = (w', final) \<Longrightarrow> \<not> pending_cancel final"
  by (auto simp: probe_rested_def pending_cancel_def is_true_def split: prod.splits)

lemma fly_files:
  assumes "fly cfg env w a = (w', d)"
  shows "sl_result (files_of w' (at_slot a)) = Some (Some d) \<and> sl_attempt (files_of w' (at_slot a)) = sl_attempt (files_of w (at_slot a))
    \<and> \<not> pending_cancel d"
proof -
  obtain w2 reply where p: "post env (arm cfg w a) a = (w2, reply)" by (rule prod.exhaust)
  have files: "files_of w2 k = files_of w k" for k using p by (auto simp: post_def arm_def)
  show ?thesis
  proof (rule record_cases [of w2 a reply])
    fix e w3 assume r: "record_reply w2 a reply = (w3, Inl e)"
    then show ?thesis using assms record_ended [OF r] by (auto simp: fly_def Let_def p files)
  next
    fix oid e w3 assume r: "record_reply w2 a reply = (w3, Inr (Resting a oid e))"
    obtain w4 final where q: "probe_rested cfg env w3 a oid e = (w4, final)" by (rule prod.exhaust)
    have "sl_attempt (files_of w4 (at_slot a)) = sl_attempt (files_of w (at_slot a))"
      using record_calm [OF r] probe_calm [OF q] by (simp add: calm_def files)
    then show ?thesis using assms probe_rested_ended [OF q] by (auto simp: fly_def Let_def p r q)
  qed
qed

text \<open>C13: an execution that sent an order and returned a result is answered from its files from then on:
  executing the same intent again, whatever the kill switch, the safety snapshots, the book and the
  venue then say, returns the same result marked as a replay and changes nothing.
\<close>

theorem execute_replays:
  assumes "execute cfg cy env w g ready = (w', r)" and "fw_log w' = fw_log w @ calls" and "Posted slot signed \<in> set calls"
    and "gr_intent_id g' = gr_intent_id g" and "gr_request_sha256 g' = gr_request_sha256 g"
  shows "\<exists>d. r = Inr d \<and> execute cfg cy env' w' g' ready' = (w', Inr (dput ''replayed_result'' (PBool True) d))"
proof -
  from execute_sends [OF assms(1-3)] obtain t d s w1 a final where
    k: "slot_of cfg cy (gr_intent_id g) (gr_request_sha256 g) = Inr slot"
    and m: "mark env w slot g signed t d s = Inr (w1, a)" and f: "fly cfg env w1 a = (w', final)" and r: "r = Inr final" by blast
  have a: "at_slot a = slot" and "sl_attempt (files_of w1 slot) \<noteq> None"
    using m by (auto simp: mark_Inr dest: files_of_attempt(1) [of _ _ _ _ slot])
  then obtain attempt where at: "sl_attempt (files_of w' slot) = Some attempt" using fly_files [OF f] by (auto simp: a)
  have "sl_result (files_of w' slot) = Some (Some final)" "\<not> pending_cancel final" using fly_files [OF f] by (simp_all add: a)
  then show ?thesis using k at r by (simp add: execute_def assms(4,5) replay_def read_file_def)
qed

section \<open>The bounded retry\<close>

lemma execute_rounds_returns:
  assumes "gr_expires_at g - clock (k + n) \<le> max 10000 pause"
  shows "\<exists>w' r. execute_rounds cfg cy envs clock pause g ready k w = Some (w', r)"
  using assms
proof (induction n arbitrary: k w)
  case 0
  have "\<exists>w' r. execute_round cfg cy (envs k) (clock k) pause g ready k w = (w', Some r)"
    using 0 by (auto simp: execute_round_def split: prod.splits sum.splits option.splits)
  then show ?case by (subst execute_rounds.simps) auto
next
  case (Suc n)
  obtain w1 o1 where r: "execute_round cfg cy (envs k) (clock k) pause g ready k w = (w1, o1)" by (rule prod.exhaust)
  have "\<exists>w' r. execute_rounds cfg cy envs clock pause g ready (Suc k) w1 = Some (w', r)"
    by (rule Suc.IH) (use Suc.prems in simp)
  then show ?case using r by (subst execute_rounds.simps) (auto split: option.splits)
qed

text \<open>C38: the retry ends: where the clock ever comes within the pause of the envelope's expiry, it returns,
  whatever fails until then.
\<close>

theorem bounded_retry_returns:
  assumes "gr_expires_at g - clock n \<le> max 10000 pause"
  shows "\<exists>w' r. execute_with_bounded_pre_attempt_retry cfg cy envs clock pause g ready w = Some (w', r)"
  using execute_rounds_returns [of g clock 0 n] assms by (simp add: execute_with_bounded_pre_attempt_retry_def)

section \<open>What is known of an order\<close>

lemma mapping_complete:
  "dget (official_mapping first second @ rest) ''official_reconciliation_complete'' = PBool (reconciliation_complete first second)"
  "dget (official_mapping first second @ rest) ''confirmed_filled_shares'' = PStr (dec_plain (confirmed_shares second))"
  by (simp_all add: official_mapping_def dget_def)

definition settled_at :: "'s fx_env \<Rightarrow> string \<Rightarrow> dec \<Rightarrow> nat \<Rightarrow> order_sample \<Rightarrow> bool" where
  "settled_at env oid requested k s \<longleftrightarrow> (\<exists>a b. xe_sample env (2 * k) = Inr a \<and> xe_sample env (2 * k + 1) = Inr b
     \<and> order_sample_of oid a = Inr s \<and> order_sample_of oid b = Inr s \<and> vs_open_orders b = []
     \<and> (\<forall>f \<in> set (os_fills s). fi_status f = ''CONFIRMED'') \<and> dval (confirmed_shares s) \<le> dval requested)"

lemma probe_settled:
  assumes "probe_official_order_state oid requested (xe_sample env (2 * k)) (xe_sample env (2 * k + 1)) = Inr (first, second)"
    and "reconciliation_complete first second"
  shows "settled_at env oid requested k second"
  using assms by (auto simp: probe_official_order_state_def probe_sample_def reconciliation_complete_def settled_at_def
      other_fills_def order_sample_of_def filter_empty_conv dcmp not_less split: sum.splits)

lemma probe_loop_settled:
  assumes "dget (probe_loop n k env oid requested official) ''official_reconciliation_complete'' = PBool True"
    and "dget official ''official_reconciliation_complete'' \<noteq> PBool True"
  shows "\<exists>j s. j < k + n \<and> settled_at env oid requested j s
    \<and> dget (probe_loop n k env oid requested official) ''confirmed_filled_shares'' = PStr (dec_plain (confirmed_shares s))"
  using assms
proof (induction n arbitrary: k official)
  case (Suc n)
  show ?case
  proof (cases "probe_official_order_state oid requested (xe_sample env (2 * k)) (xe_sample env (2 * k + 1))")
    case (Inl e)
    then show ?thesis using Suc.IH [of "Suc k"] Suc.prems(1) by (simp add: dget_def)
  next
    case (Inr p)
    obtain first second where p: "p = (first, second)" by (rule prod.exhaust)
    show ?thesis
    proof (cases "reconciliation_complete first second")
      case True
      then show ?thesis using probe_settled [OF Inr [unfolded p] True]
        by (intro exI [of _ k] exI [of _ second]) (simp add: Inr [simplified] p mapping_complete Let_def)
    next
      case False
      then show ?thesis using Suc.IH [of "Suc k" "official_mapping first second @ [(''probe_attempts'', PInt (int (Suc k)))]"] Suc.prems(1)
        by (simp add: Inr [simplified] p mapping_complete Let_def)
    qed
  qed
qed simp

text \<open>C22: an order is called reconciled only where two successive listings of the venue agree on it, no
  order is open any more, every fill of it is confirmed and the confirmed shares, which are the ones
  reported, are at most the shares requested.
\<close>

theorem reconciled_order_settled:
  assumes "cancel_and_probe cfg env oid requested = (cancellation, official)"
    and "dget official ''official_reconciliation_complete'' = PBool True"
  shows "\<exists>k s. k < fc_probe_attempts cfg \<and> settled_at env oid requested k s
    \<and> dget official ''confirmed_filled_shares'' = PStr (dec_plain (confirmed_shares s))"
proof -
  let ?none = "[(''official_reconciliation_complete'', PBool False), (''fill_state'', PStr ''official_probe_not_run'')]"
  have "official = probe_loop (fc_probe_attempts cfg) 0 env oid requested ?none" using assms(1) by (simp add: cancel_and_probe_def)
  then show ?thesis using probe_loop_settled [of "fc_probe_attempts cfg" 0 env oid requested ?none] assms(2) by (simp add: dget_def)
qed

section \<open>Recovery\<close>

definition no_pending :: "'s fx_world \<Rightarrow> string \<Rightarrow> bool" where
  "no_pending w slot \<longleftrightarrow> (sl_attempt (files_of w slot) \<noteq> None \<longrightarrow>
     (\<forall>d. sl_result (files_of w slot) = Some (Some d) \<longrightarrow> \<not> is_true (dget d ''cancellation_pending'')))"

lemma finish_pending_done: "\<not> is_true (dget (finish_pending cfg env oid requested d) ''cancellation_pending'')"
  by (simp add: finish_pending_def is_true_def split: prod.splits)

lemma recover_slot_step:
  assumes "recover_slot cfg env slot w = Inr (w', found)"
  shows "no_pending w' slot \<and> (\<forall>k. k \<noteq> slot \<longrightarrow> files_of w' k = files_of w k)"
  using assms
  by (auto simp: finish_pending_done recover_slot_def no_pending_def read_file_def Let_def split: option.splits if_splits)

lemma recover_slots_step:
  assumes "recover_slots cfg envs slots w = (w', Inr ds)"
  shows "(\<forall>k \<in> set slots. no_pending w' k) \<and> (\<forall>k. no_pending w k \<longrightarrow> no_pending w' k) \<and> calm w w'"
  using assms
proof (induction slots arbitrary: w ds)
  case (Cons slot slots)
  obtain w1 found where s: "recover_slot cfg (envs slot) slot w = Inr (w1, found)"
    using Cons.prems by (auto split: sum.splits)
  obtain es where r: "recover_slots cfg envs slots w1 = (w', Inr es)"
    using Cons.prems s by (auto split: sum.splits prod.splits)
  note step = recover_slot_step [OF s]
  have "no_pending w k \<longrightarrow> no_pending w1 k" for k using step by (cases "k = slot") (auto simp: no_pending_def)
  moreover have "calm w w1" by (rule recover_calm [OF s])
  ultimately show ?case using Cons.IH [OF r] step by (auto simp: calm_def)
qed simp

text \<open>C23: a recovery that returns leaves no accepted order whose cancellation is pending in any slot it
  visits, sends nothing and touches no attempt file.
\<close>

theorem recovery_leaves_none_pending:
  assumes "recover_pending_cancellations cfg envs w = (w', Inr ds)"
  shows "(\<forall>slot \<in> set (slots_of cfg w). no_pending w' slot)
    \<and> (\<forall>slot. posts slot w' = posts slot w \<and> sl_attempt (files_of w' slot) = sl_attempt (files_of w slot))"
  using recover_slots_step [OF assms [unfolded recover_pending_cancellations_def]] by (simp add: calm_def)

end
