(* ===== verification/TelegramSafety.thy ===== *)
theory TelegramSafety
  imports TelegramApproval
begin

text \<open>
  What a human approval guarantees: an answer counts only from the user and the private chat it was
  asked in, with its nonce, before its deadline; and an approval given in time passes the last
  check before submission, until its deadline, for the order that was shown and no other.
\<close>

section \<open>Who may answer\<close>

text \<open>C39: a callback is taken for an answer only while its approval is pending and not expired, only from
  the user and the private chat the approval names, and only with the nonce of the approval, which
  approves and declines by different texts.
\<close>

theorem callback_only_from_owner:
  assumes "validate_callback cy update pending (Aware observed off) = Inr ans"
  shows "dget pending ''status'' = PStr ''pending''
    \<and> (\<exists>deadline. ebind (pending_text pending ''expires_at'') (document_instant cy) = Inr deadline \<and> observed < deadline)
    \<and> (\<exists>callback user message chat. dict_of (dget update ''callback_query'') = Some callback
        \<and> dict_of (dget callback ''from'') = Some user \<and> dict_of (dget callback ''message'') = Some message
        \<and> dict_of (dget message ''chat'') = Some chat \<and> str_or_empty (dget chat ''type'') = ''private''
        \<and> py_int (dget_or user ''id'' (PInt 0)) = pending_int pending ''telegram_user_id''
        \<and> py_int (dget_or chat ''id'' (PInt 0)) = pending_int pending ''telegram_chat_id''
        \<and> (\<exists>nonce. pending_text pending ''nonce'' = Inr nonce \<and> str_or_empty (dget callback ''data'') = ans @ '':'' @ nonce))
    \<and> ans \<in> {''approve'', ''skip''}"
proof -
  from assms obtain deadline callback approve skip where
    s: "dget pending ''status'' = PStr ''pending''"
    and d: "ebind (pending_text pending ''expires_at'') (document_instant cy) = Inr deadline" "observed < deadline"
    and c: "dict_of (dget update ''callback_query'') = Some callback" "callback_identity callback pending = Inr ()"
    and t: "ebind (pending_text pending ''nonce'') (callback_data ''approve'') = Inr approve"
      "ebind (pending_text pending ''nonce'') (callback_data ''skip'') = Inr skip"
    and a: "str_or_empty (dget callback ''data'') = approve \<and> ans = ''approve'' \<or> str_or_empty (dget callback ''data'') = skip \<and> ans = ''skip''"
    by (auto simp: validate_callback_def ap_utc_def ap_mapping_def equals_text_def Let_def not_le split: option.splits if_splits)
  have low: "lower ''approve'' = ''approve''" "lower ''skip'' = ''skip''" by code_simp+
  from t obtain nonce where n: "pending_text pending ''nonce'' = Inr nonce" "approve = ''approve'' @ '':'' @ nonce" "skip = ''skip'' @ '':'' @ nonce"
    by (auto simp: callback_data_def low Let_def)
  have "\<exists>user message chat. dict_of (dget callback ''from'') = Some user \<and> dict_of (dget callback ''message'') = Some message
        \<and> dict_of (dget message ''chat'') = Some chat \<and> str_or_empty (dget chat ''type'') = ''private''
        \<and> py_int (dget_or user ''id'' (PInt 0)) = pending_int pending ''telegram_user_id''
        \<and> py_int (dget_or chat ''id'' (PInt 0)) = pending_int pending ''telegram_chat_id''"
    using c(2) by (auto simp: callback_identity_def ap_mapping_def split: option.splits)
  with s d c(1) n a show ?thesis by (elim disjE) (auto simp del: append.simps)
qed

section \<open>From the prompt to the last check\<close>

lemma ap_validate_later:
  assumes "ap_validate cy prepared (Aware a off) m = Inr v" and "b + n * 1000000 \<le> ap_market_end_at v"
  shows "ap_validate cy prepared (Aware b off') n = Inr v"
  using assms by (auto simp: ap_validate_def ap_utc_def aware_utc_def Let_def ap_require_def require_def split: if_splits)

lemma pending_text_simp: "pending_text d k = ebind (dindex d k) (\<lambda>v. Inr (py_str v))"
  by (simp add: pending_text_def)

text \<open>an approval that a person gives in time is accepted by the last check before submission, for the
  order that was shown, at every instant from the answer to the deadline of the prompt.
\<close>

theorem approval_round_trip:
  assumes "new_pending cy token prepared user chat (Aware created off) nonce = Inr pending"
    and "ap_market_end cy prepared = Inr market_end"
    and "expires = min (created + 45000000) (market_end - 10000000)"
    and "cy_parse cy (iso_utc market_end) = Some (Aware market_end 0)" and "cy_parse cy (iso_utc expires) = Some (Aware expires 0)"
    and "cy_parse cy (iso_utc given) = Some (Aware given 0)"
    and "approval_record cy ''approve'' pending query (Aware given off') = Inr approval"
    and "given \<le> observed" and "observed < expires"
  shows "\<exists>h. validate_approved_handoff cy prepared approval (Aware observed off'') = Inr h \<and> ho_approved_at h = given
    \<and> ho_expires_at h = expires \<and> ho_callback_query_id h = query \<and> ho_telegram_user_id h = user \<and> ho_telegram_chat_id h = chat
    \<and> ap_request_sha256 cy prepared = Inr (ap_request h)"
proof -
  from assms(1) obtain v m where v: "ap_validate cy prepared (Aware created off) MIN_APPROVAL_WINDOW_SECONDS = Inr v"
    and m: "document_instant cy (iso_utc (ap_market_end_at v)) = Inr m"
    and p: "pending = [(''schema_version'', PInt 1), (''status'', PStr ''pending''), (''intent_id'', PStr (ap_intent_id v)),
       (''prediction_id'', PStr (ap_prediction_id v)), (''paper_order_id'', PStr (ap_paper_order_id v)),
       (''request_sha256'', PStr (ap_request v)), (''telegram_user_id'', PInt user), (''telegram_chat_id'', PInt chat),
       (''nonce'', PStr (case nonce of None \<Rightarrow> token | Some n \<Rightarrow> n)), (''created_at'', PStr (iso_utc created)),
       (''expires_at'', PStr (iso_utc (min (created + MAX_APPROVAL_LIFETIME_SECONDS * 1000000) (m - SUBMIT_SAFETY_FLOOR_SECONDS * 1000000))))]"
    by (auto simp: new_pending_def ap_utc_def Let_def)
  have m_end: "ap_market_end_at v = market_end" "ap_request_sha256 cy prepared = Inr (ap_request v)"
    using v assms(2) by (auto simp: ap_validate_def Let_def)
  then have "m = market_end" using m assms(4) by (simp add: document_instant_def astimezone_def)
  with assms(3) have deadline: "min (created + MAX_APPROVAL_LIFETIME_SECONDS * 1000000) (m - SUBMIT_SAFETY_FLOOR_SECONDS * 1000000) = expires"
    by (simp add: MAX_APPROVAL_LIFETIME_SECONDS_def SUBMIT_SAFETY_FLOOR_SECONDS_def)
  have low: "lower ''approve'' = ''approve''" by code_simp
  have approval: "approval = [(''schema_version'', PInt 1), (''status'', PStr ''approved''), (''intent_id'', PStr (ap_intent_id v)),
       (''prediction_id'', PStr (ap_prediction_id v)), (''paper_order_id'', PStr (ap_paper_order_id v)),
       (''request_sha256'', PStr (ap_request v)), (''telegram_user_id'', PInt user), (''telegram_chat_id'', PInt chat),
       (''callback_query_id'', PStr query), (''approved_at'', PStr (iso_utc given)), (''expires_at'', PStr (iso_utc expires))]"
    and given: "given < expires"
    using assms(5,7)
    by (auto simp: approval_record_def p deadline ap_utc_def low pending_text_def pending_int_def dindex_def py_int_def
        document_instant_def astimezone_def)
  have floor: "observed + SUBMIT_SAFETY_FLOOR_SECONDS * 1000000 \<le> ap_market_end_at v"
    using assms(3,9) by (simp add: m_end SUBMIT_SAFETY_FLOOR_SECONDS_def)
  have get: "dget approval ''status'' = PStr ''approved''" "dget approval ''intent_id'' = PStr (ap_intent_id v)"
    "dget approval ''prediction_id'' = PStr (ap_prediction_id v)" "dget approval ''paper_order_id'' = PStr (ap_paper_order_id v)"
    "dget approval ''request_sha256'' = PStr (ap_request v)" "dget approval ''callback_query_id'' = PStr query"
    "dget_or approval ''telegram_user_id'' (PInt 0) = PInt user" "dget_or approval ''telegram_chat_id'' (PInt 0) = PInt chat"
    "map_of approval ''approved_at'' = Some (PStr (iso_utc given))" "map_of approval ''expires_at'' = Some (PStr (iso_utc expires))"
    by (simp_all add: approval dget_def dget_or_def)
  have times: "approval_time cy approval ''approved_at'' = Inr given" "approval_time cy approval ''expires_at'' = Inr expires"
    using assms(5,6) by (simp_all add: approval_time_def get ap_utc_def aware_utc_def)
  show ?thesis
    using ap_validate_later [OF v floor, of off''] times assms(8,9) given m_end(2)
    by (simp add: validate_approved_handoff_def ap_utc_def aware_utc_def get equals_text_def py_int_def
        approvable.defs ap_require_def)
qed

end
