(* ===== verification/FastLiveRun.thy ===== *)
theory FastLiveRun
  imports FastExecutorSafety TelegramSafety
begin

text \<open>
  The fast live path at work on concrete values: a prepared order is shown, approved, sealed,
  opened and executed, and what follows: a replay, a recovery and a retry that gives up.
\<close>

section \<open>JSON texts\<close>

text \<open>A document of texts, integers and truth values has a JSON text.\<close>

fun json_plain :: "pyval \<Rightarrow> bool" where
  "json_plain PNone = True"
| "json_plain (PBool b) = True"
| "json_plain (PInt i) = True"
| "json_plain (PStr s) = True"
| "json_plain (PList xs) = list_all json_plain xs"
| "json_plain (PDict d) = list_all (\<lambda>(k, v). json_plain v) d"
| "json_plain v = False"

lemma json_ascii_plain: "json_plain v \<Longrightarrow> \<exists>t. json_ascii strict v = Inr t"
proof (induction v rule: json_plain.induct)
  case (5 xs)
  have "\<exists>ts. emap (json_ascii strict) xs = Inr ts" by (rule emap_total) (use 5 in \<open>auto simp: list_all_iff\<close>)
  then show ?case by auto
next
  case (6 d)
  have "\<exists>ts. emap snd (sort_key fst (map (\<lambda>(k, v). (k, ebind (json_ascii strict v) (\<lambda>t. Inr (ascii_str k @ '':'' @ t)))) d)) = Inr ts"
  proof (rule emap_total)
    fix p assume "p \<in> set (sort_key fst (map (\<lambda>(k, v). (k, ebind (json_ascii strict v) (\<lambda>t. Inr (ascii_str k @ '':'' @ t)))) d))"
    then obtain k v where "(k, v) \<in> set d" and p: "snd p = ebind (json_ascii strict v) (\<lambda>t. Inr (ascii_str k @ '':'' @ t))" by auto
    then have "\<exists>t. json_ascii strict v = Inr t" using 6 by (force simp: list_all_iff)
    then show "\<exists>y. snd p = Inr y" using p by auto
  qed
  then show ?case by auto
qed auto

text \<open>The digests below are constant: evaluation leaves the JSON text they would hash alone.\<close>

definition ascii_text :: "bool \<Rightarrow> pyval \<Rightarrow> string" where
  "ascii_text strict v = projr (json_ascii strict v)"

definition ascii_checked :: "bool \<Rightarrow> pyval \<Rightarrow> string res" where
  "ascii_checked strict v = json_ascii strict v"

lemma json_ascii_code [code]: "json_ascii strict v = (if json_plain v then Inr (ascii_text strict v) else ascii_checked strict v)"
  using json_ascii_plain [of v strict] by (auto simp: ascii_text_def ascii_checked_def)

declare ascii_text_def [code del] ascii_checked_def [code del]

section \<open>Documents\<close>

definition ex_instants :: "int list" where
  "ex_instants = [1000000, 2000000, 3000000, 5000000, 46000000, 50000000, 60000000]"

definition ex_times :: "(string \<times> int) list" where
  "ex_times = [(''1970-01-01T00:00:01+00:00'', 1000000),
     (''1970-01-01T00:00:02+00:00'', 2000000),
     (''1970-01-01T00:00:03+00:00'', 3000000),
     (''1970-01-01T00:00:05+00:00'', 5000000),
     (''1970-01-01T00:00:46+00:00'', 46000000),
     (''1970-01-01T00:00:50+00:00'', 50000000),
     (''1970-01-01T00:01:00+00:00'', 60000000)]"

lemma ex_iso:
  "iso_utc 1000000 = ''1970-01-01T00:00:01+00:00''"
  "iso_utc 2000000 = ''1970-01-01T00:00:02+00:00''"
  "iso_utc 3000000 = ''1970-01-01T00:00:03+00:00''"
  "iso_utc 5000000 = ''1970-01-01T00:00:05+00:00''"
  "iso_utc 46000000 = ''1970-01-01T00:00:46+00:00''"
  "iso_utc 50000000 = ''1970-01-01T00:00:50+00:00''"
  "iso_utc 60000000 = ''1970-01-01T00:01:00+00:00''"
  by code_simp+

definition ex_cy :: crypto where
  "ex_cy = \<lparr>cy_sha256 = (\<lambda>_. replicate 64 CHR ''a''), cy_hmac = (\<lambda>_ _. replicate 64 CHR ''b''),
     cy_parse = (\<lambda>s. map_option (\<lambda>t. Aware t 0) (map_of ex_times s)), cy_local = (\<lambda>t. t)\<rparr>"

definition ex_transport_key :: string where
  "ex_transport_key = replicate 32 CHR ''k''"

definition ex_fast_request :: pydict where
  "ex_fast_request = [(''execution_version'', PStr FAST_LIVE_EXECUTION_VERSION), (''action'', PStr ''BUY''),
     (''selected_side'', PStr ''up''), (''token_id'', PStr ''tok''), (''target_notional_usd'', PStr ''5''),
     (''limit_price'', PStr ''0.5''), (''requested_shares'', PStr ''9'')]"

definition ex_fast_policy :: pydict where
  "ex_fast_policy = [(''policy_version'', PStr FAST_LIVE_POLICY_VERSION), (''max_trade_size_usd'', PStr ''10''),
     (''max_total_exposure_usd'', PStr ''10''), (''max_daily_loss_usd'', PStr ''10''),
     (''max_consecutive_losses'', PInt 1), (''max_submission_attempts'', PInt 1)]"

definition ex_candidate :: pydict where
  "ex_candidate = [(''status'', PStr ''prepared''), (''action'', PStr ''submit''), (''intent_id'', PStr ''i1''),
     (''request_id'', PStr ''r1''), (''risk_decision_id'', PStr ''d1''), (''prediction_id'', PStr ''p1''),
     (''paper_order_id'', PStr ''o1''), (''market_end_at'', PStr ''1970-01-01T00:01:00+00:00''), (''request'', PDict ex_fast_request),
     (''policy'', PDict ex_fast_policy), (''timing'', PDict [(''prepared_observed_at'', PStr ''1970-01-01T00:00:01+00:00'')])]"

definition ex_runtime :: pydict where
  "ex_runtime = [(''authorization_id'', PStr ''auth-1''), (''expires_at'', PStr ''1970-01-01T00:00:50+00:00'')]"

definition ex_valid :: validated where
  "ex_valid = projr (validate_for_runtime ex_cy ex_candidate ex_runtime (Aware 1000000 0))"

definition ex_envelope :: pydict where
  "ex_envelope = projr (create_envelope ex_cy ex_candidate ex_runtime ex_transport_key ''key-1'' (Aware 1000000 0))"

definition ex_opened :: verified where
  "ex_opened = projr (verify_envelope ex_cy ex_envelope ex_runtime ex_transport_key ''key-1'' (Aware 2000000 0))"

lemma ex_plain: "json_plain (PDict ex_candidate)"
  by code_simp

lemma ex_validated: "validate_for_runtime ex_cy ex_candidate ex_runtime (Aware 1000000 0) = Inr ex_valid"
  unfolding ex_valid_def by (rule not_isl_projr) code_simp

lemma ex_valid_end: "vp_market_end_at ex_valid = 60000000" and ex_expiry_text: "fl_time ex_cy (dget ex_runtime ''expires_at'') = Inr 50000000"
  and ex_end_text: "fl_time ex_cy (dget ex_candidate ''market_end_at'') = Inr 60000000"
  by code_simp+

lemma ex_reads_back: "reads_back ex_cy (set ex_instants)"
  by (simp add: reads_back_def ex_instants_def ex_iso ex_cy_def ex_times_def)

lemma ex_parse: "t \<in> set ex_instants \<Longrightarrow> cy_parse ex_cy (iso_utc t) = Some (Aware t 0)"
  using ex_reads_back by (simp add: reads_back_def)

lemma ex_parse_text: "t \<in> set ex_instants \<Longrightarrow> fl_time ex_cy (PStr (iso_utc t)) = Inr t"
  by (rule fl_time_text [OF ex_parse])

lemma ex_hmac: "hmac_like ex_cy"
  by (simp add: hmac_like_def ex_cy_def all_hex_def list_all_iff is_hex_lower_def)

lemma ex_expiry: "carrier_expiry envelope_carrier 1000000 60000000 50000000 = 3000000"
  by code_simp

lemma seal_plain: "json_plain (PDict body) \<Longrightarrow> length key = 32 \<Longrightarrow> \<exists>m. seal cy key body = Inr m"
  using json_ascii_plain [of "PDict body" True] by (auto simp: seal_def mac_of_def fl_require_def require_def simp del: json_ascii.simps)

lemma ex_sealed: "create_envelope ex_cy ex_candidate ex_runtime ex_transport_key ''key-1'' (Aware 1000000 0) = Inr ex_envelope"
proof -
  have "json_plain (PDict (carrier_body envelope_carrier ''key-1'' (str_or_empty (dget ex_runtime ''authorization_id'')) ex_valid ex_candidate 1000000 3000000))"
    using ex_plain by (simp add: carrier_body_def binding_names_def)
  then obtain m where "seal ex_cy ex_transport_key (carrier_body envelope_carrier ''key-1''
      (str_or_empty (dget ex_runtime ''authorization_id'')) ex_valid ex_candidate 1000000 3000000) = Inr m"
    using seal_plain [of _ ex_transport_key ex_cy] by (auto simp: ex_transport_key_def)
  moreover have "\<not> 64 < text_length ''key-1''" by code_simp
  ultimately have "\<exists>m. create_envelope ex_cy ex_candidate ex_runtime ex_transport_key ''key-1'' (Aware 1000000 0) = Inr m"
    using ex_parse_text [of 60000000]
    by (simp add: create_envelope_def create_carrier_def ex_validated ex_valid_end ex_expiry_text ex_expiry fl_utc_def aware_utc_def
        fl_require_def require_def ex_instants_def Let_def)
  then show ?thesis by (auto simp: ex_envelope_def)
qed

theorem envelope_round_trip_witness:
  "\<exists>v. validate_for_runtime ex_cy ex_candidate ex_runtime (Aware 1000000 0) = Inr v
    \<and> verify_envelope ex_cy ex_envelope ex_runtime ex_transport_key ''key-1'' (Aware 2000000 0) = Inr (validated.extend v
      \<lparr>vd_authorization_id = str_or_empty (dget ex_runtime ''authorization_id''), vd_created_at = 1000000, vd_expires_at = 3000000\<rparr>)"
  using envelope_round_trip [OF ex_hmac ex_sealed ex_end_text ex_expiry_text, of 2000000 0] ex_reads_back
  by (simp add: reads_back_def ex_instants_def)

section \<open>An execution\<close>

definition ex_grant :: grant where
  "ex_grant = \<lparr>gr_authorization_id = ''auth-1'', gr_intent_id = ''i1'', gr_prediction_id = ''p1'', gr_paper_order_id = ''o1'',
     gr_request_sha256 = replicate 64 CHR ''a'', gr_request = PDict ex_fast_request, gr_expires_at = 3000000\<rparr>"

definition ex_safety :: safety where
  "ex_safety = \<lparr>sf_observed_at = 1500000, sf_blocked = False, sf_country = ''ZA'', sf_open_orders = 0, sf_collateral = Dec 20 0\<rparr>"

definition ex_trade :: venue_trade where
  "ex_trade = \<lparr>tr_id = ''t1'', tr_taker_order_id = ''x1'', tr_size = PStr ''9'', tr_price = PStr ''0.49'',
     tr_status = ''TRADE_STATUS_CONFIRMED'', tr_makers = [\<lparr>mf_order_id = ''m1'', mf_matched = PStr ''9'', mf_price = PStr ''0.49''\<rparr>]\<rparr>"

definition ex_fast_env :: "string fx_env" where
  "ex_fast_env = \<lparr>xe_kill = (\<lambda>_. Some False), xe_safety = (\<lambda>_. (2000000, Some ex_safety)),
     xe_sign = (\<lambda>token price shares. Inr (''signed '' @ token)), xe_cached = Some [(''0.49'', ''20'')], xe_book = None,
     xe_now = 2000000, xe_post = (\<lambda>_. PostAccepted ''x1'' ''live''), xe_cancel = (\<lambda>_. CancelAnswer [''x1''] []),
     xe_sample = (\<lambda>_. Inr \<lparr>vs_open_orders = [], vs_trades = [ex_trade]\<rparr>)\<rparr>"

definition ex_fast_config :: fx_config where
  "ex_fast_config = \<lparr>fc_max_safety_age = Dec 1 0, fc_probe_attempts = 3, fc_continuous = False\<rparr>"

definition ex_fast_world :: "string fx_world" where
  "ex_fast_world = \<lparr>fw_slots = [], fw_log = []\<rparr>"

definition ex_execution :: "string fx_world \<times> pydict res" where
  "ex_execution = execute ex_fast_config ex_cy ex_fast_env ex_fast_world ex_grant None"

definition ex_sent :: "string action list" where
  "ex_sent = [Engaged ''fast-live-one-shot-attempt-consumed'', Posted '''' ''signed tok'', Cancelled ''x1'']"

lemma ex_executed: "execute ex_fast_config ex_cy ex_fast_env ex_fast_world ex_grant None = (fst ex_execution, snd ex_execution)"
  by (simp add: ex_execution_def)

definition cleared_for :: "string \<Rightarrow> string gate res \<Rightarrow> bool" where
  "cleared_for signed r = (case r of Inr (Cleared s t d q) \<Rightarrow> s = signed | _ \<Rightarrow> False)"

lemma ex_sent_log: "fw_log (fst ex_execution) = fw_log ex_fast_world @ ex_sent"
proof -
  have "cleared_for ''signed tok'' (fx_gate ex_fast_config ex_fast_env ex_grant None)" by code_simp
  then obtain t d q where gate: "fx_gate ex_fast_config ex_fast_env ex_grant None = Inr (Cleared ''signed tok'' t d q)"
    by (auto simp: cleared_for_def split: sum.splits gate.splits)
  have slot: "slot_of ex_fast_config ex_cy (gr_intent_id ex_grant) (gr_request_sha256 ex_grant) = Inr ''''"
    and none: "sl_attempt (files_of ex_fast_world '''') = None"
    by (simp_all add: slot_of_def ex_fast_config_def files_of_def ex_fast_world_def)
  obtain w1 a where m: "mark ex_fast_env ex_fast_world '''' ex_grant ''signed tok'' t d q = Inr (w1, a)"
    using none by (auto simp: mark_Inr write_attempt_Inr)
  have a: "at_slot a = ''''" "at_signed a = ''signed tok''" "fw_log w1 = fw_log ex_fast_world"
    using m files_of_attempt(2) by (auto simp: mark_Inr)
  obtain final where f: "fly ex_fast_config ex_fast_env w1 a = (fst ex_execution, final)"
    using slot none by (cases "fly ex_fast_config ex_fast_env w1 a") (simp add: ex_execution_def execute_def gate m)
  show ?thesis using fly_log [OF f] by (simp add: a sent_log_def ex_sent_def ex_fast_config_def ex_fast_env_def)
qed

lemma ex_posted: "Posted '''' ''signed tok'' \<in> set ex_sent"
  by (simp add: ex_sent_def)

theorem execute_is_run_witness: "(fx_moves ex_fast_config ex_cy)\<^sup>*\<^sup>* (ex_fast_world, []) (fst ex_execution, [])"
  by (rule execute_is_run [OF ex_executed])

theorem fast_post_at_most_once_witness:
  "posts '''' (fst ex_execution) = 1 \<and> sl_attempt (files_of (fst ex_execution) '''') \<noteq> None
    \<and> length (all_posts (fst ex_execution)) \<le> 1"
proof -
  from execute_sends [OF ex_executed ex_sent_log ex_posted] obtain t d s w1 a final where
    slot: "slot_of ex_fast_config ex_cy (gr_intent_id ex_grant) (gr_request_sha256 ex_grant) = Inr ''''"
    and gate: "fx_gate ex_fast_config ex_fast_env ex_grant None = Inr (Cleared ''signed tok'' t d s)"
    and m: "mark ex_fast_env ex_fast_world '''' ex_grant ''signed tok'' t d s = Inr (w1, a)"
    and f: "fly ex_fast_config ex_fast_env w1 a = (fst ex_execution, final)" by blast
  have "fx_moves ex_fast_config ex_cy (ex_fast_world, []) (w1, [Marked a])"
    using fx_moves.begin_attempt [OF slot gate m, of "[]" "[]"] by simp
  then have "(fx_moves ex_fast_config ex_cy)\<^sup>*\<^sup>* (ex_fast_world, []) (fst ex_execution, [])"
    using fly_is_run [OF f, of ex_cy "[]" "[]"] by (metis append_Nil converse_rtranclp_into_rtranclp)
  moreover have "fw_log ex_fast_world = []" by (simp add: ex_fast_world_def)
  ultimately have "posts '''' (fst ex_execution) \<le> 1
      \<and> (posts '''' (fst ex_execution) = 1 \<longrightarrow> sl_attempt (files_of (fst ex_execution) '''') \<noteq> None)
      \<and> (\<not> fc_continuous ex_fast_config \<longrightarrow> length (all_posts (fst ex_execution)) \<le> 1)"
    by (rule fast_post_at_most_once)
  moreover have "posts '''' (fst ex_execution) = 1" by (simp add: posts_def ex_sent_log ex_sent_def ex_fast_world_def)
  ultimately show ?thesis by (simp add: ex_fast_config_def)
qed

theorem execute_post_gated_witness:
  "sl_attempt (files_of ex_fast_world '''') = None \<and> xe_kill ex_fast_env 2 = Some False \<and> fresh_safety ex_fast_config ex_fast_env 2
    \<and> (\<exists>t levels d. order_terms ex_grant = Inr t \<and> signed_order ex_fast_env ex_grant t None = Inr ''signed tok''
        \<and> quoted_levels ex_fast_env = Inr levels
        \<and> marketable_depth levels (PDec (Finite (te_limit t))) (PDec (Finite (te_shares t))) = Inr d \<and> dp_marketable d)
    \<and> ex_sent = sent_log ex_fast_config '''' ''signed tok'' (xe_post ex_fast_env ''signed tok'')"
  using execute_post_gated [OF ex_executed ex_sent_log ex_posted] by simp

text \<open>The replay under an environment in which nothing could be sent.\<close>

definition ex_dark_env :: "string fx_env" where
  "ex_dark_env = ex_fast_env\<lparr>xe_kill := (\<lambda>_. None), xe_safety := (\<lambda>_. (9000000, None))\<rparr>"

theorem execute_replays_witness:
  "\<exists>d. snd ex_execution = Inr d \<and> execute ex_fast_config ex_cy ex_dark_env (fst ex_execution) ex_grant None
    = (fst ex_execution, Inr (dput ''replayed_result'' (PBool True) d))"
  by (rule execute_replays [OF ex_executed ex_sent_log ex_posted]) (simp_all add: ex_grant_def)

definition ex_probe :: "pydict \<times> pydict" where
  "ex_probe = cancel_and_probe ex_fast_config ex_fast_env ''x1'' (Dec 9 0)"

definition ex_seen :: order_sample where
  "ex_seen = projr (order_sample_of ''x1'' \<lparr>vs_open_orders = [], vs_trades = [ex_trade]\<rparr>)"

lemma ex_seen_run: "order_sample_of ''x1'' \<lparr>vs_open_orders = [], vs_trades = [ex_trade]\<rparr> = Inr ex_seen"
  unfolding ex_seen_def by (rule not_isl_projr) code_simp

lemma ex_seen_whole: "reconciliation_complete ex_seen ex_seen" and ex_seen_within: "\<not> dlt (Dec 9 0) (confirmed_shares ex_seen)"
  by code_simp+

lemma ex_probe_seen: "probe_official_order_state ''x1'' (Dec 9 0) (xe_sample ex_fast_env j) (xe_sample ex_fast_env k) = Inr (ex_seen, ex_seen)"
  using ex_seen_within by (simp add: probe_official_order_state_def probe_sample_def ex_fast_env_def ex_seen_run fl_require_def require_def)

theorem reconciled_order_settled_witness:
  "\<exists>k s. k < fc_probe_attempts ex_fast_config \<and> settled_at ex_fast_env ''x1'' (Dec 9 0) k s
    \<and> dget (snd ex_probe) ''confirmed_filled_shares'' = PStr (dec_plain (confirmed_shares s))"
proof (rule reconciled_order_settled)
  show "cancel_and_probe ex_fast_config ex_fast_env ''x1'' (Dec 9 0) = (fst ex_probe, snd ex_probe)" by (simp add: ex_probe_def)
  show "dget (snd ex_probe) ''official_reconciliation_complete'' = PBool True"
    using ex_seen_whole
    by (simp add: ex_probe_def cancel_and_probe_def ex_fast_config_def numeral_3_eq_3 ex_probe_seen mapping_complete Let_def)
qed

text \<open>A stop after the venue accepted the order, and the recovery.\<close>

definition ex_rested :: "string fx_world" where
  "ex_rested = \<lparr>fw_slots = [('''', \<lparr>sl_attempt = Some (Some []), sl_result = Some (Some [(''status'', PStr ''accepted''),
     (''network_submission_attempt_consumed'', PBool True), (''real_order_submitted'', PBool True),
     (''external_order_id'', PStr ''x1''), (''cancellation_pending'', PBool True),
     (''marketability'', PDict [(''requested_shares'', PStr ''9'')])])\<rparr>)], fw_log = [Posted '''' ''signed tok'']\<rparr>"

definition ex_recovery :: "string fx_world \<times> pydict list res" where
  "ex_recovery = recover_pending_cancellations ex_fast_config (\<lambda>_. ex_fast_env) ex_rested"

theorem recovery_leaves_none_pending_witness: "no_pending (fst ex_recovery) '''' \<and> posts '''' (fst ex_recovery) = 1"
proof -
  have "requested_of [(''status'', PStr ''accepted''), (''network_submission_attempt_consumed'', PBool True),
      (''real_order_submitted'', PBool True), (''external_order_id'', PStr ''x1''), (''cancellation_pending'', PBool True),
      (''marketability'', PDict [(''requested_shares'', PStr ''9'')])] ''pending cancellation binding missing''
      ''pending cancellation requested shares'' = Inr (Dec 9 0)" by code_simp
  then have "\<not> isl (snd ex_recovery)"
    by (simp add: ex_recovery_def recover_pending_cancellations_def slots_of_def ex_fast_config_def recover_slot_def files_of_def
        ex_rested_def read_file_def dget_def is_true_def equals_text_def str_or_empty_def dict_of_def
        fl_require_def require_def Let_def)
  then have "recover_pending_cancellations ex_fast_config (\<lambda>_. ex_fast_env) ex_rested = (fst ex_recovery, Inr (projr (snd ex_recovery)))"
    by (metis ex_recovery_def not_isl_projr prod.collapse)
  from recovery_leaves_none_pending [OF this] show ?thesis
    by (simp add: slots_of_def ex_fast_config_def ex_rested_def posts_def)
qed

theorem bounded_retry_returns_witness:
  "\<exists>w r. execute_with_bounded_pre_attempt_retry ex_fast_config ex_cy (\<lambda>_. ex_dark_env) (\<lambda>n. 2000000 + int n * 20000) 20000 ex_grant None ex_fast_world
    = Some (w, r)"
  by (rule bounded_retry_returns [of _ _ 50]) (simp add: ex_grant_def)

section \<open>From the message to the venue\<close>

lemma ex_opened_run: "verify_envelope ex_cy ex_envelope ex_runtime ex_transport_key ''key-1'' (Aware 2000000 0) = Inr ex_opened"
  and ex_opened_value: "ex_opened = validated.extend ex_valid \<lparr>vd_authorization_id = ''auth-1'', vd_created_at = 1000000, vd_expires_at = 3000000\<rparr>"
proof -
  have age: "cr_max_age envelope_carrier = Dec 2 0" by (simp add: envelope_carrier_def FAST_LIVE_MAX_TRANSIT_SECONDS_def)
  have id: "str_or_empty (dget ex_runtime ''authorization_id'') = ''auth-1''" by code_simp
  have "verify_envelope ex_cy ex_envelope ex_runtime ex_transport_key ''key-1'' (Aware 2000000 0)
      = Inr (validated.extend ex_valid \<lparr>vd_authorization_id = ''auth-1'', vd_created_at = 1000000, vd_expires_at = 3000000\<rparr>)"
    by (rule carrier_opens [OF ex_hmac age ex_sealed [unfolded create_envelope_def] ex_end_text ex_expiry_text, unfolded ex_expiry, of 2000000 0])
      (use ex_reads_back in \<open>simp_all add: reads_back_def ex_instants_def verify_envelope_def ex_validated id\<close>)
  then show "verify_envelope ex_cy ex_envelope ex_runtime ex_transport_key ''key-1'' (Aware 2000000 0) = Inr ex_opened"
    and "ex_opened = validated.extend ex_valid \<lparr>vd_authorization_id = ''auth-1'', vd_created_at = 1000000, vd_expires_at = 3000000\<rparr>"
    by (simp_all add: ex_opened_def)
qed

lemma ex_valid_fields:
  "vp_intent_id ex_valid = ''i1''" "vp_prediction_id ex_valid = ''p1''" "vp_paper_order_id ex_valid = ''o1''"
  "vp_request_sha256 ex_valid = replicate 64 CHR ''a''" "vp_prepared_sha256 ex_valid = replicate 64 CHR ''a''"
  "vp_request ex_valid = ex_fast_request"
  by code_simp+

lemma ex_opened_grant: "grant_of ex_opened = ex_grant"
  by (simp add: grant_of_def ex_opened_value validated.defs ex_valid_fields ex_grant_def)


theorem envelope_sound_witness:
  "signed_by ex_cy ex_transport_key ex_envelope
    \<and> str_or_empty (dget ex_envelope ''authorization_id'') = str_or_empty (dget ex_runtime ''authorization_id'')
    \<and> vd_created_at ex_opened \<le> 2000000 \<and> 2000000 < vd_expires_at ex_opened \<and> 2000000 - vd_created_at ex_opened \<le> 2000000
    \<and> 2000000 + 10000000 \<le> vp_market_end_at ex_opened \<and> live_limits (vp_request ex_opened)
    \<and> hash_of ex_cy (vp_request ex_opened) (vp_request_sha256 ex_opened)
    \<and> str_or_empty (dget ex_envelope ''request_sha256'') = vp_request_sha256 ex_opened"
  by (rule envelope_sound [OF ex_opened_run])

definition ex_asks :: "(pyval \<times> pyval) list" where
  "ex_asks = [(PStr ''0.49'', PStr ''20''), (PStr ''0.6'', PStr ''5'')]"

definition ex_depth :: depth where
  "ex_depth = projr (marketable_depth ex_asks (PStr ''0.5'') (PStr ''9''))"

lemma ex_depth_run: "marketable_depth ex_asks (PStr ''0.5'') (PStr ''9'') = Inr ex_depth"
  unfolding ex_depth_def by (rule not_isl_projr) code_simp

theorem marketable_depth_spec_witness:
  "\<exists>qs. list_all2 ask_of ex_asks qs \<and> dp_depth ex_depth = depth_at (dp_limit ex_depth) qs (Dec 0 0)
    \<and> (dp_marketable ex_depth \<longleftrightarrow> (\<exists>q \<in> set qs. dval (fst q) \<le> dval (dp_limit ex_depth)))
    \<and> (dp_full ex_depth \<longleftrightarrow> dval (dp_requested ex_depth) \<le> dval (dp_depth ex_depth))
    \<and> (case dp_best_ask ex_depth of None \<Rightarrow> qs = [] | Some b \<Rightarrow> b \<in> fst ` set qs \<and> (\<forall>q \<in> set qs. dval b \<le> dval (fst q)))
    \<and> 0 < dval (dp_limit ex_depth) \<and> dval (dp_limit ex_depth) \<le> 1 \<and> 0 < dval (dp_requested ex_depth)"
  by (rule marketable_depth_spec [OF ex_depth_run])

section \<open>An approval\<close>

definition ex_pending :: pydict where
  "ex_pending = projr (new_pending ex_cy ''token'' ex_candidate 7 9 (Aware 1000000 0) (Some ''n1''))"

lemma ex_pending_run: "new_pending ex_cy ''token'' ex_candidate 7 9 (Aware 1000000 0) (Some ''n1'') = Inr ex_pending"
  unfolding ex_pending_def by (rule not_isl_projr) code_simp

definition ex_approval :: pydict where
  "ex_approval = projr (approval_record ex_cy ''approve'' ex_pending ''q1'' (Aware 2000000 0))"

lemma ex_approval_run: "approval_record ex_cy ''approve'' ex_pending ''q1'' (Aware 2000000 0) = Inr ex_approval"
  unfolding ex_approval_def by (rule not_isl_projr) code_simp

definition ex_answer :: pydict where
  "ex_answer = [(''callback_query'', PDict [(''from'', PDict [(''id'', PInt 7)]), (''data'', PStr ''approve:n1''),
     (''message'', PDict [(''chat'', PDict [(''type'', PStr ''private''), (''id'', PInt 9)])])])]"

lemma ex_answer_run: "validate_callback ex_cy ex_answer ex_pending (Aware 2000000 0) = Inr ''approve''"
  by code_simp

lemma ex_ap_end: "ap_market_end ex_cy ex_candidate = Inr 60000000"
  by code_simp

theorem callback_only_from_owner_witness:
  "dget ex_pending ''status'' = PStr ''pending''
    \<and> (\<exists>deadline. ebind (pending_text ex_pending ''expires_at'') (document_instant ex_cy) = Inr deadline \<and> 2000000 < deadline)
    \<and> (\<exists>callback user message chat. dict_of (dget ex_answer ''callback_query'') = Some callback
        \<and> dict_of (dget callback ''from'') = Some user \<and> dict_of (dget callback ''message'') = Some message
        \<and> dict_of (dget message ''chat'') = Some chat \<and> str_or_empty (dget chat ''type'') = ''private''
        \<and> py_int (dget_or user ''id'' (PInt 0)) = pending_int ex_pending ''telegram_user_id''
        \<and> py_int (dget_or chat ''id'' (PInt 0)) = pending_int ex_pending ''telegram_chat_id''
        \<and> (\<exists>nonce. pending_text ex_pending ''nonce'' = Inr nonce \<and> str_or_empty (dget callback ''data'') = ''approve'' @ '':'' @ nonce))
    \<and> ''approve'' \<in> {''approve'', ''skip''}"
  by (rule callback_only_from_owner [OF ex_answer_run])

theorem approval_round_trip_witness:
  "\<exists>h. validate_approved_handoff ex_cy ex_candidate ex_approval (Aware 3000000 0) = Inr h \<and> ho_approved_at h = 2000000
    \<and> ho_expires_at h = 46000000 \<and> ho_callback_query_id h = ''q1'' \<and> ho_telegram_user_id h = 7 \<and> ho_telegram_chat_id h = 9
    \<and> ap_request_sha256 ex_cy ex_candidate = Inr (ap_request h)"
  by (rule approval_round_trip [OF ex_pending_run ex_ap_end _ _ _ _ ex_approval_run, of 46000000])
    (simp_all add: ex_parse ex_instants_def)

definition ex_handoff :: handoff where
  "ex_handoff = projr (validate_approved_handoff ex_cy ex_candidate ex_approval (Aware 3000000 0))"

lemma ex_handoff_run: "validate_approved_handoff ex_cy ex_candidate ex_approval (Aware 3000000 0) = Inr ex_handoff"
  unfolding ex_handoff_def by (rule not_isl_projr) code_simp

lemma ex_handoff_fields: "ap_intent_id ex_handoff = ''i1''" "ho_expires_at ex_handoff = 46000000" "ho_approved_at ex_handoff = 2000000"
  by code_simp+

definition ex_approval_body :: pydict where
  "ex_approval_body = approval_body ''key-1'' ''auth-1'' ex_handoff ex_valid ex_valid ex_candidate (replicate 64 CHR ''a'') 3000000 5000000"

definition ex_approved_message :: pydict where
  "ex_approved_message = projr (create_approval_message ex_cy ex_candidate ex_approval ex_runtime ex_transport_key ''key-1'' (Aware 3000000 0) None)"

lemma ex_binding_hash: "payload_sha256 ex_cy (approval_binding ex_handoff ex_valid) = Inr (replicate 64 CHR ''a'')"
  using json_ascii_plain [of "PDict (approval_binding ex_handoff ex_valid)" True]
  by (auto simp: payload_sha256_def document_sha256_def approval_binding_def ex_cy_def simp del: json_ascii.simps)

lemma ex_valid_later: "validate_for_runtime ex_cy ex_candidate ex_runtime (Aware 3000000 0) = Inr ex_valid"
  "validate_for_runtime ex_cy ex_candidate ex_runtime (Aware 4000000 0) = Inr ex_valid"
  by (rule validate_for_runtime_later [OF ex_validated]; simp add: ex_valid_end)+

lemma ex_runtime_id: "str_or_empty (dget ex_runtime ''authorization_id'') = ''auth-1''"
  and ex_runtime_value: "dget ex_runtime ''authorization_id'' = PStr ''auth-1''"
  by code_simp+

lemma ex_approved_sealed: "seal ex_cy ex_transport_key ex_approval_body = Inr ex_approved_message"
proof -
  have "json_plain (PDict ex_approval_body)" using ex_plain by (simp add: ex_approval_body_def approval_body_def approval_binding_def)
  then obtain m where m: "seal ex_cy ex_transport_key ex_approval_body = Inr m" using seal_plain [of ex_approval_body ex_transport_key ex_cy] by (auto simp: ex_transport_key_def)
  have "create_approval_message ex_cy ex_candidate ex_approval ex_runtime ex_transport_key ''key-1'' (Aware 3000000 0) None = Inr m"
    using m ex_parse_text [of 60000000] ex_parse_text [of 46000000]
    by (simp add: create_approval_message_def handoff_for_def ex_handoff_run ex_handoff_fields ex_valid_later same_candidate_def ex_valid_end
        ex_expiry_text ex_instants_def ex_binding_hash ex_approval_body_def ex_runtime_id FAST_LIVE_MAX_TRANSIT_SECONDS_def
        FAST_LIVE_MIN_MARKET_END_SECONDS_def fl_utc_def aware_utc_def fl_require_def require_def Let_def)
  with m show ?thesis by (simp add: ex_approved_message_def)
qed

definition ex_approved :: approved where
  "ex_approved = projr (verify_approval_message ex_cy ex_approved_message ex_runtime ex_transport_key ''key-1'' (Aware 4000000 0))"

lemma ex_approved_run: "verify_approval_message ex_cy ex_approved_message ex_runtime ex_transport_key ''key-1'' (Aware 4000000 0) = Inr ex_approved"
proof -
  have names: "''hmac_sha256'' \<notin> fst ` set ex_approval_body" by (simp add: ex_approval_body_def approval_body_def)
  note opens = seal_Inr [OF ex_approved_sealed ex_hmac names]
  have get: "dget ex_approved_message k = dget ex_approval_body k" if "k \<noteq> ''hmac_sha256''" for k by (rule opens(2) [OF that])
  have fields:
    "dget ex_approved_message ''schema_version'' = PInt 1"
    "dget ex_approved_message ''purpose'' = PStr FAST_LIVE_APPROVAL_PURPOSE"
    "dget ex_approved_message ''key_id'' = PStr ''key-1''"
    "dget ex_approved_message ''authorization_id'' = PStr ''auth-1''"
    "dget ex_approved_message ''intent_id'' = PStr ''i1''"
    "dget ex_approved_message ''request_sha256'' = PStr (replicate 64 CHR ''a'')"
    "dget ex_approved_message ''prepared_sha256'' = PStr (replicate 64 CHR ''a'')"
    "dget ex_approved_message ''prepare_sha256'' = PStr (replicate 64 CHR ''a'')"
    "dget ex_approved_message ''approval_candidate_id'' = PStr ''i1''"
    "dget ex_approved_message ''prepared'' = PDict ex_candidate"
    "dget ex_approved_message ''approval_sha256'' = PStr (replicate 64 CHR ''a'')"
    "dget ex_approved_message ''approval'' = PDict (approval_binding ex_handoff ex_valid)"
    "dget ex_approved_message ''created_at'' = PStr (iso_utc 3000000)"
    "dget ex_approved_message ''expires_at'' = PStr (iso_utc 5000000)"
    by (subst get, simp, simp add: ex_approval_body_def approval_body_def dget_def ex_valid_fields ex_handoff_fields)+
  have window: "open_window ex_cy ''fast live approval'' ex_approved_message 4000000 = Inr (3000000, 5000000)"
    using ex_parse_text [of 3000000] ex_parse_text [of 5000000]
    by (simp add: open_window_def fields ex_instants_def fl_require_def require_def)
  have "all_hex 64 (replicate 64 CHR ''a'')" by code_simp
  moreover have "equals_text (dget (approval_binding ex_handoff ex_valid) ''status'') ''approved''"
    "str_or_empty (dget (approval_binding ex_handoff ex_valid) ''intent_id'') = ''i1''"
    by (simp_all add: approval_binding_def dget_def equals_text_def str_or_empty_def ex_handoff_fields)
  ultimately have bound: "approved_binding ex_cy ex_approved_message
      = Inr (approval_binding ex_handoff ex_valid, replicate 64 CHR ''a'', replicate 64 CHR ''a'', ''i1'')"
    using ex_binding_hash
    by (simp add: approved_binding_def fields dict_of_def fl_mapping_def str_or_empty_def fl_require_def require_def Let_def)
  have instants: "approval_instants ex_cy (approval_binding ex_handoff ex_valid) ex_valid 4000000 = Inr (2000000, 46000000)"
    using ex_parse_text [of 2000000] ex_parse_text [of 46000000]
    by (simp add: approval_instants_def approval_binding_def dget_def str_or_empty_def ex_valid_fields ex_handoff_fields ex_instants_def
        fl_require_def require_def)
  have prepared: "check_prepared_names ex_approved_message ex_valid = Inr ()"
    by (simp add: check_prepared_names_def fields str_or_empty_def ex_valid_fields fl_require_def require_def)
  have "dindex ex_approved_message ''authorization_id'' = Inr (PStr ''auth-1'')"
    by (subst opens(3), simp, simp add: ex_approval_body_def approval_body_def dindex_def)
  then have "\<exists>a. verify_approval_message ex_cy ex_approved_message ex_runtime ex_transport_key ''key-1'' (Aware 4000000 0) = Inr a"
    using opens(1) window bound instants prepared
    by (simp add: verify_approval_message_def fl_utc_def aware_utc_def schema_ok_def open_named_def fields ex_runtime_value
        ex_valid_later dict_of_def fl_mapping_def str_or_empty_def
        equals_int_def equals_text_def number_of_def dcmp dval_int fl_require_def require_def Let_def)
  then show ?thesis by (auto simp: ex_approved_def)
qed


section \<open>A session\<close>

definition ex_authorization :: pydict where
  "ex_authorization = [(''status'', PStr ''AUTHORIZED_CONTINUOUS_SESSION''), (''authorized'', PBool True),
     (''target_notional_usd'', PInt 5), (''max_trade_size_usd'', PInt 10), (''max_total_exposure_usd'', PInt 10),
     (''max_daily_loss_usd'', PInt 10), (''max_consecutive_losses'', PInt 0), (''min_edge'', PFloat ''0.075''),
     (''requires_telegram_approval'', PBool True), (''prediction_version'', PStr FAST_LIVE_PREDICTION_VERSION),
     (''execution_version'', PStr FAST_LIVE_EXECUTION_VERSION), (''executor_country'', PStr ''ZA''),
     (''max_network_submission_attempts_per_intent'', PInt 1), (''authorization_mode'', PStr ''auto-telegram-continuous-v2''),
     (''authorization_id'', PStr ''auth-1''), (''authorized_at_main'', PStr (replicate 40 CHR ''c'')),
     (''auto_approval_contract_git_blob_sha'', PStr auto_approval_contract),
     (''max_transit_seconds'', PInt 2), (''expires_at'', PStr ''1970-01-01T00:00:50+00:00'')]"

definition ex_source_truth :: pydict where
  "ex_source_truth = [(''phase_15_v3_live_canary'', PDict [(FAST_LIVE_SOURCE_KEY, PDict ex_authorization),
     (''operator_telegram_auto_approver'', PDict [(''live_auto_approve_authorized'', PBool True), (''status'', PStr ''ACTIVE_V2''),
       (''approval_contract_git_blob_sha'', PStr auto_approval_contract),
       (''continuous_candidate_prompt_authorized'', PBool True),
       (''continuous_fast_live_auto_approval_authorized'', PBool True)])])]"

lemma ex_source_run:
  "verify_source_authorization ex_cy ex_source_truth (replicate 40 CHR ''c'') (Aware 1000000 0) True True True = Inr ex_authorization"
proof -
  have "\<not> isl (verify_source_authorization ex_cy ex_source_truth (replicate 40 CHR ''c'') (Aware 1000000 0) True True True)" by code_simp
  then obtain a where "verify_source_authorization ex_cy ex_source_truth (replicate 40 CHR ''c'') (Aware 1000000 0) True True True = Inr a"
    by (cases "verify_source_authorization ex_cy ex_source_truth (replicate 40 CHR ''c'') (Aware 1000000 0) True True True") auto
  moreover from this have "a = ex_authorization"
    by (auto simp: verify_source_authorization_def source_authorization_def ex_source_truth_def dget_def dict_of_def Let_def)
  ultimately show ?thesis by simp
qed

theorem source_authorization_sound_witness:
  "\<exists>phase. dict_of (dget ex_source_truth ''phase_15_v3_live_canary'') = Some phase
    \<and> dict_of (dget phase FAST_LIVE_SOURCE_KEY) = Some ex_authorization
    \<and> (auto_active phase \<longleftrightarrow> str_or_empty (dget ex_authorization ''authorization_mode'') \<in> set auto_modes)
    \<and> equals_bool (dget ex_authorization ''authorized'') True \<and> equals_int (dget ex_authorization ''target_notional_usd'') 5
    \<and> equals_int (dget ex_authorization ''max_total_exposure_usd'') 10 \<and> equals_int (dget ex_authorization ''max_daily_loss_usd'') 10
    \<and> (\<exists>expires. fl_time ex_cy (dget ex_authorization ''expires_at'') = Inr expires \<and> 1000000 < expires)"
  using source_authorization_sound [OF ex_source_run] by simp

end
