(* ===== verification/WalkForward.thy ===== *)
theory WalkForward
  imports Canonical
begin

text \<open>
  The walk-forward plan of the back-tests (\<open>bp_engine/backtesting/folds.py\<close>, with its
  configuration and its records in \<open>backtesting/models.py\<close> and the dataset in
  \<open>modeling/models.py\<close>): the markets of a dataset in their order, the windows of every fold, what
  is purged and embargoed between them, and the final holdout. Durations are microseconds.
\<close>

section \<open>Data\<close>

record supervised_row =
  sr_condition_id :: string
  sr_slug :: string
  sr_horizon_seconds :: int
  sr_market_start_at :: pytime
  sr_market_end_at :: pytime
  sr_feature_at :: pytime
  sr_feature_offset_seconds :: int
  sr_predictors :: pydict
  sr_target :: int
  sr_feature_hash :: string
  sr_input_fingerprint :: string

record dataset =
  ds_dataset_version :: string
  ds_feature_version :: string
  ds_label_version :: string
  ds_horizon_seconds :: int
  ds_start :: pytime
  ds_end :: pytime
  ds_rows :: "supervised_row list"
  ds_predictor_names :: "string list"
  ds_dataset_sha256 :: string

record market_record =
  mr_condition_id :: string
  mr_slug :: string
  mr_horizon_seconds :: int
  mr_start :: int
  mr_end :: int
  mr_target :: int

record fold_partition =
  fp_name :: string
  fp_start :: int
  fp_end :: int
  fp_ids :: "string list"

record fold =
  fo_index :: nat
  fo_train :: fold_partition
  fo_validation :: fold_partition
  fo_test :: fold_partition
  fo_purged :: "string list"
  fo_embargo :: "string list"
  fo_membership_sha256 :: string

record plan =
  pl_folds :: "fold list"
  pl_final_train :: fold_partition
  pl_final_validation :: fold_partition
  pl_final_holdout :: fold_partition
  pl_final_purged :: "string list"
  pl_final_embargo :: "string list"
  pl_sha256 :: string

section \<open>Configuration\<close>

record wf_config =
  wf_train :: int
  wf_validation :: int
  wf_test :: int
  wf_step :: int
  wf_holdout :: int
  wf_embargo :: int
  wf_min_train :: int
  wf_min_validation :: int
  wf_min_test :: int
  wf_min_price_coverage :: string
  wf_min_prediction_coverage :: string

text \<open>The coverages are floats, given by their \<open>repr\<close>.\<close>

definition unit_float :: "string \<Rightarrow> bool" where
  "unit_float t = (case read_decimal t of Some (Finite d) \<Rightarrow> dle d0 d \<and> dle d d1 | _ \<Rightarrow> False)"

definition all_checks :: "(string \<times> bool) list \<Rightarrow> string \<Rightarrow> unit res" where
  "all_checks checks text = efold (\<lambda>(name, ok) _. require ok (ValueError (name @ text))) checks ()"

definition wf_config_post_init :: "wf_config \<Rightarrow> wf_config res" where
  "wf_config_post_init c =
     ebind (all_checks [(''train_duration'', 0 < wf_train c), (''validation_duration'', 0 < wf_validation c),
       (''test_duration'', 0 < wf_test c), (''step_duration'', 0 < wf_step c),
       (''final_holdout_duration'', 0 < wf_holdout c)] '' must be positive'') (\<lambda>_.
     ebind (require (\<not> wf_step c < wf_test c) (ValueError ''step_duration must be at least test_duration'')) (\<lambda>_.
     ebind (require (\<not> wf_embargo c < 0) (ValueError ''embargo_markets must be non-negative'')) (\<lambda>_.
     ebind (all_checks [(''min_train_markets'', 0 < wf_min_train c), (''min_validation_markets'', 0 < wf_min_validation c),
       (''min_test_markets'', 0 < wf_min_test c)] '' must be positive'') (\<lambda>_.
     ebind (all_checks [(''min_market_price_coverage'', unit_float (wf_min_price_coverage c)),
       (''min_prediction_coverage'', unit_float (wf_min_prediction_coverage c))] '' must be within [0, 1]'') (\<lambda>_.
     Inr c)))))"

section \<open>The timeline\<close>

definition require_aware :: "string \<Rightarrow> pytime \<Rightarrow> int res" where
  "require_aware name t = aware_utc (ValueError (name @ '' must be timezone-aware'')) t"

text \<open>Aware datetimes are equal by their instants, and to no naive one.\<close>

definition same_time :: "pytime \<Rightarrow> pytime \<Rightarrow> bool" where
  "same_time t u = (case (t, u) of (Aware a _, Aware b _) \<Rightarrow> a = b | (Naive a, Naive b) \<Rightarrow> a = b | _ \<Rightarrow> False)"

definition same_market :: "supervised_row \<Rightarrow> supervised_row \<Rightarrow> bool" where
  "same_market r q \<longleftrightarrow> sr_slug r = sr_slug q \<and> sr_horizon_seconds r = sr_horizon_seconds q
     \<and> same_time (sr_market_start_at r) (sr_market_start_at q) \<and> same_time (sr_market_end_at r) (sr_market_end_at q)
     \<and> sr_target r = sr_target q"

text \<open>Groups in the order of their first row.\<close>

definition condition_order :: "supervised_row list \<Rightarrow> string list" where
  "condition_order rows = rev (remdups (rev (map sr_condition_id rows)))"

definition group_of :: "supervised_row list \<Rightarrow> string \<Rightarrow> supervised_row list" where
  "group_of rows cid = filter (\<lambda>r. sr_condition_id r = cid) rows"

definition metadata_mismatch :: "string \<Rightarrow> exn" where
  "metadata_mismatch cid = ValueError (''static market metadata mismatch for condition_id='' @ cid)"

definition market_of :: "int \<Rightarrow> string \<Rightarrow> supervised_row list \<Rightarrow> market_record res" where
  "market_of horizon cid rows = (case rows of [] \<Rightarrow> Inl IndexError | first # rest \<Rightarrow>
     ebind (require_aware ''market_start_at'' (sr_market_start_at first)) (\<lambda>start.
     ebind (require_aware ''market_end_at'' (sr_market_end_at first)) (\<lambda>stop.
     ebind (require (list_all (same_market first) rest) (metadata_mismatch cid)) (\<lambda>_.
     ebind (require (sr_horizon_seconds first = horizon) (metadata_mismatch cid)) (\<lambda>_.
     ebind (require (\<not> stop \<le> start) (ValueError ''market_end_at must be after market_start_at'')) (\<lambda>_.
     ebind (require (sr_target first \<in> {0, 1}) (ValueError ''target must be binary'')) (\<lambda>_.
     Inr \<lparr>mr_condition_id = cid, mr_slug = sr_slug first, mr_horizon_seconds = sr_horizon_seconds first,
       mr_start = start, mr_end = stop, mr_target = sr_target first\<rparr>)))))))"

text \<open>Sorted by start and, at the same start, by condition id.\<close>

definition build_market_timeline :: "dataset \<Rightarrow> market_record list res" where
  "build_market_timeline ds =
     ebind (emap (\<lambda>cid. market_of (ds_horizon_seconds ds) cid (group_of (ds_rows ds) cid)) (condition_order (ds_rows ds))) (\<lambda>ms.
     Inr (sort_key mr_start (sort_key mr_condition_id ms)))"

section \<open>Partitions\<close>

definition contained :: "market_record list \<Rightarrow> int \<Rightarrow> int \<Rightarrow> market_record list" where
  "contained timeline start stop = filter (\<lambda>m. start \<le> mr_start m \<and> mr_end m \<le> stop) timeline"

definition crosses_boundary :: "market_record \<Rightarrow> int \<Rightarrow> bool" where
  "crosses_boundary m boundary \<longleftrightarrow> mr_start m < boundary \<and> boundary < mr_end m"

definition purged_at_boundaries :: "market_record list \<Rightarrow> int list \<Rightarrow> string list" where
  "purged_at_boundaries timeline boundaries =
     map mr_condition_id (filter (\<lambda>m. list_ex (crosses_boundary m) boundaries) timeline)"

text \<open>\<open>records[:-count]\<close> and \<open>records[-count:]\<close>.\<close>

definition embargo_earlier_partition :: "market_record list \<Rightarrow> int \<Rightarrow> market_record list \<times> string list" where
  "embargo_earlier_partition records count =
     (if count = 0 then (records, [])
      else (take (length records - nat count) records, map mr_condition_id (drop (length records - nat count) records)))"

definition partition_of :: "string \<Rightarrow> int \<Rightarrow> int \<Rightarrow> market_record list \<Rightarrow> fold_partition" where
  "partition_of name start stop records =
     \<lparr>fp_name = name, fp_start = start, fp_end = stop, fp_ids = map mr_condition_id records\<rparr>"

definition target_of :: "market_record list \<Rightarrow> string \<Rightarrow> int option" where
  "target_of timeline cid = map_option mr_target (find (\<lambda>m. mr_condition_id m = cid) timeline)"

definition validate_partition :: "market_record list \<Rightarrow> fold_partition \<Rightarrow> int \<Rightarrow> unit res" where
  "validate_partition timeline p minimum =
     ebind (require (\<not> int (length (fp_ids p)) < minimum) (FoldEligibilityError (fp_name p @ '' requires at least ''
       @ show_int minimum @ '' markets; found '' @ show_int (int (length (fp_ids p)))))) (\<lambda>_.
     require (set (map (target_of timeline) (fp_ids p)) = {Some 0, Some 1})
       (FoldEligibilityError (fp_name p @ '' must contain both classes'')))"

definition id_list :: "string list \<Rightarrow> pyval" where
  "id_list ids = PList (map PStr ids)"

definition partition_payload :: "fold_partition \<Rightarrow> pyval" where
  "partition_payload p = PDict [(''start'', PTime (Aware (fp_start p) 0)), (''end'', PTime (Aware (fp_end p) 0)),
     (''condition_ids'', id_list (fp_ids p))]"

definition membership_hash ::
  "(string \<Rightarrow> string) \<Rightarrow> nat \<Rightarrow> fold_partition \<Rightarrow> fold_partition \<Rightarrow> fold_partition \<Rightarrow> string list \<Rightarrow> string list \<Rightarrow> string res" where
  "membership_hash H index train validation test purged embargo = canonical_hash H (PDict
     [(''index'', PInt (int index)), (''train'', partition_payload train), (''validation'', partition_payload validation),
      (''test'', partition_payload test), (''purged_condition_ids'', id_list purged), (''embargo_condition_ids'', id_list embargo)])"

text \<open>\<open>fl\<close> is the \<open>repr\<close> of a \<open>timedelta.total_seconds()\<close>.\<close>

definition config_payload :: "(int \<Rightarrow> string) \<Rightarrow> wf_config \<Rightarrow> pyval" where
  "config_payload fl c = PDict
     [(''train_duration_seconds'', PFloat (fl (wf_train c))), (''validation_duration_seconds'', PFloat (fl (wf_validation c))),
      (''test_duration_seconds'', PFloat (fl (wf_test c))), (''step_duration_seconds'', PFloat (fl (wf_step c))),
      (''final_holdout_duration_seconds'', PFloat (fl (wf_holdout c))), (''embargo_markets'', PInt (wf_embargo c)),
      (''min_train_markets'', PInt (wf_min_train c)), (''min_validation_markets'', PInt (wf_min_validation c)),
      (''min_test_markets'', PInt (wf_min_test c)), (''min_market_price_coverage'', PFloat (wf_min_price_coverage c)),
      (''min_prediction_coverage'', PFloat (wf_min_prediction_coverage c))]"

section \<open>Folds\<close>

text \<open>
  The three windows of a fold and of the final evaluation are cut from the timeline the same way:
  \<open>a\<close>, \<open>b\<close>, \<open>c\<close>, \<open>d\<close> are their boundaries and \<open>names\<close> what they are called.
\<close>

record cut =
  cu_train :: fold_partition
  cu_validation :: fold_partition
  cu_test :: fold_partition
  cu_purged :: "string list"
  cu_embargo :: "string list"

definition cut_timeline ::
  "wf_config \<Rightarrow> market_record list \<Rightarrow> string \<times> string \<times> string \<Rightarrow> int \<Rightarrow> int \<Rightarrow> int \<Rightarrow> int \<Rightarrow> cut res" where
  "cut_timeline cfg timeline names a b c d =
     (let (train_name, validation_name, test_name) = names;
          (train_records, train_embargo) = embargo_earlier_partition (contained timeline a b) (wf_embargo cfg);
          (validation_records, validation_embargo) = embargo_earlier_partition (contained timeline b c) (wf_embargo cfg);
          train = partition_of train_name a b train_records;
          validation = partition_of validation_name b c validation_records;
          test = partition_of test_name c d (contained timeline c d) in
      ebind (validate_partition timeline train (wf_min_train cfg)) (\<lambda>_.
      ebind (validate_partition timeline validation (wf_min_validation cfg)) (\<lambda>_.
      ebind (validate_partition timeline test (wf_min_test cfg)) (\<lambda>_.
      Inr \<lparr>cu_train = train, cu_validation = validation, cu_test = test,
        cu_purged = purged_at_boundaries timeline [a, b, c, d], cu_embargo = train_embargo @ validation_embargo\<rparr>))))"

definition fold_at :: "(string \<Rightarrow> string) \<Rightarrow> wf_config \<Rightarrow> market_record list \<Rightarrow> nat \<Rightarrow> int \<Rightarrow> fold res" where
  "fold_at H cfg timeline index start =
     (let b = start + wf_train cfg; c = b + wf_validation cfg; d = c + wf_test cfg in
      ebind (cut_timeline cfg timeline (''train'', ''validation'', ''test'') start b c d) (\<lambda>u.
      ebind (membership_hash H index (cu_train u) (cu_validation u) (cu_test u) (cu_purged u) (cu_embargo u)) (\<lambda>sha.
      Inr \<lparr>fo_index = index, fo_train = cu_train u, fo_validation = cu_validation u, fo_test = cu_test u,
        fo_purged = cu_purged u, fo_embargo = cu_embargo u, fo_membership_sha256 = sha\<rparr>)))"

definition fold_ends :: "wf_config \<Rightarrow> int \<Rightarrow> int" where
  "fold_ends cfg start = start + wf_train cfg + wf_validation cfg + wf_test cfg"

text \<open>The loop over the folds; \<open>None\<close> is a loop that never ends.\<close>

partial_function (option) folds_from ::
  "(string \<Rightarrow> string) \<Rightarrow> wf_config \<Rightarrow> market_record list \<Rightarrow> int \<Rightarrow> nat \<Rightarrow> int \<Rightarrow> fold list res option" where
  "folds_from H cfg timeline holdout index start =
     (if holdout < fold_ends cfg start then Some (Inr [])
      else (case fold_at H cfg timeline index start of
          Inl e \<Rightarrow> Some (Inl e)
        | Inr f \<Rightarrow> Option.bind (folds_from H cfg timeline holdout (Suc index) (start + wf_step cfg))
            (\<lambda>r. Some (ebind r (\<lambda>fs. Inr (f # fs))))))"

section \<open>The plan\<close>

definition final_plan ::
  "(string \<Rightarrow> string) \<Rightarrow> (int \<Rightarrow> string) \<Rightarrow> wf_config \<Rightarrow> string \<Rightarrow> market_record list \<Rightarrow> int \<Rightarrow> int \<Rightarrow> int \<Rightarrow> fold list \<Rightarrow> plan res" where
  "final_plan H fl cfg dataset_sha timeline start holdout stop folds =
     (let b = holdout - wf_validation cfg; a = b - wf_train cfg in
      ebind (require (\<not> length folds < 3) (FoldEligibilityError (''walk-forward plan requires at least 3 eligible folds; found ''
        @ show_int (int (length folds))))) (\<lambda>_.
      ebind (require (\<not> a < start) (FoldEligibilityError ''final train window begins before dataset start'')) (\<lambda>_.
      ebind (cut_timeline cfg timeline (''final_train'', ''final_validation'', ''final_holdout'') a b holdout stop) (\<lambda>u.
      ebind (canonical_hash H (PDict [(''train'', id_list (fp_ids (cu_train u))), (''validation'', id_list (fp_ids (cu_validation u))),
        (''holdout'', id_list (fp_ids (cu_test u))), (''purged'', id_list (cu_purged u)), (''embargo'', id_list (cu_embargo u))])) (\<lambda>final_sha.
      ebind (canonical_hash H (PDict [(''dataset_sha256'', PStr dataset_sha), (''config'', config_payload fl cfg),
        (''folds'', id_list (map fo_membership_sha256 folds)), (''final_membership_sha256'', PStr final_sha)])) (\<lambda>sha.
      Inr \<lparr>pl_folds = folds, pl_final_train = cu_train u, pl_final_validation = cu_validation u, pl_final_holdout = cu_test u,
        pl_final_purged = cu_purged u, pl_final_embargo = cu_embargo u, pl_sha256 = sha\<rparr>))))))"

definition plan_window :: "wf_config \<Rightarrow> dataset \<Rightarrow> (int \<times> int \<times> int \<times> market_record list) res" where
  "plan_window cfg ds =
     ebind (require_aware ''dataset.start'' (ds_start ds)) (\<lambda>start.
     ebind (require_aware ''dataset.end'' (ds_end ds)) (\<lambda>stop.
     ebind (require (\<not> stop \<le> start) (ValueError ''dataset.start must be before dataset.end'')) (\<lambda>_.
     ebind (build_market_timeline ds) (\<lambda>timeline.
     let holdout = stop - wf_holdout cfg in
     ebind (require (\<not> holdout \<le> start) (FoldEligibilityError ''final holdout leaves no walk-forward history'')) (\<lambda>_.
     Inr (start, holdout, stop, timeline))))))"

definition build_walk_forward_plan ::
  "(string \<Rightarrow> string) \<Rightarrow> (int \<Rightarrow> string) \<Rightarrow> dataset \<Rightarrow> wf_config \<Rightarrow> plan res option" where
  "build_walk_forward_plan H fl ds cfg = (case plan_window cfg ds of
       Inl e \<Rightarrow> Some (Inl e)
     | Inr (start, holdout, stop, timeline) \<Rightarrow>
         Option.bind (folds_from H cfg timeline holdout 0 start) (\<lambda>r.
           Some (ebind r (final_plan H fl cfg (ds_dataset_sha256 ds) timeline start holdout stop))))"

end
