(* ===== verification/WalkForwardSafety.thy ===== *)
theory WalkForwardSafety
  imports WalkForward
begin

text \<open>
  What a walk-forward plan guarantees: the loop over its folds ends; no market of a later
  partition starts before every market of an earlier one has ended, within a fold, between folds and
  before the final holdout; and every market of a fold's window is in exactly one of its partitions,
  embargoed or purged.
\<close>

section \<open>The timeline\<close>

lemma all_checks_Inr: "all_checks checks text = Inr u \<longleftrightarrow> (\<forall>(n, ok) \<in> set checks. ok)"
  by (induction checks) (auto simp: all_checks_def)

lemma wf_config_valid:
  assumes "wf_config_post_init c0 = Inr c"
  shows "c = c0" "0 < wf_train c" "0 < wf_validation c" "0 < wf_test c" "wf_test c \<le> wf_step c" "0 < wf_holdout c" "0 \<le> wf_embargo c"
  using assms by (auto simp: wf_config_post_init_def all_checks_Inr)

definition timeline_ok :: "dataset \<Rightarrow> market_record list \<Rightarrow> bool" where
  "timeline_ok ds line \<longleftrightarrow> distinct (map mr_condition_id line) \<and> sorted (map mr_start line) \<and> (\<forall>m \<in> set line. mr_start m < mr_end m)
     \<and> (\<forall>r \<in> set (ds_rows ds). \<exists>m \<in> set line. mr_condition_id m = sr_condition_id r
          \<and> mr_start m = instant (sr_market_start_at r) \<and> mr_end m = instant (sr_market_end_at r))"

lemma condition_order_set: "set (condition_order rows) = sr_condition_id ` set rows" "distinct (condition_order rows)"
  by (simp_all add: condition_order_def)

lemma same_time_instant: "same_time t u \<Longrightarrow> instant t = instant u"
  by (auto simp: same_time_def instant_def split: pytime.splits)

lemma market_of_Inr:
  assumes "market_of horizon cid rows = Inr m"
  shows "mr_condition_id m = cid" "mr_start m < mr_end m"
    and "r \<in> set rows \<Longrightarrow> mr_start m = instant (sr_market_start_at r) \<and> mr_end m = instant (sr_market_end_at r)"
  using assms
  by (auto simp: market_of_def require_aware_def same_market_def instant_def list_all_iff
      dest!: same_time_instant split: list.splits)

lemma emap_members: "emap f xs = Inr ys \<Longrightarrow> list_all2 (\<lambda>x y. f x = Inr y) xs ys"
  by (induction xs arbitrary: ys) auto

lemma build_market_timeline_ok:
  assumes "build_market_timeline ds = Inr line"
  shows "timeline_ok ds line"
proof -
  let ?cids = "condition_order (ds_rows ds)"
  from assms obtain ms where ms: "emap (\<lambda>cid. market_of (ds_horizon_seconds ds) cid (group_of (ds_rows ds) cid)) ?cids = Inr ms"
    and line: "line = sort_key mr_start (sort_key mr_condition_id ms)"
    by (auto simp: build_market_timeline_def)
  have all: "list_all2 (\<lambda>cid m. market_of (ds_horizon_seconds ds) cid (group_of (ds_rows ds) cid) = Inr m) ?cids ms"
    by (rule emap_members [OF ms])
  then have ids: "map mr_condition_id ms = ?cids"
    by (induction rule: list_all2_induct) (auto dest: market_of_Inr(1))
  have "distinct (map mr_condition_id line)"
    using condition_order_set(2) [of "ds_rows ds"] by (simp add: line distinct_map flip: ids)
  moreover have "sorted (map mr_start line)" by (simp add: line)
  moreover have "mr_start m < mr_end m" if "m \<in> set line" for m
    using that all by (auto simp: line list_all2_conv_all_nth in_set_conv_nth dest: market_of_Inr(2))
  moreover have "\<exists>m \<in> set line. mr_condition_id m = sr_condition_id r \<and> mr_start m = instant (sr_market_start_at r)
      \<and> mr_end m = instant (sr_market_end_at r)" if r: "r \<in> set (ds_rows ds)" for r
  proof -
    from r have "sr_condition_id r \<in> set ?cids" by (simp add: condition_order_set(1))
    then obtain i where i: "i < length ?cids" "?cids ! i = sr_condition_id r" by (auto simp: in_set_conv_nth)
    then have m: "market_of (ds_horizon_seconds ds) (sr_condition_id r) (group_of (ds_rows ds) (sr_condition_id r)) = Inr (ms ! i)"
      and len: "i < length ms" using all by (auto simp: list_all2_conv_all_nth)
    have "r \<in> set (group_of (ds_rows ds) (sr_condition_id r))" using r by (simp add: group_of_def)
    from market_of_Inr(3) [OF m this] market_of_Inr(1) [OF m] len show ?thesis by (auto simp: line)
  qed
  ultimately show ?thesis by (auto simp: timeline_ok_def)
qed

section \<open>Cutting\<close>

lemma embargo_sets:
  assumes "embargo_earlier_partition records count = (kept, removed)"
  shows "map mr_condition_id records = map mr_condition_id kept @ removed" "set kept \<subseteq> set records"
  using assms by (auto simp: embargo_earlier_partition_def simp flip: map_append split: if_splits dest: in_set_takeD)

lemma cut_timeline_Inr:
  assumes "cut_timeline cfg line names a b c d = Inr u"
  shows "fp_ids (cu_test u) = map mr_condition_id (contained line c d)"
    and "cu_purged u = purged_at_boundaries line [a, b, c, d]"
    and "\<exists>es fs. cu_embargo u = es @ fs \<and> map mr_condition_id (contained line a b) = fp_ids (cu_train u) @ es
      \<and> map mr_condition_id (contained line b c) = fp_ids (cu_validation u) @ fs"
  using assms
  by (auto simp: cut_timeline_def partition_of_def Let_def split: prod.splits dest!: embargo_sets(1) simp flip: map_append)

definition before :: "dataset \<Rightarrow> string list \<Rightarrow> string list \<Rightarrow> bool" where
  "before ds ids ids' \<longleftrightarrow> (\<forall>r \<in> set (ds_rows ds). \<forall>q \<in> set (ds_rows ds).
     sr_condition_id r \<in> set ids \<longrightarrow> sr_condition_id q \<in> set ids' \<longrightarrow> instant (sr_market_end_at r) \<le> instant (sr_market_start_at q))"

lemma row_market:
  assumes "timeline_ok ds line" and "r \<in> set (ds_rows ds)" and "m \<in> set line" and "mr_condition_id m = sr_condition_id r"
  shows "mr_start m = instant (sr_market_start_at r) \<and> mr_end m = instant (sr_market_end_at r)"
proof -
  from assms(1,2) obtain m' where m': "m' \<in> set line" "mr_condition_id m' = sr_condition_id r"
    "mr_start m' = instant (sr_market_start_at r) \<and> mr_end m' = instant (sr_market_end_at r)" by (auto simp: timeline_ok_def)
  have "inj_on mr_condition_id (set line)" using assms(1) by (simp add: timeline_ok_def distinct_map)
  then have "m = m'" by (rule inj_onD) (use assms(3,4) m' in simp_all)
  with m' show ?thesis by simp
qed

text \<open>Markets of windows that follow each other follow each other.\<close>

lemma windows_before:
  assumes "timeline_ok ds line" and "b \<le> c"
    and "set ids \<subseteq> mr_condition_id ` set (contained line a b)" and "set ids' \<subseteq> mr_condition_id ` set (contained line c d)"
  shows "before ds ids ids'"
proof (unfold before_def, intro ballI impI)
  fix r q assume r: "r \<in> set (ds_rows ds)" and q: "q \<in> set (ds_rows ds)"
    and ids: "sr_condition_id r \<in> set ids" "sr_condition_id q \<in> set ids'"
  from ids(1) assms(3) obtain m where m: "m \<in> set line" "mr_end m \<le> b" "mr_condition_id m = sr_condition_id r"
    by (force simp: contained_def)
  from ids(2) assms(4) obtain n where n: "n \<in> set line" "c \<le> mr_start n" "mr_condition_id n = sr_condition_id q"
    by (force simp: contained_def)
  show "instant (sr_market_end_at r) \<le> instant (sr_market_start_at q)"
    using row_market [OF assms(1) r m(1,3)] row_market [OF assms(1) q n(1,3)] m(2) n(2) assms(2) by linarith
qed

lemma cut_within:
  assumes "cut_timeline cfg line names a b c d = Inr u"
  shows "set (fp_ids (cu_train u)) \<subseteq> mr_condition_id ` set (contained line a b)"
    and "set (fp_ids (cu_validation u)) \<subseteq> mr_condition_id ` set (contained line b c)"
    and "set (fp_ids (cu_test u)) \<subseteq> mr_condition_id ` set (contained line c d)"
proof -
  from cut_timeline_Inr(3) [OF assms] obtain es fs where
    "set (map mr_condition_id (contained line a b)) = set (fp_ids (cu_train u) @ es)"
    "set (map mr_condition_id (contained line b c)) = set (fp_ids (cu_validation u) @ fs)" by metis
  then show "set (fp_ids (cu_train u)) \<subseteq> mr_condition_id ` set (contained line a b)"
    "set (fp_ids (cu_validation u)) \<subseteq> mr_condition_id ` set (contained line b c)" by auto
  show "set (fp_ids (cu_test u)) \<subseteq> mr_condition_id ` set (contained line c d)" by (simp add: cut_timeline_Inr(1) [OF assms])
qed

lemma cut_before:
  assumes "timeline_ok ds line" and "cut_timeline cfg line names a b c d = Inr u"
  shows "before ds (fp_ids (cu_train u)) (fp_ids (cu_validation u))" "before ds (fp_ids (cu_validation u)) (fp_ids (cu_test u))"
  by (rule windows_before [OF assms(1) order_refl cut_within(1) [OF assms(2)] cut_within(2) [OF assms(2)]])
    (rule windows_before [OF assms(1) order_refl cut_within(2) [OF assms(2)] cut_within(3) [OF assms(2)]])

section \<open>Folds\<close>

lemma fold_at_cut:
  assumes "fold_at H cfg line index start = Inr f"
  obtains u where "cut_timeline cfg line (''train'', ''validation'', ''test'') start (start + wf_train cfg)
      (start + wf_train cfg + wf_validation cfg) (fold_ends cfg start) = Inr u"
    and "fo_train f = cu_train u" "fo_validation f = cu_validation u" "fo_test f = cu_test u" "fo_purged f = cu_purged u"
      "fo_embargo f = cu_embargo u"
  using assms by (auto simp: fold_at_def fold_ends_def Let_def)

text \<open>The folds that were built: each from its start, the starts one step apart, within the history.\<close>

lemma folds_from_starts:
  assumes "folds_from H cfg line holdout index start = Some (Inr fs)"
  shows "i < length fs \<Longrightarrow> fold_at H cfg line (index + i) (start + int i * wf_step cfg) = Inr (fs ! i)
    \<and> fold_ends cfg (start + int i * wf_step cfg) \<le> holdout"
  using assms
proof (induction i arbitrary: index start fs)
  case 0
  then show ?case
    by (subst (asm) (1) folds_from.simps)
      (auto split: if_splits sum.splits simp: bind_eq_Some_conv)
next
  case (Suc i)
  from Suc.prems(2) obtain f r where f: "fold_at H cfg line index start = Inr f" "\<not> holdout < fold_ends cfg start"
    and r: "folds_from H cfg line holdout (Suc index) (start + wf_step cfg) = Some r" "ebind r (\<lambda>fs. Inr (f # fs)) = Inr fs"
    using Suc.prems(1)
    by (subst (asm) (1) folds_from.simps) (auto split: if_splits sum.splits simp: bind_eq_Some_conv)
  then obtain gs where gs: "r = Inr gs" "fs = f # gs" by auto
  have "i < length gs" using Suc.prems(1) gs(2) by simp
  from Suc.IH [OF this, of "Suc index" "start + wf_step cfg"] r(1) gs show ?case by (simp add: algebra_simps)
qed

text \<open>C0: building the plan of a valid configuration ends, whatever the dataset.\<close>

theorem walk_forward_returns:
  assumes "wf_config_post_init c = Inr cfg"
  shows "\<exists>r. build_walk_forward_plan H fl ds cfg = Some r"
proof -
  note valid = wf_config_valid [OF assms]
  have "\<exists>r. folds_from H cfg line holdout index start = Some r" for line holdout index start
  proof (induction "nat (holdout - start)" arbitrary: index start rule: less_induct)
    case less
    show ?case
    proof (cases "holdout < fold_ends cfg start")
      case True
      then show ?thesis by (subst folds_from.simps) simp
    next
      case False
      then have "nat (holdout - (start + wf_step cfg)) < nat (holdout - start)" using valid by (simp add: fold_ends_def)
      from less [OF this, of "Suc index"] show ?thesis
        by (subst folds_from.simps) (auto split: sum.splits)
    qed
  qed
  then show ?thesis by (auto simp: build_walk_forward_plan_def split: sum.splits prod.splits) (metis bind.bind_lunit)
qed

lemma plan_parts:
  assumes "build_walk_forward_plan H fl ds cfg = Some (Inr p)"
  obtains start holdout stop line u where "timeline_ok ds line"
    and "folds_from H cfg line holdout 0 start = Some (Inr (pl_folds p))"
    and "cut_timeline cfg line (''final_train'', ''final_validation'', ''final_holdout'') (holdout - wf_validation cfg - wf_train cfg)
      (holdout - wf_validation cfg) holdout stop = Inr u"
    and "pl_final_train p = cu_train u" "pl_final_validation p = cu_validation u" "pl_final_holdout p = cu_test u"
    and "3 \<le> length (pl_folds p)"
proof -
  from assms obtain start holdout stop line r where w: "plan_window cfg ds = Inr (start, holdout, stop, line)"
    and r: "folds_from H cfg line holdout 0 start = Some r"
      "ebind r (final_plan H fl cfg (ds_dataset_sha256 ds) line start holdout stop) = Inr p"
    by (auto simp: build_walk_forward_plan_def bind_eq_Some_conv split: sum.splits prod.splits)
  have line: "timeline_ok ds line" using w by (auto simp: plan_window_def Let_def intro: build_market_timeline_ok)
  from r(2) obtain fs where fs: "r = Inr fs" "final_plan H fl cfg (ds_dataset_sha256 ds) line start holdout stop fs = Inr p" by auto
  then have folds: "pl_folds p = fs" "3 \<le> length fs" by (auto simp: final_plan_def Let_def)
  from fs(2) obtain u where u: "cut_timeline cfg line (''final_train'', ''final_validation'', ''final_holdout'')
      (holdout - wf_validation cfg - wf_train cfg) (holdout - wf_validation cfg) holdout stop = Inr u"
    "pl_final_train p = cu_train u" "pl_final_validation p = cu_validation u" "pl_final_holdout p = cu_test u"
    by (auto simp: final_plan_def Let_def)
  show ?thesis by (rule that [OF line _ u]) (use r(1) fs(1) folds in simp_all)
qed

text \<open>C0: a plan leaks nothing: in every fold each training market has ended before any validation market
  starts and each of those before any test market; the test markets of a fold have ended before
  those of any later fold and before the final holdout start; and the final training, validation
  and holdout markets follow each other the same way.
\<close>

theorem walk_forward_no_leakage:
  assumes "wf_config_post_init c = Inr cfg" and "build_walk_forward_plan H fl ds cfg = Some (Inr p)"
  shows "(\<forall>f \<in> set (pl_folds p). before ds (fp_ids (fo_train f)) (fp_ids (fo_validation f))
        \<and> before ds (fp_ids (fo_validation f)) (fp_ids (fo_test f)) \<and> before ds (fp_ids (fo_test f)) (fp_ids (pl_final_holdout p)))
    \<and> sorted_wrt (\<lambda>f g. before ds (fp_ids (fo_test f)) (fp_ids (fo_test g))) (pl_folds p)
    \<and> before ds (fp_ids (pl_final_train p)) (fp_ids (pl_final_validation p))
    \<and> before ds (fp_ids (pl_final_validation p)) (fp_ids (pl_final_holdout p))"
proof -
  note valid = wf_config_valid [OF assms(1)]
  obtain start holdout stop line u where line: "timeline_ok ds line"
    and folds: "folds_from H cfg line holdout 0 start = Some (Inr (pl_folds p))"
    and u: "cut_timeline cfg line (''final_train'', ''final_validation'', ''final_holdout'') (holdout - wf_validation cfg - wf_train cfg)
      (holdout - wf_validation cfg) holdout stop = Inr u"
    and final: "pl_final_train p = cu_train u" "pl_final_validation p = cu_validation u" "pl_final_holdout p = cu_test u"
    by (rule plan_parts [OF assms(2)])
  let ?at = "\<lambda>i. start + int i * wf_step cfg"
  have nth: "\<exists>w. cut_timeline cfg line (''train'', ''validation'', ''test'') (?at i) (?at i + wf_train cfg)
        (?at i + wf_train cfg + wf_validation cfg) (fold_ends cfg (?at i)) = Inr w \<and> fold_ends cfg (?at i) \<le> holdout
      \<and> fo_train (pl_folds p ! i) = cu_train w \<and> fo_validation (pl_folds p ! i) = cu_validation w \<and> fo_test (pl_folds p ! i) = cu_test w"
    if "i < length (pl_folds p)" for i
    using folds_from_starts [OF folds that] by (auto elim!: fold_at_cut)
  have each: "before ds (fp_ids (fo_train f)) (fp_ids (fo_validation f)) \<and> before ds (fp_ids (fo_validation f)) (fp_ids (fo_test f))
      \<and> before ds (fp_ids (fo_test f)) (fp_ids (pl_final_holdout p))" if f: "f \<in> set (pl_folds p)" for f
  proof -
    from f obtain i where i: "i < length (pl_folds p)" "f = pl_folds p ! i" by (auto simp: in_set_conv_nth)
    from nth [OF i(1)] obtain w where w: "cut_timeline cfg line (''train'', ''validation'', ''test'') (?at i) (?at i + wf_train cfg)
        (?at i + wf_train cfg + wf_validation cfg) (fold_ends cfg (?at i)) = Inr w" "fold_ends cfg (?at i) \<le> holdout"
      and f: "fo_train f = cu_train w" "fo_validation f = cu_validation w" "fo_test f = cu_test w" by (auto simp: i(2))
    show ?thesis using cut_before [OF line w(1)] windows_before [OF line w(2) cut_within(3) [OF w(1)] cut_within(3) [OF u]]
      by (simp add: f final)
  qed
  have "sorted_wrt (\<lambda>f g. before ds (fp_ids (fo_test f)) (fp_ids (fo_test g))) (pl_folds p)"
  proof (unfold sorted_wrt_iff_nth_less, intro allI impI)
    fix i j assume ij: "i < j" "j < length (pl_folds p)"
    then have i: "i < length (pl_folds p)" by simp
    from nth [OF i] obtain v where v: "cut_timeline cfg line (''train'', ''validation'', ''test'') (?at i) (?at i + wf_train cfg)
        (?at i + wf_train cfg + wf_validation cfg) (fold_ends cfg (?at i)) = Inr v" "fo_test (pl_folds p ! i) = cu_test v" by auto
    from nth [OF ij(2)] obtain w where w: "cut_timeline cfg line (''train'', ''validation'', ''test'') (?at j) (?at j + wf_train cfg)
        (?at j + wf_train cfg + wf_validation cfg) (fold_ends cfg (?at j)) = Inr w" "fo_test (pl_folds p ! j) = cu_test w" by auto
    have "(int i + 1) * wf_step cfg \<le> int j * wf_step cfg" by (rule mult_right_mono) (use ij valid in auto)
    then have "fold_ends cfg (?at i) \<le> ?at j + wf_train cfg + wf_validation cfg"
      using valid by (simp add: fold_ends_def algebra_simps)
    from windows_before [OF line this cut_within(3) [OF v(1)] cut_within(3) [OF w(1)]]
    show "before ds (fp_ids (fo_test (pl_folds p ! i))) (fp_ids (fo_test (pl_folds p ! j)))" by (simp add: v w)
  qed
  then show ?thesis using each cut_before [OF line u] by (simp add: final)
qed

section \<open>Accounting\<close>

definition fold_lists :: "fold \<Rightarrow> string list list" where
  "fold_lists f = [fp_ids (fo_train f), fp_ids (fo_validation f), fp_ids (fo_test f), fo_embargo f, fo_purged f]"

text \<open>C0: every market that lies in the window of a fold is in exactly one place: its training, validation or
  test partition, embargoed, or purged because it runs across a boundary.
\<close>

theorem fold_accounts_once:
  assumes "wf_config_post_init c = Inr cfg" and "build_market_timeline ds = Inr line" and "fold_at H cfg line index start = Inr f"
    and "m \<in> set line" and "start \<le> mr_start m" and "mr_end m \<le> fold_ends cfg start"
  shows "length (filter (\<lambda>ids. mr_condition_id m \<in> set ids) (fold_lists f)) = 1"
proof -
  note valid = wf_config_valid [OF assms(1)] and line = build_market_timeline_ok [OF assms(2)]
  let ?b = "start + wf_train cfg" and ?c = "start + wf_train cfg + wf_validation cfg" and ?id = "mr_condition_id m"
  obtain u where u: "cut_timeline cfg line (''train'', ''validation'', ''test'') start ?b ?c (fold_ends cfg start) = Inr u"
    and f: "fo_train f = cu_train u" "fo_validation f = cu_validation u" "fo_test f = cu_test u" "fo_purged f = cu_purged u"
      "fo_embargo f = cu_embargo u" by (rule fold_at_cut [OF assms(3)])
  from cut_timeline_Inr(3) [OF u] obtain es fs where e: "fo_embargo f = es @ fs"
    "map mr_condition_id (contained line start ?b) = fp_ids (fo_train f) @ es"
    "map mr_condition_id (contained line ?b ?c) = fp_ids (fo_validation f) @ fs" by (auto simp: f)
  have dist: "distinct (map mr_condition_id (contained line x y))" for x y
    using line by (simp add: timeline_ok_def contained_def distinct_map inj_on_def)
  have inj: "inj_on mr_condition_id (set line)" using line by (simp add: timeline_ok_def distinct_map)
  have mem: "?id \<in> set (map mr_condition_id (contained line x y)) \<longleftrightarrow> x \<le> mr_start m \<and> mr_end m \<le> y" for x y
    using inj assms(4) by (auto simp: contained_def dest: inj_onD)
  have lasts: "mr_start m < mr_end m" using line assms(4) by (simp add: timeline_ok_def)
  have one: "((?id \<in> set (fp_ids (fo_train f))) \<noteq> (?id \<in> set es)) \<longleftrightarrow> mr_end m \<le> ?b" "?id \<in> set (fp_ids (fo_train f)) \<or> ?id \<in> set es \<longleftrightarrow> mr_end m \<le> ?b"
    using mem [of start ?b] dist [of start ?b] assms(5) unfolding e by auto
  have two: "((?id \<in> set (fp_ids (fo_validation f))) \<noteq> (?id \<in> set fs)) \<longleftrightarrow> ?b \<le> mr_start m \<and> mr_end m \<le> ?c" "?id \<in> set (fp_ids (fo_validation f)) \<or> ?id \<in> set fs \<longleftrightarrow> ?b \<le> mr_start m \<and> mr_end m \<le> ?c"
    using mem [of ?b ?c] dist [of ?b ?c] unfolding e by auto
  have three: "?id \<in> set (fp_ids (fo_test f)) \<longleftrightarrow> ?c \<le> mr_start m"
    using mem [of ?c "fold_ends cfg start"] assms(6) by (simp add: f cut_timeline_Inr(1) [OF u])
  have four: "?id \<in> set (fo_purged f) \<longleftrightarrow> (mr_start m < ?b \<and> ?b < mr_end m) \<or> (mr_start m < ?c \<and> ?c < mr_end m)"
  proof -
    have pick: "?id \<in> mr_condition_id ` {n \<in> set line. P n} \<longleftrightarrow> P m" for P
      using inj assms(4) by (auto dest: inj_onD)
    have "?id \<in> set (fo_purged f) \<longleftrightarrow> list_ex (crosses_boundary m) [start, ?b, ?c, fold_ends cfg start]"
      unfolding f cut_timeline_Inr(2) [OF u] purged_at_boundaries_def set_map set_filter by (rule pick)
    then show ?thesis using assms(5,6) by (simp add: crosses_boundary_def not_less)
  qed
  have bc: "?b < ?c" using valid by simp
  let ?in = "\<lambda>ids. ?id \<in> set ids"
  consider "mr_end m \<le> ?b" | "mr_start m < ?b" "?b < mr_end m" | "?b \<le> mr_start m" "mr_end m \<le> ?c"
    | "?b \<le> mr_start m" "mr_start m < ?c" "?c < mr_end m" | "?c \<le> mr_start m" by linarith
  then have "(?in (fp_ids (fo_train f)) \<noteq> ?in es) \<and> \<not> ?in (fp_ids (fo_validation f)) \<and> \<not> ?in fs \<and> \<not> ?in (fp_ids (fo_test f)) \<and> \<not> ?in (fo_purged f)
    \<or> \<not> ?in (fp_ids (fo_train f)) \<and> \<not> ?in es \<and> (?in (fp_ids (fo_validation f)) \<noteq> ?in fs) \<and> \<not> ?in (fp_ids (fo_test f)) \<and> \<not> ?in (fo_purged f)
    \<or> \<not> ?in (fp_ids (fo_train f)) \<and> \<not> ?in es \<and> \<not> ?in (fp_ids (fo_validation f)) \<and> \<not> ?in fs \<and> (?in (fp_ids (fo_test f)) \<noteq> ?in (fo_purged f))"
  proof cases
    case 1
    then have "\<not> ?b \<le> mr_start m" "\<not> ?c \<le> mr_start m" "\<not> ?b < mr_end m" "\<not> ?c < mr_end m" using lasts bc by linarith+
    with 1 one two three four show ?thesis by simp
  next
    case 2
    then have "\<not> mr_end m \<le> ?b" "\<not> ?b \<le> mr_start m" "\<not> ?c \<le> mr_start m" using bc by linarith+
    with 2 one two three four show ?thesis by simp
  next
    case 3
    then have "\<not> mr_end m \<le> ?b" "\<not> mr_start m < ?b" "\<not> ?c \<le> mr_start m" "\<not> ?c < mr_end m" using lasts by linarith+
    with 3 one two three four show ?thesis by simp
  next
    case 4
    then have "\<not> mr_end m \<le> ?b" "\<not> mr_start m < ?b" "\<not> ?c \<le> mr_start m" "\<not> mr_end m \<le> ?c" using lasts by linarith+
    with 4 one two three four show ?thesis by simp
  next
    case 5
    then have "\<not> mr_end m \<le> ?b" "\<not> mr_end m \<le> ?c" "\<not> mr_start m < ?b" "\<not> mr_start m < ?c" using lasts bc by linarith+
    with 5 one two three four show ?thesis by simp
  qed
  then show ?thesis by (elim disjE conjE) (auto simp: fold_lists_def e(1))
qed

end
