(* ===== verification/WalkForwardRun.thy ===== *)
theory WalkForwardRun
  imports BookReplay WalkForwardSafety
begin

text \<open>
  A walk-forward plan over fourteen markets that follow each other and one that runs across a
  boundary.
\<close>

definition ex_wf_row :: "string \<times> int \<times> int \<times> int \<Rightarrow> supervised_row" where
  "ex_wf_row = (\<lambda>(cid, start, stop, target). \<lparr>sr_condition_id = cid, sr_slug = cid, sr_horizon_seconds = 900,
     sr_market_start_at = Aware start 0, sr_market_end_at = Aware stop 0, sr_feature_at = Aware start 0,
     sr_feature_offset_seconds = 0, sr_predictors = [], sr_target = target, sr_feature_hash = [], sr_input_fingerprint = []\<rparr>)"

definition ex_wf_dataset :: dataset where
  "ex_wf_dataset = \<lparr>ds_dataset_version = ''supervised-core-v1'', ds_feature_version = ''f'', ds_label_version = ''l'',
     ds_horizon_seconds = 900, ds_start = Aware 0 0, ds_end = Aware 14 0,
     ds_rows = map ex_wf_row [(''x'', 2, 4, 0), (''a'', 0, 1, 0), (''b'', 1, 2, 1), (''c'', 2, 3, 0), (''d'', 3, 4, 1),
       (''e'', 4, 5, 0), (''f'', 5, 6, 1), (''g'', 6, 7, 0), (''h'', 7, 8, 1), (''i'', 8, 9, 0), (''j'', 9, 10, 1),
       (''k'', 10, 11, 0), (''l'', 11, 12, 1), (''m'', 12, 13, 0), (''n'', 13, 14, 1)],
     ds_predictor_names = [], ds_dataset_sha256 = replicate 64 CHR ''a''\<rparr>"

definition ex_wf_config :: wf_config where
  "ex_wf_config = \<lparr>wf_train = 3, wf_validation = 3, wf_test = 2, wf_step = 2, wf_holdout = 2, wf_embargo = 1,
     wf_min_train = 2, wf_min_validation = 2, wf_min_test = 2, wf_min_price_coverage = ''0.8'', wf_min_prediction_coverage = ''0.9''\<rparr>"

definition ex_wf_hash :: "string \<Rightarrow> string" where
  "ex_wf_hash = (\<lambda>_. replicate 64 CHR ''b'')"

definition ex_wf_float :: "int \<Rightarrow> string" where
  "ex_wf_float = (\<lambda>_. ''1.0'')"

text \<open>The digest is constant: evaluation leaves the JSON text it would hash alone.\<close>

declare json_dumps.simps [code del]

lemma ex_wf_valid: "wf_config_post_init ex_wf_config = Inr ex_wf_config"
  by code_simp

theorem walk_forward_returns_witness: "\<exists>r. build_walk_forward_plan ex_wf_hash ex_wf_float ex_wf_dataset ex_wf_config = Some r"
  by (rule walk_forward_returns [OF ex_wf_valid])

definition ex_wf_timeline :: "market_record list" where
  "ex_wf_timeline = projr (build_market_timeline ex_wf_dataset)"

lemma ex_wf_timeline_run: "build_market_timeline ex_wf_dataset = Inr ex_wf_timeline"
  unfolding ex_wf_timeline_def by (rule not_isl_projr) code_simp

declare folds_from.simps [code]

lemma ex_wf_plan_folds: "map_option (map_sum id (\<lambda>p. map (fp_ids \<circ> fo_train) (pl_folds p)))
    (build_walk_forward_plan ex_wf_hash ex_wf_float ex_wf_dataset ex_wf_config)
  = Some (Inr [[''a'', ''b''], [''c'', ''x'', ''d''], [''e'', ''f'']])"
  by code_simp

lemma map_sum_Inr_iff: "map_sum f g x = Inr y \<longleftrightarrow> (\<exists>z. x = Inr z \<and> y = g z)"
  by (cases x) auto

lemma ex_wf_plan_run:
  obtains p where "build_walk_forward_plan ex_wf_hash ex_wf_float ex_wf_dataset ex_wf_config = Some (Inr p)"
    and "map (fp_ids \<circ> fo_train) (pl_folds p) = [[''a'', ''b''], [''c'', ''x'', ''d''], [''e'', ''f'']]"
  using ex_wf_plan_folds that by (auto simp: map_sum_Inr_iff)

theorem walk_forward_no_leakage_witness:
  "\<exists>p. build_walk_forward_plan ex_wf_hash ex_wf_float ex_wf_dataset ex_wf_config = Some (Inr p) \<and> length (pl_folds p) = 3
    \<and> before ex_wf_dataset (fp_ids (fo_train (pl_folds p ! 1))) (fp_ids (fo_validation (pl_folds p ! 1)))
    \<and> before ex_wf_dataset (fp_ids (fo_test (pl_folds p ! 0))) (fp_ids (fo_test (pl_folds p ! 2)))
    \<and> before ex_wf_dataset (fp_ids (pl_final_validation p)) (fp_ids (pl_final_holdout p))"
proof -
  obtain p where p: "build_walk_forward_plan ex_wf_hash ex_wf_float ex_wf_dataset ex_wf_config = Some (Inr p)"
    and trains: "map (fp_ids \<circ> fo_train) (pl_folds p) = [[''a'', ''b''], [''c'', ''x'', ''d''], [''e'', ''f'']]"
    by (rule ex_wf_plan_run)
  from arg_cong [OF trains, of length] have three: "length (pl_folds p) = 3" by simp
  from walk_forward_no_leakage [OF ex_wf_valid p] three p show ?thesis
    by (auto simp: sorted_wrt_iff_nth_less)
qed

definition ex_wf_crossing :: market_record where
  "ex_wf_crossing = \<lparr>mr_condition_id = ''x'', mr_slug = ''x'', mr_horizon_seconds = 900, mr_start = 2, mr_end = 4, mr_target = 0\<rparr>"

lemma ex_wf_crossing_listed: "ex_wf_crossing \<in> set ex_wf_timeline"
  by code_simp

lemma ex_wf_fold_run: "map_sum id fo_purged (fold_at ex_wf_hash ex_wf_config ex_wf_timeline 0 0) = Inr [''x'']"
  by code_simp

text \<open>The crossing market is purged from the first fold and in none of its other lists.\<close>

theorem fold_accounts_once_witness:
  "\<exists>f. fold_at ex_wf_hash ex_wf_config ex_wf_timeline 0 0 = Inr f \<and> fo_purged f = [''x'']
    \<and> length (filter (\<lambda>ids. ''x'' \<in> set ids) (fold_lists f)) = 1"
proof -
  obtain f where f: "fold_at ex_wf_hash ex_wf_config ex_wf_timeline 0 0 = Inr f" "fo_purged f = [''x'']"
    using ex_wf_fold_run by (auto simp: map_sum_Inr_iff)
  from fold_accounts_once [OF ex_wf_valid ex_wf_timeline_run f(1) ex_wf_crossing_listed] f show ?thesis
    by (simp add: ex_wf_crossing_def fold_ends_def ex_wf_config_def)
qed

end
